(* ===== verification/Prelude.thy ===== *)
theory Prelude
  imports Complex_Main "HOL-Library.Multiset"
begin

text \<open>
  Shared vocabulary of the development: results that may be a thrown JavaScript error,
  insertion-ordered association lists (the representation of objects, of headers and of
  query strings), a stable comparator sort (the contract of \<^verbatim>\<open>Array.prototype.sort\<close>),
  and the lemma collections the component theories extend.
\<close>

named_theorems js_eval \<open>equations that evaluate the JavaScript primitives\<close>
named_theorems js_cases \<open>case rules and splits for the JavaScript value types\<close>
named_theorems route_defs \<open>definitions unfolded when a request handler is executed\<close>
named_theorems view_defs \<open>definitions unfolded when a result view is built\<close>

section \<open>Results: a value, or the error that was thrown\<close>

text \<open>
  \<open>ToPrimitiveError\<close> is the TypeError of converting an object without a callable
  \<^verbatim>\<open>toString\<close>; \<open>NotAFunction\<close> the TypeError of calling a missing method;
  \<open>NullMember\<close> the TypeError of reading a property of \<^verbatim>\<open>null\<close> or
  \<^verbatim>\<open>undefined\<close>; \<open>FetchRejected\<close> the rejection of \<^verbatim>\<open>fetch\<close> when the
  upstream cannot be reached; \<open>UrlError\<close> the TypeError of an invalid URL; \<open>Thrown\<close> an error
  the program throws with a message of its own.
\<close>

datatype js_error =
    ToPrimitiveError
  | NotAFunction string
  | NullMember string
  | FetchRejected
  | UrlError string
  | ResponseInitError nat
  | Thrown string

type_synonym 'a res = "js_error + 'a"

definition res_bind :: "'a res \<Rightarrow> ('a \<Rightarrow> 'b res) \<Rightarrow> 'b res" where
  "res_bind r f = (case r of Inl e \<Rightarrow> Inl e | Inr x \<Rightarrow> f x)"

lemma res_bind_simps [simp, code]:
  "res_bind (Inl e) f = Inl e"
  "res_bind (Inr x) f = f x"
  by (simp_all add: res_bind_def)

lemma res_bind_Inr_iff: "res_bind r f = Inr y \<longleftrightarrow> (\<exists>x. r = Inr x \<and> f x = Inr y)"
  by (cases r) auto

lemma res_bind_Inl_iff:
  "res_bind r f = Inl e \<longleftrightarrow> r = Inl e \<or> (\<exists>x. r = Inr x \<and> f x = Inl e)"
  by (cases r) auto

lemma res_bind_assoc: "res_bind (res_bind r f) g = res_bind r (\<lambda>x. res_bind (f x) g)"
  by (cases r) simp_all

text \<open>A \<^verbatim>\<open>map\<close> whose callback may throw: the first error wins.\<close>

fun res_map :: "('a \<Rightarrow> 'b res) \<Rightarrow> 'a list \<Rightarrow> 'b list res" where
  "res_map f [] = Inr []"
| "res_map f (x # xs) = res_bind (f x) (\<lambda>y. res_bind (res_map f xs) (\<lambda>ys. Inr (y # ys)))"

lemma res_map_cong [fundef_cong]:
  "xs = ys \<Longrightarrow> (\<And>x. x \<in> set ys \<Longrightarrow> f x = g x) \<Longrightarrow> res_map f xs = res_map g ys"
  by (induction xs arbitrary: ys) auto

lemma res_map_Inr_iff:
  "res_map f xs = Inr ys \<longleftrightarrow> list_all2 (\<lambda>x y. f x = Inr y) xs ys"
proof (induction xs arbitrary: ys)
  case Nil
  show ?case by (cases ys) auto
next
  case (Cons x xs)
  show ?case
    by (cases ys) (auto simp: res_bind_Inr_iff Cons.IH)
qed

lemma res_map_length: "res_map f xs = Inr ys \<Longrightarrow> length ys = length xs"
  by (auto simp: res_map_Inr_iff dest: list_all2_lengthD)

lemma res_map_total: "(\<And>x. x \<in> set xs \<Longrightarrow> f x = Inr (g x)) \<Longrightarrow> res_map f xs = Inr (map g xs)"
  by (induction xs) simp_all

lemma res_map_defined: "(\<And>x. x \<in> set xs \<Longrightarrow> \<exists>y. f x = Inr y) \<Longrightarrow> \<exists>ys. res_map f xs = Inr ys"
proof (induction xs)
  case (Cons x xs)
  then obtain y ys where "f x = Inr y" "res_map f xs = Inr ys" by fastforce
  then show ?case by simp
qed simp

lemma res_bind_defined: "\<exists>x. r = Inr x \<Longrightarrow> (\<And>x. r = Inr x \<Longrightarrow> \<exists>y. f x = Inr y) \<Longrightarrow> \<exists>y. res_bind r f = Inr y"
  by auto

section \<open>Association lists in insertion order\<close>

fun al_get :: "('k \<times> 'v) list \<Rightarrow> 'k \<Rightarrow> 'v option" where
  "al_get [] k = None"
| "al_get ((a, v) # r) k = (if a = k then Some v else al_get r k)"

fun al_set :: "'k \<Rightarrow> 'v \<Rightarrow> ('k \<times> 'v) list \<Rightarrow> ('k \<times> 'v) list" where
  "al_set k v [] = [(k, v)]"
| "al_set k v ((a, w) # r) = (if a = k then (k, v) # r else (a, w) # al_set k v r)"

fun al_del :: "'k \<Rightarrow> ('k \<times> 'v) list \<Rightarrow> ('k \<times> 'v) list" where
  "al_del k [] = []"
| "al_del k ((a, w) # r) = (if a = k then al_del k r else (a, w) # al_del k r)"

abbreviation al_keys :: "('k \<times> 'v) list \<Rightarrow> 'k list" where
  "al_keys m \<equiv> map fst m"

lemma al_get_map_of: "al_get m = map_of m"
proof
  show "al_get m k = map_of m k" for k by (induction m) auto
qed

lemma al_get_set [simp]: "al_get (al_set k v m) j = (if j = k then Some v else al_get m j)"
  by (induction m) auto

lemma al_get_del [simp]: "al_get (al_del k m) j = (if j = k then None else al_get m j)"
  by (induction m) auto

lemma al_keys_set: "set (al_keys (al_set k v m)) = insert k (set (al_keys m))"
proof (induction m)
  case (Cons p m)
  then show ?case by (cases p) (simp del: set_map add: insert_commute)
qed simp

lemma al_get_None_iff: "al_get m k = None \<longleftrightarrow> k \<notin> set (al_keys m)"
  by (simp add: al_get_map_of map_of_eq_None_iff)

lemma al_get_Some_in: "al_get m k = Some v \<Longrightarrow> (k, v) \<in> set m"
  by (induction m) (auto split: if_splits)

lemma distinct_al_set: "distinct (al_keys m) \<Longrightarrow> distinct (al_keys (al_set k v m))"
proof (induction m)
  case (Cons p m)
  then show ?case
    by (cases p) (auto simp: al_keys_set simp del: set_map)
qed simp

lemma al_get_append: "al_get (m @ n) k = (case al_get m k of None \<Rightarrow> al_get n k | Some v \<Rightarrow> Some v)"
  by (induction m) auto

text \<open>
  The interface the components rely on when they use an association list as a
  dictionary: headers, query strings, cookie jars.
\<close>

locale dictionary =
  fixes lookup :: "'m \<Rightarrow> 'k \<Rightarrow> 'v option"
    and update :: "'k \<Rightarrow> 'v \<Rightarrow> 'm \<Rightarrow> 'm"
    and delete :: "'k \<Rightarrow> 'm \<Rightarrow> 'm"
  assumes lookup_update: "lookup (update k v m) = (lookup m)(k \<mapsto> v)"
    and lookup_delete: "lookup (delete k m) = (lookup m)(k := None)"
begin

lemma lookup_updates:
  "lookup (fold (\<lambda>(k, v). update k v) kvs m) = (lookup m)(map fst kvs [\<mapsto>] map snd kvs)"
  by (induction kvs arbitrary: m) (auto simp: lookup_update)

lemma lookup_deletes:
  "lookup (fold delete ks m) k = (if k \<in> set ks then None else lookup m k)"
  by (induction ks arbitrary: m) (auto simp: lookup_delete)

end

interpretation al: dictionary al_get al_set al_del
  by unfold_locales auto

section \<open>Stable sorting by a comparator\<close>

text \<open>
  \<^verbatim>\<open>Array.prototype.sort(cmp)\<close> is stable and returns a permutation ordered by the
  comparator. A comparator is read through the sign of its result, so the model's
  comparators return \<open>int\<close>.
\<close>

fun insort_cmp :: "('a \<Rightarrow> 'a \<Rightarrow> int) \<Rightarrow> 'a \<Rightarrow> 'a list \<Rightarrow> 'a list" where
  "insort_cmp cmp x [] = [x]"
| "insort_cmp cmp x (y # ys) = (if cmp x y \<le> 0 then x # y # ys else y # insort_cmp cmp x ys)"

definition js_sort :: "('a \<Rightarrow> 'a \<Rightarrow> int) \<Rightarrow> 'a list \<Rightarrow> 'a list" where
  "js_sort cmp xs = foldr (insort_cmp cmp) xs []"

lemma js_sort_simps [simp, code]:
  "js_sort cmp [] = []"
  "js_sort cmp (x # xs) = insort_cmp cmp x (js_sort cmp xs)"
  by (simp_all add: js_sort_def)

lemma mset_insort_cmp [simp]: "mset (insort_cmp cmp x xs) = add_mset x (mset xs)"
  by (induction xs) auto

lemma mset_js_sort [simp]: "mset (js_sort cmp xs) = mset xs"
  by (induction xs) auto

lemma set_js_sort [simp]: "set (js_sort cmp xs) = set xs"
  by (metis mset_js_sort set_mset_mset)

lemma length_js_sort [simp]: "length (js_sort cmp xs) = length xs"
  by (metis mset_js_sort size_mset)

locale comparator =
  fixes cmp :: "'a \<Rightarrow> 'a \<Rightarrow> int"
  assumes cmp_flip: "cmp x y < 0 \<longleftrightarrow> 0 < cmp y x"
    and cmp_trans: "cmp x y \<le> 0 \<Longrightarrow> cmp y z \<le> 0 \<Longrightarrow> cmp x z \<le> 0"
begin

lemma cmp_total: "cmp x y \<le> 0 \<or> cmp y x \<le> 0"
  using cmp_flip [of x y] by linarith

lemma cmp_refl: "cmp x x = 0"
  using cmp_flip [of x x] by linarith

lemma cmp_eq_sym: "cmp x y = 0 \<longleftrightarrow> cmp y x = 0"
  using cmp_flip [of x y] cmp_flip [of y x] by linarith

lemma sorted_insort_cmp:
  "sorted_wrt (\<lambda>x y. cmp x y \<le> 0) xs \<Longrightarrow> sorted_wrt (\<lambda>x y. cmp x y \<le> 0) (insort_cmp cmp x xs)"
proof (induction xs)
  case Nil
  show ?case by simp
next
  case (Cons y ys)
  have "set (insort_cmp cmp x ys) = insert x (set ys)"
    by (metis mset_insort_cmp set_mset_add_mset_insert set_mset_mset)
  moreover have "cmp x y \<le> 0 \<or> cmp y x \<le> 0" by (rule cmp_total)
  ultimately show ?case using Cons by (auto intro: cmp_trans)
qed

lemma sorted_js_sort: "sorted_wrt (\<lambda>x y. cmp x y \<le> 0) (js_sort cmp xs)"
  by (induction xs) (auto intro: sorted_insort_cmp)

lemma insort_cmp_stable:
  "cmp c x = 0 \<Longrightarrow> filter (\<lambda>y. cmp c y = 0) (insort_cmp cmp x xs) = x # filter (\<lambda>y. cmp c y = 0) xs"
proof (induction xs)
  case Nil
  then show ?case by simp
next
  case (Cons y ys)
  have "cmp x y \<le> 0" if "cmp c y = 0"
    using that Cons.prems cmp_eq_sym [of c x] cmp_trans [of x c y] by simp
  with Cons show ?case by auto
qed

lemma insort_cmp_other:
  "cmp c x \<noteq> 0 \<Longrightarrow> filter (\<lambda>y. cmp c y = 0) (insort_cmp cmp x xs) = filter (\<lambda>y. cmp c y = 0) xs"
  by (induction xs) auto

lemma js_sort_stable: "filter (\<lambda>y. cmp c y = 0) (js_sort cmp xs) = filter (\<lambda>y. cmp c y = 0) xs"
  by (induction xs) (auto simp: insort_cmp_stable insort_cmp_other)

end

section \<open>List facts shared by the components\<close>

lemma distinct_append_filter_notin:
  "distinct xs \<Longrightarrow> distinct ys \<Longrightarrow> distinct (xs @ filter (\<lambda>y. y \<notin> set xs) ys)"
  by auto

end
