(* ===== verification/JsString.thy ===== *)
theory JsString
  imports Prelude
begin

text \<open>
  The string operations the TypeScript sources use. A JavaScript string is modelled as a
  \<open>string\<close> whose characters are the code units below 256 (Latin-1): white space and case
  mapping are those of that range. The two letters whose upper case lies outside it
  (code units 181 and 255) are left unchanged by \<open>to_upper\<close>.
\<close>

section \<open>White space, case\<close>

definition is_ws :: "char \<Rightarrow> bool" where
  "is_ws c \<longleftrightarrow> c \<in> {CHR 0x09, CHR 0x0A, CHR 0x0B, CHR 0x0C, CHR 0x0D, CHR '' '', CHR 0xA0}"

definition trim :: "string \<Rightarrow> string" where
  "trim s = rev (dropWhile is_ws (rev (dropWhile is_ws s)))"

definition lower_char :: "char \<Rightarrow> char" where
  "lower_char c = (let n = (of_char c :: nat) in
     if (65 \<le> n \<and> n \<le> 90) \<or> (192 \<le> n \<and> n \<le> 222 \<and> n \<noteq> 215) then char_of (n + 32) else c)"

definition to_lower :: "string \<Rightarrow> string" where
  "to_lower s = map lower_char s"

definition upper_char :: "char \<Rightarrow> string" where
  "upper_char c = (let n = (of_char c :: nat) in
     if (97 \<le> n \<and> n \<le> 122) \<or> (224 \<le> n \<and> n \<le> 254 \<and> n \<noteq> 247) then [char_of (n - 32)]
     else if n = 223 then ''SS'' else [c])"

definition to_upper :: "string \<Rightarrow> string" where
  "to_upper s = concat (map upper_char s)"

section \<open>Searching, splitting, replacing\<close>

definition starts_with :: "string \<Rightarrow> string \<Rightarrow> bool" where
  "starts_with s p \<longleftrightarrow> take (length p) s = p"

fun str_includes :: "string \<Rightarrow> string \<Rightarrow> bool" where
  "str_includes [] p = (p = [])"
| "str_includes (c # s) p = (starts_with (c # s) p \<or> str_includes s p)"

text \<open>\<^verbatim>\<open>s.split(c)\<close> for a separator of one code unit.\<close>

fun split_on :: "char \<Rightarrow> string \<Rightarrow> string list" where
  "split_on c [] = [[]]"
| "split_on c (x # s) =
     (if x = c then [] # split_on c s
      else case split_on c s of [] \<Rightarrow> [[x]] | w # ws \<Rightarrow> (x # w) # ws)"

fun join :: "string \<Rightarrow> string list \<Rightarrow> string" where
  "join sep [] = []"
| "join sep [w] = w"
| "join sep (w # v # ws) = w @ sep @ join sep (v # ws)"

text \<open>\<^verbatim>\<open>s.replace(c, t)\<close> with a string pattern of one code unit: the first occurrence only.\<close>

fun replace_first :: "char \<Rightarrow> string \<Rightarrow> string \<Rightarrow> string" where
  "replace_first c t [] = []"
| "replace_first c t (x # s) = (if x = c then t @ s else x # replace_first c t s)"

text \<open>\<^verbatim>\<open>s.replace(/[..]+/g, d)\<close>: every maximal run of characters of a class becomes one \<open>d\<close>.\<close>

fun collapse :: "(char \<Rightarrow> bool) \<Rightarrow> char \<Rightarrow> string \<Rightarrow> string" where
  "collapse P d [] = []"
| "collapse P d (c # s) =
     (if P c then (case s of [] \<Rightarrow> [d] | c' # _ \<Rightarrow> if P c' then collapse P d s else d # collapse P d s)
      else c # collapse P d s)"

text \<open>\<^verbatim>\<open>s.replace(/\/+$/, '')\<close>.\<close>

definition strip_trailing :: "char \<Rightarrow> string \<Rightarrow> string" where
  "strip_trailing d s = rev (dropWhile (\<lambda>c. c = d) (rev s))"

definition pad_start :: "nat \<Rightarrow> char \<Rightarrow> string \<Rightarrow> string" where
  "pad_start n c s = replicate (n - length s) c @ s"

definition pad_end :: "nat \<Rightarrow> char \<Rightarrow> string \<Rightarrow> string" where
  "pad_end n c s = s @ replicate (n - length s) c"

text \<open>\<^verbatim>\<open>s.slice(a, b)\<close> for non-negative indices.\<close>

definition slice :: "nat \<Rightarrow> nat \<Rightarrow> string \<Rightarrow> string" where
  "slice a b s = take (b - a) (drop a s)"

section \<open>Digits\<close>

definition digit_char :: "nat \<Rightarrow> char" where
  "digit_char n = (if n < 10 then char_of (48 + n) else char_of (87 + n))"

fun nat_digits :: "nat \<Rightarrow> nat \<Rightarrow> string" where
  "nat_digits b n = (if b < 2 \<or> n < b then [digit_char n] else nat_digits b (n div b) @ [digit_char (n mod b)])"

declare nat_digits.simps [simp del]

definition string_of_nat :: "nat \<Rightarrow> string" where
  "string_of_nat n = nat_digits 10 n"

definition string_of_int :: "int \<Rightarrow> string" where
  "string_of_int i = (if i < 0 then CHR ''-'' # string_of_nat (nat (- i)) else string_of_nat (nat i))"

definition is_digit :: "char \<Rightarrow> bool" where
  "is_digit c \<longleftrightarrow> 48 \<le> (of_char c :: nat) \<and> (of_char c :: nat) \<le> 57"

text \<open>The value of a digit in a radix up to 16, if it is one.\<close>

definition digit_value :: "nat \<Rightarrow> char \<Rightarrow> nat option" where
  "digit_value b c = (let n = (of_char c :: nat);
       v = (if 48 \<le> n \<and> n \<le> 57 then n - 48
            else if 97 \<le> n \<and> n \<le> 102 then n - 87
            else if 65 \<le> n \<and> n \<le> 70 then n - 55 else 99)
     in if v < b then Some v else None)"

fun digits_value :: "nat \<Rightarrow> nat \<Rightarrow> string \<Rightarrow> nat option" where
  "digits_value b acc [] = Some acc"
| "digits_value b acc (c # s) =
     (case digit_value b c of None \<Rightarrow> None | Some v \<Rightarrow> digits_value b (b * acc + v) s)"

section \<open>Laws\<close>

lemma is_ws_space [js_eval]: "is_ws CHR '' ''"
  by (simp add: is_ws_def)

lemma to_lower_Nil [simp]: "to_lower [] = []"
  by (simp add: to_lower_def)

lemma trim_Nil [simp]: "trim [] = []"
  by (simp add: trim_def)

lemma dropWhile_fix: "xs = [] \<or> \<not> P (hd xs) \<Longrightarrow> dropWhile P xs = xs"
  by (cases xs) auto

lemma dropWhile_result: "dropWhile P xs = [] \<or> \<not> P (hd (dropWhile P xs))"
  using hd_dropWhile by blast

lemma trim_ends: "trim s \<noteq> [] \<Longrightarrow> \<not> is_ws (hd (trim s)) \<and> \<not> is_ws (last (trim s))"
proof -
  assume ne: "trim s \<noteq> []"
  define u where "u = dropWhile is_ws s"
  define v where "v = dropWhile is_ws (rev u)"
  have t: "trim s = rev v" by (simp add: trim_def u_def v_def)
  with ne have v: "v \<noteq> []" by simp
  then have last: "\<not> is_ws (last (trim s))"
    unfolding t v_def by (simp add: last_rev hd_dropWhile)
  obtain w where w: "rev u = w @ v"
    unfolding v_def by (metis takeWhile_dropWhile_id)
  then have u: "u = rev v @ rev w" by (metis rev_append rev_rev_ident)
  then have "hd u = hd (trim s)" using v t by simp
  moreover have "u \<noteq> []" using u v by simp
  then have "\<not> is_ws (hd u)" unfolding u_def by (rule hd_dropWhile)
  ultimately show ?thesis using last by simp
qed

lemma trim_idem [simp]: "trim (trim s) = trim s"
proof (cases "trim s = []")
  case False
  then have "dropWhile is_ws (trim s) = trim s"
    using trim_ends by (blast intro: dropWhile_fix)
  moreover have "dropWhile is_ws (rev (trim s)) = rev (trim s)"
    using False trim_ends by (intro dropWhile_fix) (simp add: hd_rev)
  ultimately show ?thesis by (simp add: trim_def [of "trim s"])
qed simp

lemma set_trim: "set (trim s) \<subseteq> set s"
  unfolding trim_def by (auto dest!: set_dropWhileD)

lemma length_trim: "length (trim s) \<le> length s"
  unfolding trim_def by (metis length_dropWhile_le length_rev order_trans)

lemma lower_char_idem [simp]: "lower_char (lower_char c) = lower_char c"
proof -
  have "(of_char c :: nat) < 256" by simp
  then show ?thesis by (auto simp: lower_char_def Let_def)
qed

lemma to_lower_idem [simp]: "to_lower (to_lower s) = to_lower s"
  by (simp add: to_lower_def)

lemma length_to_lower [simp]: "length (to_lower s) = length s"
  by (simp add: to_lower_def)

lemma to_lower_Nil_iff [simp]: "to_lower s = [] \<longleftrightarrow> s = []"
  by (simp add: to_lower_def)

lemma is_ws_lower_char [simp]: "is_ws (lower_char c) = is_ws c"
proof (cases "(65 \<le> (of_char c :: nat) \<and> (of_char c :: nat) \<le> 90)
    \<or> (192 \<le> (of_char c :: nat) \<and> (of_char c :: nat) \<le> 222 \<and> (of_char c :: nat) \<noteq> 215)")
  case True
  have b: "(of_char c :: nat) < 256" by simp
  have ws: "is_ws d \<longleftrightarrow> (of_char d :: nat) \<in> {9, 10, 11, 12, 13, 32, 160}" for d
    unfolding is_ws_def by (auto simp flip: of_char_eq_iff [where ?'a = nat])
  from True b show ?thesis unfolding ws by (auto simp: lower_char_def)
next
  case False
  then have "lower_char c = c" by (auto simp: lower_char_def Let_def)
  then show ?thesis by simp
qed

lemma dropWhile_ws_to_lower: "dropWhile is_ws (to_lower s) = to_lower (dropWhile is_ws s)"
  by (induction s) (auto simp: to_lower_def)

lemma rev_to_lower: "rev (to_lower s) = to_lower (rev s)"
  by (simp add: to_lower_def rev_map)

lemma trim_to_lower: "trim (to_lower s) = to_lower (trim s)"
  by (simp add: trim_def dropWhile_ws_to_lower rev_to_lower)

lemma starts_with_iff: "starts_with s p \<longleftrightarrow> (\<exists>t. s = p @ t)"
  unfolding starts_with_def by (metis append_take_drop_id append_eq_conv_conj)

lemma starts_with_append [simp]: "starts_with (p @ t) p"
  by (simp add: starts_with_def)

lemma strip_trailing_last: "strip_trailing d s \<noteq> [] \<Longrightarrow> last (strip_trailing d s) \<noteq> d"
  unfolding strip_trailing_def using hd_dropWhile [of "\<lambda>c. c = d" "rev s"] by (simp add: last_rev)

lemma strip_trailing_idem [simp]: "strip_trailing d (strip_trailing d s) = strip_trailing d s"
  by (simp add: strip_trailing_def)

lemma strip_trailing_decomp: "\<exists>n. s = strip_trailing d s @ replicate n d"
proof -
  have "rev s = takeWhile (\<lambda>c. c = d) (rev s) @ dropWhile (\<lambda>c. c = d) (rev s)" by simp
  then have "s = rev (dropWhile (\<lambda>c. c = d) (rev s)) @ rev (takeWhile (\<lambda>c. c = d) (rev s))"
    by (metis rev_append rev_rev_ident)
  moreover have "takeWhile (\<lambda>c. c = d) (rev s) = replicate (length (takeWhile (\<lambda>c. c = d) (rev s))) d"
    by (rule replicate_eqI) (auto dest: set_takeWhileD)
  ultimately show ?thesis unfolding strip_trailing_def by (metis rev_replicate)
qed

lemma split_on_not_Nil [simp]: "split_on c s \<noteq> []"
  by (induction s) (auto split: list.splits)

lemma split_on_parts: "w \<in> set (split_on c s) \<Longrightarrow> c \<notin> set w"
  by (induction s arbitrary: w) (auto split: list.splits if_splits)

lemma join_split_on: "join [c] (split_on c s) = s"
proof (induction s)
  case (Cons x s)
  then show ?case by (cases "split_on c s"; cases "tl (split_on c s)") auto
qed simp

lemma split_on_append_sep: "c \<notin> set w \<Longrightarrow> split_on c (w @ c # s) = w # split_on c s"
  by (induction w) auto

lemma split_on_no_sep: "c \<notin> set w \<Longrightarrow> split_on c w = [w]"
  by (induction w) auto

lemma split_on_join: "ws \<noteq> [] \<Longrightarrow> (\<And>w. w \<in> set ws \<Longrightarrow> c \<notin> set w) \<Longrightarrow> split_on c (join [c] ws) = ws"
  by (induction "[c]" ws rule: join.induct) (auto simp: split_on_append_sep split_on_no_sep)

lemma length_pad_start: "length (pad_start n c s) = max n (length s)"
  by (simp add: pad_start_def)

lemma length_slice_le: "length (slice a b s) \<le> b - a"
  by (simp add: slice_def)

lemma trim_no_ws: "list_all (\<lambda>c. \<not> is_ws c) s \<Longrightarrow> trim s = s"
proof -
  have keep: "dropWhile is_ws xs = xs" if "\<forall>c \<in> set xs. \<not> is_ws c" for xs :: string
    using that by (cases xs) auto
  show "list_all (\<lambda>c. \<not> is_ws c) s \<Longrightarrow> trim s = s"
    unfolding trim_def list_all_iff by (simp add: keep)
qed

end
