(* ===== verification/JsNumber.thy ===== *)
theory JsNumber
  imports JsString
begin

text \<open>
  JavaScript numbers: NaN, the infinities, and finite doubles as the rationals they denote
  (the sources never observe the sign of zero). \<open>to_double\<close> is round-to-nearest-even into
  the binary64 format; \<open>string_to_number\<close> is \<^verbatim>\<open>Number(s)\<close>, \<open>number_to_string\<close> is
  \<^verbatim>\<open>String(n)\<close>, \<open>to_fixed\<close> is \<^verbatim>\<open>n.toFixed(f)\<close>.
\<close>

datatype jsnum = NaN | PosInf | NegInf | Fin rat

fun num_is_finite :: "jsnum \<Rightarrow> bool" where
  "num_is_finite (Fin r) = True"
| "num_is_finite _ = False"

fun num_is_integer :: "jsnum \<Rightarrow> bool" where
  "num_is_integer (Fin r) = (of_int \<lfloor>r\<rfloor> = r)"
| "num_is_integer _ = False"

section \<open>Rounding to binary64\<close>

definition pow2 :: "int \<Rightarrow> rat" where
  "pow2 e = (if 0 \<le> e then 2 ^ nat e else 1 / 2 ^ nat (- e))"

definition pow10 :: "int \<Rightarrow> rat" where
  "pow10 e = (if 0 \<le> e then 10 ^ nat e else 1 / 10 ^ nat (- e))"

fun ilog2 :: "nat \<Rightarrow> nat" where
  "ilog2 n = (if n < 2 then 0 else Suc (ilog2 (n div 2)))"

declare ilog2.simps [simp del]

definition rat_log2 :: "rat \<Rightarrow> int" where
  "rat_log2 r = (case quotient_of r of (p, q) \<Rightarrow>
     let e = int (ilog2 (nat p)) - int (ilog2 (nat q)) in if pow2 e \<le> r then e else e - 1)"

definition round_half_even :: "rat \<Rightarrow> int" where
  "round_half_even r = (let f = \<lfloor>r\<rfloor>; d = r - of_int f in
     if d < 1 / 2 then f else if 1 / 2 < d then f + 1 else if even f then f else f + 1)"

definition to_double :: "rat \<Rightarrow> jsnum" where
  "to_double r =
     (if r = 0 then Fin 0
      else let a = \<bar>r\<bar>; e = max (rat_log2 a) (- 1022); ulp = pow2 (e - 52);
               v = of_int (round_half_even (a / ulp)) * ulp
           in if pow2 1024 \<le> v then (if r < 0 then NegInf else PosInf)
              else Fin (if r < 0 then - v else v))"

section \<open>Reading numbers\<close>

text \<open>A decimal literal: digits, an optional fraction, an optional exponent; nothing may follow.\<close>

definition take_digits :: "string \<Rightarrow> string \<times> string" where
  "take_digits s = (takeWhile is_digit s, dropWhile is_digit s)"

definition digits_nat :: "string \<Rightarrow> nat" where
  "digits_nat s = (case digits_value 10 0 s of Some v \<Rightarrow> v | None \<Rightarrow> 0)"

fun parse_exponent :: "string \<Rightarrow> int option" where
  "parse_exponent [] = Some 0"
| "parse_exponent (c # s) =
     (if c = CHR ''e'' \<or> c = CHR ''E'' then
        (let (neg, t) = (case s of [] \<Rightarrow> (False, [])
               | d # u \<Rightarrow> if d = CHR ''-'' then (True, u) else if d = CHR ''+'' then (False, u) else (False, s))
         in if t \<noteq> [] \<and> list_all is_digit t
            then Some (if neg then - int (digits_nat t) else int (digits_nat t)) else None)
      else None)"

definition parse_unsigned_decimal :: "string \<Rightarrow> rat option" where
  "parse_unsigned_decimal s =
     (let (ip, r) = take_digits s;
          (fp, r') = (case r of c # u \<Rightarrow> if c = CHR ''.'' then take_digits u else ([], r) | [] \<Rightarrow> ([], []))
      in if ip = [] \<and> fp = [] then None
         else case parse_exponent r' of None \<Rightarrow> None
              | Some e \<Rightarrow> Some (of_nat (digits_nat (ip @ fp)) * pow10 (e - int (length fp))))"

fun split_sign :: "string \<Rightarrow> bool \<times> string" where
  "split_sign [] = (False, [])"
| "split_sign (c # s) = (if c = CHR ''-'' then (True, s) else if c = CHR ''+'' then (False, s) else (False, c # s))"

definition parse_decimal :: "string \<Rightarrow> jsnum" where
  "parse_decimal s =
     (let (neg, t) = split_sign s in
      if t = ''Infinity'' then (if neg then NegInf else PosInf)
      else case parse_unsigned_decimal t of None \<Rightarrow> NaN
           | Some r \<Rightarrow> to_double (if neg then - r else r))"

definition parse_radix :: "nat \<Rightarrow> string \<Rightarrow> jsnum" where
  "parse_radix b s = (if s = [] then NaN else
     case digits_value b 0 s of None \<Rightarrow> NaN | Some v \<Rightarrow> to_double (of_nat v))"

definition string_to_number :: "string \<Rightarrow> jsnum" where
  "string_to_number s = (let t = trim s in
     if t = [] then Fin 0
     else if starts_with t ''0x'' \<or> starts_with t ''0X'' then parse_radix 16 (drop 2 t)
     else if starts_with t ''0b'' \<or> starts_with t ''0B'' then parse_radix 2 (drop 2 t)
     else if starts_with t ''0o'' \<or> starts_with t ''0O'' then parse_radix 8 (drop 2 t)
     else parse_decimal t)"

section \<open>Printing numbers\<close>

text \<open>
  The shortest decimal digits that read back as the same double: \<open>k\<close> digits \<open>s\<close> and the
  position \<open>n\<close> of the decimal point, with \<open>k\<close> as small as possible (17 digits always
  suffice for a double).
\<close>

function dec_exp_up :: "nat \<Rightarrow> rat \<Rightarrow> int \<Rightarrow> int" where
  "dec_exp_up fuel r n = (if 0 < fuel \<and> pow10 n \<le> r then dec_exp_up (fuel - 1) r (n + 1) else n)"
  by pat_completeness auto
termination by (relation "measure (\<lambda>(f, _, _). f)") auto

declare dec_exp_up.simps [simp del]

definition dec_exp :: "rat \<Rightarrow> int" where
  "dec_exp r = dec_exp_up 700 r (- 330)"

definition digits_at :: "rat \<Rightarrow> int \<Rightarrow> nat \<Rightarrow> int" where
  "digits_at r n k = \<lfloor>r / pow10 (n - int k) + 1 / 2\<rfloor>"

fun shortest_from :: "nat \<Rightarrow> nat \<Rightarrow> rat \<Rightarrow> int \<Rightarrow> nat \<times> int" where
  "shortest_from 0 k r n = (k, digits_at r n k)"
| "shortest_from (Suc fuel) k r n =
     (if to_double (of_int (digits_at r n k) * pow10 (n - int k)) = Fin r
      then (k, digits_at r n k) else shortest_from fuel (Suc k) r n)"

definition show_positive :: "rat \<Rightarrow> string" where
  "show_positive r =
     (let n0 = dec_exp r; (k0, s0) = shortest_from 16 1 r n0;
          (k, s, n) = (if s0 = 10 ^ k0 then (1, 1, n0 + 1) else (k0, nat s0, n0));
          ds = string_of_nat s
      in if int k \<le> n \<and> n \<le> 21 then ds @ replicate (nat (n - int k)) CHR ''0''
         else if 0 < n \<and> n \<le> 21 then take (nat n) ds @ ''.'' @ drop (nat n) ds
         else if - 6 < n \<and> n \<le> 0 then ''0.'' @ replicate (nat (- n)) CHR ''0'' @ ds
         else (let e = n - 1; es = (if e < 0 then ''e-'' else ''e+'') @ string_of_nat (nat \<bar>e\<bar>)
               in (if k = 1 then ds else take 1 ds @ ''.'' @ drop 1 ds) @ es))"

text \<open>Integers up to 2 to the 53 are exact and print all their digits.\<close>

fun number_to_string :: "jsnum \<Rightarrow> string" where
  "number_to_string NaN = ''NaN''"
| "number_to_string PosInf = ''Infinity''"
| "number_to_string NegInf = ''-Infinity''"
| "number_to_string (Fin r) =
     (if of_int \<lfloor>r\<rfloor> = r \<and> \<bar>\<lfloor>r\<rfloor>\<bar> \<le> 2 ^ 53 then string_of_int \<lfloor>r\<rfloor>
      else if r < 0 then CHR ''-'' # show_positive (- r) else show_positive r)"

definition fixed_digits :: "nat \<Rightarrow> nat \<Rightarrow> string" where
  "fixed_digits f m = (if f = 0 then string_of_nat m
     else let ds = pad_start (Suc f) CHR ''0'' (string_of_nat m); i = length ds - f
          in take i ds @ ''.'' @ drop i ds)"

fun to_fixed :: "nat \<Rightarrow> jsnum \<Rightarrow> string" where
  "to_fixed f (Fin r) =
     (if \<bar>r\<bar> < 10 ^ 21
      then (if r < 0 then ''-'' else []) @ fixed_digits f (nat \<lfloor>\<bar>r\<bar> * 10 ^ f + 1 / 2\<rfloor>)
      else number_to_string (Fin r))"
| "to_fixed f x = number_to_string x"

section \<open>Arithmetic and comparison\<close>

fun num_lt :: "jsnum \<Rightarrow> jsnum \<Rightarrow> bool" where
  "num_lt (Fin a) (Fin b) = (a < b)"
| "num_lt NaN _ = False"
| "num_lt _ NaN = False"
| "num_lt NegInf b = (b \<noteq> NegInf)"
| "num_lt a NegInf = False"
| "num_lt PosInf b = False"
| "num_lt a PosInf = True"

text \<open>\<^verbatim>\<open>a === b\<close> on numbers: NaN is not equal to itself.\<close>

definition num_eq :: "jsnum \<Rightarrow> jsnum \<Rightarrow> bool" where
  "num_eq a b \<longleftrightarrow> a \<noteq> NaN \<and> a = b"

definition num_le :: "jsnum \<Rightarrow> jsnum \<Rightarrow> bool" where
  "num_le a b \<longleftrightarrow> num_lt a b \<or> num_eq a b"

definition num_max :: "jsnum \<Rightarrow> jsnum \<Rightarrow> jsnum" where
  "num_max a b = (if a = NaN \<or> b = NaN then NaN else if num_lt a b then b else a)"

definition num_min :: "jsnum \<Rightarrow> jsnum \<Rightarrow> jsnum" where
  "num_min a b = (if a = NaN \<or> b = NaN then NaN else if num_lt b a then b else a)"

fun num_trunc :: "jsnum \<Rightarrow> jsnum" where
  "num_trunc (Fin r) = Fin (of_int (if 0 \<le> r then \<lfloor>r\<rfloor> else \<lceil>r\<rceil>))"
| "num_trunc x = x"

fun num_neg :: "jsnum \<Rightarrow> jsnum" where
  "num_neg (Fin r) = Fin (- r)"
| "num_neg PosInf = NegInf"
| "num_neg NegInf = PosInf"
| "num_neg NaN = NaN"

text \<open>Multiplication and division by a positive finite constant.\<close>

fun num_scale :: "jsnum \<Rightarrow> rat \<Rightarrow> jsnum" where
  "num_scale (Fin r) c = to_double (r * c)"
| "num_scale x c = x"

fun num_add :: "jsnum \<Rightarrow> jsnum \<Rightarrow> jsnum" where
  "num_add (Fin a) (Fin b) = to_double (a + b)"
| "num_add NaN b = NaN"
| "num_add a NaN = NaN"
| "num_add PosInf b = (if b = NegInf then NaN else PosInf)"
| "num_add NegInf b = (if b = PosInf then NaN else NegInf)"
| "num_add a b = b"

abbreviation num_of_nat :: "nat \<Rightarrow> jsnum" where
  "num_of_nat n \<equiv> Fin (of_nat n)"

section \<open>Laws\<close>

lemma num_lt_irrefl [simp]: "\<not> num_lt a a"
  by (cases a) auto

lemma num_lt_trans: "num_lt a b \<Longrightarrow> num_lt b c \<Longrightarrow> num_lt a c"
  by (cases a; cases b; cases c) auto

lemma num_lt_total: "a \<noteq> NaN \<Longrightarrow> b \<noteq> NaN \<Longrightarrow> num_lt a b \<or> a = b \<or> num_lt b a"
  by (cases a; cases b) auto

text \<open>\<^verbatim>\<open>Math.max(lo, Math.min(hi, x))\<close> lands in the interval for every number but NaN.\<close>

lemma num_clamp_Fin:
  assumes "lo \<le> hi" and "x \<noteq> NaN"
  shows "\<exists>r. num_max (Fin lo) (num_min (Fin hi) x) = Fin r \<and> lo \<le> r \<and> r \<le> hi"
  using assms by (cases x) (auto simp: num_max_def num_min_def)

lemma num_clamp_id:
  "lo \<le> r \<Longrightarrow> r \<le> hi \<Longrightarrow> num_max (Fin lo) (num_min (Fin hi) (Fin r)) = Fin r"
  by (auto simp: num_max_def num_min_def)

lemma num_trunc_integer: "num_is_finite x \<Longrightarrow> num_is_integer (num_trunc x)"
  by (cases x) auto

lemma to_double_not_NaN [simp]: "to_double r \<noteq> NaN"
  by (simp add: to_double_def Let_def)

lemma number_to_string_nat: "n \<le> 2 ^ 53 \<Longrightarrow> number_to_string (num_of_nat n) = string_of_nat n"
proof -
  assume "n \<le> 2 ^ 53"
  then have "int n \<le> 2 ^ 53" by (metis of_nat_le_iff of_nat_numeral of_nat_power)
  then show ?thesis by (simp add: string_of_int_def)
qed

lemma nat_digits_nonempty [simp]: "nat_digits b n \<noteq> []"
  by (subst nat_digits.simps) simp

lemma string_of_nat_nonempty [simp]: "string_of_nat n \<noteq> []"
  by (simp add: string_of_nat_def)

lemma digit_char_is_digit: "n < 10 \<Longrightarrow> is_digit (digit_char n)"
  by (simp add: digit_char_def is_digit_def)

lemma digit_value_digit_char: "n < 10 \<Longrightarrow> digit_value 10 (digit_char n) = Some n"
  by (simp add: digit_char_def digit_value_def Let_def)

lemma string_of_nat_digits: "list_all is_digit (string_of_nat n)"
  unfolding string_of_nat_def
proof (induction "10 :: nat" n rule: nat_digits.induct)
  case (1 n)
  then show ?case
    by (subst nat_digits.simps) (auto simp: digit_char_is_digit)
qed

lemma digits_value_append:
  "digits_value b acc (s @ t) = (case digits_value b acc s of None \<Rightarrow> None | Some a \<Rightarrow> digits_value b a t)"
  by (induction s arbitrary: acc) (auto split: option.splits)

lemma digits_value_string_of_nat: "digits_value 10 0 (string_of_nat n) = Some n"
  unfolding string_of_nat_def
proof (induction "10 :: nat" n rule: nat_digits.induct)
  case (1 n)
  then show ?case
    by (subst nat_digits.simps)
       (auto simp: digit_value_digit_char digits_value_append)
qed

text \<open>Printed numbers are not empty and have no white space.\<close>

lemma string_of_nat_no_ws: "list_all (\<lambda>c. \<not> is_ws c) (string_of_nat n)"
proof -
  have "is_digit c \<Longrightarrow> \<not> is_ws c" for c by (auto simp: is_digit_def is_ws_def)
  then show ?thesis using string_of_nat_digits [of n] by (auto simp: list_all_iff)
qed

lemma no_ws_take_drop:
  "list_all (\<lambda>c. \<not> is_ws c) s \<Longrightarrow> list_all (\<lambda>c. \<not> is_ws c) (take n s) \<and> list_all (\<lambda>c. \<not> is_ws c) (drop n s)"
  by (auto simp: list_all_iff dest: in_set_takeD in_set_dropD)

lemma no_ws_zeros: "list_all (\<lambda>c. \<not> is_ws c) (replicate n CHR ''0'')"
  by (simp add: list_all_iff is_ws_def)

lemma show_positive_no_ws: "list_all (\<lambda>c. \<not> is_ws c) (show_positive r)"
  unfolding show_positive_def Let_def
  using string_of_nat_no_ws no_ws_take_drop no_ws_zeros by (simp add: is_ws_def split: prod.split)

lemma number_to_string_no_ws: "list_all (\<lambda>c. \<not> is_ws c) (number_to_string n)"
  using string_of_nat_no_ws show_positive_no_ws
  by (cases n) (simp_all add: string_of_int_def is_ws_def)

lemma show_positive_nonempty: "show_positive r \<noteq> []"
  by (simp add: show_positive_def Let_def split: prod.split)

lemma number_to_string_nonempty [simp]: "number_to_string n \<noteq> []"
  by (cases n) (simp_all add: string_of_int_def show_positive_nonempty)

end
