(* ===== verification/JsValue.thy ===== *)
theory JsValue
  imports JsNumber
begin

text \<open>
  The values the sources type as \<^verbatim>\<open>unknown\<close>: what \<^verbatim>\<open>JSON.parse\<close> can produce, plus
  \<^verbatim>\<open>undefined\<close> and the built-in functions a property read can find on
  \<^verbatim>\<open>Object.prototype\<close>. An object is its list of own enumerable properties in
  property order (integer keys ascending, then the others in insertion order).
\<close>

datatype js =
    Undefined
  | Null
  | Bool bool
  | Num jsnum
  | Str string
  | Arr "js list"
  | Obj "(string \<times> js) list"
  | Fun string

type_synonym obj = "(string \<times> js) list"

section \<open>Classification\<close>

fun js_typeof :: "js \<Rightarrow> string" where
  "js_typeof Undefined = ''undefined''"
| "js_typeof Null = ''object''"
| "js_typeof (Bool _) = ''boolean''"
| "js_typeof (Num _) = ''number''"
| "js_typeof (Str _) = ''string''"
| "js_typeof (Arr _) = ''object''"
| "js_typeof (Obj _) = ''object''"
| "js_typeof (Fun _) = ''function''"

text \<open>\<^verbatim>\<open>v == null\<close>.\<close>

fun is_nullish :: "js \<Rightarrow> bool" where
  "is_nullish Undefined = True"
| "is_nullish Null = True"
| "is_nullish _ = False"

fun truthy :: "js \<Rightarrow> bool" where
  "truthy Undefined = False"
| "truthy Null = False"
| "truthy (Bool b) = b"
| "truthy (Num n) = (n \<noteq> NaN \<and> n \<noteq> Fin 0)"
| "truthy (Str s) = (s \<noteq> [])"
| "truthy _ = True"

text \<open>\<^verbatim>\<open>a ?? b\<close> and \<^verbatim>\<open>a || b\<close>.\<close>

definition coalesce :: "js \<Rightarrow> js \<Rightarrow> js" where
  "coalesce a b = (if is_nullish a then b else a)"

definition js_or :: "js \<Rightarrow> js \<Rightarrow> js" where
  "js_or a b = (if truthy a then a else b)"

text \<open>\<^verbatim>\<open>typeof v === 'object' && v !== null && !Array.isArray(v)\<close>, giving the object.\<close>

fun as_obj :: "js \<Rightarrow> obj option" where
  "as_obj (Obj m) = Some m"
| "as_obj _ = None"

fun as_arr :: "js \<Rightarrow> js list option" where
  "as_arr (Arr xs) = Some xs"
| "as_arr _ = None"

text \<open>\<^verbatim>\<open>typeof v === 'string'\<close>, giving the string.\<close>

fun as_str :: "js \<Rightarrow> string option" where
  "as_str (Str s) = Some s"
| "as_str _ = None"

definition is_Str :: "js \<Rightarrow> bool" where "is_Str v \<longleftrightarrow> as_str v \<noteq> None"
definition is_Obj :: "js \<Rightarrow> bool" where "is_Obj v \<longleftrightarrow> as_obj v \<noteq> None"
definition is_Arr :: "js \<Rightarrow> bool" where "is_Arr v \<longleftrightarrow> as_arr v \<noteq> None"

section \<open>Properties\<close>

text \<open>The names an ordinary object inherits from \<^verbatim>\<open>Object.prototype\<close>.\<close>

definition prototype_keys :: "string list" where
  "prototype_keys =
     [''constructor'', ''hasOwnProperty'', ''isPrototypeOf'', ''propertyIsEnumerable'',
      ''toLocaleString'', ''toString'', ''valueOf'', ''__defineGetter__'', ''__defineSetter__'',
      ''__lookupGetter__'', ''__lookupSetter__'']"

text \<open>
  Reading a property that is not an own one: a built-in function, or \<^verbatim>\<open>Object.prototype\<close>
  itself under \<^verbatim>\<open>__proto__\<close> (an object without enumerable properties), or
  \<^verbatim>\<open>undefined\<close>. The function \<^verbatim>\<open>constructor\<close> is \<^verbatim>\<open>Object\<close>.
\<close>

definition inherited :: "string \<Rightarrow> js" where
  "inherited k =
     (if k = ''__proto__'' then Obj []
      else if k = ''constructor'' then Fun ''Object''
      else if k \<in> set prototype_keys then Fun k else Undefined)"

definition obj_get :: "obj \<Rightarrow> string \<Rightarrow> js" where
  "obj_get m k = (case al_get m k of Some v \<Rightarrow> v | None \<Rightarrow> inherited k)"

text \<open>
  Optional member access \<^verbatim>\<open>v?.k\<close> for names that are no members of the primitive
  prototypes or of arrays, and plain member access, which throws on a nullish value.
\<close>

definition js_field :: "js \<Rightarrow> string \<Rightarrow> js" where
  "js_field v k = (case v of Obj m \<Rightarrow> obj_get m k | _ \<Rightarrow> Undefined)"

definition js_member :: "js \<Rightarrow> string \<Rightarrow> js res" where
  "js_member v k = (if is_nullish v then Inl (NullMember k) else Inr (js_field v k))"

text \<open>
  The order of own keys: array indices (canonical decimals below \<open>2 ^ 32 - 1\<close>) ascending,
  then the other names as inserted. \<open>obj_put\<close> is a data-property assignment
  \<^verbatim>\<open>o[k] = v\<close> of a primitive value, for which assigning \<^verbatim>\<open>__proto__\<close> has no effect.
\<close>

definition array_index :: "string \<Rightarrow> nat option" where
  "array_index k =
     (if k \<noteq> [] \<and> list_all is_digit k \<and> string_of_nat (digits_nat k) = k \<and> digits_nat k < 2 ^ 32 - 1
      then Some (digits_nat k) else None)"

fun insert_index :: "nat \<Rightarrow> string \<times> 'v \<Rightarrow> (string \<times> 'v) list \<Rightarrow> (string \<times> 'v) list" where
  "insert_index n p [] = [p]"
| "insert_index n p ((a, w) # r) =
     (case array_index a of
        Some i \<Rightarrow> if i < n then (a, w) # insert_index n p r else p # (a, w) # r
      | None \<Rightarrow> p # (a, w) # r)"

definition own_put :: "string \<Rightarrow> 'v \<Rightarrow> (string \<times> 'v) list \<Rightarrow> (string \<times> 'v) list" where
  "own_put k v m =
     (if al_get m k \<noteq> None then al_set k v m
      else case array_index k of Some n \<Rightarrow> insert_index n (k, v) m | None \<Rightarrow> m @ [(k, v)])"

definition obj_put :: "string \<Rightarrow> 'v \<Rightarrow> (string \<times> 'v) list \<Rightarrow> (string \<times> 'v) list" where
  "obj_put k v m = (if k = ''__proto__'' then m else own_put k v m)"

text \<open>Spreading \<^verbatim>\<open>{ ...a, ...b }\<close> copies own properties, \<^verbatim>\<open>__proto__\<close> included.\<close>

definition spread :: "(string \<times> 'v) list \<Rightarrow> (string \<times> 'v) list \<Rightarrow> (string \<times> 'v) list" where
  "spread a b = fold (\<lambda>(k, v). own_put k v) b a"

text \<open>The own enumerable properties of a value, as \<^verbatim>\<open>{ ...v }\<close> and \<^verbatim>\<open>Object.entries(v)\<close> read them.\<close>

fun own_props :: "js \<Rightarrow> obj" where
  "own_props (Obj m) = m"
| "own_props (Arr xs) = zip (map string_of_nat [0..<length xs]) xs"
| "own_props (Str s) = zip (map string_of_nat [0..<length s]) (map (\<lambda>c. Str [c]) s)"
| "own_props _ = []"

section \<open>Conversions\<close>

text \<open>
  \<^verbatim>\<open>String(v)\<close>. An object whose own \<^verbatim>\<open>toString\<close> shadows the inherited one has no callable
  conversion (JSON holds no functions), so the conversion throws. Array elements that are
  nullish print as the empty string.
\<close>

definition native_source :: "string \<Rightarrow> string" where
  "native_source f = ''function '' @ f @ ''() { [native code] }''"

fun js_String :: "js \<Rightarrow> string res" where
  "js_String Undefined = Inr ''undefined''"
| "js_String Null = Inr ''null''"
| "js_String (Bool b) = Inr (if b then ''true'' else ''false'')"
| "js_String (Num n) = Inr (number_to_string n)"
| "js_String (Str s) = Inr s"
| "js_String (Arr xs) =
     res_bind (res_map (\<lambda>v. if is_nullish v then Inr [] else js_String v) xs) (\<lambda>ws. Inr (join '','' ws))"
| "js_String (Obj m) = (if al_get m ''toString'' = None then Inr ''[object Object]'' else Inl ToPrimitiveError)"
| "js_String (Fun f) = Inr (native_source f)"

text \<open>\<^verbatim>\<open>Number(v)\<close>, through the same conversion for objects and arrays.\<close>

definition js_Number :: "js \<Rightarrow> jsnum res" where
  "js_Number v = (case v of
       Undefined \<Rightarrow> Inr NaN
     | Null \<Rightarrow> Inr (Fin 0)
     | Bool b \<Rightarrow> Inr (if b then Fin 1 else Fin 0)
     | Num n \<Rightarrow> Inr n
     | Str s \<Rightarrow> Inr (string_to_number s)
     | _ \<Rightarrow> res_bind (js_String v) (\<lambda>s. Inr (string_to_number s)))"

section \<open>Laws\<close>

lemma nullish_cases: "is_nullish v \<longleftrightarrow> v = Undefined \<or> v = Null"
  by (cases v) auto

lemma truthy_not_nullish: "truthy v \<Longrightarrow> \<not> is_nullish v"
  by (cases v) auto

lemma coalesce_simps [simp]:
  "coalesce Undefined b = b" "coalesce Null b = b" "\<not> is_nullish a \<Longrightarrow> coalesce a b = a"
  by (simp_all add: coalesce_def)

lemma is_Str_iff: "is_Str v \<longleftrightarrow> (\<exists>s. v = Str s)"
  by (cases v) (auto simp: is_Str_def)

lemma is_Obj_iff: "is_Obj v \<longleftrightarrow> (\<exists>m. v = Obj m)"
  by (cases v) (auto simp: is_Obj_def)

lemma is_Arr_iff: "is_Arr v \<longleftrightarrow> (\<exists>xs. v = Arr xs)"
  by (cases v) (auto simp: is_Arr_def)

lemma as_obj_Some [simp]: "as_obj v = Some m \<longleftrightarrow> v = Obj m"
  by (cases v) auto

lemma as_arr_Some [simp]: "as_arr v = Some xs \<longleftrightarrow> v = Arr xs"
  by (cases v) auto

lemma as_str_Some [simp]: "as_str v = Some s \<longleftrightarrow> v = Str s"
  by (cases v) auto

lemma inherited_plain [simp]: "k \<noteq> ''__proto__'' \<Longrightarrow> k \<notin> set prototype_keys \<Longrightarrow> inherited k = Undefined"
  by (auto simp: inherited_def prototype_keys_def)

lemma obj_get_own [simp]: "al_get m k = Some v \<Longrightarrow> obj_get m k = v"
  by (simp add: obj_get_def)

lemma js_field_Obj [simp]: "js_field (Obj m) k = obj_get m k"
  by (simp add: js_field_def)

lemma al_get_insert_index:
  "al_get m k = None \<Longrightarrow> al_get (insert_index n (k, v) m) j = (if j = k then Some v else al_get m j)"
  by (induction m) (auto split: option.splits if_splits)

lemma al_get_own_put [simp]: "al_get (own_put k v m) j = (if j = k then Some v else al_get m j)"
  by (auto simp: own_put_def al_get_insert_index al_get_append split: option.splits)

lemma al_get_obj_put:
  "al_get (obj_put k v m) j = (if j = k \<and> k \<noteq> ''__proto__'' then Some v else al_get m j)"
  by (auto simp: obj_put_def)

interpretation own: dictionary al_get own_put al_del
  by unfold_locales auto

lemma al_get_spread:
  "distinct (al_keys b) \<Longrightarrow>
     al_get (spread a b) k = (case al_get b k of None \<Rightarrow> al_get a k | Some v \<Rightarrow> Some v)"
proof (induction b arbitrary: a)
  case Nil
  show ?case by (simp add: spread_def)
next
  case (Cons p b)
  obtain k' v where p: "p = (k', v)" by fastforce
  have "al_get b k' = None" using Cons.prems p by (simp add: al_get_None_iff)
  then show ?case
    using Cons.IH [of "own_put k' v a"] Cons.prems p
    by (auto simp: spread_def split: option.splits)
qed

lemma insert_index_keys: "set (al_keys (insert_index n (k, v) m)) = insert k (set (al_keys m))"
proof (induction m)
  case (Cons p m)
  then show ?case
    by (cases p) (auto simp del: set_map split: option.splits)
qed simp

lemma distinct_insert_index:
  "k \<notin> set (al_keys m) \<Longrightarrow> distinct (al_keys m) \<Longrightarrow> distinct (al_keys (insert_index n (k, v) m))"
proof (induction m)
  case (Cons p m)
  then show ?case
    by (cases p) (auto simp: insert_index_keys simp del: set_map split: option.splits)
qed simp

lemma al_get_spread_left: "al_get a k \<noteq> None \<Longrightarrow> al_get (spread a b) k \<noteq> None"
  by (induction b arbitrary: a) (auto simp: spread_def)

lemma al_set_same: "al_get m k = Some v \<Longrightarrow> al_set k v m = m"
  by (induction m) auto

lemma own_put_same: "al_get m k = Some v \<Longrightarrow> own_put k v m = m"
  by (simp add: own_put_def al_set_same)

lemma spread_same: "(\<And>k v. (k, v) \<in> set b \<Longrightarrow> al_get a k = Some v) \<Longrightarrow> spread a b = a"
  by (induction b arbitrary: a) (auto simp: spread_def own_put_same)

lemma distinct_own_put: "distinct (al_keys m) \<Longrightarrow> distinct (al_keys (own_put k v m))"
  by (auto simp: own_put_def distinct_al_set al_get_None_iff distinct_insert_index simp del: set_map
      split: option.splits)

lemma own_put_keys: "set (al_keys (own_put k v m)) = insert k (set (al_keys m))"
proof -
  have "x \<in> set (al_keys (own_put k v m)) \<longleftrightarrow> x \<in> insert k (set (al_keys m))" for x
    using al_get_own_put [of k v m x] al_get_None_iff [of "own_put k v m" x] al_get_None_iff [of m x]
    by (auto split: if_splits)
  then show ?thesis by blast
qed

text \<open>Only arrays and objects can make the conversion to a text throw.\<close>

lemma js_String_total_prim:
  "\<not> is_Arr v \<Longrightarrow> \<not> is_Obj v \<Longrightarrow> \<exists>s. js_String v = Inr s"
  by (cases v) (auto simp: is_Arr_def is_Obj_def)

end
