(* ===== verification/JsJson.thy ===== *)
theory JsJson
  imports JsValue
begin

text \<open>
  \<^verbatim>\<open>JSON.stringify\<close> and \<^verbatim>\<open>JSON.parse\<close> on the values of \<open>JsValue\<close>.
\<close>

section \<open>JSON text\<close>

definition quote_char :: "char \<Rightarrow> string" where
  "quote_char c = (let n = (of_char c :: nat) in
     if c = CHR 0x22 then [CHR 0x5C, CHR 0x22]
     else if c = CHR 0x5C then [CHR 0x5C, CHR 0x5C]
     else if n = 8 then CHR 0x5C # ''b'' else if n = 9 then CHR 0x5C # ''t''
     else if n = 10 then CHR 0x5C # ''n'' else if n = 12 then CHR 0x5C # ''f''
     else if n = 13 then CHR 0x5C # ''r''
     else if n < 32 then CHR 0x5C # ''u'' @ pad_start 4 CHR ''0'' (nat_digits 16 n)
     else [c])"

definition quote :: "string \<Rightarrow> string" where
  "quote s = CHR 0x22 # concat (map quote_char s) @ [CHR 0x22]"

text \<open>
  \<^verbatim>\<open>JSON.stringify(v, null, gap)\<close>: \<open>None\<close> for the values that have no JSON text
  (\<^verbatim>\<open>undefined\<close> and functions), which are dropped from objects and print as
  \<^verbatim>\<open>null\<close> in arrays. \<open>ind\<close> is the current indentation.
\<close>

definition json_brackets :: "char \<Rightarrow> char \<Rightarrow> string \<Rightarrow> string \<Rightarrow> string list \<Rightarrow> string" where
  "json_brackets l r gap ind parts =
     (if parts = [] then [l, r]
      else if gap = [] then l # join '','' parts @ [r]
      else l # CHR 0x0A # ind @ gap @ join ('','' @ CHR 0x0A # ind @ gap) parts @ CHR 0x0A # ind @ [r])"

fun stringify_at :: "string \<Rightarrow> string \<Rightarrow> js \<Rightarrow> string option" where
  "stringify_at gap ind Undefined = None"
| "stringify_at gap ind (Fun _) = None"
| "stringify_at gap ind Null = Some ''null''"
| "stringify_at gap ind (Bool b) = Some (if b then ''true'' else ''false'')"
| "stringify_at gap ind (Num n) = Some (if num_is_finite n then number_to_string n else ''null'')"
| "stringify_at gap ind (Str s) = Some (quote s)"
| "stringify_at gap ind (Arr xs) =
     Some (json_brackets CHR ''['' CHR '']'' gap ind
       (map (\<lambda>v. case stringify_at gap (ind @ gap) v of None \<Rightarrow> ''null'' | Some t \<Rightarrow> t) xs))"
| "stringify_at gap ind (Obj m) =
     Some (json_brackets CHR ''{'' CHR ''}'' gap ind
       (concat (map (\<lambda>p. case stringify_at gap (ind @ gap) (snd p) of
            None \<Rightarrow> []
          | Some t \<Rightarrow> [quote (fst p) @ '':'' @ (if gap = [] then [] else '' '') @ t]) m)))"

definition stringify :: "string \<Rightarrow> js \<Rightarrow> string option" where
  "stringify gap v = stringify_at gap [] v"

section \<open>Parsing\<close>

text \<open>
  A recursive-descent reading of the JSON grammar. A duplicate key keeps its position and
  takes the last value, as the assignments of \<^verbatim>\<open>JSON.parse\<close> do. Escapes for code units
  above 255 lie outside the modelled strings and are rejected. Every call spends one unit of
  fuel, and two calls at most are made between two consumed characters.
\<close>

definition json_ws :: "char \<Rightarrow> bool" where
  "json_ws c \<longleftrightarrow> c = CHR '' '' \<or> c = CHR 0x09 \<or> c = CHR 0x0A \<or> c = CHR 0x0D"

definition skip_ws :: "string \<Rightarrow> string" where
  "skip_ws s = dropWhile json_ws s"

definition unescape :: "char \<Rightarrow> char option" where
  "unescape e =
     (if e = CHR 0x22 \<or> e = CHR 0x5C \<or> e = CHR ''/'' then Some e
      else if e = CHR ''b'' then Some CHR 0x08 else if e = CHR ''f'' then Some CHR 0x0C
      else if e = CHR ''n'' then Some CHR 0x0A else if e = CHR ''r'' then Some CHR 0x0D
      else if e = CHR ''t'' then Some CHR 0x09 else None)"

definition hex4 :: "char \<Rightarrow> char \<Rightarrow> char \<Rightarrow> char \<Rightarrow> char option" where
  "hex4 a b c d = (case digits_value 16 0 [a, b, c, d] of
     None \<Rightarrow> None | Some v \<Rightarrow> if v < 256 then Some (char_of v) else None)"

fun parse_string_body :: "string \<Rightarrow> (string \<times> string) option" where
  "parse_string_body [] = None"
| "parse_string_body (c # s) =
     (if c = CHR 0x22 then Some ([], s)
      else if c = CHR 0x5C then
        (case s of [] \<Rightarrow> None
         | e # s' \<Rightarrow>
             if e = CHR ''u'' then
               (case s' of h1 # h2 # h3 # h4 # r \<Rightarrow>
                  (case hex4 h1 h2 h3 h4 of None \<Rightarrow> None
                   | Some x \<Rightarrow> map_option (\<lambda>(t, u). (x # t, u)) (parse_string_body r))
                | _ \<Rightarrow> None)
             else (case unescape e of None \<Rightarrow> None
                   | Some x \<Rightarrow> map_option (\<lambda>(t, u). (x # t, u)) (parse_string_body s')))
      else if (of_char c :: nat) < 32 then None
      else map_option (\<lambda>(t, u). (c # t, u)) (parse_string_body s))"

fun json_int_part :: "string \<Rightarrow> (string \<times> string) option" where
  "json_int_part [] = None"
| "json_int_part (c # s) =
     (if c = CHR ''0'' then Some ([c], s)
      else if is_digit c then Some (c # takeWhile is_digit s, dropWhile is_digit s) else None)"

fun json_frac_part :: "string \<Rightarrow> (string \<times> string) option" where
  "json_frac_part (c # s) =
     (if c = CHR ''.''
      then (if takeWhile is_digit s = [] then None else Some (takeWhile is_digit s, dropWhile is_digit s))
      else Some ([], c # s))"
| "json_frac_part [] = Some ([], [])"

fun json_exp_part :: "string \<Rightarrow> (int \<times> string) option" where
  "json_exp_part (c # s) =
     (if c = CHR ''e'' \<or> c = CHR ''E'' then
        (let (neg, t) = split_sign s; ds = takeWhile is_digit t in
         if ds = [] then None
         else Some (if neg then - int (digits_nat ds) else int (digits_nat ds), dropWhile is_digit t))
      else Some (0, c # s))"
| "json_exp_part [] = Some (0, [])"

definition json_number :: "string \<Rightarrow> (jsnum \<times> string) option" where
  "json_number s =
     (let (neg, t) = (case s of c # u \<Rightarrow> if c = CHR ''-'' then (True, u) else (False, s) | [] \<Rightarrow> (False, []))
      in case json_int_part t of None \<Rightarrow> None
         | Some (ip, t1) \<Rightarrow> (case json_frac_part t1 of None \<Rightarrow> None
           | Some (fp, t2) \<Rightarrow> (case json_exp_part t2 of None \<Rightarrow> None
             | Some (e, t3) \<Rightarrow>
                 let r = of_nat (digits_nat (ip @ fp)) * pow10 (e - int (length fp))
                 in Some (to_double (if neg then - r else r), t3))))"

fun parse_value :: "nat \<Rightarrow> string \<Rightarrow> (js \<times> string) option"
  and parse_elems :: "nat \<Rightarrow> string \<Rightarrow> (js list \<times> string) option"
  and parse_members :: "nat \<Rightarrow> obj \<Rightarrow> string \<Rightarrow> (obj \<times> string) option" where
  "parse_value 0 s = None"
| "parse_value (Suc n) s =
     (case skip_ws s of [] \<Rightarrow> None
      | c # r \<Rightarrow>
          if c = CHR ''{'' then
            (if skip_ws r \<noteq> [] \<and> hd (skip_ws r) = CHR ''}'' then Some (Obj [], tl (skip_ws r))
             else map_option (\<lambda>(m, u). (Obj m, u)) (parse_members n [] r))
          else if c = CHR ''['' then
            (if skip_ws r \<noteq> [] \<and> hd (skip_ws r) = CHR '']'' then Some (Arr [], tl (skip_ws r))
             else map_option (\<lambda>(xs, u). (Arr xs, u)) (parse_elems n r))
          else if c = CHR 0x22 then map_option (\<lambda>(t, u). (Str t, u)) (parse_string_body r)
          else if starts_with (c # r) ''true'' then Some (Bool True, drop 4 (c # r))
          else if starts_with (c # r) ''false'' then Some (Bool False, drop 5 (c # r))
          else if starts_with (c # r) ''null'' then Some (Null, drop 4 (c # r))
          else map_option (\<lambda>(x, u). (Num x, u)) (json_number (c # r)))"
| "parse_elems 0 s = None"
| "parse_elems (Suc n) s =
     (case parse_value n s of None \<Rightarrow> None
      | Some (v, r) \<Rightarrow>
          (case skip_ws r of [] \<Rightarrow> None
           | c # r' \<Rightarrow> if c = CHR '']'' then Some ([v], r')
                      else if c = CHR '','' then map_option (\<lambda>(vs, u). (v # vs, u)) (parse_elems n r')
                      else None))"
| "parse_members 0 m s = None"
| "parse_members (Suc n) m s =
     (case skip_ws s of [] \<Rightarrow> None
      | q # t \<Rightarrow> if q \<noteq> CHR 0x22 then None else
          (case parse_string_body t of None \<Rightarrow> None
           | Some (k, r) \<Rightarrow>
               if skip_ws r = [] \<or> hd (skip_ws r) \<noteq> CHR '':'' then None
               else (case parse_value n (tl (skip_ws r)) of None \<Rightarrow> None
                 | Some (v, r1) \<Rightarrow>
                     (case skip_ws r1 of [] \<Rightarrow> None
                      | c # r2 \<Rightarrow> if c = CHR ''}'' then Some (own_put k v m, r2)
                                 else if c = CHR '','' then parse_members n (own_put k v m) r2
                                 else None))))"

definition json_parse :: "string \<Rightarrow> js option" where
  "json_parse s = (case parse_value (2 * length s + 2) s of
     None \<Rightarrow> None | Some (v, r) \<Rightarrow> if skip_ws r = [] then Some v else None)"

section \<open>Laws\<close>

text \<open>A quoted string reads back, whatever follows it.\<close>

lemma control_escapes:
  "list_all (\<lambda>n. \<exists>a \<in> set [CHR ''0'', CHR ''1'']. \<exists>d \<in> set (map digit_char [0..<16]).
     pad_start 4 CHR ''0'' (nat_digits 16 n) = [CHR ''0'', CHR ''0'', a, d] \<and>
     hex4 CHR ''0'' CHR ''0'' a d = Some (char_of n)) [0..<32]"
  by code_simp

lemma parse_quoted_char: "parse_string_body (quote_char c @ r) = map_option (\<lambda>(t, u). (c # t, u)) (parse_string_body r)"
proof -
  let ?n = "of_char c :: nat"
  show ?thesis
  proof (cases "?n < 32 \<and> ?n \<notin> {8, 9, 10, 12, 13}")
    case True
    then obtain a d where
      "pad_start 4 CHR ''0'' (nat_digits 16 ?n) = [CHR ''0'', CHR ''0'', a, d]"
      "hex4 CHR ''0'' CHR ''0'' a d = Some (char_of ?n)"
      using control_escapes unfolding list_all_iff by (metis atLeastLessThan_iff atLeastLessThan_upt zero_le)
    with True show ?thesis by (auto simp: quote_char_def Let_def)
  next
    case False
    have special: "char_of (8::nat) = CHR 0x08" "char_of (9::nat) = CHR 0x09" "char_of (10::nat) = CHR 0x0A"
       "char_of (12::nat) = CHR 0x0C" "char_of (13::nat) = CHR 0x0D"
      by code_simp+
    then have "?n = 8 \<Longrightarrow> c = CHR 0x08" "?n = 9 \<Longrightarrow> c = CHR 0x09" "?n = 10 \<Longrightarrow> c = CHR 0x0A"
      "?n = 12 \<Longrightarrow> c = CHR 0x0C" "?n = 13 \<Longrightarrow> c = CHR 0x0D" by (metis char_of_char)+
    with False show ?thesis
      by (cases "?n \<in> {8, 9, 10, 12, 13}") (auto simp: quote_char_def unescape_def Let_def)
  qed
qed

lemma parse_quoted: "parse_string_body (concat (map quote_char s) @ CHR 0x22 # r) = Some (s, r)"
  by (induction s) (simp_all add: parse_quoted_char)

end
