(* ===== verification/Http.thy ===== *)
theory Http
  imports JsJson
begin

text \<open>
  The HTTP surroundings of the console's server code: requests as Next.js hands them to the
  middleware and to the route handlers, the responses they build, cookies, and calls to the
  control-plane API. The API itself is not part of the console: it is the parameter \<open>up\<close>,
  a function from the requests it has received so far and the next one to its answer
  (\<open>None\<close>: the connection fails and \<^verbatim>\<open>fetch\<close> rejects).
\<close>

section \<open>Requests and responses\<close>

text \<open>
  Header names are lower case, as the Fetch standard stores them. \<open>protocol\<close> keeps its colon
  (\<^verbatim>\<open>https:\<close>) as \<^verbatim>\<open>nextUrl.protocol\<close> does. \<open>searchParams\<close> is the decoded query.
\<close>

record request =
  pathname :: string
  searchParams :: "(string \<times> string) list"
  protocol :: string
  host :: string
  cookies :: "(string \<times> string) list"
  headers :: "(string \<times> string) list"
  reqText :: string

record cookie =
  cookieName :: string
  cookieValue :: string
  httpOnly :: bool
  sameSite :: string
  secure :: bool
  cookiePath :: string
  maxAge :: "nat option"

datatype cookie_op = SetCookie cookie | DeleteCookie string

datatype resp_body = JsonBody js | BytesBody string | NoBody

record response =
  status :: nat
  respBody :: resp_body
  respHeaders :: "(string \<times> string) list"
  respCookies :: "(string \<times> cookie_op) list"

abbreviation resp_ok :: "nat \<Rightarrow> bool" where
  "resp_ok s \<equiv> 200 \<le> s \<and> s \<le> 299"

definition json_response :: "js \<Rightarrow> nat \<Rightarrow> response" where
  "json_response v s = \<lparr>status = s, respBody = JsonBody v, respHeaders = [], respCookies = []\<rparr>"

definition redirect_response :: "string \<Rightarrow> response" where
  "redirect_response url = \<lparr>status = 307, respBody = NoBody, respHeaders = [(''location'', url)], respCookies = []\<rparr>"

text \<open>
  The constructor of a response with a body refuses a status outside 200..599 (a range error)
  and the statuses that allow no body (a type error).
\<close>

definition response_init :: "response \<Rightarrow> response res" where
  "response_init r =
     (if status r < 200 \<or> 599 < status r \<or> status r \<in> {204, 205, 304}
      then Inl (ResponseInitError (status r)) else Inr r)"

text \<open>\<^verbatim>\<open>response.cookies\<close> is a map from names to the last operation on them.\<close>

definition set_cookie :: "cookie \<Rightarrow> response \<Rightarrow> response" where
  "set_cookie c r = r\<lparr>respCookies := al_set (cookieName c) (SetCookie c) (respCookies r)\<rparr>"

definition delete_cookie :: "string \<Rightarrow> response \<Rightarrow> response" where
  "delete_cookie n r = r\<lparr>respCookies := al_set n (DeleteCookie n) (respCookies r)\<rparr>"

text \<open>\<^verbatim>\<open>request.cookies.get(name)?.value ?? ''\<close>.\<close>

definition cookie_or_empty :: "request \<Rightarrow> string \<Rightarrow> string" where
  "cookie_or_empty r n = (case al_get (cookies r) n of None \<Rightarrow> [] | Some v \<Rightarrow> v)"

text \<open>\<^verbatim>\<open>request.headers.get(k) ?? d\<close> and \<^verbatim>\<open>searchParams.get(k) ?? ''\<close>.\<close>

definition header_or :: "request \<Rightarrow> string \<Rightarrow> string \<Rightarrow> string" where
  "header_or req k d = (case al_get (headers req) k of Some v \<Rightarrow> v | None \<Rightarrow> d)"

definition param_or_empty :: "request \<Rightarrow> string \<Rightarrow> string" where
  "param_or_empty req k = (case al_get (searchParams req) k of Some v \<Rightarrow> v | None \<Rightarrow> [])"

text \<open>
  What a browser keeps after a response: the operations applied to its jar (path and
  lifetime do not matter to the console, whose cookies all have path \<^verbatim>\<open>/\<close>).
\<close>

fun browser_op :: "cookie_op \<Rightarrow> (string \<times> string) list \<Rightarrow> (string \<times> string) list" where
  "browser_op (SetCookie c) jar = al_set (cookieName c) (cookieValue c) jar"
| "browser_op (DeleteCookie n) jar = al_del n jar"

definition browser_after :: "response \<Rightarrow> (string \<times> string) list \<Rightarrow> (string \<times> string) list" where
  "browser_after r jar = fold browser_op (map snd (respCookies r)) jar"

section \<open>Calls to the control-plane API\<close>

record api_request =
  apiUrl :: string
  apiMethod :: string
  apiHeaders :: "(string \<times> string) list"
  apiBody :: "string option"

text \<open>\<open>apiText\<close> is \<open>None\<close> when the body cannot be read.\<close>

record api_response =
  apiStatus :: nat
  apiRespHeaders :: "(string \<times> string) list"
  apiText :: "string option"

type_synonym upstream = "api_request list \<Rightarrow> api_request \<Rightarrow> api_response option"

text \<open>
  An asynchronous computation threads the log of requests sent to the API and either
  rejects or returns a value.
\<close>

type_synonym 'a io = "api_request list \<Rightarrow> 'a res \<times> api_request list"

definition io_return :: "'a \<Rightarrow> 'a io" where
  "io_return x = (\<lambda>l. (Inr x, l))"

definition io_lift :: "'a res \<Rightarrow> 'a io" where
  "io_lift r = (\<lambda>l. (r, l))"

definition io_bind :: "'a io \<Rightarrow> ('a \<Rightarrow> 'b io) \<Rightarrow> 'b io" where
  "io_bind m f = (\<lambda>l. case m l of (Inl e, l') \<Rightarrow> (Inl e, l') | (Inr x, l') \<Rightarrow> f x l')"

definition io_catch :: "'a io \<Rightarrow> (js_error \<Rightarrow> 'a io) \<Rightarrow> 'a io" where
  "io_catch m h = (\<lambda>l. case m l of (Inl e, l') \<Rightarrow> h e l' | (Inr x, l') \<Rightarrow> (Inr x, l'))"

definition fetch :: "upstream \<Rightarrow> api_request \<Rightarrow> api_response io" where
  "fetch up q = (\<lambda>l. (case up l q of None \<Rightarrow> Inl FetchRejected | Some r \<Rightarrow> Inr r, l @ [q]))"

text \<open>\<^verbatim>\<open>await response.json().catch(() => d)\<close> and \<^verbatim>\<open>.text().catch(() => '')\<close>.\<close>

definition json_or :: "api_response \<Rightarrow> js \<Rightarrow> js" where
  "json_or r d = (case apiText r of None \<Rightarrow> d
     | Some t \<Rightarrow> (case json_parse t of None \<Rightarrow> d | Some v \<Rightarrow> v))"

definition text_or_empty :: "api_response \<Rightarrow> string" where
  "text_or_empty r = (case apiText r of None \<Rightarrow> [] | Some t \<Rightarrow> t)"

text \<open>\<^verbatim>\<open>String(payload.k ?? d)\<close>.\<close>

definition str_member :: "js \<Rightarrow> string \<Rightarrow> string \<Rightarrow> string res" where
  "str_member payload k d = res_bind (js_member payload k) (\<lambda>v. js_String (coalesce v (Str d)))"

text \<open>The body of \<^verbatim>\<open>JSON.stringify(o)\<close> for an object.\<close>

definition json_body :: "obj \<Rightarrow> string option" where
  "json_body m = stringify [] (Obj m)"

section \<open>Laws\<close>

lemma response_init_Inr_iff:
  "response_init r = Inr r' \<longleftrightarrow>
     r' = r \<and> 200 \<le> status r \<and> status r \<le> 599 \<and> status r \<notin> {204, 205, 304}"
  by (auto simp: response_init_def)

lemma io_return_apply [simp]: "io_return x l = (Inr x, l)"
  by (simp add: io_return_def)

lemma io_lift_apply [simp]: "io_lift r l = (r, l)"
  by (simp add: io_lift_def)

lemma io_bind_apply:
  "io_bind m f l = (case m l of (Inl e, l') \<Rightarrow> (Inl e, l') | (Inr x, l') \<Rightarrow> f x l')"
  by (simp add: io_bind_def)

lemma io_bind_simps [simp]:
  "m l = (Inl e, l') \<Longrightarrow> io_bind m f l = (Inl e, l')"
  "m l = (Inr x, l') \<Longrightarrow> io_bind m f l = f x l'"
  by (simp_all add: io_bind_def)

lemma io_bind_Inr_iff:
  "io_bind m f l = (Inr y, l2) \<longleftrightarrow> (\<exists>x l1. m l = (Inr x, l1) \<and> f x l1 = (Inr y, l2))"
  by (auto simp: io_bind_def split: prod.splits sum.splits)

lemma io_catch_simps [simp]:
  "m l = (Inl e, l') \<Longrightarrow> io_catch m h l = h e l'"
  "m l = (Inr x, l') \<Longrightarrow> io_catch m h l = (Inr x, l')"
  by (simp_all add: io_catch_def)

lemma fetch_apply:
  "fetch up q l = (case up l q of None \<Rightarrow> Inl FetchRejected | Some r \<Rightarrow> Inr r, l @ [q])"
  by (simp add: fetch_def)

lemma fetch_Inr_iff: "fetch up q l = (Inr r, l') \<longleftrightarrow> up l q = Some r \<and> l' = l @ [q]"
  by (auto simp: fetch_def split: option.splits)

text \<open>A computation only ever appends to the log.\<close>

definition appends :: "'a io \<Rightarrow> bool" where
  "appends m \<longleftrightarrow> (\<forall>l. \<exists>qs. snd (m l) = l @ qs)"

lemma appends_return [intro, simp]: "appends (io_return x)"
  by (simp add: appends_def)

lemma appends_lift [intro, simp]: "appends (io_lift r)"
  by (simp add: appends_def)

lemma appends_fetch [intro, simp]: "appends (fetch up q)"
  by (auto simp: appends_def fetch_def)

lemma appends_bind [intro]:
  assumes m: "appends m" and f: "\<And>x. appends (f x)"
  shows "appends (io_bind m f)"
  unfolding appends_def
proof
  fix l
  obtain r l' where rl: "m l = (r, l')" by fastforce
  with m obtain qs where qs: "l' = l @ qs" unfolding appends_def by (metis snd_conv)
  show "\<exists>qs. snd (io_bind m f l) = l @ qs"
  proof (cases r)
    case (Inl e)
    with rl qs show ?thesis by (simp add: io_bind_def)
  next
    case (Inr x)
    from f obtain qs' where "snd (f x l') = l' @ qs'" unfolding appends_def by blast
    with Inr rl qs show ?thesis by (simp add: io_bind_def)
  qed
qed

end
