(* ===== verification/Auth.thy ===== *)
theory Auth
  imports Http
begin

text \<open>
  Roles, the session cookies and the page sets of \<^verbatim>\<open>src/lib/auth.ts\<close>, and the page gate of
  \<^verbatim>\<open>src/middleware.ts\<close>.
\<close>

section \<open>Roles (lib/auth.ts)\<close>

datatype user_role = Admin | Operator | Viewer

fun role_string :: "user_role \<Rightarrow> string" where
  "role_string Admin = ''admin''"
| "role_string Operator = ''operator''"
| "role_string Viewer = ''viewer''"

record auth_user =
  userId :: js
  email :: js
  displayName :: string
  role :: user_role
  twoFactorEnabled :: "bool option"

definition cookie_jwt :: string where "cookie_jwt = ''quoodle_jwt''"
definition cookie_refreshToken :: string where "cookie_refreshToken = ''quoodle_refresh_token''"
definition cookie_sessionId :: string where "cookie_sessionId = ''quoodle_session_id''"
definition cookie_role :: string where "cookie_role = ''quoodle_user_role''"

lemmas cookie_names = cookie_jwt_def cookie_refreshToken_def cookie_sessionId_def cookie_role_def

definition normalizeRole :: "string option \<Rightarrow> user_role option" where
  "normalizeRole value =
     (let normalized = to_lower (trim (case value of None \<Rightarrow> [] | Some s \<Rightarrow> s)) in
      if normalized = ''admin'' then Some Admin
      else if normalized = ''operator'' then Some Operator
      else if normalized = ''viewer'' then Some Viewer
      else if normalized = ''user'' then Some Viewer
      else None)"

fun roleHomePath :: "user_role \<Rightarrow> string" where
  "roleHomePath Admin = ''/dashboard''"
| "roleHomePath Operator = ''/operator-console''"
| "roleHomePath Viewer = ''/viewer-console''"

definition OPERATOR_ALLOWED_PREFIXES :: "string list" where
  "OPERATOR_ALLOWED_PREFIXES =
     [''/operator-console'', ''/device-management'', ''/mobile-devices'', ''/device-detail'',
      ''/command-dispatch'', ''/command-results'', ''/command-history'', ''/command-scheduling'',
      ''/alerts'', ''/notifications'', ''/telemetry-monitoring'', ''/compliance'', ''/audit'',
      ''/webhooks'', ''/profile'']"

definition VIEWER_ALLOWED_PREFIXES :: "string list" where
  "VIEWER_ALLOWED_PREFIXES =
     [''/viewer-console'', ''/device-management'', ''/mobile-devices'', ''/device-detail'',
      ''/notifications'', ''/compliance'', ''/audit'', ''/profile'']"

section \<open>The page gate (middleware.ts)\<close>

definition LOGIN_PATH :: string where "LOGIN_PATH = ''/sign-up-login-screen''"

definition isAllowedPath :: "string \<Rightarrow> string list \<Rightarrow> bool" where
  "isAllowedPath path prefixes \<longleftrightarrow>
     list_ex (\<lambda>prefix. path = prefix \<or> starts_with path (prefix @ ''/'')) prefixes"

text \<open>Either the request goes on to the page, or it is redirected to a path with a query.\<close>

datatype mw_result = MwNext | MwRedirect string "(string \<times> string) list"

text \<open>\<^verbatim>\<open>searchParams.set(k, v)\<close>: the first entry of that name is replaced, the others go.\<close>

definition search_set :: "string \<Rightarrow> string \<Rightarrow> (string \<times> string) list \<Rightarrow> (string \<times> string) list" where
  "search_set k v ps =
     (if k \<in> set (al_keys ps)
      then takeWhile (\<lambda>p. fst p \<noteq> k) ps @ (k, v) # filter (\<lambda>p. fst p \<noteq> k) (tl (dropWhile (\<lambda>p. fst p \<noteq> k) ps))
      else ps @ [(k, v)])"

definition middleware :: "request \<Rightarrow> mw_result" where
  "middleware req =
     (let path = pathname req;
          jwt = cookie_or_empty req cookie_jwt;
          rl = normalizeRole (al_get (cookies req) cookie_role);
          to_login = MwRedirect LOGIN_PATH (search_set ''next'' path (searchParams req))
      in if starts_with path ''/api/'' then MwNext
         else if jwt = [] then (if path = LOGIN_PATH then MwNext else to_login)
         else if path = ''/'' then
           (case rl of None \<Rightarrow> to_login | Some r \<Rightarrow> MwRedirect (roleHomePath r) (searchParams req))
         else if path = LOGIN_PATH then
           (case rl of None \<Rightarrow> MwNext | Some r \<Rightarrow> MwRedirect (roleHomePath r) (searchParams req))
         else (case rl of None \<Rightarrow> to_login
           | Some Admin \<Rightarrow> MwNext
           | Some r \<Rightarrow>
               if isAllowedPath path (if r = Operator then OPERATOR_ALLOWED_PREFIXES else VIEWER_ALLOWED_PREFIXES)
               then MwNext else MwRedirect (roleHomePath r) (searchParams req)))"

text \<open>
  The matcher \<^verbatim>\<open>/((?!_next/static|_next/image|favicon.ico|.*\..*).*)\<close>: the middleware runs
  on the paths whose part after the slash neither starts with one of the listed names
  (the dot of \<^verbatim>\<open>favicon.ico\<close> matches any character) nor contains a dot.
\<close>

definition middleware_matches :: "string \<Rightarrow> bool" where
  "middleware_matches path =
     (case path of [] \<Rightarrow> False
      | c # rest \<Rightarrow> c = CHR ''/'' \<and> \<not> starts_with rest ''_next/static'' \<and> \<not> starts_with rest ''_next/image''
          \<and> \<not> (starts_with rest ''favicon'' \<and> starts_with (drop 8 rest) ''ico'' \<and> length rest \<ge> 11)
          \<and> CHR ''.'' \<notin> set rest)"

section \<open>Abstract access control\<close>

text \<open>
  The specification of the gate: pages are named by the first segment of the path, each
  role has a set of pages, and a decision depends on the page, on whether a session exists
  and on its role.
\<close>

definition page_of :: "string \<Rightarrow> string" where
  "page_of path = takeWhile (\<lambda>c. c \<noteq> CHR ''/'') (tl path)"

definition role_pages :: "user_role \<Rightarrow> string list" where
  "role_pages r = (case r of Admin \<Rightarrow> [] | Operator \<Rightarrow> map tl OPERATOR_ALLOWED_PREFIXES
     | Viewer \<Rightarrow> map tl VIEWER_ALLOWED_PREFIXES)"

definition may_open :: "user_role \<Rightarrow> string \<Rightarrow> bool" where
  "may_open r path \<longleftrightarrow> r = Admin \<or> (path \<noteq> [] \<and> hd path = CHR ''/'' \<and> page_of path \<in> set (role_pages r))"

datatype decision = Serve | ToLogin | ToHome user_role

definition gate_decision :: "bool \<Rightarrow> user_role option \<Rightarrow> string \<Rightarrow> decision" where
  "gate_decision session rl path =
     (if starts_with path ''/api/'' then Serve
      else case (if session then rl else None) of
        None \<Rightarrow> if path = LOGIN_PATH then Serve else ToLogin
      | Some r \<Rightarrow> if path = ''/'' \<or> path = LOGIN_PATH then ToHome r
                 else if may_open r path then Serve else ToHome r)"

fun redirect_target :: "decision \<Rightarrow> string option" where
  "redirect_target Serve = None"
| "redirect_target ToLogin = Some LOGIN_PATH"
| "redirect_target (ToHome r) = Some (roleHomePath r)"

fun mw_target :: "mw_result \<Rightarrow> string option" where
  "mw_target MwNext = None"
| "mw_target (MwRedirect p q) = Some p"

section \<open>The order of privileges\<close>

fun role_rank :: "user_role \<Rightarrow> nat" where
  "role_rank Viewer = 0"
| "role_rank Operator = 1"
| "role_rank Admin = 2"

instantiation user_role :: linorder
begin

definition less_eq_user_role :: "user_role \<Rightarrow> user_role \<Rightarrow> bool" where
  "less_eq_user_role r s \<longleftrightarrow> role_rank r \<le> role_rank s"

definition less_user_role :: "user_role \<Rightarrow> user_role \<Rightarrow> bool" where
  "less_user_role r s \<longleftrightarrow> role_rank r < role_rank s"

instance
proof
  have inj: "role_rank r = role_rank s \<Longrightarrow> r = s" for r s :: user_role
    by (cases r; cases s) auto
  show "r = s" if "r \<le> s" "s \<le> r" for r s :: user_role
    using that inj by (simp add: less_eq_user_role_def)
qed (auto simp: less_eq_user_role_def less_user_role_def)

end

section \<open>Lemmas\<close>

lemma normalizeRole_role_string [simp]: "normalizeRole (Some (role_string r)) = Some r"
  by (cases r) (simp_all add: normalizeRole_def trim_def is_ws_def to_lower_def lower_char_def)

lemma normalizeRole_None [simp]: "normalizeRole None = None"
  by (simp add: normalizeRole_def to_lower_def)

lemma normalizeRole_Some_iff:
  "normalizeRole (Some s) = Some r \<longleftrightarrow>
     to_lower (trim s) = role_string r \<or> (r = Viewer \<and> to_lower (trim s) = ''user'')"
  by (cases r) (auto simp: normalizeRole_def Let_def)

lemma takeWhile_segment:
  assumes "CHR ''/'' \<notin> set seg"
  shows "takeWhile (\<lambda>c. c \<noteq> CHR ''/'') s = seg \<longleftrightarrow> s = seg \<or> (\<exists>t. s = seg @ CHR ''/'' # t)"
  using assms
proof (induction seg arbitrary: s)
  case Nil
  show ?case by (cases s) auto
next
  case (Cons c seg)
  then show ?case by (cases s) auto
qed

lemma slash_segment_split:
  assumes "CHR ''/'' \<notin> set seg"
  shows "(path = CHR ''/'' # seg \<or> starts_with path ((CHR ''/'' # seg) @ ''/'')) \<longleftrightarrow>
         path \<noteq> [] \<and> hd path = CHR ''/'' \<and> page_of path = seg"
  by (cases path) (auto simp: page_of_def starts_with_iff takeWhile_segment [OF assms])

lemma isAllowedPath_pages:
  assumes "list_all (\<lambda>p. p \<noteq> [] \<and> hd p = CHR ''/'' \<and> CHR ''/'' \<notin> set (tl p)) prefixes"
  shows "isAllowedPath path prefixes \<longleftrightarrow>
         path \<noteq> [] \<and> hd path = CHR ''/'' \<and> page_of path \<in> set (map tl prefixes)"
  using assms
proof (induction prefixes)
  case Nil
  show ?case by (simp add: isAllowedPath_def)
next
  case (Cons p ps)
  then obtain seg where p: "p = CHR ''/'' # seg" and seg: "CHR ''/'' \<notin> set seg"
    by (cases p) auto
  from Cons p show ?case
    using slash_segment_split [OF seg, of path] by (auto simp: isAllowedPath_def)
qed

lemma operator_prefixes_ok:
  "list_all (\<lambda>p. p \<noteq> [] \<and> hd p = CHR ''/'' \<and> CHR ''/'' \<notin> set (tl p)) OPERATOR_ALLOWED_PREFIXES"
  by (simp add: OPERATOR_ALLOWED_PREFIXES_def)

lemma viewer_prefixes_ok:
  "list_all (\<lambda>p. p \<noteq> [] \<and> hd p = CHR ''/'' \<and> CHR ''/'' \<notin> set (tl p)) VIEWER_ALLOWED_PREFIXES"
  by (simp add: VIEWER_ALLOWED_PREFIXES_def)

lemma isAllowedPath_may_open:
  "isAllowedPath path OPERATOR_ALLOWED_PREFIXES = may_open Operator path"
  "isAllowedPath path VIEWER_ALLOWED_PREFIXES = may_open Viewer path"
  by (simp_all add: isAllowedPath_pages [OF operator_prefixes_ok] isAllowedPath_pages [OF viewer_prefixes_ok]
      may_open_def role_pages_def)

lemma page_of_home: "page_of (roleHomePath r) = tl (roleHomePath r)"
  by (cases r) (simp_all add: page_of_def)

lemma home_not_api: "\<not> starts_with (roleHomePath r) ''/api/''"
  by (cases r) (simp_all add: starts_with_def)

lemma home_not_special: "roleHomePath r \<noteq> ''/'' \<and> roleHomePath r \<noteq> LOGIN_PATH"
  by (cases r) (simp_all add: LOGIN_PATH_def)

lemma login_not_special: "LOGIN_PATH \<noteq> ''/'' \<and> \<not> starts_with LOGIN_PATH ''/api/''"
  by (simp add: LOGIN_PATH_def starts_with_def)

lemma may_open_home: "may_open r (roleHomePath r)"
  by (cases r)
     (simp_all add: may_open_def page_of_def role_pages_def OPERATOR_ALLOWED_PREFIXES_def VIEWER_ALLOWED_PREFIXES_def)

lemma middleware_target:
  "mw_target (middleware req) =
     redirect_target (gate_decision (cookie_or_empty req cookie_jwt \<noteq> [])
       (normalizeRole (al_get (cookies req) cookie_role)) (pathname req))"
proof (cases "normalizeRole (al_get (cookies req) cookie_role)")
  case None
  then show ?thesis using login_not_special by (simp add: middleware_def gate_decision_def Let_def)
next
  case (Some r)
  have "may_open Admin (pathname req)" by (simp add: may_open_def)
  with Some show ?thesis
    by (cases r) (simp_all add: middleware_def gate_decision_def Let_def isAllowedPath_may_open)
qed

lemma middleware_next_iff: "middleware req = MwNext \<longleftrightarrow> mw_target (middleware req) = None"
  by (cases "middleware req") simp_all

lemma redirect_target_None_iff: "redirect_target d = None \<longleftrightarrow> d = Serve"
  by (cases d) simp_all

lemma middleware_home_served:
  assumes "cookie_or_empty req cookie_jwt \<noteq> []" "al_get (cookies req) cookie_role = Some (role_string r)"
    and "pathname req = roleHomePath r"
  shows "middleware req = MwNext"
  using assms middleware_target [of req] home_not_special [of r] may_open_home [of r]
  by (simp add: middleware_next_iff gate_decision_def)

section \<open>Properties\<close>

text \<open>
  C2: The page gate implements the abstract access control: for every request the
  middleware serves, sends to the login page or sends to the role's home page exactly as
  the decision on (session present, role, page) prescribes, where a page is the first
  segment of the path.
\<close>

theorem middleware_refines_gate:
  "mw_target (middleware req) =
     redirect_target (gate_decision (cookie_or_empty req cookie_jwt \<noteq> [])
       (normalizeRole (al_get (cookies req) cookie_role)) (pathname req))"
  by (rule middleware_target)

text \<open>
  Safety of the gate: a page that is neither under \<^verbatim>\<open>/api/\<close> nor the login page is served
  only to a request that carries a session token and a known role, and only when that role
  is admin or the page is in the role's page set.
\<close>

theorem middleware_serves_only_allowed:
  assumes served: "middleware req = MwNext"
    and page: "\<not> starts_with (pathname req) ''/api/''" "pathname req \<noteq> LOGIN_PATH"
  shows "cookie_or_empty req cookie_jwt \<noteq> [] \<and>
    (\<exists>r. normalizeRole (al_get (cookies req) cookie_role) = Some r \<and> may_open r (pathname req))"
proof -
  have "gate_decision (cookie_or_empty req cookie_jwt \<noteq> [])
      (normalizeRole (al_get (cookies req) cookie_role)) (pathname req) = Serve"
    using served middleware_target [of req] by (simp add: middleware_next_iff redirect_target_None_iff)
  with page show ?thesis
    by (auto simp: gate_decision_def split: if_splits option.splits)
qed

theorem middleware_serves_only_allowed_witness:
  "\<exists>req r. middleware req = MwNext \<and> normalizeRole (al_get (cookies req) cookie_role) = Some r
     \<and> may_open r ''/audit/today'' \<and> cookie_or_empty req cookie_jwt \<noteq> []"
proof -
  define req where "req = \<lparr>pathname = ''/audit/today'', searchParams = [], protocol = ''https:'',
    host = ''console'', cookies = [(''quoodle_jwt'', ''t''), (''quoodle_user_role'', '' Viewer'')],
    headers = [], reqText = []\<rparr>"
  have served: "middleware req = MwNext" unfolding req_def by code_simp
  have "\<not> starts_with (pathname req) ''/api/''" "pathname req \<noteq> LOGIN_PATH"
    by (simp_all add: req_def starts_with_def LOGIN_PATH_def)
  from middleware_serves_only_allowed [OF served this] served show ?thesis
    by (auto simp: req_def)
qed

text \<open>
  C30: Redirects settle: whatever page the gate redirects to is served when the browser
  follows the redirect with the same cookies, so the gate never produces a redirect loop.
\<close>

theorem middleware_redirect_settles:
  assumes "middleware req = MwRedirect p q"
  shows "middleware (req\<lparr>pathname := p, searchParams := q\<rparr>) = MwNext"
proof -
  let ?s = "cookie_or_empty req cookie_jwt \<noteq> []"
  let ?rl = "normalizeRole (al_get (cookies req) cookie_role)"
  have cookie: "cookie_or_empty (req\<lparr>pathname := p, searchParams := q\<rparr>) cookie_jwt = cookie_or_empty req cookie_jwt"
    by (simp add: cookie_or_empty_def)
  have "redirect_target (gate_decision ?s ?rl (pathname req)) = Some p"
    using assms middleware_target [of req] by simp
  then have "gate_decision ?s ?rl p = Serve"
    using home_not_api home_not_special may_open_home login_not_special
    by (auto simp: gate_decision_def split: if_splits option.splits)
  then show ?thesis
    using middleware_target [of "req\<lparr>pathname := p, searchParams := q\<rparr>"]
    by (simp add: middleware_next_iff cookie)
qed

theorem middleware_redirect_settles_witness:
  "\<exists>req p q. middleware req = MwRedirect p q \<and> p = ''/viewer-console''
     \<and> middleware (req\<lparr>pathname := p, searchParams := q\<rparr>) = MwNext"
proof -
  define req where "req = \<lparr>pathname = ''/settings'', searchParams = [(''tab'', ''roles'')], protocol = ''https:'',
    host = ''console'', cookies = [(''quoodle_jwt'', ''t''), (''quoodle_user_role'', ''user'')],
    headers = [], reqText = []\<rparr>"
  have r: "middleware req = MwRedirect ''/viewer-console'' [(''tab'', ''roles'')]" unfolding req_def by code_simp
  from middleware_redirect_settles [OF r] r show ?thesis by blast
qed

text \<open>
  Privileges grow with the role order viewer, operator, admin: apart from a role's own
  home console, every page a role may open is open to the higher roles.
\<close>

theorem may_open_mono:
  assumes "r \<le> s" and "may_open r path" and "page_of path \<noteq> page_of (roleHomePath r)"
  shows "may_open s path"
  using assms(1,2) assms(3) [unfolded page_of_home]
  by (cases r; cases s)
     (auto simp: may_open_def less_eq_user_role_def role_pages_def
       OPERATOR_ALLOWED_PREFIXES_def VIEWER_ALLOWED_PREFIXES_def)

theorem may_open_mono_witness:
  "Viewer \<le> Operator \<and> may_open Viewer ''/profile'' \<and> may_open Operator ''/profile''"
proof -
  have le: "Viewer \<le> Operator" by (simp add: less_eq_user_role_def)
  have v: "may_open Viewer ''/profile''" by code_simp
  have "page_of ''/profile'' \<noteq> page_of (roleHomePath Viewer)" by code_simp
  from may_open_mono [OF le v this] le v show ?thesis by simp
qed

end
