(* ===== verification/AuthShared.thy ===== *)
theory AuthShared
  imports Auth
begin

text \<open>
  \<^verbatim>\<open>src/app/api/auth/_shared.ts\<close>: where the control-plane API is, how the session cookies
  are read from an API payload and attached to or removed from a response.
  \<open>env\<close> is \<^verbatim>\<open>process.env\<close>.
\<close>

type_synonym env = "(string \<times> string) list"

section \<open>Definitions\<close>

text \<open>\<^verbatim>\<open>process.env.X ?? d\<close>.\<close>

definition env_or :: "env \<Rightarrow> string \<Rightarrow> string \<Rightarrow> string" where
  "env_or env k d = (case al_get env k of None \<Rightarrow> d | Some v \<Rightarrow> v)"

definition CONTROL_PLANE_API_URL :: "env \<Rightarrow> string" where
  "CONTROL_PLANE_API_URL env =
     env_or env ''CONTROL_PLANE_API_URL''
       (env_or env ''NEXT_PUBLIC_CONTROL_PLANE_API_URL'' ''http://localhost:8088/api'')"

definition envForcesSecureCookie :: "env \<Rightarrow> bool option" where
  "envForcesSecureCookie env =
     (let raw = to_lower (trim (env_or env ''AUTH_COOKIE_SECURE'' [])) in
      if raw = [] then None
      else if raw = ''1'' \<or> raw = ''true'' \<or> raw = ''yes'' \<or> raw = ''on'' then Some True
      else if raw = ''0'' \<or> raw = ''false'' \<or> raw = ''no'' \<or> raw = ''off'' then Some False
      else None)"

definition request_is_https :: "request \<Rightarrow> bool" where
  "request_is_https req \<longleftrightarrow>
     to_lower (case al_get (headers req) ''x-forwarded-proto'' of
       Some p \<Rightarrow> p | None \<Rightarrow> replace_first CHR '':'' [] (protocol req)) = ''https''"

definition shouldUseSecureCookies :: "env \<Rightarrow> request option \<Rightarrow> bool" where
  "shouldUseSecureCookies env request =
     (case envForcesSecureCookie env of
        Some forced \<Rightarrow> forced
      | None \<Rightarrow>
          (case request of
             Some req \<Rightarrow> request_is_https req
           | None \<Rightarrow> al_get env ''NODE_ENV'' = Some ''production''))"

definition controlPlaneApiUrl :: "env \<Rightarrow> string \<Rightarrow> string" where
  "controlPlaneApiUrl env path =
     (let normalized = (if starts_with path ''/'' then drop 1 path else path)
      in strip_trailing CHR ''/'' (CONTROL_PLANE_API_URL env) @ ''/'' @ normalized)"

record session_cookies =
  jwt :: string
  refreshToken :: string
  sessionId :: string

text \<open>The cookies of a login payload; \<open>Inr None\<close> when a part is missing or the role unknown.\<close>

definition authCookiesFromPayload :: "js \<Rightarrow> (session_cookies \<times> user_role) option res" where
  "authCookiesFromPayload payload =
     res_bind (str_member payload ''jwt'' []) (\<lambda>j.
     res_bind (str_member payload ''refresh_token'' []) (\<lambda>rt.
     res_bind (str_member payload ''session_id'' []) (\<lambda>sid.
     res_bind (str_member payload ''user_role'' []) (\<lambda>ur.
       Inr (if j = [] \<or> rt = [] \<or> sid = [] then None
            else map_option (\<lambda>rl. (\<lparr>jwt = j, refreshToken = rt, sessionId = sid\<rparr>, rl))
                   (normalizeRole (Some ur)))))))"

definition deriveDeviceFingerprint :: "request \<Rightarrow> string" where
  "deriveDeviceFingerprint req =
     (let userAgent = (case al_get (headers req) ''user-agent'' of Some s \<Rightarrow> s | None \<Rightarrow> ''unknown-agent'');
          forwardedFor = (case al_get (headers req) ''x-forwarded-for'' of Some s \<Rightarrow> s | None \<Rightarrow> ''unknown-ip'')
      in slice 0 255 (userAgent @ ''|'' @ forwardedFor))"

text \<open>
  The user of a \<^verbatim>\<open>/me\<close> payload. The fields are read as they come; a user needs an identifier,
  an e-mail address, a name (the address stands in for a blank one) and a known role.
\<close>

definition normalizeRole_js :: "js \<Rightarrow> user_role option res" where
  "normalizeRole_js v = res_bind (js_String (coalesce v (Str []))) (\<lambda>s. Inr (normalizeRole (Some s)))"

definition mapMePayload :: "js \<Rightarrow> auth_user option res" where
  "mapMePayload payload =
     res_bind (res_bind (js_member payload ''user_role'') normalizeRole_js) (\<lambda>rl.
     res_bind (str_member payload ''display_name'' []) (\<lambda>dn.
     res_bind (if trim dn \<noteq> [] then Inr (trim dn)
               else res_bind (str_member payload ''email'' []) (\<lambda>e. Inr (trim e))) (\<lambda>name.
       let uid = js_field payload ''user_id''; em = js_field payload ''email'' in
       Inr (case rl of None \<Rightarrow> None
         | Some r \<Rightarrow>
             if \<not> truthy uid \<or> \<not> truthy em \<or> name = [] then None
             else Some \<lparr>userId = uid, email = em, displayName = name, role = r,
                        twoFactorEnabled = Some (truthy (js_field payload ''two_factor_enabled''))\<rparr>))))"

definition session_cookie :: "string \<Rightarrow> string \<Rightarrow> bool \<Rightarrow> bool \<Rightarrow> cookie" where
  "session_cookie n v ho sec = \<lparr>cookieName = n, cookieValue = v, httpOnly = ho, sameSite = ''lax'',
     secure = sec, cookiePath = ''/'', maxAge = None\<rparr>"

text \<open>
  \<^verbatim>\<open>attachAuthCookies\<close> always has a role; \<^verbatim>\<open>attachTokenCookies\<close> sets the role cookie only when
  it is given one. The other three assignments are the same.
\<close>

definition attachTokenCookies ::
  "env \<Rightarrow> request option \<Rightarrow> session_cookies \<Rightarrow> user_role option \<Rightarrow> response \<Rightarrow> response" where
  "attachTokenCookies env request c orl r =
     (let sec = shouldUseSecureCookies env request;
          r1 = set_cookie (session_cookie cookie_jwt (jwt c) True sec) r;
          r2 = set_cookie (session_cookie cookie_refreshToken (refreshToken c) True sec) r1;
          r3 = set_cookie (session_cookie cookie_sessionId (sessionId c) True sec) r2
      in case orl of None \<Rightarrow> r3
         | Some rl \<Rightarrow> set_cookie (session_cookie cookie_role (role_string rl) False sec) r3)"

definition attachAuthCookies :: "env \<Rightarrow> request option \<Rightarrow> session_cookies \<Rightarrow> user_role \<Rightarrow> response \<Rightarrow> response" where
  "attachAuthCookies env request c rl r =
     (let sec = shouldUseSecureCookies env request;
          r1 = set_cookie (session_cookie cookie_jwt (jwt c) True sec) r;
          r2 = set_cookie (session_cookie cookie_refreshToken (refreshToken c) True sec) r1;
          r3 = set_cookie (session_cookie cookie_sessionId (sessionId c) True sec) r2
      in set_cookie (session_cookie cookie_role (role_string rl) False sec) r3)"

definition clearAuthCookies :: "response \<Rightarrow> response" where
  "clearAuthCookies r =
     delete_cookie cookie_role (delete_cookie cookie_sessionId
       (delete_cookie cookie_refreshToken (delete_cookie cookie_jwt r)))"

section \<open>Lemmas\<close>

lemma cookie_names_distinct [simp]:
  "cookie_jwt \<noteq> cookie_refreshToken" "cookie_jwt \<noteq> cookie_sessionId" "cookie_jwt \<noteq> cookie_role"
  "cookie_refreshToken \<noteq> cookie_sessionId" "cookie_refreshToken \<noteq> cookie_role" "cookie_sessionId \<noteq> cookie_role"
  "cookie_refreshToken \<noteq> cookie_jwt" "cookie_sessionId \<noteq> cookie_jwt" "cookie_role \<noteq> cookie_jwt"
  "cookie_sessionId \<noteq> cookie_refreshToken" "cookie_role \<noteq> cookie_refreshToken" "cookie_role \<noteq> cookie_sessionId"
  by (simp_all add: cookie_names)

lemma session_cookie_sel [simp]:
  "cookieName (session_cookie n v ho sec) = n" "cookieValue (session_cookie n v ho sec) = v"
  "httpOnly (session_cookie n v ho sec) = ho" "secure (session_cookie n v ho sec) = sec"
  by (simp_all add: session_cookie_def)

lemma set_cookie_sel [simp]:
  "status (set_cookie c r) = status r" "respBody (set_cookie c r) = respBody r"
  "respHeaders (set_cookie c r) = respHeaders r"
  "respCookies (set_cookie c r) = al_set (cookieName c) (SetCookie c) (respCookies r)"
  by (simp_all add: set_cookie_def)

lemma delete_cookie_sel [simp]:
  "status (delete_cookie n r) = status r" "respBody (delete_cookie n r) = respBody r"
  "respHeaders (delete_cookie n r) = respHeaders r"
  "respCookies (delete_cookie n r) = al_set n (DeleteCookie n) (respCookies r)"
  by (simp_all add: delete_cookie_def)

lemma json_response_sel [simp]:
  "status (json_response v s) = s" "respBody (json_response v s) = JsonBody v"
  "respHeaders (json_response v s) = []" "respCookies (json_response v s) = []"
  by (simp_all add: json_response_def)

lemma redirect_response_sel [simp]:
  "status (redirect_response u) = 307" "respBody (redirect_response u) = NoBody"
  "respHeaders (redirect_response u) = [(''location'', u)]" "respCookies (redirect_response u) = []"
  by (simp_all add: redirect_response_def)

lemma attachTokenCookies_sel [simp]:
  "status (attachTokenCookies env q c orl r) = status r" "respBody (attachTokenCookies env q c orl r) = respBody r"
  "respHeaders (attachTokenCookies env q c orl r) = respHeaders r"
  by (simp_all add: attachTokenCookies_def Let_def split: option.split)

lemma attachAuthCookies_sel [simp]:
  "status (attachAuthCookies env q c rl r) = status r" "respBody (attachAuthCookies env q c rl r) = respBody r"
  "respHeaders (attachAuthCookies env q c rl r) = respHeaders r"
  by (simp_all add: attachAuthCookies_def Let_def)

lemma clearAuthCookies_sel [simp]:
  "status (clearAuthCookies r) = status r" "respBody (clearAuthCookies r) = respBody r"
  "respHeaders (clearAuthCookies r) = respHeaders r"
  by (simp_all add: clearAuthCookies_def)

text \<open>The cookie operations on a fresh response, in order.\<close>

lemma clearAuthCookies_fresh:
  "respCookies r = [] \<Longrightarrow> map snd (respCookies (clearAuthCookies r)) =
     [DeleteCookie cookie_jwt, DeleteCookie cookie_refreshToken, DeleteCookie cookie_sessionId, DeleteCookie cookie_role]"
  by (simp add: clearAuthCookies_def)

lemma attachTokenCookies_fresh:
  "respCookies r = [] \<Longrightarrow> map snd (respCookies (attachTokenCookies env q c orl r)) =
     (let sec = shouldUseSecureCookies env q in
      [SetCookie (session_cookie cookie_jwt (jwt c) True sec),
       SetCookie (session_cookie cookie_refreshToken (refreshToken c) True sec),
       SetCookie (session_cookie cookie_sessionId (sessionId c) True sec)] @
      (case orl of None \<Rightarrow> []
       | Some rl \<Rightarrow> [SetCookie (session_cookie cookie_role (role_string rl) False sec)]))"
  by (simp add: attachTokenCookies_def Let_def split: option.split)

lemma attachAuthCookies_fresh:
  "respCookies r = [] \<Longrightarrow> map snd (respCookies (attachAuthCookies env q c rl r)) =
     (let sec = shouldUseSecureCookies env q in
      [SetCookie (session_cookie cookie_jwt (jwt c) True sec),
       SetCookie (session_cookie cookie_refreshToken (refreshToken c) True sec),
       SetCookie (session_cookie cookie_sessionId (sessionId c) True sec),
       SetCookie (session_cookie cookie_role (role_string rl) False sec)])"
  by (simp add: attachAuthCookies_def Let_def)

lemma browser_after_clear:
  "respCookies r = [] \<Longrightarrow> al_get (browser_after (clearAuthCookies r) jar) n =
     (if n \<in> {cookie_jwt, cookie_refreshToken, cookie_sessionId, cookie_role} then None else al_get jar n)"
  by (auto simp: browser_after_def clearAuthCookies_fresh)

lemma browser_after_attachToken:
  "respCookies r = [] \<Longrightarrow> al_get (browser_after (attachTokenCookies env q c orl r) jar) n =
     (if n = cookie_jwt then Some (jwt c)
      else if n = cookie_refreshToken then Some (refreshToken c)
      else if n = cookie_sessionId then Some (sessionId c)
      else if n = cookie_role \<and> orl \<noteq> None then Some (role_string (the orl))
      else al_get jar n)"
  by (auto simp: browser_after_def attachTokenCookies_fresh Let_def split: option.split)

lemma browser_after_attachAuth:
  "respCookies r = [] \<Longrightarrow> al_get (browser_after (attachAuthCookies env q c rl r) jar) n =
     (if n = cookie_jwt then Some (jwt c)
      else if n = cookie_refreshToken then Some (refreshToken c)
      else if n = cookie_sessionId then Some (sessionId c)
      else if n = cookie_role then Some (role_string rl)
      else al_get jar n)"
  by (simp add: browser_after_def attachAuthCookies_fresh Let_def)

lemma authCookiesFromPayload_Some:
  assumes "authCookiesFromPayload payload = Inr (Some (c, rl))"
  shows "jwt c \<noteq> [] \<and> refreshToken c \<noteq> [] \<and> sessionId c \<noteq> []"
  using assms
  by (auto simp: authCookiesFromPayload_def res_bind_Inr_iff split: if_splits)

end
