(* ===== verification/Proxy.thy ===== *)
theory Proxy
  imports AuthShared
begin

text \<open>
  \<^verbatim>\<open>src/app/api/devices/_shared.ts\<close>: the authenticated proxy every route of the console goes
  through. It forwards a request with the session's token, refreshes the token once when the
  API answers 401, and keeps the browser's cookies in step.
\<close>

section \<open>Definitions\<close>

record refreshed_tokens =
  newJwt :: string
  newRefreshToken :: string

definition refresh_request :: "env \<Rightarrow> string \<Rightarrow> api_request" where
  "refresh_request env token =
     \<lparr>apiUrl = controlPlaneApiUrl env ''/token/refresh'', apiMethod = ''POST'',
      apiHeaders = [(''Content-Type'', ''application/json'')],
      apiBody = json_body [(''refresh_token'', Str token)]\<rparr>"

definition refreshJwt :: "env \<Rightarrow> upstream \<Rightarrow> string \<Rightarrow> refreshed_tokens option io" where
  "refreshJwt env up token =
     io_bind (fetch up (refresh_request env token)) (\<lambda>response.
       if \<not> resp_ok (apiStatus response) then io_return None
       else let payload = json_or response (Obj []) in
         io_bind (io_lift (str_member payload ''jwt'' [])) (\<lambda>j.
         io_bind (io_lift (str_member payload ''refresh_token'' [])) (\<lambda>rt.
           io_return (if j = [] \<or> rt = [] then None
                      else Some \<lparr>newJwt = j, newRefreshToken = rt\<rparr>))))"

record proxy_options =
  optMethod :: "string option"
  optBody :: "string option"
  optHeaders :: "(string \<times> string) list"

definition non_blank :: "js \<Rightarrow> string option" where
  "non_blank v = (case v of Str s \<Rightarrow> if trim s \<noteq> [] then Some s else None | _ \<Rightarrow> None)"

definition extractPayloadMessage :: "js \<Rightarrow> string option" where
  "extractPayloadMessage payload =
     (case payload of
        Obj m \<Rightarrow>
          (case non_blank (obj_get m ''message'') of
             Some s \<Rightarrow> Some s
           | None \<Rightarrow> (case obj_get m ''error'' of
                Obj e \<Rightarrow> non_blank (obj_get e ''message'') | _ \<Rightarrow> None))
      | _ \<Rightarrow> None)"

definition readUpstreamPayload :: "api_response \<Rightarrow> js" where
  "readUpstreamPayload response =
     (let contentType = (case al_get (apiRespHeaders response) ''content-type'' of Some s \<Rightarrow> s | None \<Rightarrow> []) in
      if str_includes (to_lower contentType) ''application/json'' then json_or response Null
      else let text = text_or_empty response in
           if trim text = [] then Null else Obj [(''message'', Str text)])"

definition authed_request :: "env \<Rightarrow> string \<Rightarrow> proxy_options \<Rightarrow> string \<Rightarrow> api_request" where
  "authed_request env path opts token =
     \<lparr>apiUrl = controlPlaneApiUrl env path,
      apiMethod = (case optMethod opts of None \<Rightarrow> ''GET'' | Some m \<Rightarrow> m),
      apiHeaders = spread [(''Authorization'', ''Bearer '' @ token), (''Accept'', ''application/json'')] (optHeaders opts),
      apiBody = optBody opts\<rparr>"

definition unauthenticated :: response where
  "unauthenticated = clearAuthCookies (json_response (Obj [(''message'', Str ''unauthenticated'')]) 401)"

text \<open>The tokens in force after the first answer, and whether they were refreshed.\<close>

record active_session =
  activeJwt :: string
  activeRefreshToken :: string
  didRefresh :: bool

text \<open>
  The part the two proxies share: send the request built from a token; on 401, with a refresh
  token and a session, refresh and send it once more.
\<close>

definition send_with_refresh ::
  "env \<Rightarrow> upstream \<Rightarrow> string \<Rightarrow> string \<Rightarrow> string \<Rightarrow> (string \<Rightarrow> api_request) \<Rightarrow> (api_response \<times> active_session) io" where
  "send_with_refresh env up j rt sid mk =
     io_bind (fetch up (mk j)) (\<lambda>first.
       let start = \<lparr>activeJwt = j, activeRefreshToken = rt, didRefresh = False\<rparr> in
       if apiStatus first = 401 \<and> rt \<noteq> [] \<and> sid \<noteq> [] then
         io_bind (refreshJwt env up rt) (\<lambda>refreshed.
           case refreshed of None \<Rightarrow> io_return (first, start)
           | Some t \<Rightarrow>
               io_bind (fetch up (mk (newJwt t))) (\<lambda>second.
                 io_return (second, \<lparr>activeJwt = newJwt t, activeRefreshToken = newRefreshToken t, didRefresh = True\<rparr>)))
       else io_return (first, start))"

definition normalized_payload :: "js \<Rightarrow> js" where
  "normalized_payload payload =
     (case payload of
        Obj m \<Rightarrow> (case extractPayloadMessage payload of
            Some msg \<Rightarrow> Obj (spread m [(''message'', Str msg)]) | None \<Rightarrow> payload)
      | _ \<Rightarrow> coalesce payload (Obj [(''message'', Str ''upstream_error'')]))"

definition payload_role :: "js \<Rightarrow> user_role option res" where
  "payload_role payload =
     (case payload of
        Obj m \<Rightarrow> res_bind (js_String (coalesce (obj_get m ''user_role'') (Str []))) (\<lambda>s. Inr (normalizeRole (Some s)))
      | _ \<Rightarrow> Inr None)"

definition proxyAuthedRequest :: "env \<Rightarrow> upstream \<Rightarrow> request \<Rightarrow> string \<Rightarrow> proxy_options \<Rightarrow> response io" where
  "proxyAuthedRequest env up request path opts =
     (let j = cookie_or_empty request cookie_jwt;
          rt = cookie_or_empty request cookie_refreshToken;
          sid = cookie_or_empty request cookie_sessionId;
          rl = normalizeRole (al_get (cookies request) cookie_role)
      in if j = [] then io_return unauthenticated
         else
           io_bind (send_with_refresh env up j rt sid (authed_request env path opts)) (\<lambda>(upstreamResponse, act).
             if apiStatus upstreamResponse = 401 then io_return unauthenticated
             else let payload = readUpstreamPayload upstreamResponse
               in io_bind (io_lift (response_init (json_response (normalized_payload payload)
                      (if truthy payload then apiStatus upstreamResponse else 502)))) (\<lambda>response.
                  io_bind (io_lift (payload_role payload)) (\<lambda>payloadRole.
                    let effectiveRole = (case payloadRole of Some r \<Rightarrow> Some r | None \<Rightarrow> rl) in
                    io_return
                      (if (didRefresh act \<or> payloadRole \<noteq> None) \<and> activeRefreshToken act \<noteq> [] \<and> sid \<noteq> []
                       then attachTokenCookies env None
                              \<lparr>jwt = activeJwt act, refreshToken = activeRefreshToken act, sessionId = sid\<rparr> effectiveRole response
                       else response)))))"

definition proxyAuthedGet :: "env \<Rightarrow> upstream \<Rightarrow> request \<Rightarrow> string \<Rightarrow> response io" where
  "proxyAuthedGet env up request path =
     proxyAuthedRequest env up request path \<lparr>optMethod = Some ''GET'', optBody = None, optHeaders = []\<rparr>"

definition binary_request :: "env \<Rightarrow> string \<Rightarrow> string \<Rightarrow> api_request" where
  "binary_request env path token =
     \<lparr>apiUrl = controlPlaneApiUrl env path, apiMethod = ''GET'',
      apiHeaders = [(''Authorization'', ''Bearer '' @ token)], apiBody = None\<rparr>"

text \<open>Headers copied from the API's answer when they are present and not empty.\<close>

definition copied_headers :: "api_response \<Rightarrow> (string \<times> string) list" where
  "copied_headers r =
     concat (map (\<lambda>n. case al_get (apiRespHeaders r) n of None \<Rightarrow> []
       | Some v \<Rightarrow> if v = [] then [] else [(n, v)]) [''content-type'', ''content-disposition'', ''cache-control''])"

text \<open>
  \<^verbatim>\<open>arrayBuffer()\<close> rejects when the body cannot be read. Here a refresh alone decides whether
  the cookies are attached.
\<close>

definition proxyAuthedBinaryGet :: "env \<Rightarrow> upstream \<Rightarrow> request \<Rightarrow> string \<Rightarrow> response io" where
  "proxyAuthedBinaryGet env up request path =
     (let j = cookie_or_empty request cookie_jwt;
          rt = cookie_or_empty request cookie_refreshToken;
          sid = cookie_or_empty request cookie_sessionId;
          rl = normalizeRole (al_get (cookies request) cookie_role)
      in if j = [] then io_return unauthenticated
         else
           io_bind (send_with_refresh env up j rt sid (binary_request env path)) (\<lambda>(upstreamResponse, act).
             if apiStatus upstreamResponse = 401 then io_return unauthenticated
             else case apiText upstreamResponse of None \<Rightarrow> io_lift (Inl FetchRejected)
               | Some body \<Rightarrow>
                   io_bind (io_lift (response_init
                     \<lparr>status = apiStatus upstreamResponse, respBody = BytesBody body,
                      respHeaders = copied_headers upstreamResponse, respCookies = []\<rparr>)) (\<lambda>response.
                     io_return
                      (if didRefresh act \<and> activeRefreshToken act \<noteq> [] \<and> sid \<noteq> []
                       then attachTokenCookies env None
                              \<lparr>jwt = activeJwt act, refreshToken = activeRefreshToken act, sessionId = sid\<rparr> rl response
                       else response))))"

section \<open>The exchange with the API\<close>

lemma refreshJwt_log: "snd (refreshJwt env up rt l) = l @ [refresh_request env rt]"
  by (simp add: refreshJwt_def io_bind_apply fetch_apply Let_def split: option.split sum.split)

lemma refreshJwt_Some:
  assumes "fst (refreshJwt env up rt l) = Inr (Some t)"
  shows "newJwt t \<noteq> [] \<and> newRefreshToken t \<noteq> []"
  using assms
  by (auto simp: refreshJwt_def io_bind_apply fetch_apply Let_def split: option.splits sum.splits if_splits)

text \<open>
  The three ways the exchange goes on: the first answer stands, or the refresh gives nothing,
  or the request is sent again with the new token.
\<close>

definition refreshes :: "upstream \<Rightarrow> api_request \<Rightarrow> string \<Rightarrow> string \<Rightarrow> api_request list \<Rightarrow> bool" where
  "refreshes up q rt sid l \<longleftrightarrow> rt \<noteq> [] \<and> sid \<noteq> [] \<and> (\<exists>a. up l q = Some a \<and> apiStatus a = 401)"

lemma send_with_refresh_cases:
  obtains (direct) "\<not> refreshes up (mk j) rt sid l"
      "send_with_refresh env up j rt sid mk l =
         (case up l (mk j) of None \<Rightarrow> Inl FetchRejected
          | Some a \<Rightarrow> Inr (a, \<lparr>activeJwt = j, activeRefreshToken = rt, didRefresh = False\<rparr>), l @ [mk j])"
  | (failed) e where "refreshes up (mk j) rt sid l"
      "fst (refreshJwt env up rt (l @ [mk j])) = Inl e"
      "send_with_refresh env up j rt sid mk l = (Inl e, l @ [mk j, refresh_request env rt])"
  | (refused) a where "refreshes up (mk j) rt sid l" "up l (mk j) = Some a" "apiStatus a = 401"
      "fst (refreshJwt env up rt (l @ [mk j])) = Inr None"
      "send_with_refresh env up j rt sid mk l =
         (Inr (a, \<lparr>activeJwt = j, activeRefreshToken = rt, didRefresh = False\<rparr>), l @ [mk j, refresh_request env rt])"
  | (retried) t where "refreshes up (mk j) rt sid l"
      "fst (refreshJwt env up rt (l @ [mk j])) = Inr (Some t)"
      "send_with_refresh env up j rt sid mk l =
         (case up (l @ [mk j, refresh_request env rt]) (mk (newJwt t)) of None \<Rightarrow> Inl FetchRejected
          | Some a \<Rightarrow> Inr (a, \<lparr>activeJwt = newJwt t, activeRefreshToken = newRefreshToken t, didRefresh = True\<rparr>),
          l @ [mk j, refresh_request env rt, mk (newJwt t)])"
proof (cases "refreshes up (mk j) rt sid l")
  case False
  then show thesis
    by (intro direct) (auto simp: send_with_refresh_def refreshes_def io_bind_apply fetch_apply Let_def split: option.split)
next
  case True
  then obtain a where a: "up l (mk j) = Some a" "apiStatus a = 401" "rt \<noteq> []" "sid \<noteq> []"
    by (auto simp: refreshes_def)
  obtain r where r: "refreshJwt env up rt (l @ [mk j]) = (r, l @ [mk j, refresh_request env rt])"
    using refreshJwt_log [of env up rt "l @ [mk j]"] by (cases "refreshJwt env up rt (l @ [mk j])") simp
  have run: "send_with_refresh env up j rt sid mk l =
      (case r of Inl e \<Rightarrow> (Inl e, l @ [mk j, refresh_request env rt])
       | Inr None \<Rightarrow> (Inr (a, \<lparr>activeJwt = j, activeRefreshToken = rt, didRefresh = False\<rparr>), l @ [mk j, refresh_request env rt])
       | Inr (Some t) \<Rightarrow>
          (case up (l @ [mk j, refresh_request env rt]) (mk (newJwt t)) of None \<Rightarrow> Inl FetchRejected
           | Some a \<Rightarrow> Inr (a, \<lparr>activeJwt = newJwt t, activeRefreshToken = newRefreshToken t, didRefresh = True\<rparr>),
           l @ [mk j, refresh_request env rt, mk (newJwt t)]))"
    using a by (simp add: send_with_refresh_def io_bind_apply fetch_apply r Let_def split: option.split sum.split)
  show thesis
  proof (cases r)
    case (Inl e) with True r run show thesis by (intro failed) auto
  next
    case (Inr o') with True r run a show thesis by (cases o') (auto intro: refused retried)
  qed
qed

lemma authorization_sent: "al_get (apiHeaders (authed_request env path opts j)) ''Authorization'' \<noteq> None"
  by (simp add: authed_request_def al_get_spread_left)

lemma requests_differ [simp]:
  "authed_request env path opts j \<noteq> refresh_request env rt"
  "binary_request env path j \<noteq> refresh_request env rt"
  using authorization_sent [of env path opts j] by (auto simp: refresh_request_def binary_request_def)

section \<open>Sessions over many requests\<close>

text \<open>
  The API keeps one refresh token per session and replaces it at every refresh. The token in
  force after the requests \<open>qs\<close> (sent after \<open>l\<close>) when it was \<open>rt\<close> before them:
\<close>

fun current_token :: "env \<Rightarrow> upstream \<Rightarrow> string \<Rightarrow> api_request list \<Rightarrow> api_request list \<Rightarrow> string" where
  "current_token env up rt l [] = rt"
| "current_token env up rt l (q # qs) =
     current_token env up
       (if q = refresh_request env rt
        then (case fst (refreshJwt env up rt l) of Inr (Some t) \<Rightarrow> newRefreshToken t | _ \<Rightarrow> rt)
        else rt) (l @ [q]) qs"

lemma current_token_append:
  "current_token env up rt l (qs @ qs') =
     current_token env up (current_token env up rt l qs) (l @ qs) qs'"
  by (induction qs arbitrary: rt l) simp_all

text \<open>
  A browser follows the session when it is signed out or holds the token in force.
\<close>

definition token_follows ::
  "env \<Rightarrow> upstream \<Rightarrow> api_request list \<Rightarrow> api_request list \<Rightarrow> string option \<Rightarrow> string option \<Rightarrow> bool" where
  "token_follows env up l qs before after \<longleftrightarrow>
     after = None \<or> (\<exists>rt. before = Some rt \<and> after = Some (current_token env up rt l qs))"

lemma token_follows_refl: "token_follows env up l [] a a"
  by (cases a) (simp_all add: token_follows_def)

lemma token_follows_trans:
  "token_follows env up l qs a b \<Longrightarrow> token_follows env up (l @ qs) qs' b c \<Longrightarrow> token_follows env up l (qs @ qs') a c"
  by (auto simp: token_follows_def current_token_append)

text \<open>
  A browser works through handlers of \<open>H\<close>: each request carries the jar, each response updates it.
  A handler that rejects leaves the jar as it was, and the requests it sent stay sent.
\<close>

inductive browses :: "(request \<Rightarrow> response io) set \<Rightarrow> (string \<times> string) list \<times> api_request list
    \<Rightarrow> (string \<times> string) list \<times> api_request list \<Rightarrow> bool" for H where
  start: "browses H s s"
| answered: "browses H s (jar, l) \<Longrightarrow> h \<in> H \<Longrightarrow> cookies req = jar \<Longrightarrow> h req l = (Inr resp, l') \<Longrightarrow>
     browses H s (browser_after resp jar, l')"
| rejected: "browses H s (jar, l) \<Longrightarrow> h \<in> H \<Longrightarrow> cookies req = jar \<Longrightarrow> h req l = (Inl e, l') \<Longrightarrow>
     browses H s (jar, l')"

text \<open>
  The one way to fall behind: on the way from \<open>s\<close> to \<open>s'\<close> a handler rejected after the API had
  replaced the refresh token of the jar.
\<close>

definition rejected_after_refresh :: "env \<Rightarrow> upstream \<Rightarrow> (request \<Rightarrow> response io) set \<Rightarrow>
    (string \<times> string) list \<times> api_request list \<Rightarrow> (string \<times> string) list \<times> api_request list \<Rightarrow> bool" where
  "rejected_after_refresh env up H s s' \<longleftrightarrow>
     (\<exists>jar l h req e qs rt. browses H s (jar, l) \<and> h \<in> H \<and> cookies req = jar \<and> h req l = (Inl e, l @ qs) \<and>
        al_get jar cookie_refreshToken = Some rt \<and> current_token env up rt l qs \<noteq> rt \<and> browses H (jar, l @ qs) s')"

lemma rejected_after_refreshI:
  assumes "browses H s (jar, l)" "h \<in> H" "cookies req = jar" "h req l = (Inl e, l @ qs)"
    and "al_get jar cookie_refreshToken = Some rt" "current_token env up rt l qs \<noteq> rt" "browses H (jar, l @ qs) s'"
  shows "rejected_after_refresh env up H s s'"
  unfolding rejected_after_refresh_def using assms by (intro exI conjI)

lemma rejected_after_refresh_goes_on:
  assumes "rejected_after_refresh env up H s s'" "\<And>s0. browses H s0 s' \<Longrightarrow> browses H s0 s''"
  shows "rejected_after_refresh env up H s s''"
  using assms(1) unfolding rejected_after_refresh_def [of env up H s s']
  by (elim exE conjE) (rule rejected_after_refreshI, assumption+, rule assms(2))

definition session_cookie_names :: "string list" where
  "session_cookie_names = [cookie_jwt, cookie_refreshToken, cookie_sessionId, cookie_role]"

text \<open>
  What a set of handlers promises about the session: a response leaves the browser with
  the token in force or signed out, and a 401 removes the session cookies.
\<close>

locale session_handlers =
  fixes env :: env and up :: upstream and H :: "(request \<Rightarrow> response io) set"
  assumes follows: "h \<in> H \<Longrightarrow> h req l = (Inr resp, l') \<Longrightarrow>
      \<exists>qs. l' = l @ qs \<and> token_follows env up l qs (al_get (cookies req) cookie_refreshToken)
        (al_get (browser_after resp (cookies req)) cookie_refreshToken)"
    and appends: "h \<in> H \<Longrightarrow> h req l = (Inl e, l') \<Longrightarrow> \<exists>qs. l' = l @ qs"
    and signs_out: "h \<in> H \<Longrightarrow> h req l = (Inr resp, l') \<Longrightarrow> status resp = 401 \<Longrightarrow>
      n \<in> set session_cookie_names \<Longrightarrow> al_get (browser_after resp jar) n = None"
begin

lemma rejected_keeps_or_loses:
  assumes run: "browses H s (jar, l)" "h \<in> H" "cookies req = jar" "h req l = (Inl e, l @ qs)"
  shows "token_follows env up l qs (al_get jar cookie_refreshToken) (al_get jar cookie_refreshToken) \<or>
    rejected_after_refresh env up H s (jar, l @ qs)"
proof (cases "al_get jar cookie_refreshToken")
  case (Some rt)
  show ?thesis
  proof (cases "current_token env up rt l qs = rt")
    case True
    with Some show ?thesis by (simp add: token_follows_def)
  next
    case False
    show ?thesis by (rule disjI2, rule rejected_after_refreshI [OF run Some False browses.start])
  qed
qed (simp add: token_follows_def)

lemma browses_follows:
  assumes "browses H s s'"
  shows "(\<exists>qs. snd s' = snd s @ qs \<and>
      token_follows env up (snd s) qs (al_get (fst s) cookie_refreshToken) (al_get (fst s') cookie_refreshToken)) \<or>
    rejected_after_refresh env up H s s'"
  using assms
proof (induction)
  case (start s)
  then show ?case by (auto intro: token_follows_refl)
next
  case (answered s jar l h req resp l')
  from follows [OF answered.hyps(2,4)] answered.hyps(3) obtain qs' where 2: "l' = l @ qs'"
    "token_follows env up l qs' (al_get jar cookie_refreshToken) (al_get (browser_after resp jar) cookie_refreshToken)"
    by auto
  from answered.IH show ?case
  proof
    assume "\<exists>qs. snd (jar, l) = snd s @ qs \<and>
      token_follows env up (snd s) qs (al_get (fst s) cookie_refreshToken) (al_get (fst (jar, l)) cookie_refreshToken)"
    with 2 token_follows_trans show ?thesis by fastforce
  next
    assume "rejected_after_refresh env up H s (jar, l)"
    then show ?thesis by (rule disjI2 [OF rejected_after_refresh_goes_on]) (rule browses.answered [OF _ answered.hyps(2-4)])
  qed
next
  case (rejected s jar l h req e l')
  obtain qs' where l': "l' = l @ qs'" using appends [OF rejected.hyps(2,4)] by blast
  from rejected.IH show ?case
  proof
    assume "\<exists>qs. snd (jar, l) = snd s @ qs \<and>
      token_follows env up (snd s) qs (al_get (fst s) cookie_refreshToken) (al_get (fst (jar, l)) cookie_refreshToken)"
    with l' token_follows_trans rejected_keeps_or_loses [OF rejected.hyps(1-3) rejected.hyps(4) [unfolded l']]
    show ?thesis by fastforce
  next
    assume "rejected_after_refresh env up H s (jar, l)"
    then show ?thesis by (rule disjI2 [OF rejected_after_refresh_goes_on]) (rule browses.rejected [OF _ rejected.hyps(2-4)])
  qed
qed

lemma stays_signed_out:
  assumes "browses H s s'" "al_get (fst s) cookie_refreshToken = None"
  shows "al_get (fst s') cookie_refreshToken = None"
  using assms
proof (induction)
  case (answered s jar l h req resp l')
  from follows [OF answered.hyps(2,4)] answered.hyps(3) answered.IH [OF answered.prems] show ?case
    by (auto simp: token_follows_def)
qed simp_all

text \<open>A 401 anywhere on the way leaves the browser without the session for good.\<close>

lemma refused_ends_session:
  assumes "h \<in> H" "h req l = (Inr resp, l')" "status resp = 401"
    and "browses H (browser_after resp jar, l') s'"
  shows "al_get (fst s') cookie_refreshToken = None"
  using stays_signed_out [OF assms(4)] signs_out [OF assms(1-3)] by (simp add: session_cookie_names_def)

end

section \<open>The two proxies keep the contract\<close>

text \<open>The response a proxy builds from an exchange: bare, or with the session's cookies.\<close>

definition carries_session :: "env \<Rightarrow> string \<Rightarrow> active_session \<Rightarrow> response \<Rightarrow> response \<Rightarrow> bool" where
  "carries_session env sid act bare resp \<longleftrightarrow>
     (activeRefreshToken act \<noteq> [] \<and>
        (\<exists>rl. resp = attachTokenCookies env None \<lparr>jwt = activeJwt act, refreshToken = activeRefreshToken act,
          sessionId = sid\<rparr> rl bare)) \<or>
     resp = bare \<and> (didRefresh act \<longrightarrow> activeRefreshToken act = [] \<or> sid = [])"

abbreviation session_exchange ::
  "env \<Rightarrow> upstream \<Rightarrow> request \<Rightarrow> (string \<Rightarrow> api_request) \<Rightarrow> (api_response \<times> active_session) io" where
  "session_exchange env up req mk \<equiv>
     send_with_refresh env up (cookie_or_empty req cookie_jwt) (cookie_or_empty req cookie_refreshToken)
       (cookie_or_empty req cookie_sessionId) mk"

lemma carries_session_if:
  assumes "didRefresh act \<Longrightarrow> b"
  shows "carries_session env sid act bare
    (if b \<and> activeRefreshToken act \<noteq> [] \<and> sid \<noteq> []
     then attachTokenCookies env None \<lparr>jwt = activeJwt act, refreshToken = activeRefreshToken act,
            sessionId = sid\<rparr> rl bare
     else bare)"
  using assms by (auto simp: carries_session_def)

lemma proxyAuthedRequest_Inr:
  assumes "proxyAuthedRequest env up req path opts l = (Inr resp, l')"
  obtains (no_token) "cookie_or_empty req cookie_jwt = []" "resp = unauthenticated" "l' = l"
  | (refused) a act where "cookie_or_empty req cookie_jwt \<noteq> []" "apiStatus a = 401" "resp = unauthenticated"
      "session_exchange env up req (authed_request env path opts) l = (Inr (a, act), l')"
  | (answered) a act bare where "cookie_or_empty req cookie_jwt \<noteq> []" "apiStatus a \<noteq> 401"
      "session_exchange env up req (authed_request env path opts) l = (Inr (a, act), l')"
      "bare = json_response (normalized_payload (readUpstreamPayload a))
        (if truthy (readUpstreamPayload a) then apiStatus a else 502)"
      "carries_session env (cookie_or_empty req cookie_sessionId) act bare resp"
proof (cases "cookie_or_empty req cookie_jwt = []")
  case True with assms show thesis by (intro no_token) (auto simp: proxyAuthedRequest_def)
next
  case False
  with assms obtain a act l1 where
    ex: "session_exchange env up req (authed_request env path opts) l = (Inr (a, act), l1)"
    by (auto simp: proxyAuthedRequest_def Let_def io_bind_Inr_iff)
  show thesis
  proof (cases "apiStatus a = 401")
    case True with assms ex False show thesis by (intro refused) (auto simp: proxyAuthedRequest_def Let_def)
  next
    case n401: False
    let ?bare = "json_response (normalized_payload (readUpstreamPayload a))
        (if truthy (readUpstreamPayload a) then apiStatus a else 502)"
    from assms ex False n401 obtain pr where "l' = l1" and
      "resp = (if (didRefresh act \<or> pr \<noteq> None) \<and> activeRefreshToken act \<noteq> [] \<and> cookie_or_empty req cookie_sessionId \<noteq> []
         then attachTokenCookies env None \<lparr>jwt = activeJwt act, refreshToken = activeRefreshToken act,
            sessionId = cookie_or_empty req cookie_sessionId\<rparr> ((case pr of Some r \<Rightarrow> Some r | None \<Rightarrow> normalizeRole (al_get (cookies req) cookie_role))) ?bare
         else ?bare)"
      by (simp add: proxyAuthedRequest_def Let_def io_bind_Inr_iff response_init_Inr_iff) metis
    then show thesis
      using answered [OF False n401 _ refl] ex by (simp add: carries_session_if)
  qed
qed

lemma proxyAuthedBinaryGet_Inr:
  assumes "proxyAuthedBinaryGet env up req path l = (Inr resp, l')"
  obtains (no_token) "cookie_or_empty req cookie_jwt = []" "resp = unauthenticated" "l' = l"
  | (refused) a act where "cookie_or_empty req cookie_jwt \<noteq> []" "apiStatus a = 401" "resp = unauthenticated"
      "session_exchange env up req (binary_request env path) l = (Inr (a, act), l')"
  | (answered) a act body bare where "cookie_or_empty req cookie_jwt \<noteq> []" "apiStatus a \<noteq> 401"
      "session_exchange env up req (binary_request env path) l = (Inr (a, act), l')"
      "apiText a = Some body"
      "bare = \<lparr>status = apiStatus a, respBody = BytesBody body, respHeaders = copied_headers a, respCookies = []\<rparr>"
      "carries_session env (cookie_or_empty req cookie_sessionId) act bare resp"
proof (cases "cookie_or_empty req cookie_jwt = []")
  case True with assms show thesis by (intro no_token) (auto simp: proxyAuthedBinaryGet_def)
next
  case False
  with assms obtain a act l1 where
    ex: "session_exchange env up req (binary_request env path) l = (Inr (a, act), l1)"
    by (auto simp: proxyAuthedBinaryGet_def Let_def io_bind_Inr_iff)
  show thesis
  proof (cases "apiStatus a = 401")
    case True with assms ex False show thesis by (intro refused) (auto simp: proxyAuthedBinaryGet_def Let_def)
  next
    case n401: False
    from assms ex False n401 obtain body where body: "apiText a = Some body"
      by (cases "apiText a") (auto simp: proxyAuthedBinaryGet_def Let_def)
    let ?bare = "\<lparr>status = apiStatus a, respBody = BytesBody body, respHeaders = copied_headers a, respCookies = []\<rparr>"
    from assms ex False n401 body have "l' = l1" and
      "resp = (if didRefresh act \<and> activeRefreshToken act \<noteq> [] \<and> cookie_or_empty req cookie_sessionId \<noteq> []
         then attachTokenCookies env None \<lparr>jwt = activeJwt act, refreshToken = activeRefreshToken act,
            sessionId = cookie_or_empty req cookie_sessionId\<rparr> (normalizeRole (al_get (cookies req) cookie_role)) ?bare
         else ?bare)"
      by (simp_all add: proxyAuthedBinaryGet_def Let_def io_bind_Inr_iff response_init_Inr_iff)
    then show thesis
      using answered [OF False n401 _ body refl] ex by (simp add: carries_session_if)
  qed
qed

lemma exchange_token:
  assumes ex: "send_with_refresh env up j rt sid mk l = (Inr (a, act), l')"
    and mk: "\<And>t tok. mk t \<noteq> refresh_request env tok"
  obtains qs where "l' = l @ qs" "activeRefreshToken act = current_token env up rt l qs"
    "didRefresh act \<Longrightarrow> rt \<noteq> [] \<and> sid \<noteq> [] \<and> activeRefreshToken act \<noteq> [] \<and> activeJwt act \<noteq> []"
    "\<not> didRefresh act \<Longrightarrow> activeRefreshToken act = rt \<and> activeJwt act = j"
proof (cases rule: send_with_refresh_cases [of up mk j rt sid l env])
  case direct
  with ex mk show thesis by (intro that [of "[mk j]"]) (auto split: option.splits)
next
  case (failed e)
  with ex show thesis by simp
next
  case (refused b)
  with ex mk show thesis by (intro that [of "[mk j, refresh_request env rt]"]) auto
next
  case (retried t)
  with ex mk refreshJwt_Some [OF retried(2)] show thesis
    by (intro that [of "[mk j, refresh_request env rt, mk (newJwt t)]"])
      (auto simp: refreshes_def split: option.splits)
qed

lemma browser_after_bare: "respCookies r = [] \<Longrightarrow> browser_after r jar = jar"
  by (simp add: browser_after_def)

lemma cookie_or_empty_get: "cookie_or_empty req n \<noteq> [] \<Longrightarrow> al_get (cookies req) n = Some (cookie_or_empty req n)"
  by (simp add: cookie_or_empty_def split: option.splits)

lemma carries_session_follows:
  assumes ex: "session_exchange env up req mk l = (Inr (a, act), l')"
    and mk: "\<And>t tok. mk t \<noteq> refresh_request env tok"
    and carries: "carries_session env (cookie_or_empty req cookie_sessionId) act bare resp"
    and bare: "respCookies bare = []"
  shows "\<exists>qs. l' = l @ qs \<and> token_follows env up l qs (al_get (cookies req) cookie_refreshToken)
    (al_get (browser_after resp (cookies req)) cookie_refreshToken)"
proof -
  let ?rt = "cookie_or_empty req cookie_refreshToken"
  obtain qs where qs: "l' = l @ qs" "activeRefreshToken act = current_token env up ?rt l qs"
    "didRefresh act \<Longrightarrow> ?rt \<noteq> [] \<and> cookie_or_empty req cookie_sessionId \<noteq> [] \<and> activeRefreshToken act \<noteq> []"
    "\<not> didRefresh act \<Longrightarrow> activeRefreshToken act = ?rt"
    using exchange_token [OF ex mk] by metis
  from carries qs(3) consider (bare) "resp = bare" "\<not> didRefresh act"
    | (attached) rl where "activeRefreshToken act \<noteq> []"
      "resp = attachTokenCookies env None \<lparr>jwt = activeJwt act, refreshToken = activeRefreshToken act,
          sessionId = cookie_or_empty req cookie_sessionId\<rparr> rl bare"
    by (auto simp: carries_session_def)
  then have "token_follows env up l qs (al_get (cookies req) cookie_refreshToken)
    (al_get (browser_after resp (cookies req)) cookie_refreshToken)"
  proof cases
    case bare
    with qs(2,4) assms(4) show ?thesis
      by (auto simp: browser_after_bare token_follows_def cookie_or_empty_def split: option.splits)
  next
    case (attached rl)
    with qs(3,4) have "al_get (cookies req) cookie_refreshToken = Some ?rt"
      by (cases "didRefresh act") (auto intro: cookie_or_empty_get)
    with attached assms(4) qs(2) show ?thesis
      by (simp add: browser_after_attachToken token_follows_def)
  qed
  with qs(1) show ?thesis by blast
qed

lemma unauthenticated_follows:
  "token_follows env up l qs a (al_get (browser_after unauthenticated jar) cookie_refreshToken)"
  by (simp add: unauthenticated_def browser_after_clear token_follows_def)

lemma send_with_refresh_appends:
  "send_with_refresh env up j rt sid mk l = (r, l') \<Longrightarrow> \<exists>qs. l' = l @ qs"
  by (cases rule: send_with_refresh_cases [of up mk j rt sid l env]) auto

lemma exchange_requests:
  assumes "\<And>t. P (mk t)" "P (refresh_request env rt)"
  shows "\<exists>qs. snd (send_with_refresh env up j rt sid mk l) = l @ qs \<and> list_all P qs"
  using assms by (cases rule: send_with_refresh_cases [of up mk j rt sid l env]) auto

lemma proxied_requests:
  assumes "\<And>t. P (authed_request env path opts t)" "P (refresh_request env (cookie_or_empty req cookie_refreshToken))"
  shows "\<exists>qs. snd (proxyAuthedRequest env up req path opts l) = l @ qs \<and> list_all P qs"
proof (cases "cookie_or_empty req cookie_jwt = []")
  case False
  then have "snd (proxyAuthedRequest env up req path opts l) = snd (session_exchange env up req (authed_request env path opts) l)"
    by (simp add: proxyAuthedRequest_def Let_def io_bind_apply split: prod.split sum.split)
  then show ?thesis using exchange_requests [OF assms] by simp
qed (simp add: proxyAuthedRequest_def)

lemma binary_requests:
  assumes "\<And>t. P (binary_request env path t)" "P (refresh_request env (cookie_or_empty req cookie_refreshToken))"
  shows "\<exists>qs. snd (proxyAuthedBinaryGet env up req path l) = l @ qs \<and> list_all P qs"
proof (cases "cookie_or_empty req cookie_jwt = []")
  case False
  then have "snd (proxyAuthedBinaryGet env up req path l) = snd (session_exchange env up req (binary_request env path) l)"
    by (simp add: proxyAuthedBinaryGet_def Let_def io_bind_apply split: prod.split sum.split option.split)
  then show ?thesis using exchange_requests [OF assms] by simp
qed (simp add: proxyAuthedBinaryGet_def)

inductive_set proxied :: "env \<Rightarrow> upstream \<Rightarrow> (request \<Rightarrow> response io) set" for env up where
  json: "(\<lambda>req. proxyAuthedRequest env up req (path req) (opts req)) \<in> proxied env up"
| binary: "(\<lambda>req. proxyAuthedBinaryGet env up req (path req)) \<in> proxied env up"

lemma proxied_follows:
  assumes "h \<in> proxied env up" "h req l = (Inr resp, l')"
  shows "\<exists>qs. l' = l @ qs \<and> token_follows env up l qs (al_get (cookies req) cookie_refreshToken)
    (al_get (browser_after resp (cookies req)) cookie_refreshToken)"
  using assms
proof cases
  case (json path opts)
  with assms(2) have run: "proxyAuthedRequest env up req (path req) (opts req) l = (Inr resp, l')" by simp
  show ?thesis
    using carries_session_follows send_with_refresh_appends
    by (cases rule: proxyAuthedRequest_Inr [OF run]) (fastforce intro: unauthenticated_follows)+
next
  case (binary path)
  with assms(2) have run: "proxyAuthedBinaryGet env up req (path req) l = (Inr resp, l')" by simp
  show ?thesis
    using carries_session_follows send_with_refresh_appends
    by (cases rule: proxyAuthedBinaryGet_Inr [OF run]) (fastforce intro: unauthenticated_follows)+
qed

lemma carries_session_status: "carries_session env sid act bare resp \<Longrightarrow> status resp = status bare"
  by (auto simp: carries_session_def)

lemma proxied_refuses:
  assumes "h \<in> proxied env up" "h req l = (Inr resp, l')" "status resp = 401"
  shows "resp = unauthenticated"
  using assms(1)
proof cases
  case (json path opts)
  with assms(2) have run: "proxyAuthedRequest env up req (path req) (opts req) l = (Inr resp, l')" by simp
  from assms(3) show ?thesis
    by (cases rule: proxyAuthedRequest_Inr [OF run]) (auto dest: carries_session_status split: if_splits)
next
  case (binary path)
  with assms(2) have run: "proxyAuthedBinaryGet env up req (path req) l = (Inr resp, l')" by simp
  from assms(3) show ?thesis
    by (cases rule: proxyAuthedBinaryGet_Inr [OF run]) (auto dest: carries_session_status)
qed

lemma unauthenticated_signs_out:
  "n \<in> set session_cookie_names \<Longrightarrow> al_get (browser_after unauthenticated jar) n = None"
  by (auto simp: unauthenticated_def browser_after_clear session_cookie_names_def)

lemma proxied_appends:
  assumes "h \<in> proxied env up"
  shows "\<exists>qs. snd (h req l) = l @ qs"
  using assms
proof cases
  case (json path opts)
  show ?thesis unfolding json using proxied_requests [OF TrueI TrueI, of env up req "path req" "opts req" l] by blast
next
  case (binary path)
  show ?thesis unfolding binary using binary_requests [OF TrueI TrueI, of env up req "path req" l] by blast
qed

interpretation px: session_handlers env up "proxied env up" for env up
  by unfold_locales (fact proxied_follows, metis proxied_appends snd_conv, metis proxied_refuses unauthenticated_signs_out)

lemma exchange_last:
  assumes "send_with_refresh env up j rt sid mk l = (Inr (a, act), l')" "apiStatus a \<noteq> 401"
  shows "l' \<noteq> [] \<and> up (butlast l') (last l') = Some a"
proof (cases rule: send_with_refresh_cases [of up mk j rt sid l env])
  case (retried t)
  with assms show ?thesis
    by (auto simp: butlast_append split: option.splits)
qed (use assms in \<open>auto split: option.splits\<close>)

text \<open>The message field of a relayed payload.\<close>

lemma normalized_payload_Obj:
  obtains m' where "normalized_payload (Obj m) = Obj m'"
    "extractPayloadMessage (Obj m') = extractPayloadMessage (Obj m)"
    "\<And>k. k \<noteq> ''message'' \<Longrightarrow> al_get m' k = al_get m k"
    "extractPayloadMessage (Obj m) \<noteq> None \<Longrightarrow> al_get m' ''message'' = map_option Str (extractPayloadMessage (Obj m))"
proof (cases "extractPayloadMessage (Obj m)")
  case None
  then show thesis by (intro that [of m]) (simp_all add: normalized_payload_def)
next
  case (Some msg)
  then have "trim msg \<noteq> []"
    by (auto simp: extractPayloadMessage_def non_blank_def split: option.splits js.splits if_splits)
  with Some show thesis
    by (intro that [of "spread m [(''message'', Str msg)]"])
      (simp_all add: normalized_payload_def spread_def extractPayloadMessage_def [of "Obj (own_put _ _ _)"] obj_get_def non_blank_def)
qed

section \<open>Properties\<close>

text \<open>
  A small API for the witnesses: it accepts the token \<^verbatim>\<open>j2\<close> only, and exchanges the refresh token
  \<^verbatim>\<open>r1\<close> for \<^verbatim>\<open>j2\<close> and \<^verbatim>\<open>r2\<close>.
\<close>

definition demo_json :: "nat \<Rightarrow> string \<Rightarrow> api_response" where
  "demo_json s t = \<lparr>apiStatus = s, apiRespHeaders = [(''content-type'', ''application/json'')], apiText = Some t\<rparr>"

definition demo_api :: upstream where
  "demo_api l q =
     Some (if q = refresh_request [] ''r1''
           then demo_json 200 ''{\"jwt\":\"j2\",\"refresh_token\":\"r2\"}''
           else if al_get (apiHeaders q) ''Authorization'' = Some ''Bearer j2'' then demo_json 200 ''{\"ok\":true}''
           else demo_json 401 ''{}'')"

definition demo_request :: "(string \<times> string) list \<Rightarrow> request" where
  "demo_request jar = \<lparr>pathname = ''/api/devices'', searchParams = [], protocol = ''https:'', host = ''h'',
     cookies = jar, headers = [], reqText = []\<rparr>"

definition demo_jar :: "(string \<times> string) list" where
  "demo_jar = [(cookie_jwt, ''j1''), (cookie_refreshToken, ''r1''), (cookie_sessionId, ''s1''), (cookie_role, ''admin'')]"

definition demo_opts :: proxy_options where
  "demo_opts = \<lparr>optMethod = None, optBody = None, optHeaders = []\<rparr>"

lemma demo_run:
  "proxyAuthedRequest [] demo_api (demo_request demo_jar) ''/devices'' demo_opts [] =
     (Inr (attachTokenCookies [] None \<lparr>jwt = ''j2'', refreshToken = ''r2'', sessionId = ''s1''\<rparr> (Some Admin)
        (json_response (Obj [(''ok'', Bool True)]) 200)),
      [authed_request [] ''/devices'' demo_opts ''j1'', refresh_request [] ''r1'',
       authed_request [] ''/devices'' demo_opts ''j2''])"
  by code_simp

lemma demo_in_proxied:
  "(\<lambda>req. proxyAuthedRequest [] demo_api req ''/devices'' demo_opts) \<in> proxied [] demo_api"
  by (rule proxied.json [of "[]" demo_api "\<lambda>_. ''/devices''" "\<lambda>_. demo_opts"])

lemma demo_cookies: "cookies (demo_request jar) = jar"
  by (simp add: demo_request_def)

text \<open>
  C3: a 401 from a proxy is always the console's own sign-out response. It carries no part of the
  API's answer, and after it the browser holds none of the four session cookies.
\<close>

theorem proxy_401_signs_out:
  assumes "h \<in> proxied env up" and "h req l = (Inr resp, l')" and "status resp = 401"
  shows "respBody resp = JsonBody (Obj [(''message'', Str ''unauthenticated'')]) \<and>
    al_get (browser_after resp jar) cookie_jwt = None \<and>
    al_get (browser_after resp jar) cookie_refreshToken = None \<and>
    al_get (browser_after resp jar) cookie_sessionId = None \<and>
    al_get (browser_after resp jar) cookie_role = None"
proof -
  have "resp = unauthenticated" by (rule proxied_refuses [OF assms])
  then have "respBody resp = JsonBody (Obj [(''message'', Str ''unauthenticated'')])"
    by (simp add: unauthenticated_def)
  then show ?thesis using px.signs_out [OF assms] by (simp add: session_cookie_names_def)
qed

theorem proxy_401_signs_out_witness:
  "al_get (browser_after unauthenticated demo_jar) cookie_jwt = None"
proof -
  have run: "proxyAuthedRequest [] demo_api (demo_request []) ''/devices'' demo_opts [] = (Inr unauthenticated, [])"
    by code_simp
  have "status unauthenticated = 401" by (simp add: unauthenticated_def)
  from proxy_401_signs_out [OF demo_in_proxied run this] show ?thesis by blast
qed

text \<open>
  C19: a proxied call sends the API at most three requests, and they are, in order, the call with the
  cookie's token, one refresh of the cookie's refresh token, and the call with the refreshed token.
  None is sent without a token. The refresh is sent only when the first answer is 401 and the
  refresh token and the session are present; the third only when the refresh gave a new token.
\<close>

theorem proxy_request_log:
  fixes req :: request and env :: env and path :: string and opts :: proxy_options
  defines "j \<equiv> cookie_or_empty req cookie_jwt" and "rt \<equiv> cookie_or_empty req cookie_refreshToken"
    and "q \<equiv> authed_request env path opts"
  shows "\<exists>k j'. snd (proxyAuthedRequest env up req path opts l) = l @ take k [q j, refresh_request env rt, q j'] \<and>
    (k = 0 \<longleftrightarrow> j = []) \<and>
    (k \<ge> 2 \<longrightarrow> refreshes up (q j) rt (cookie_or_empty req cookie_sessionId) l) \<and>
    (k \<ge> 3 \<longrightarrow> (\<exists>t. fst (refreshJwt env up rt (l @ [q j])) = Inr (Some t) \<and> j' = newJwt t))"
proof (cases "j = []")
  case True
  then show ?thesis by (intro exI [of _ 0]) (simp add: proxyAuthedRequest_def j_def)
next
  case False
  have snd_eq: "snd (proxyAuthedRequest env up req path opts l) = snd (session_exchange env up req q l)"
    using False unfolding j_def q_def
    by (simp add: proxyAuthedRequest_def Let_def io_bind_apply split: prod.split sum.split)
  show ?thesis
  proof (cases rule: send_with_refresh_cases [of up q j rt "cookie_or_empty req cookie_sessionId" l env])
    case direct
    with False snd_eq show ?thesis by (intro exI [of _ 1]) (simp add: j_def rt_def)
  next
    case (failed e)
    with False snd_eq show ?thesis by (intro exI [of _ 2]) (simp add: j_def rt_def)
  next
    case (refused a)
    with False snd_eq show ?thesis by (intro exI [of _ 2]) (simp add: j_def rt_def)
  next
    case (retried t)
    with False snd_eq show ?thesis by (intro exI [of _ 3] exI [of _ "newJwt t"]) (simp add: j_def rt_def)
  qed
qed

theorem proxy_request_log_witness:
  "refreshes demo_api (authed_request [] ''/devices'' demo_opts ''j1'') ''r1'' ''s1'' []"
proof -
  have c: "cookie_or_empty (demo_request demo_jar) cookie_jwt = ''j1''"
    "cookie_or_empty (demo_request demo_jar) cookie_refreshToken = ''r1''"
    "cookie_or_empty (demo_request demo_jar) cookie_sessionId = ''s1''" by code_simp+
  from proxy_request_log [of "[]" demo_api "demo_request demo_jar" "''/devices''" demo_opts "[]"]
  obtain k j' where k: "[authed_request [] ''/devices'' demo_opts ''j1'', refresh_request [] ''r1'',
       authed_request [] ''/devices'' demo_opts ''j2''] =
       take k [authed_request [] ''/devices'' demo_opts ''j1'', refresh_request [] ''r1'', authed_request [] ''/devices'' demo_opts j']"
    "k \<ge> 2 \<longrightarrow> refreshes demo_api (authed_request [] ''/devices'' demo_opts ''j1'') ''r1'' ''s1'' []"
    unfolding c demo_run by auto
  from arg_cong [OF k(1), of length] k(2) show ?thesis by simp
qed

text \<open>
  C24: a proxied answer other than the sign-out response relays the API's answer to the last request
  sent. An object keeps its status and every field; its message, its own or else the one of
  its error object, becomes the top-level message. A falsy or unreadable payload becomes a 502.
\<close>

theorem proxy_relays_answer:
  assumes "proxyAuthedRequest env up req path opts l = (Inr resp, l')" and "status resp \<noteq> 401"
  shows "\<exists>a. up (butlast l') (last l') = Some a \<and>
    status resp = (if truthy (readUpstreamPayload a) then apiStatus a else 502) \<and>
    (\<forall>m. readUpstreamPayload a = Obj m \<longrightarrow>
      (\<exists>m'. respBody resp = JsonBody (Obj m') \<and> extractPayloadMessage (Obj m') = extractPayloadMessage (Obj m) \<and>
        (extractPayloadMessage (Obj m) \<noteq> None \<longrightarrow>
           al_get m' ''message'' = map_option Str (extractPayloadMessage (Obj m))) \<and>
        (\<forall>k. k \<noteq> ''message'' \<longrightarrow> al_get m' k = al_get m k)))"
  using assms(1)
proof (cases rule: proxyAuthedRequest_Inr)
  case (answered a act bare)
  have body: "respBody resp = respBody bare"
    using answered(5) by (auto simp: carries_session_def)
  have "\<exists>m'. respBody resp = JsonBody (Obj m') \<and> extractPayloadMessage (Obj m') = extractPayloadMessage (Obj m) \<and>
        (extractPayloadMessage (Obj m) \<noteq> None \<longrightarrow>
           al_get m' ''message'' = map_option Str (extractPayloadMessage (Obj m))) \<and>
        (\<forall>k. k \<noteq> ''message'' \<longrightarrow> al_get m' k = al_get m k)" if "readUpstreamPayload a = Obj m" for m
    using that body answered(4) by (cases rule: normalized_payload_Obj [of m]) simp
  then show ?thesis
    using exchange_last [OF answered(3,2)] carries_session_status [OF answered(5)] answered(4) by auto
qed (use assms(2) in \<open>auto simp: unauthenticated_def\<close>)

theorem proxy_relays_answer_witness:
  "\<exists>a. demo_api [authed_request [] ''/devices'' demo_opts ''j1'', refresh_request [] ''r1'']
     (authed_request [] ''/devices'' demo_opts ''j2'') = Some a \<and>
     200 = (if truthy (readUpstreamPayload a) then apiStatus a else 502)"
proof -
  from proxy_relays_answer [OF demo_run] obtain a where
    "demo_api [authed_request [] ''/devices'' demo_opts ''j1'', refresh_request [] ''r1'']
       (authed_request [] ''/devices'' demo_opts ''j2'') = Some a"
    "200 = (if truthy (readUpstreamPayload a) then apiStatus a else 502)" by auto
  then show ?thesis by blast
qed

text \<open>
  C32: when the refresh succeeds and the connection fails on the repeated call, the handler rejects:
  the browser gets no response with the new tokens and keeps a refresh token that is no longer in
  force.
\<close>

theorem retry_failure_loses_tokens:
  assumes "cookie_or_empty req cookie_jwt = j" "cookie_or_empty req cookie_refreshToken = rt" "j \<noteq> []"
    and "refreshes up (authed_request env path opts j) rt (cookie_or_empty req cookie_sessionId) l"
    and "fst (refreshJwt env up rt (l @ [authed_request env path opts j])) = Inr (Some t)"
    and "up (l @ [authed_request env path opts j, refresh_request env rt]) (authed_request env path opts (newJwt t)) = None"
  shows "\<exists>qs. proxyAuthedRequest env up req path opts l = (Inl FetchRejected, l @ qs) \<and>
    current_token env up rt l qs = newRefreshToken t"
proof (cases rule: send_with_refresh_cases [of up "authed_request env path opts" j rt "cookie_or_empty req cookie_sessionId" l env])
  case (retried t')
  with assms show ?thesis
    by (intro exI [of _ "[authed_request env path opts j, refresh_request env rt, authed_request env path opts (newJwt t)]"])
      (simp add: proxyAuthedRequest_def Let_def)
qed (use assms in auto)

definition demo_flaky_api :: upstream where
  "demo_flaky_api l q = (if length l = 2 then None else demo_api l q)"

theorem retry_failure_loses_tokens_witness:
  "\<exists>qs. proxyAuthedRequest [] demo_flaky_api (demo_request demo_jar) ''/devices'' demo_opts [] = (Inl FetchRejected, [] @ qs) \<and>
    current_token [] demo_flaky_api ''r1'' [] qs = ''r2''"
proof -
  have "refreshes demo_flaky_api (authed_request [] ''/devices'' demo_opts ''j1'') ''r1''
    (cookie_or_empty (demo_request demo_jar) cookie_sessionId) []"
    unfolding refreshes_def by (intro conjI exI [of _ "demo_json 401 ''{}''"]) code_simp+
  moreover have "fst (refreshJwt [] demo_flaky_api ''r1'' ([] @ [authed_request [] ''/devices'' demo_opts ''j1''])) =
      Inr (Some \<lparr>newJwt = ''j2'', newRefreshToken = ''r2''\<rparr>)" by code_simp
  moreover have "cookie_or_empty (demo_request demo_jar) cookie_jwt = ''j1''"
    "cookie_or_empty (demo_request demo_jar) cookie_refreshToken = ''r1''" by code_simp+
  ultimately show ?thesis
    using retry_failure_loses_tokens [of "demo_request demo_jar" "''j1''" "''r1''" demo_flaky_api "[]" "''/devices''" demo_opts "[]"
      "\<lparr>newJwt = ''j2'', newRefreshToken = ''r2''\<rparr>"]
    by (simp add: demo_flaky_api_def)
qed

end
