(* ===== verification/AuthRoutes.thy ===== *)
theory AuthRoutes
  imports Proxy
begin

text \<open>
  The session routes under \<^verbatim>\<open>src/app/api/auth\<close>: sign-out, the current user, an explicit refresh,
  and the two steps of the one-time-code login.
\<close>

section \<open>Definitions\<close>

text \<open>\<^verbatim>\<open>.catch(() => null)\<close> and \<^verbatim>\<open>try ... catch\<close> around a single await.\<close>

definition io_try :: "'a io \<Rightarrow> 'a option io" where
  "io_try m = io_catch (io_bind m (\<lambda>x. io_return (Some x))) (\<lambda>_. io_return None)"

definition api_post :: "env \<Rightarrow> string \<Rightarrow> obj \<Rightarrow> api_request" where
  "api_post env path body =
     \<lparr>apiUrl = controlPlaneApiUrl env path, apiMethod = ''POST'',
      apiHeaders = [(''Content-Type'', ''application/json'')], apiBody = json_body body\<rparr>"

text \<open>\<^verbatim>\<open>logout/route.ts\<close>: the answer of the API does not matter.\<close>

definition logout_request :: "env \<Rightarrow> string \<Rightarrow> string \<Rightarrow> api_request" where
  "logout_request env j sid =
     \<lparr>apiUrl = controlPlaneApiUrl env ''/logout'', apiMethod = ''POST'',
      apiHeaders = [(''Authorization'', ''Bearer '' @ j), (''Content-Type'', ''application/json'')],
      apiBody = json_body [(''session_id'', Str sid), (''all_devices'', Bool False)]\<rparr>"

definition logout_POST :: "env \<Rightarrow> upstream \<Rightarrow> request \<Rightarrow> response io" where
  "logout_POST env up request =
     (let j = cookie_or_empty request cookie_jwt;
          sid = cookie_or_empty request cookie_sessionId;
          response = clearAuthCookies (json_response (Obj [(''ok'', Bool True)]) 200)
      in if j \<noteq> [] \<and> sid \<noteq> []
         then io_bind (io_try (fetch up (logout_request env j sid))) (\<lambda>_. io_return response)
         else io_return response)"

text \<open>\<^verbatim>\<open>refresh/route.ts\<close>.\<close>

definition refresh_POST :: "env \<Rightarrow> upstream \<Rightarrow> request \<Rightarrow> response io" where
  "refresh_POST env up request =
     (let rt = cookie_or_empty request cookie_refreshToken;
          sid = cookie_or_empty request cookie_sessionId;
          roleValue = normalizeRole (al_get (cookies request) cookie_role);
          failure = (\<lambda>msg s. clearAuthCookies (json_response (Obj [(''authenticated'', Bool False), (''message'', Str msg)]) s))
      in if rt = [] \<or> sid = [] then io_return (failure ''missing_refresh_token'' 401)
         else
           io_bind (fetch up (api_post env ''/token/refresh'' [(''refresh_token'', Str rt)])) (\<lambda>refreshResponse.
             let refreshJson = json_or refreshResponse (Obj []) in
             if \<not> resp_ok (apiStatus refreshResponse)
             then io_bind (io_lift (str_member refreshJson ''message'' ''refresh_failed'')) (\<lambda>msg. io_return (failure msg 401))
             else
               io_bind (io_lift (str_member refreshJson ''jwt'' [])) (\<lambda>nextJwt.
               io_bind (io_lift (str_member refreshJson ''refresh_token'' [])) (\<lambda>nextRefreshToken.
                 io_return
                   (if nextJwt = [] \<or> nextRefreshToken = [] then failure ''invalid_refresh_response'' 502
                    else attachTokenCookies env (Some request)
                           \<lparr>jwt = nextJwt, refreshToken = nextRefreshToken, sessionId = sid\<rparr> roleValue
                           (json_response (Obj [(''authenticated'', Bool True)]) 200))))))"

text \<open>\<^verbatim>\<open>me/route.ts\<close>, which has its own copy of the refresh.\<close>

definition me_request :: "env \<Rightarrow> string \<Rightarrow> api_request" where
  "me_request env j =
     \<lparr>apiUrl = controlPlaneApiUrl env ''/me'', apiMethod = ''GET'',
      apiHeaders = [(''Authorization'', ''Bearer '' @ j)], apiBody = None\<rparr>"

definition fetchMeWithJwt :: "env \<Rightarrow> upstream \<Rightarrow> string \<Rightarrow> api_response io" where
  "fetchMeWithJwt env up j = fetch up (me_request env j)"

definition me_refreshJwt :: "env \<Rightarrow> upstream \<Rightarrow> string \<Rightarrow> refreshed_tokens option io" where
  "me_refreshJwt env up token =
     io_bind (fetch up (api_post env ''/token/refresh'' [(''refresh_token'', Str token)])) (\<lambda>response.
       if \<not> resp_ok (apiStatus response) then io_return None
       else let payload = json_or response (Obj []) in
         io_bind (io_lift (str_member payload ''jwt'' [])) (\<lambda>j.
         io_bind (io_lift (str_member payload ''refresh_token'' [])) (\<lambda>rt.
           io_return (if j = [] \<or> rt = [] then None else Some \<lparr>newJwt = j, newRefreshToken = rt\<rparr>))))"

definition user_json :: "auth_user \<Rightarrow> js" where
  "user_json u = Obj ([(''id'', userId u), (''email'', email u), (''name'', Str (displayName u)),
      (''role'', Str (role_string (role u)))] @
      (case twoFactorEnabled u of None \<Rightarrow> [] | Some b \<Rightarrow> [(''twoFactorEnabled'', Bool b)]))"

definition not_authenticated :: "nat \<Rightarrow> response" where
  "not_authenticated s = clearAuthCookies (json_response (Obj [(''authenticated'', Bool False)]) s)"

definition me_unavailable :: "string \<Rightarrow> response" where
  "me_unavailable msg = json_response (Obj [(''authenticated'', Bool False), (''message'', Str msg)]) 503"

text \<open>Lines 72 to 110: the answer to \<^verbatim>\<open>/me\<close> and the tokens in force decide the response.\<close>

definition me_finish :: "env \<Rightarrow> request \<Rightarrow> string \<Rightarrow> string \<Rightarrow> api_response \<Rightarrow> response res" where
  "me_finish env request aj art meResponse =
     (let sid = cookie_or_empty request cookie_sessionId;
          roleCookie = normalizeRole (al_get (cookies request) cookie_role)
      in if \<not> resp_ok (apiStatus meResponse) then
           Inr (if apiStatus meResponse \<noteq> 401 \<and> apiStatus meResponse \<noteq> 403
                then me_unavailable ''auth_upstream_error'' else not_authenticated 401)
         else let meJson = json_or meResponse Null in
           res_bind (if truthy meJson then mapMePayload meJson else Inr None) (\<lambda>user.
             case user of
               None \<Rightarrow> Inr (not_authenticated 502)
             | Some u \<Rightarrow>
                 let response = json_response (Obj [(''authenticated'', Bool True), (''user'', user_json u)]) 200 in
                 Inr (if art \<noteq> [] \<and> sid \<noteq> []
                      then attachTokenCookies env (Some request)
                             \<lparr>jwt = aj, refreshToken = art, sessionId = sid\<rparr>
                             (case normalizeRole (Some (role_string (role u))) of Some r \<Rightarrow> Some r | None \<Rightarrow> roleCookie)
                             response
                      else set_cookie (session_cookie cookie_role (role_string (role u)) False
                             (shouldUseSecureCookies env (Some request))) response)))"

definition me_GET :: "env \<Rightarrow> upstream \<Rightarrow> request \<Rightarrow> response io" where
  "me_GET env up request =
     (let j = cookie_or_empty request cookie_jwt;
          rt = cookie_or_empty request cookie_refreshToken;
          sid = cookie_or_empty request cookie_sessionId
      in if j = [] then io_return (not_authenticated 401)
         else io_bind (io_try (fetchMeWithJwt env up j)) (\<lambda>first.
           case first of None \<Rightarrow> io_return (me_unavailable ''auth_upstream_unreachable'')
           | Some meResponse \<Rightarrow>
               if apiStatus meResponse = 401 \<and> rt \<noteq> [] \<and> sid \<noteq> [] then
                 io_bind (me_refreshJwt env up rt) (\<lambda>refreshed.
                   case refreshed of None \<Rightarrow> io_lift (me_finish env request j rt meResponse)
                   | Some t \<Rightarrow> io_bind (io_try (fetchMeWithJwt env up (newJwt t))) (\<lambda>second.
                       case second of None \<Rightarrow> io_return (me_unavailable ''auth_upstream_unreachable'')
                       | Some again \<Rightarrow> io_lift (me_finish env request (newJwt t) (newRefreshToken t) again)))
               else io_lift (me_finish env request j rt meResponse)))"

text \<open>\<^verbatim>\<open>request-otp/route.ts\<close>. A body that does not parse is refused; \<^verbatim>\<open>null\<close> has no fields to read.\<close>

definition message_response :: "string \<Rightarrow> nat \<Rightarrow> response" where
  "message_response msg s = json_response (Obj [(''message'', Str msg)]) s"

definition upstream_failure :: "js \<Rightarrow> string \<Rightarrow> nat \<Rightarrow> response res" where
  "upstream_failure payload fallback s =
     res_bind (str_member payload ''message'' fallback) (\<lambda>msg.
       response_init (json_response
         (Obj [(''message'', Str msg), (''errors'', coalesce (js_field payload ''errors'') Null)]) s))"

definition request_otp_POST :: "env \<Rightarrow> upstream \<Rightarrow> request \<Rightarrow> response io" where
  "request_otp_POST env up request =
     (case json_parse (reqText request) of
        None \<Rightarrow> io_return (message_response ''invalid_request_body'' 400)
      | Some body \<Rightarrow>
          io_bind (io_lift (str_member body ''email'' [])) (\<lambda>raw.
            let em = trim raw in
            if em = [] then io_return (message_response ''email_required'' 422)
            else io_bind (io_try (fetch up (api_post env ''/auth/request-otp'' [(''email'', Str em)]))) (\<lambda>answer.
              case answer of None \<Rightarrow> io_return (message_response ''control_plane_unreachable'' 503)
              | Some r \<Rightarrow>
                  let upstreamJson = json_or r (Obj []) in
                  if \<not> resp_ok (apiStatus r)
                  then io_lift (upstream_failure upstreamJson
                         (if apiStatus r \<ge> 500 then ''auth_service_unavailable'' else ''otp_request_failed'') (apiStatus r))
                  else
                    io_bind (io_lift (str_member upstreamJson ''status'' ''otp_sent'')) (\<lambda>st.
                    io_bind (io_lift (str_member upstreamJson ''challenge_id'' [])) (\<lambda>cid.
                    io_bind (io_lift (js_Number (coalesce (js_field upstreamJson ''resend_after_seconds'') (Num (Fin 60))))) (\<lambda>secs.
                      io_return (json_response (Obj [(''status'', Str st), (''challenge_id'', Str cid),
                        (''resend_after_seconds'', Num secs)]) 200)))))))"

text \<open>\<^verbatim>\<open>verify-otp/route.ts\<close>.\<close>

definition otp_fields :: "js \<Rightarrow> (string \<times> string \<times> string) res" where
  "otp_fields body =
     res_bind (str_member body ''email'' []) (\<lambda>em.
     res_bind (js_String (coalesce (coalesce (js_field body ''challengeId'') (js_field body ''challenge_id'')) (Str []))) (\<lambda>cid.
     res_bind (str_member body ''otp'' []) (\<lambda>code.
       Inr (trim em, trim cid, trim code))))"

definition me_payload :: "string \<Rightarrow> string \<Rightarrow> string \<Rightarrow> string \<Rightarrow> bool \<Rightarrow> js" where
  "me_payload uid em name ur two =
     Obj [(''user_id'', Str uid), (''email'', Str em), (''display_name'', Str name), (''user_role'', Str ur),
          (''two_factor_enabled'', Bool two)]"

definition verified_user :: "js \<Rightarrow> string \<Rightarrow> user_role \<Rightarrow> auth_user option res" where
  "verified_user verifyJson em rl =
     res_bind (str_member verifyJson ''user_id'' []) (\<lambda>uid.
     res_bind (str_member verifyJson ''display_name'' em) (\<lambda>name.
     res_bind (str_member verifyJson ''user_role'' (role_string rl)) (\<lambda>ur.
       mapMePayload (me_payload uid em name ur False))))"

definition me_user :: "js \<Rightarrow> auth_user option res" where
  "me_user meJson =
     res_bind (str_member meJson ''user_id'' []) (\<lambda>uid.
     res_bind (str_member meJson ''email'' []) (\<lambda>em.
     res_bind (str_member meJson ''display_name'' []) (\<lambda>name.
     res_bind (str_member meJson ''user_role'' []) (\<lambda>ur.
       mapMePayload (me_payload uid em name ur (truthy (js_field meJson ''two_factor_enabled'')))))))"

definition user_from_me :: "env \<Rightarrow> upstream \<Rightarrow> string \<Rightarrow> auth_user option io" where
  "user_from_me env up j =
     io_bind (fetchMeWithJwt env up j) (\<lambda>meResponse.
       if resp_ok (apiStatus meResponse)
       then let meJson = json_or meResponse Null in
            if truthy meJson then io_lift (me_user meJson) else io_return None
       else io_return None)"

definition verify_otp_POST :: "env \<Rightarrow> upstream \<Rightarrow> request \<Rightarrow> response io" where
  "verify_otp_POST env up request =
     (case json_parse (reqText request) of
        None \<Rightarrow> io_return (message_response ''invalid_request_body'' 400)
      | Some body \<Rightarrow>
          io_bind (io_lift (otp_fields body)) (\<lambda>(em, challengeId, otp).
            if em = [] \<or> challengeId = [] \<or> otp = []
            then io_return (message_response ''email_challenge_otp_required'' 422)
            else io_bind (fetch up (api_post env ''/auth/verify-otp''
                [(''email'', Str em), (''challenge_id'', Str challengeId), (''otp'', Str otp),
                 (''device_fingerprint'', Str (deriveDeviceFingerprint request))])) (\<lambda>verifyResponse.
              let verifyJson = json_or verifyResponse (Obj []) in
              if \<not> resp_ok (apiStatus verifyResponse)
              then io_lift (upstream_failure verifyJson ''otp_verify_failed'' (apiStatus verifyResponse))
              else io_bind (io_lift (authCookiesFromPayload verifyJson)) (\<lambda>cookieValues.
                case cookieValues of None \<Rightarrow> io_return (message_response ''invalid_verify_response'' 502)
                | Some (c, rl) \<Rightarrow>
                    io_bind (io_lift (verified_user verifyJson em rl)) (\<lambda>direct.
                    io_bind (case direct of Some u \<Rightarrow> io_return (Some u) | None \<Rightarrow> user_from_me env up (jwt c)) (\<lambda>user.
                    io_bind (case user of Some u \<Rightarrow> io_return (user_json u)
                       | None \<Rightarrow> io_bind (io_lift (str_member verifyJson ''user_id'' [])) (\<lambda>uid.
                           io_return (Obj [(''id'', Str uid), (''email'', Str em), (''name'', Str em),
                             (''role'', Str (role_string rl))]))) (\<lambda>userJson.
                      io_return (attachAuthCookies env (Some request) c rl
                        (json_response (Obj [(''ok'', Bool True), (''user'', userJson)]) 200)))))))))"

section \<open>The session routes keep the contract\<close>

lemma me_refreshJwt_eq: "me_refreshJwt = refreshJwt"
  by (simp add: me_refreshJwt_def refreshJwt_def refresh_request_def api_post_def fun_eq_iff)

lemma api_post_refresh: "api_post env ''/token/refresh'' [(''refresh_token'', Str rt)] = refresh_request env rt"
  by (simp add: api_post_def refresh_request_def)

lemma io_try_apply: "io_try m l = (case m l of (Inl e, l') \<Rightarrow> (Inr None, l') | (Inr x, l') \<Rightarrow> (Inr (Some x), l'))"
  by (simp add: io_try_def io_catch_def io_bind_def split: prod.split sum.split)

lemma logout_POST_apply:
  "logout_POST env up req l = (Inr (clearAuthCookies (json_response (Obj [(''ok'', Bool True)]) 200)),
     if cookie_or_empty req cookie_jwt \<noteq> [] \<and> cookie_or_empty req cookie_sessionId \<noteq> []
     then l @ [logout_request env (cookie_or_empty req cookie_jwt) (cookie_or_empty req cookie_sessionId)] else l)"
  by (simp add: logout_POST_def io_bind_apply io_try_apply fetch_apply Let_def split: option.split)

text \<open>The refresh route agrees with the refresh of the proxy on the tokens it hands out.\<close>

lemma refresh_POST_Inr:
  assumes "refresh_POST env up req l = (Inr resp, l')"
  obtains (failed) msg s qs where "l' = l @ qs" "s \<in> {401, 502}"
      "resp = clearAuthCookies (json_response (Obj [(''authenticated'', Bool False), (''message'', Str msg)]) s)"
  | (refreshed) t where "cookie_or_empty req cookie_refreshToken \<noteq> []" "cookie_or_empty req cookie_sessionId \<noteq> []"
      "fst (refreshJwt env up (cookie_or_empty req cookie_refreshToken) l) = Inr (Some t)"
      "l' = l @ [refresh_request env (cookie_or_empty req cookie_refreshToken)]"
      "resp = attachTokenCookies env (Some req)
         \<lparr>jwt = newJwt t, refreshToken = newRefreshToken t, sessionId = cookie_or_empty req cookie_sessionId\<rparr>
         (normalizeRole (al_get (cookies req) cookie_role)) (json_response (Obj [(''authenticated'', Bool True)]) 200)"
proof (cases "cookie_or_empty req cookie_refreshToken = [] \<or> cookie_or_empty req cookie_sessionId = []")
  case True
  with assms show thesis by (intro failed [of "[]" 401]) (auto simp: refresh_POST_def)
next
  case present: False
  let ?rt = "cookie_or_empty req cookie_refreshToken"
  from present assms obtain a where a: "up l (refresh_request env ?rt) = Some a"
    by (auto simp: refresh_POST_def Let_def io_bind_Inr_iff fetch_Inr_iff api_post_refresh)
  have fetched: "fetch up (refresh_request env ?rt) l = (Inr a, l @ [refresh_request env ?rt])"
    using a by (simp add: fetch_def)
  show thesis
  proof (cases "resp_ok (apiStatus a)")
    case False
    with present assms a fetched show thesis
      by (auto simp: refresh_POST_def Let_def api_post_refresh io_bind_Inr_iff fetch_Inr_iff
          intro!: failed [of "[refresh_request env ?rt]" 401])
  next
    case True
    with present assms fetched obtain j rt where
      "str_member (json_or a (Obj [])) ''jwt'' [] = Inr j"
      "str_member (json_or a (Obj [])) ''refresh_token'' [] = Inr rt"
      by (auto simp: refresh_POST_def Let_def api_post_refresh io_bind_Inr_iff)
    note run = this
    show thesis
    proof (cases "j = [] \<or> rt = []")
      case blank: True
      from run True present assms fetched blank show thesis
        by (intro failed [of "[refresh_request env ?rt]" 502 "''invalid_refresh_response''"])
          (auto simp: refresh_POST_def Let_def api_post_refresh)
    next
      case False
      from run True present assms fetched False show thesis
        by (intro refreshed [of "\<lparr>newJwt = j, newRefreshToken = rt\<rparr>"])
          (auto simp: refresh_POST_def Let_def api_post_refresh refreshJwt_def)
    qed
  qed
qed

text \<open>The handlers of the console that work within a session.\<close>

inductive_set console :: "env \<Rightarrow> upstream \<Rightarrow> (request \<Rightarrow> response io) set" for env up where
  proxied: "h \<in> proxied env up \<Longrightarrow> h \<in> console env up"
| refresh: "refresh_POST env up \<in> console env up"
| logout: "logout_POST env up \<in> console env up"

lemma cleared_follows:
  "respCookies r = [] \<Longrightarrow> token_follows env up l qs a (al_get (browser_after (clearAuthCookies r) jar) cookie_refreshToken)"
  by (simp add: browser_after_clear token_follows_def)

lemma console_follows:
  assumes "h \<in> console env up" "h req l = (Inr resp, l')"
  shows "\<exists>qs. l' = l @ qs \<and> token_follows env up l qs (al_get (cookies req) cookie_refreshToken)
    (al_get (browser_after resp (cookies req)) cookie_refreshToken)"
  using assms(1)
proof cases
  case proxied
  then show ?thesis using px.follows assms(2) by blast
next
  case refresh
  with assms(2) have run: "refresh_POST env up req l = (Inr resp, l')" by simp
  then show ?thesis
  proof (cases rule: refresh_POST_Inr)
    case (failed msg s qs)
    then show ?thesis by (auto intro: cleared_follows)
  next
    case (refreshed t)
    then show ?thesis
      by (intro exI [of _ "[refresh_request env (cookie_or_empty req cookie_refreshToken)]"])
        (simp add: browser_after_attachToken token_follows_def cookie_or_empty_get)
  qed
next
  case logout
  with assms(2) show ?thesis by (auto simp: logout_POST_apply cleared_follows)
qed

lemma console_signs_out:
  assumes "h \<in> console env up" "h req l = (Inr resp, l')" "status resp = 401" "n \<in> set session_cookie_names"
  shows "al_get (browser_after resp jar) n = None"
  using assms(1)
proof cases
  case proxied
  then show ?thesis using px.signs_out assms(2-4) by blast
next
  case refresh
  with assms(2) have run: "refresh_POST env up req l = (Inr resp, l')" by simp
  from assms(3,4) show ?thesis
    by (cases rule: refresh_POST_Inr [OF run]) (auto simp: browser_after_clear session_cookie_names_def)
next
  case logout
  with assms(2,3) show ?thesis by (auto simp: logout_POST_apply)
qed

lemma refresh_POST_appends: "\<exists>qs. snd (refresh_POST env up req l) = l @ qs"
  by (auto simp: refresh_POST_def Let_def io_bind_apply io_catch_def io_try_apply fetch_apply split: prod.splits sum.splits option.splits if_splits)

lemma console_appends:
  assumes "h \<in> console env up" "h req l = (Inl e, l')"
  shows "\<exists>qs. l' = l @ qs"
  using assms(1)
proof cases
  case proxied
  then show ?thesis using px.appends assms(2) by blast
next
  case refresh
  then show ?thesis using refresh_POST_appends [of env up req l] assms(2) by simp
next
  case logout
  with assms(2) show ?thesis by (simp add: logout_POST_apply)
qed

interpretation cs: session_handlers env up "console env up" for env up
  by unfold_locales (fact console_follows, fact console_appends, fact console_signs_out)

section \<open>Properties\<close>

text \<open>
  C1: however many requests a browser sends through the proxies (to any paths, with any options),
  the refresh route and the sign-out route, and whether the handlers answer or reject, it holds the refresh
  token the API has in force or is signed out, with one exception: somewhere on the way a
  handler rejected after the API had replaced the token, so that no response could carry the new one.
\<close>

theorem session_stays_in_step:
  assumes "browses (console env up) (jar0, l0) (jar, l)"
  shows "(\<exists>qs. l = l0 @ qs \<and>
      (al_get jar cookie_refreshToken = None \<or>
       (\<exists>rt. al_get jar0 cookie_refreshToken = Some rt \<and>
          al_get jar cookie_refreshToken = Some (current_token env up rt l0 qs)))) \<or>
    rejected_after_refresh env up (console env up) (jar0, l0) (jar, l)"
  using cs.browses_follows [OF assms] by (simp add: token_follows_def)

theorem session_stays_in_step_witness:
  "al_get (browser_after (the (case fst (proxyAuthedRequest [] demo_api (demo_request demo_jar) ''/devices'' demo_opts [])
      of Inr r \<Rightarrow> Some r | Inl _ \<Rightarrow> None)) demo_jar) cookie_refreshToken \<in> {None, Some ''r2''} \<or>
   (\<exists>s'. rejected_after_refresh [] demo_api (console [] demo_api) (demo_jar, []) s')"
proof -
  let ?r = "attachTokenCookies [] None \<lparr>jwt = ''j2'', refreshToken = ''r2'', sessionId = ''s1''\<rparr> (Some Admin)
        (json_response (Obj [(''ok'', Bool True)]) 200)"
  let ?l = "[authed_request [] ''/devices'' demo_opts ''j1'', refresh_request [] ''r1'',
       authed_request [] ''/devices'' demo_opts ''j2'']"
  have "browses (console [] demo_api) (demo_jar, []) (browser_after ?r demo_jar, ?l)"
    by (rule browses.answered [OF browses.start console.proxied [OF demo_in_proxied] demo_cookies demo_run])
  from session_stays_in_step [OF this]
  have "rejected_after_refresh [] demo_api (console [] demo_api) (demo_jar, []) (browser_after ?r demo_jar, ?l) \<or>
    al_get (browser_after ?r demo_jar) cookie_refreshToken = None \<or>
    (\<exists>rt. al_get demo_jar cookie_refreshToken = Some rt \<and>
      al_get (browser_after ?r demo_jar) cookie_refreshToken = Some (current_token [] demo_api rt [] ?l))"
    by auto
  moreover have "al_get demo_jar cookie_refreshToken = Some ''r1''" by code_simp
  moreover have "current_token [] demo_api ''r1'' [] ?l = ''r2''" by code_simp
  ultimately show ?thesis by (auto simp: demo_run)
qed

text \<open>
  After a 401 from a session handler the browser stays without a refresh token, whatever it
  requests next.
\<close>

theorem session_ends_for_good:
  assumes "h \<in> console env up" and "h req l = (Inr resp, l')" and "status resp = 401"
    and "browses (console env up) (browser_after resp jar, l') (jar', l2)"
  shows "al_get jar' cookie_refreshToken = None"
  using cs.refused_ends_session [OF assms] by simp

theorem session_ends_for_good_witness:
  "al_get (browser_after unauthenticated demo_jar) cookie_refreshToken = None"
proof -
  have run: "proxyAuthedRequest [] demo_api (demo_request []) ''/devices'' demo_opts [] = (Inr unauthenticated, [])"
    by code_simp
  have "status unauthenticated = 401" by (simp add: unauthenticated_def)
  from session_ends_for_good [OF console.proxied [OF demo_in_proxied] run this browses.start] show ?thesis .
qed

section \<open>Login and sign-out\<close>

lemma upstream_failure_status: "upstream_failure payload fb s = Inr r \<Longrightarrow> status r = s \<and> respCookies r = []"
  by (auto simp: upstream_failure_def res_bind_Inr_iff response_init_Inr_iff)

lemma verify_otp_200:
  assumes "verify_otp_POST env up req l = (Inr resp, l')" and "status resp = 200"
  obtains q a c rl userJson where "up l q = Some a" "resp_ok (apiStatus a)"
    "apiUrl q = controlPlaneApiUrl env ''/auth/verify-otp''"
    "authCookiesFromPayload (json_or a (Obj [])) = Inr (Some (c, rl))"
    "resp = attachAuthCookies env (Some req) c rl (json_response (Obj [(''ok'', Bool True), (''user'', userJson)]) 200)"
proof -
  from assms obtain body where body: "json_parse (reqText req) = Some body"
    by (auto simp: verify_otp_POST_def message_response_def split: option.splits)
  with assms obtain em cid code where f: "otp_fields body = Inr (em, cid, code)" "em \<noteq> []" "cid \<noteq> []" "code \<noteq> []"
    by (fastforce simp: verify_otp_POST_def message_response_def io_bind_Inr_iff split: if_splits)
  let ?q = "api_post env ''/auth/verify-otp'' [(''email'', Str em), (''challenge_id'', Str cid), (''otp'', Str code),
                 (''device_fingerprint'', Str (deriveDeviceFingerprint req))]"
  from assms(1) body f obtain a where a: "up l ?q = Some a" "fetch up ?q l = (Inr a, l @ [?q])"
    by (auto simp: verify_otp_POST_def io_bind_Inr_iff fetch_Inr_iff)
  have ok: "resp_ok (apiStatus a)"
  proof (rule ccontr)
    assume "\<not> resp_ok (apiStatus a)"
    with assms(1) body f a(2) have "upstream_failure (json_or a (Obj [])) ''otp_verify_failed'' (apiStatus a) = Inr resp"
      by (auto simp: verify_otp_POST_def Let_def)
    with assms(2) \<open>\<not> resp_ok (apiStatus a)\<close> show False by (auto dest: upstream_failure_status)
  qed
  from assms(1) body f a(2) ok obtain cv where cv: "authCookiesFromPayload (json_or a (Obj [])) = Inr cv"
    by (auto simp: verify_otp_POST_def Let_def io_bind_Inr_iff)
  from assms body f a(2) ok cv obtain c rl where crl: "cv = Some (c, rl)"
    by (cases cv) (auto simp: verify_otp_POST_def Let_def message_response_def)
  from assms body f a(2) ok cv crl obtain userJson where
    "resp = attachAuthCookies env (Some req) c rl (json_response (Obj [(''ok'', Bool True), (''user'', userJson)]) 200)"
    by (auto simp: verify_otp_POST_def Let_def io_bind_Inr_iff)
  with a(1) ok cv crl show thesis by (intro that) (auto simp: api_post_def)
qed

text \<open>
  A completed login works. When the code is verified, the browser holds the three tokens of the
  API's payload and the role, and the gate then serves it the home page of that role.
\<close>

theorem login_opens_home:
  assumes "verify_otp_POST env up req l = (Inr resp, l')" and "status resp = 200"
  shows "\<exists>a c rl. authCookiesFromPayload (json_or a (Obj [])) = Inr (Some (c, rl)) \<and> (\<exists>q. up l q = Some a) \<and>
    (let jar' = browser_after resp jar in
       al_get jar' cookie_jwt = Some (jwt c) \<and> al_get jar' cookie_refreshToken = Some (refreshToken c) \<and>
       al_get jar' cookie_sessionId = Some (sessionId c) \<and> al_get jar' cookie_role = Some (role_string rl) \<and>
       middleware (page\<lparr>pathname := roleHomePath rl, cookies := jar'\<rparr>) = MwNext)"
proof -
  obtain q a c rl userJson where 1: "up l q = Some a"
    "authCookiesFromPayload (json_or a (Obj [])) = Inr (Some (c, rl))"
    "resp = attachAuthCookies env (Some req) c rl (json_response (Obj [(''ok'', Bool True), (''user'', userJson)]) 200)"
    using verify_otp_200 [OF assms] by metis
  have "jwt c \<noteq> []" using authCookiesFromPayload_Some [OF 1(2)] by simp
  have "middleware (page\<lparr>pathname := roleHomePath rl, cookies := browser_after resp jar\<rparr>) = MwNext"
    using 1(3) \<open>jwt c \<noteq> []\<close>
    by (intro middleware_home_served [of _ rl]) (simp_all add: browser_after_attachAuth cookie_or_empty_def)
  with 1 show ?thesis
    by (intro exI [of _ a] exI [of _ c] exI [of _ rl]) (auto simp: browser_after_attachAuth Let_def)
qed

definition demo_login_api :: upstream where
  "demo_login_api l q =
     Some (demo_json 200 ''{\"jwt\":\"j1\",\"refresh_token\":\"r1\",\"session_id\":\"s1\",\"user_id\":\"u1\",\"user_role\":\"operator\"}'')"

definition demo_login :: request where
  "demo_login = (demo_request [])\<lparr>reqText := ''{\"email\":\"a@b\",\"challengeId\":\"c\",\"otp\":\"1\"}''\<rparr>"

theorem login_opens_home_witness:
  "\<exists>rl. middleware (demo_login\<lparr>pathname := roleHomePath rl,
      cookies := browser_after (case fst (verify_otp_POST [] demo_login_api demo_login []) of Inr r \<Rightarrow> r) []\<rparr>) = MwNext"
proof -
  let ?r = "case fst (verify_otp_POST [] demo_login_api demo_login []) of Inr r \<Rightarrow> r"
  have "fst (verify_otp_POST [] demo_login_api demo_login []) = Inr ?r" "status ?r = 200" by code_simp+
  then show ?thesis
    using login_opens_home [of "[]" demo_login_api demo_login "[]" ?r _ "[]" demo_login]
    by (metis prod.collapse)
qed

text \<open>
  C29: signing out always works: whatever the API answers, or when it cannot be reached, the route
  returns a response after which the browser has no session cookie, every other cookie is kept,
  and every page but the login page redirects there.
\<close>

theorem logout_signs_out:
  shows "\<exists>resp l'. logout_POST env up req l = (Inr resp, l') \<and>
    (\<forall>n. al_get (browser_after resp jar) n = (if n \<in> set session_cookie_names then None else al_get jar n)) \<and>
    (\<not> starts_with (pathname page) ''/api/'' \<and> pathname page \<noteq> LOGIN_PATH \<longrightarrow>
       mw_target (middleware (page\<lparr>cookies := browser_after resp jar\<rparr>)) = Some LOGIN_PATH)"
proof -
  let ?resp = "clearAuthCookies (json_response (Obj [(''ok'', Bool True)]) 200)"
  have "cookie_or_empty (page\<lparr>cookies := browser_after ?resp jar\<rparr>) cookie_jwt = []"
    by (simp add: cookie_or_empty_def browser_after_clear)
  then have "mw_target (middleware (page\<lparr>cookies := browser_after ?resp jar\<rparr>)) = Some LOGIN_PATH"
    if "\<not> starts_with (pathname page) ''/api/''" "pathname page \<noteq> LOGIN_PATH"
    using that by (simp add: middleware_target gate_decision_def)
  then show ?thesis
    by (auto simp: logout_POST_apply browser_after_clear session_cookie_names_def intro!: exI [of _ ?resp])
qed

theorem logout_signs_out_witness:
  "mw_target (middleware ((demo_request [])\<lparr>pathname := ''/audit'',
     cookies := browser_after (clearAuthCookies (json_response (Obj [(''ok'', Bool True)]) 200)) demo_jar\<rparr>)) = Some LOGIN_PATH"
proof -
  have "\<not> starts_with (pathname ((demo_request [])\<lparr>pathname := ''/audit''\<rparr>)) ''/api/''"
    "pathname ((demo_request [])\<lparr>pathname := ''/audit''\<rparr>) \<noteq> LOGIN_PATH" by code_simp+
  then show ?thesis
    using logout_signs_out [of "[]" demo_api "demo_request demo_jar" "[]" demo_jar "(demo_request [])\<lparr>pathname := ''/audit''\<rparr>"]
    by (auto simp: logout_POST_apply)
qed

section \<open>The current user\<close>

lemma me_request_differs [simp]: "me_request env j \<noteq> refresh_request env rt"
  by (simp add: me_request_def refresh_request_def)

lemma me_finish_cases:
  assumes "me_finish env req aj art a = Inr resp"
  obtains (down) "resp = me_unavailable ''auth_upstream_error''"
  | (out) s where "resp = not_authenticated s"
  | (tokens) rl bare where "status resp = 200" "respCookies bare = []" "art \<noteq> []"
      "resp = attachTokenCookies env (Some req)
         \<lparr>jwt = aj, refreshToken = art, sessionId = cookie_or_empty req cookie_sessionId\<rparr> (Some rl) bare"
  | (role_only) rl bare where "status resp = 200" "respCookies bare = []" "art = [] \<or> cookie_or_empty req cookie_sessionId = []"
      "resp = set_cookie (session_cookie cookie_role (role_string rl) False (shouldUseSecureCookies env (Some req))) bare"
proof -
  consider (err) "\<not> resp_ok (apiStatus a)" | (ok) "resp_ok (apiStatus a)" by blast
  then show thesis
  proof cases
    case err
    with assms show thesis by (auto simp: me_finish_def Let_def split: if_splits intro: down out)
  next
    case ok
    with assms obtain user where user:
      "(if truthy (json_or a Null) then mapMePayload (json_or a Null) else Inr None) = Inr user"
      by (auto simp: me_finish_def Let_def res_bind_Inr_iff)
    show thesis
    proof (cases user)
      case None
      with ok assms user show thesis by (auto simp: me_finish_def Let_def intro: out)
    next
      case (Some u)
      let ?bare = "json_response (Obj [(''authenticated'', Bool True), (''user'', user_json u)]) 200"
      from Some ok assms user show thesis
        by (cases "art \<noteq> [] \<and> cookie_or_empty req cookie_sessionId \<noteq> []")
          (auto simp: me_finish_def Let_def intro: tokens [of ?bare "role u"] role_only [of ?bare "role u"])
    qed
  qed
qed

lemma me_finish_follows:
  assumes fin: "me_finish env req aj art a = Inr resp" and s: "status resp \<noteq> 503"
    and art: "art = current_token env up (cookie_or_empty req cookie_refreshToken) l qs"
    and fresh: "art \<noteq> cookie_or_empty req cookie_refreshToken \<Longrightarrow>
      art \<noteq> [] \<and> cookie_or_empty req cookie_refreshToken \<noteq> [] \<and> cookie_or_empty req cookie_sessionId \<noteq> []"
  shows "token_follows env up l qs (al_get (cookies req) cookie_refreshToken)
    (al_get (browser_after resp (cookies req)) cookie_refreshToken)"
  using fin
proof (cases rule: me_finish_cases)
  case down
  with s show ?thesis by (simp add: me_unavailable_def)
next
  case (out st)
  then show ?thesis by (simp add: not_authenticated_def cleared_follows)
next
  case (tokens rl bare)
  with fresh have "al_get (cookies req) cookie_refreshToken = Some (cookie_or_empty req cookie_refreshToken)"
    by (metis cookie_or_empty_get)
  with tokens art show ?thesis by (simp add: browser_after_attachToken token_follows_def)
next
  case (role_only rl bare)
  with fresh have "art = cookie_or_empty req cookie_refreshToken" by auto
  with role_only art show ?thesis
    by (auto simp: browser_after_def token_follows_def cookie_or_empty_def split: option.splits)
qed

lemma me_GET_apply:
  assumes "cookie_or_empty req cookie_jwt = j" "j \<noteq> []" "cookie_or_empty req cookie_refreshToken = rt"
    "cookie_or_empty req cookie_sessionId = sid"
  shows "me_GET env up req l =
    (case up l (me_request env j) of None \<Rightarrow> (Inr (me_unavailable ''auth_upstream_unreachable''), l @ [me_request env j])
     | Some a \<Rightarrow>
        if refreshes up (me_request env j) rt sid l then
          (case fst (refreshJwt env up rt (l @ [me_request env j])) of
             Inl e \<Rightarrow> (Inl e, l @ [me_request env j, refresh_request env rt])
           | Inr None \<Rightarrow> (me_finish env req j rt a, l @ [me_request env j, refresh_request env rt])
           | Inr (Some t) \<Rightarrow>
              ((case up (l @ [me_request env j, refresh_request env rt]) (me_request env (newJwt t)) of
                 None \<Rightarrow> Inr (me_unavailable ''auth_upstream_unreachable'')
               | Some b \<Rightarrow> me_finish env req (newJwt t) (newRefreshToken t) b),
               l @ [me_request env j, refresh_request env rt, me_request env (newJwt t)]))
        else (me_finish env req j rt a, l @ [me_request env j]))"
proof -
  obtain r where r: "refreshJwt env up rt (l @ [me_request env j]) = (r, l @ [me_request env j, refresh_request env rt])"
    using refreshJwt_log [of env up rt "l @ [me_request env j]"]
    by (cases "refreshJwt env up rt (l @ [me_request env j])") simp
  show ?thesis using assms r
    by (simp add: me_GET_def me_refreshJwt_eq io_bind_apply io_try_apply fetchMeWithJwt_def fetch_apply refreshes_def
        split: option.split sum.split)
qed

text \<open>
  C31: the current-user route keeps the session in step whenever it does not answer 503: the browser
  then holds the refresh token in force or is signed out.
\<close>

theorem me_keeps_session:
  assumes run: "me_GET env up req l = (Inr resp, l')" and s: "status resp \<noteq> 503"
  shows "\<exists>qs. l' = l @ qs \<and> token_follows env up l qs (al_get (cookies req) cookie_refreshToken)
    (al_get (browser_after resp (cookies req)) cookie_refreshToken)"
proof (cases "cookie_or_empty req cookie_jwt = []")
  case True
  with run show ?thesis by (auto simp: me_GET_def not_authenticated_def cleared_follows)
next
  case False
  note app = me_GET_apply [OF refl False refl refl, of env up l]
  have s': "status (me_unavailable msg) = 503" for msg by (simp add: me_unavailable_def)
  show ?thesis
  proof (cases "up l (me_request env (cookie_or_empty req cookie_jwt))")
    case None
    with app run s s' show ?thesis by auto
  next
    case (Some a)
    with app run s s' show ?thesis
      by (auto split: if_splits sum.splits option.splits dest: refreshJwt_Some
          intro!: me_finish_follows [where req = req] simp: refreshes_def)
  qed
qed

definition demo_me_api :: "nat \<Rightarrow> upstream" where
  "demo_me_api s l q =
     Some (if q = refresh_request [] ''r1'' then demo_json 200 ''{\"jwt\":\"j2\",\"refresh_token\":\"r2\"}''
           else if q = me_request [] ''j2''
           then demo_json s ''{\"user_id\":\"u1\",\"email\":\"a@b\",\"display_name\":\"\",\"user_role\":\"User\"}''
           else demo_json 401 ''{}'')"

theorem me_keeps_session_witness:
  "al_get (browser_after (case fst (me_GET [] (demo_me_api 200) (demo_request demo_jar) []) of Inr r \<Rightarrow> r) demo_jar)
     cookie_refreshToken \<in> {None, Some ''r2''}"
proof -
  let ?r = "case fst (me_GET [] (demo_me_api 200) (demo_request demo_jar) []) of Inr r \<Rightarrow> r"
  let ?l = "[me_request [] ''j1'', refresh_request [] ''r1'', me_request [] ''j2'']"
  have run: "me_GET [] (demo_me_api 200) (demo_request demo_jar) [] = (Inr ?r, ?l)" and "status ?r \<noteq> 503" by code_simp+
  from me_keeps_session [OF this]
  have "token_follows [] (demo_me_api 200) [] ?l (al_get demo_jar cookie_refreshToken)
     (al_get (browser_after ?r demo_jar) cookie_refreshToken)" by (simp add: demo_cookies)
  moreover have "al_get demo_jar cookie_refreshToken = Some ''r1''" by code_simp
  moreover have "current_token [] (demo_me_api 200) ''r1'' [] ?l = ''r2''" by code_simp
  ultimately show ?thesis by (auto simp: token_follows_def)
qed

text \<open>
  C33: when the refresh succeeded and the repeated \<^verbatim>\<open>/me\<close> then fails with a server error or cannot be
  reached, the route answers 503 without cookies: the new tokens are dropped and the refresh
  token the browser keeps is no longer the one in force.
\<close>

theorem me_503_drops_tokens:
  assumes "cookie_or_empty req cookie_jwt = j" "j \<noteq> []" "cookie_or_empty req cookie_refreshToken = rt"
    and "refreshes up (me_request env j) rt (cookie_or_empty req cookie_sessionId) l"
    and "fst (refreshJwt env up rt (l @ [me_request env j])) = Inr (Some t)"
    and "case up (l @ [me_request env j, refresh_request env rt]) (me_request env (newJwt t)) of
      None \<Rightarrow> True | Some b \<Rightarrow> apiStatus b \<ge> 500"
  shows "\<exists>resp qs. me_GET env up req l = (Inr resp, l @ qs) \<and> status resp = 503 \<and>
    al_get (browser_after resp (cookies req)) cookie_refreshToken = al_get (cookies req) cookie_refreshToken \<and>
    current_token env up rt l qs = newRefreshToken t"
proof -
  let ?qs = "[me_request env j, refresh_request env rt, me_request env (newJwt t)]"
  from assms(4) obtain a where a: "up l (me_request env j) = Some a" by (auto simp: refreshes_def)
  have tok: "current_token env up rt l ?qs = newRefreshToken t" using assms(5) by simp
  have "\<exists>msg. me_GET env up req l = (Inr (me_unavailable msg), l @ ?qs)"
    using assms(4-6) a me_GET_apply [OF assms(1-3) refl, of env up l]
    by (auto simp: me_finish_def Let_def split: option.splits)
  with tok show ?thesis by (auto simp: me_unavailable_def browser_after_def)
qed

theorem me_503_drops_tokens_witness:
  "\<exists>resp qs. me_GET [] (demo_me_api 500) (demo_request demo_jar) [] = (Inr resp, [] @ qs) \<and> status resp = 503 \<and>
    al_get (browser_after resp demo_jar) cookie_refreshToken = Some ''r1'' \<and>
    current_token [] (demo_me_api 500) ''r1'' [] qs = ''r2''"
proof -
  have "refreshes (demo_me_api 500) (me_request [] ''j1'') ''r1'' (cookie_or_empty (demo_request demo_jar) cookie_sessionId) []"
    unfolding refreshes_def by (intro conjI exI [of _ "demo_json 401 ''{}''"]) code_simp+
  moreover have "fst (refreshJwt [] (demo_me_api 500) ''r1'' ([] @ [me_request [] ''j1''])) =
      Inr (Some \<lparr>newJwt = ''j2'', newRefreshToken = ''r2''\<rparr>)" by code_simp
  moreover have "cookie_or_empty (demo_request demo_jar) cookie_jwt = ''j1''"
    "cookie_or_empty (demo_request demo_jar) cookie_refreshToken = ''r1''"
    "al_get demo_jar cookie_refreshToken = Some ''r1''" by code_simp+
  moreover have "case demo_me_api 500 ([] @ [me_request [] ''j1'', refresh_request [] ''r1''])
      (me_request [] (newJwt \<lparr>newJwt = ''j2'', newRefreshToken = ''r2''\<rparr>)) of None \<Rightarrow> True | Some b \<Rightarrow> apiStatus b \<ge> 500"
    by code_simp
  ultimately show ?thesis
    using me_503_drops_tokens [of "demo_request demo_jar" "''j1''" "''r1''" "demo_me_api 500" "[]" "[]"
      "\<lparr>newJwt = ''j2'', newRefreshToken = ''r2''\<rparr>"]
    by (simp add: demo_cookies)
qed

section \<open>Cookie attributes\<close>

text \<open>
  A response hides the tokens when every cookie it sets, the role apart, is out of reach of
  scripts, restricted to same-site navigation and valid for the whole site.
\<close>

definition hides_tokens :: "response \<Rightarrow> bool" where
  "hides_tokens r \<longleftrightarrow> list_all (\<lambda>op. case op of DeleteCookie _ \<Rightarrow> True
     | SetCookie c \<Rightarrow> (cookieName c \<noteq> cookie_role \<longrightarrow> httpOnly c) \<and> sameSite c = ''lax'' \<and> cookiePath c = ''/'')
     (map snd (respCookies r))"

lemma hides_tokens_bare: "respCookies r = [] \<Longrightarrow> hides_tokens r"
  by (simp add: hides_tokens_def)

lemma hides_tokens_attachToken: "respCookies r = [] \<Longrightarrow> hides_tokens (attachTokenCookies env q c orl r)"
  unfolding hides_tokens_def attachTokenCookies_fresh by (simp add: session_cookie_def Let_def split: option.split)

lemma hides_tokens_attachAuth: "respCookies r = [] \<Longrightarrow> hides_tokens (attachAuthCookies env q c rl r)"
  unfolding hides_tokens_def attachAuthCookies_fresh by (simp add: session_cookie_def Let_def)

lemma hides_tokens_clear: "respCookies r = [] \<Longrightarrow> hides_tokens (clearAuthCookies r)"
  unfolding hides_tokens_def clearAuthCookies_fresh by simp

lemmas hides_tokens_intros = hides_tokens_bare hides_tokens_attachToken hides_tokens_attachAuth hides_tokens_clear

lemma hides_tokens_unauthenticated: "hides_tokens unauthenticated"
  by (simp add: unauthenticated_def hides_tokens_clear)

lemma carries_session_hides:
  "carries_session env sid act bare resp \<Longrightarrow> respCookies bare = [] \<Longrightarrow> hides_tokens resp"
  by (auto simp: carries_session_def intro: hides_tokens_intros)

lemma console_hides_tokens:
  assumes "h \<in> console env up" "h req l = (Inr resp, l')"
  shows "hides_tokens resp"
  using assms(1)
proof cases
  case proxied
  then show ?thesis
  proof cases
    case (json path opts)
    with assms(2) have run: "proxyAuthedRequest env up req (path req) (opts req) l = (Inr resp, l')" by simp
    show ?thesis by (cases rule: proxyAuthedRequest_Inr [OF run])
      (auto simp: hides_tokens_unauthenticated intro: carries_session_hides)
  next
    case (binary path)
    with assms(2) have run: "proxyAuthedBinaryGet env up req (path req) l = (Inr resp, l')" by simp
    show ?thesis by (cases rule: proxyAuthedBinaryGet_Inr [OF run])
      (auto simp: hides_tokens_unauthenticated intro: carries_session_hides)
  qed
next
  case refresh
  with assms(2) have run: "refresh_POST env up req l = (Inr resp, l')" by simp
  show ?thesis by (cases rule: refresh_POST_Inr [OF run]) (auto intro: hides_tokens_intros)
next
  case logout
  with assms(2) show ?thesis by (auto simp: logout_POST_apply intro: hides_tokens_intros)
qed

lemma me_finish_hides: "me_finish env req aj art a = Inr resp \<Longrightarrow> hides_tokens resp"
  by (cases rule: me_finish_cases)
    (auto simp: me_unavailable_def not_authenticated_def hides_tokens_def [of "set_cookie _ _"] session_cookie_def
      intro: hides_tokens_intros)

lemma me_hides_tokens:
  assumes "me_GET env up req l = (Inr resp, l')"
  shows "hides_tokens resp"
proof (cases "cookie_or_empty req cookie_jwt = []")
  case True
  with assms show ?thesis by (auto simp: me_GET_def not_authenticated_def hides_tokens_intros)
next
  case False
  have "hides_tokens (me_unavailable msg)" for msg by (simp add: me_unavailable_def hides_tokens_intros)
  with assms me_GET_apply [OF refl False refl refl, of env up l] show ?thesis
    by (auto split: option.splits if_splits sum.splits dest: me_finish_hides)
qed

lemma verify_otp_hides_tokens:
  assumes "verify_otp_POST env up req l = (Inr resp, l')"
  shows "hides_tokens resp"
  using assms
  by (auto simp: verify_otp_POST_def message_response_def Let_def io_bind_Inr_iff hides_tokens_intros
      dest!: upstream_failure_status split: option.splits if_splits)

lemma request_otp_hides_tokens:
  assumes "request_otp_POST env up req l = (Inr resp, l')"
  shows "hides_tokens resp"
  using assms
  by (auto simp: request_otp_POST_def message_response_def Let_def io_bind_Inr_iff io_try_apply hides_tokens_intros response_init_Inr_iff
      dest!: upstream_failure_status split: option.splits if_splits)

lemma hides_tokens_delete:
  assumes "hides_tokens r"
  shows "hides_tokens (delete_cookie n r)"
proof -
  have "set (al_set k v m) \<subseteq> insert (k, v) (set m)" for k and v :: cookie_op and m
    by (induction m) (auto split: if_splits)
  with assms show ?thesis unfolding hides_tokens_def list_all_iff delete_cookie_def by fastforce
qed

end
