(* ===== verification/Codec.thy ===== *)
theory Codec
  imports JsJson
begin

text \<open>
  The text encodings the sources use: UTF-8, base64url (\<^verbatim>\<open>Buffer\<close>), \<^verbatim>\<open>encodeURIComponent\<close> and the
  serialization of \<^verbatim>\<open>URLSearchParams\<close>. Bytes are characters below 256, as the strings are.
\<close>

section \<open>UTF-8\<close>

definition utf8_char :: "char \<Rightarrow> string" where
  "utf8_char c = (let n = (of_char c :: nat) in
     if n < 128 then [c] else [char_of (192 + n div 64), char_of (128 + n mod 64)])"

definition utf8_encode :: "string \<Rightarrow> string" where
  "utf8_encode s = concat (map utf8_char s)"

text \<open>Decoding; \<open>None\<close> for text with characters outside the modelled range.\<close>

fun utf8_decode :: "string \<Rightarrow> string option" where
  "utf8_decode [] = Some []"
| "utf8_decode (a # s) =
     (let n = (of_char a :: nat) in
      if n < 128 then map_option (Cons a) (utf8_decode s)
      else if n = 194 \<or> n = 195 then
        (case s of [] \<Rightarrow> None
         | b # t \<Rightarrow> let k = (of_char b :: nat) in
             if 128 \<le> k \<and> k < 192 then map_option (Cons (char_of ((n - 192) * 64 + (k - 128)))) (utf8_decode t) else None)
      else None)"

section \<open>base64url\<close>

definition sextet_char :: "nat \<Rightarrow> char" where
  "sextet_char n =
     (if n < 26 then char_of (65 + n) else if n < 52 then char_of (71 + n)
      else if n < 62 then char_of (n - 4) else if n = 62 then CHR ''-'' else CHR ''_'')"

definition char_sextet :: "char \<Rightarrow> nat option" where
  "char_sextet c = (let n = (of_char c :: nat) in
     if 65 \<le> n \<and> n \<le> 90 then Some (n - 65) else if 97 \<le> n \<and> n \<le> 122 then Some (n - 71)
     else if 48 \<le> n \<and> n \<le> 57 then Some (n + 4)
     else if c = CHR ''-'' \<or> c = CHR ''+'' then Some 62 else if c = CHR ''_'' \<or> c = CHR ''/'' then Some 63 else None)"

fun bytes_sextets :: "nat list \<Rightarrow> nat list" where
  "bytes_sextets [] = []"
| "bytes_sextets [a] = [a div 4, a mod 4 * 16]"
| "bytes_sextets [a, b] = [a div 4, a mod 4 * 16 + b div 16, b mod 16 * 4]"
| "bytes_sextets (a # b # c # r) =
     a div 4 # (a mod 4 * 16 + b div 16) # (b mod 16 * 4 + c div 64) # c mod 64 # bytes_sextets r"

fun sextets_bytes :: "nat list \<Rightarrow> nat list" where
  "sextets_bytes (p # q # r # s # t) =
     (p * 4 + q div 16) # (q mod 16 * 16 + r div 4) # (r mod 4 * 64 + s) # sextets_bytes t"
| "sextets_bytes [p, q, r] = [p * 4 + q div 16, q mod 16 * 16 + r div 4]"
| "sextets_bytes [p, q] = [p * 4 + q div 16]"
| "sextets_bytes _ = []"

definition base64url_encode :: "string \<Rightarrow> string" where
  "base64url_encode s = map sextet_char (bytes_sextets (map of_char s))"

text \<open>The decoder reads both alphabets and skips any other character.\<close>

definition base64url_decode :: "string \<Rightarrow> string" where
  "base64url_decode s = map char_of (sextets_bytes (List.map_filter char_sextet s))"

section \<open>Percent encodings\<close>

definition is_alnum :: "char \<Rightarrow> bool" where
  "is_alnum c = (let n = (of_char c :: nat) in
     48 \<le> n \<and> n \<le> 57 \<or> 65 \<le> n \<and> n \<le> 90 \<or> 97 \<le> n \<and> n \<le> 122)"

definition upper_hex :: "nat \<Rightarrow> char" where
  "upper_hex n = (if n < 10 then char_of (48 + n) else char_of (55 + n))"

definition percent :: "char \<Rightarrow> string" where
  "percent b = (let n = (of_char b :: nat) in [CHR ''%'', upper_hex (n div 16), upper_hex (n mod 16)])"

definition uri_unreserved :: "char \<Rightarrow> bool" where
  "uri_unreserved c \<longleftrightarrow> is_alnum c \<or>
     c \<in> {CHR ''-'', CHR ''_'', CHR ''.'', CHR ''!'', CHR ''~'', CHR ''*'', CHR 0x27, CHR ''('', CHR '')''}"

definition encodeURIComponent :: "string \<Rightarrow> string" where
  "encodeURIComponent s = concat (map (\<lambda>c. if uri_unreserved c then [c] else concat (map percent (utf8_char c))) s)"

definition form_char :: "char \<Rightarrow> string" where
  "form_char b = (if is_alnum b \<or> b \<in> {CHR ''*'', CHR ''-'', CHR ''.'', CHR ''_''} then [b]
     else if b = CHR '' '' then ''+'' else percent b)"

definition form_encode :: "string \<Rightarrow> string" where
  "form_encode s = concat (map form_char (utf8_encode s))"

text \<open>\<^verbatim>\<open>searchParams.toString()\<close>.\<close>

definition search_to_string :: "(string \<times> string) list \<Rightarrow> string" where
  "search_to_string ps = join ''&'' (map (\<lambda>(k, v). form_encode k @ ''='' @ form_encode v) ps)"

section \<open>Dot segments\<close>

text \<open>
  The URL parser of the platform resolves the segments of a path: a dot, plain or percent-encoded, is dropped, two of them drop the
  segment before, and in the last place both leave an empty segment. \<open>out\<close> holds the segments so far.
\<close>

definition single_dot :: "string \<Rightarrow> bool" where
  "single_dot s \<longleftrightarrow> s \<in> {''.'', ''%2e'', ''%2E''}"

definition double_dot :: "string \<Rightarrow> bool" where
  "double_dot s \<longleftrightarrow>
     s \<in> {''..'', ''.%2e'', ''.%2E'', ''%2e.'', ''%2E.'', ''%2e%2e'', ''%2e%2E'', ''%2E%2e'', ''%2E%2E''}"

fun url_path :: "string list \<Rightarrow> string list \<Rightarrow> string list" where
  "url_path out [] = out"
| "url_path out (s # rest) =
     (let closing = (if rest = [] then [[]] else []) in
      if double_dot s then url_path (butlast out @ closing) rest
      else if single_dot s then url_path (out @ closing) rest
      else url_path (out @ [s]) rest)"

section \<open>Laws\<close>

lemma of_char_less [simp]: "(of_char c :: nat) < 256"
  by (metis nat_of_char_less_256)

lemma utf8_decode_encode: "utf8_decode (utf8_encode s) = Some s"
proof (induction s)
  case Nil
  show ?case by (simp add: utf8_encode_def)
next
  case (Cons c s)
  let ?n = "of_char c :: nat"
  have lt: "?n < 256" by simp
  show ?case
  proof (cases "?n < 128")
    case True
    with Cons show ?thesis by (simp add: utf8_encode_def utf8_char_def)
  next
    case False
    with lt have d: "?n div 64 = 2 \<or> ?n div 64 = 3" by linarith
    have "192 + ?n div 64 < 256" "128 + ?n mod 64 < 256" using lt by linarith+
    moreover have "?n div 64 * 64 + ?n mod 64 = ?n" by (rule div_mult_mod_eq)
    ultimately show ?thesis using d False Cons
      by (auto simp: utf8_encode_def utf8_char_def Let_def)
  qed
qed

lemma char_sextet_char [simp]: "n < 64 \<Longrightarrow> char_sextet (sextet_char n) = Some n"
  by (auto simp: char_sextet_def sextet_char_def Let_def)

lemma bytes_sextets_less: "list_all (\<lambda>b. b < 256) bs \<Longrightarrow> list_all (\<lambda>s. s < 64) (bytes_sextets bs)"
  by (induction bs rule: bytes_sextets.induct) auto

lemma sextets_bytes_sextets: "list_all (\<lambda>b. b < 256) bs \<Longrightarrow> sextets_bytes (bytes_sextets bs) = bs"
  by (induction bs rule: bytes_sextets.induct) auto

lemma map_filter_sextets:
  "list_all (\<lambda>s. s < 64) ns \<Longrightarrow> List.map_filter char_sextet (map sextet_char ns) = ns"
  by (induction ns) (auto simp: List.map_filter_def)

lemma base64url_decode_encode: "base64url_decode (base64url_encode s) = s"
proof -
  have bs: "list_all (\<lambda>b. b < 256) (map of_char s :: nat list)" by (simp add: list_all_iff)
  show ?thesis
    by (simp add: base64url_decode_def base64url_encode_def map_filter_sextets [OF bytes_sextets_less [OF bs]]
        sextets_bytes_sextets [OF bs])
qed

text \<open>What \<^verbatim>\<open>decodeURIComponent\<close> reads back, at the level of bytes.\<close>

definition hex_nat :: "char \<Rightarrow> nat" where
  "hex_nat c = (let n = (of_char c :: nat) in if n < 58 then n - 48 else n - 55)"

fun percent_decode :: "string \<Rightarrow> string" where
  "percent_decode [] = []"
| "percent_decode (c # s) =
     (if c = CHR ''%'' then (case s of a # b # t \<Rightarrow> char_of (hex_nat a * 16 + hex_nat b) # percent_decode t | _ \<Rightarrow> [c])
      else c # percent_decode s)"

lemma hex_nat_upper_hex [simp]: "n < 16 \<Longrightarrow> hex_nat (upper_hex n) = n"
  by (auto simp: hex_nat_def upper_hex_def)

lemma percent_decode_percent: "percent_decode (percent b @ s) = b # percent_decode s"
proof -
  have "(of_char b :: nat) div 16 < 16" "(of_char b :: nat) mod 16 < 16" using of_char_less [of b] by linarith+
  moreover have "(of_char b :: nat) div 16 * 16 + of_char b mod 16 = of_char b" by (rule div_mult_mod_eq)
  ultimately show ?thesis by (simp add: percent_def Let_def)
qed

lemma percent_decode_percents: "percent_decode (concat (map percent bs) @ s) = bs @ percent_decode s"
  by (induction bs) (simp_all add: percent_decode_percent)

lemma encodeURIComponent_Cons:
  "encodeURIComponent (c # s) = (if uri_unreserved c then [c] else concat (map percent (utf8_char c))) @ encodeURIComponent s"
  by (simp add: encodeURIComponent_def)

lemma uri_unreserved_ascii: "uri_unreserved c \<Longrightarrow> (of_char c :: nat) < 128 \<and> c \<noteq> CHR ''%''"
  by (auto simp: uri_unreserved_def is_alnum_def Let_def)

lemma percent_decode_encodeURIComponent: "percent_decode (encodeURIComponent s) = utf8_encode s"
proof (induction s)
  case (Cons c s)
  then show ?case
    by (cases "uri_unreserved c")
      (auto simp: encodeURIComponent_Cons percent_decode_percents utf8_encode_def utf8_char_def dest: uri_unreserved_ascii)
qed (simp add: encodeURIComponent_def utf8_encode_def)

lemma encodeURIComponent_inj: "encodeURIComponent s = encodeURIComponent t \<longleftrightarrow> s = t"
  by (metis percent_decode_encodeURIComponent utf8_decode_encode option.inject)

definition uri_safe :: "char \<Rightarrow> bool" where
  "uri_safe c \<longleftrightarrow> uri_unreserved c \<or> c = CHR ''%''"

lemma upper_hex_alnum: "n < 16 \<Longrightarrow> is_alnum (upper_hex n)"
  by (auto simp: upper_hex_def is_alnum_def Let_def)

lemma percent_safe: "list_all uri_safe (percent b)"
proof -
  have "(of_char b :: nat) div 16 < 16" "(of_char b :: nat) mod 16 < 16" using of_char_less [of b] by linarith+
  then show ?thesis by (simp add: percent_def Let_def uri_safe_def uri_unreserved_def upper_hex_alnum)
qed

lemma percents_safe: "list_all uri_safe (concat (map percent bs))"
  by (induction bs) (simp_all add: percent_safe)

lemma encodeURIComponent_safe: "list_all uri_safe (encodeURIComponent s)"
proof (induction s)
  case (Cons c s)
  moreover have "uri_unreserved c \<Longrightarrow> uri_safe c" by (simp add: uri_safe_def)
  ultimately show ?case by (simp add: encodeURIComponent_Cons percents_safe)
qed (simp add: encodeURIComponent_def)

lemma uri_safe_delimiters [simp]:
  "\<not> uri_safe CHR ''/''" "\<not> uri_safe CHR ''?''" "\<not> uri_safe CHR ''#''" "\<not> uri_safe CHR ''&''" "\<not> uri_safe CHR ''=''"
  by (simp_all add: uri_safe_def uri_unreserved_def is_alnum_def)

lemma encodeURIComponent_Nil_iff: "encodeURIComponent s = [] \<longleftrightarrow> s = []"
  using encodeURIComponent_inj [of s "[]"] by (simp add: encodeURIComponent_def)

lemma encodeURIComponent_dot:
  assumes "encodeURIComponent s = CHR ''.'' # r"
  obtains t where "s = CHR ''.'' # t" "encodeURIComponent t = r"
proof (cases s)
  case (Cons c t)
  have "uri_unreserved c"
  proof (rule ccontr)
    assume "\<not> uri_unreserved c"
    with assms Cons show False by (auto simp: encodeURIComponent_Cons utf8_char_def percent_def Let_def split: if_splits)
  qed
  with assms Cons show thesis by (intro that [of t]) (simp_all add: encodeURIComponent_Cons)
qed (use assms in \<open>simp add: encodeURIComponent_def\<close>)

lemma percent_no_dot:
  assumes "percent b = [CHR ''%'', CHR ''2'', e]" "e = CHR ''e'' \<or> e = CHR ''E''"
  shows "b = CHR ''.''"
proof -
  have "(of_char (upper_hex k) :: nat) \<noteq> of_char CHR ''e''" if "k < 16" for k using that by (simp add: upper_hex_def)
  then have "upper_hex ((of_char b :: nat) mod 16) \<noteq> CHR ''e''" by (metis mod_less_divisor zero_less_numeral)
  with assms have "percent b = ''%2E''" by (auto simp: percent_def Let_def)
  then have "percent_decode (percent b @ []) = percent_decode ''%2E''" by simp
  then show ?thesis unfolding percent_decode_percent by (simp add: hex_nat_def) code_simp
qed

lemma encodeURIComponent_no_dot:
  assumes "e = CHR ''e'' \<or> e = CHR ''E''"
  shows "encodeURIComponent s \<noteq> CHR ''%'' # CHR ''2'' # e # r"
proof (cases s)
  case (Cons c t)
  show ?thesis
  proof (cases "uri_unreserved c")
    case True
    with Cons uri_unreserved_ascii [OF True] show ?thesis by (simp add: encodeURIComponent_Cons)
  next
    case False
    have "(of_char c :: nat) div 64 < 4" using of_char_less [of c] by linarith
    then have "(of_char (char_of (192 + (of_char c :: nat) div 64) :: char) :: nat) \<noteq> of_char CHR ''.''" by simp
    then have "char_of (192 + (of_char c :: nat) div 64) \<noteq> CHR ''.''" by metis
    then obtain b bs where b: "utf8_char c = b # bs" "b = CHR ''.'' \<Longrightarrow> c = CHR ''.''"
      by (cases "(of_char c :: nat) < 128") (auto simp: utf8_char_def Let_def split: if_splits)
    with False have "percent b \<noteq> [CHR ''%'', CHR ''2'', e]"
      using percent_no_dot [OF _ assms] by (auto simp: uri_unreserved_def)
    with Cons False b(1) show ?thesis by (auto simp: encodeURIComponent_Cons percent_def Let_def)
  qed
qed (simp add: encodeURIComponent_def)

lemma encoded_dots:
  "single_dot (encodeURIComponent s) \<longleftrightarrow> s = ''.''"
  "double_dot (encodeURIComponent s) \<longleftrightarrow> s = ''..''"
  by (auto simp: single_dot_def double_dot_def encodeURIComponent_no_dot encodeURIComponent_Nil_iff elim!: encodeURIComponent_dot)
    (simp_all add: encodeURIComponent_def uri_unreserved_def)

lemma url_path_length: "length (url_path out segs) \<le> length out + length segs"
proof (induction out segs rule: url_path.induct)
  case (2 out s rest)
  then show ?case by (cases rest) (auto simp: Let_def)
qed simp

text \<open>A path is left as it is exactly when no segment is a dot.\<close>

lemma url_path_keeps: "url_path out segs = out @ segs \<longleftrightarrow> (\<forall>s \<in> set segs. \<not> single_dot s \<and> \<not> double_dot s)"
proof (induction segs arbitrary: out)
  case (Cons s rest)
  show ?case
  proof (cases "single_dot s \<or> double_dot s")
    case True
    then have "s \<noteq> []" by (auto simp: single_dot_def double_dot_def)
    have "url_path out (s # rest) \<noteq> out @ s # rest"
    proof (cases "rest = []")
      case True
      with \<open>single_dot s \<or> double_dot s\<close> \<open>s \<noteq> []\<close> show ?thesis by (auto simp: Let_def)
    next
      case False
      with True have "length (url_path out (s # rest)) < length (out @ s # rest)"
        using url_path_length [of out rest] url_path_length [of "butlast out" rest] by (auto simp: Let_def)
      then show ?thesis by (rule contrapos_pn) simp
    qed
    with True show ?thesis by auto
  next
    case False
    with Cons.IH [of "out @ [s]"] show ?thesis by simp
  qed
qed simp

lemma url_path_encoded:
  "url_path out (map encodeURIComponent segs) = out @ map encodeURIComponent segs \<longleftrightarrow> ''.'' \<notin> set segs \<and> ''..'' \<notin> set segs"
  by (auto simp: url_path_keeps encoded_dots)

end
