(* ===== verification/GoogleAuth.thy ===== *)
theory GoogleAuth
  imports AuthRoutes Codec
begin

text \<open>
  The two steps of the Google login, \<^verbatim>\<open>src/app/api/auth/google/start/route.ts\<close> and
  \<^verbatim>\<open>callback/route.ts\<close>. The URL parser of the platform is a parameter: \<open>origin_of v\<close> is
  \<^verbatim>\<open>new URL(v).origin\<close> and \<open>resolve r b\<close> the text of \<^verbatim>\<open>new URL(r, b)\<close>, \<open>None\<close> when they throw.
  \<open>nonce\<close> is the value of \<^verbatim>\<open>crypto.randomUUID()\<close>.
\<close>

section \<open>Definitions: start\<close>

definition base64Url :: "string \<Rightarrow> string" where
  "base64Url input = base64url_encode (utf8_encode input)"

definition publicOrigin :: "request \<Rightarrow> string" where
  "publicOrigin req =
     header_or req ''x-forwarded-proto'' (replace_first CHR '':'' [] (protocol req)) @ ''://'' @
     header_or req ''x-forwarded-host'' (header_or req ''host'' (host req))"

fun first_origin :: "(string \<Rightarrow> string option) \<Rightarrow> string list \<Rightarrow> string option" where
  "first_origin origin_of [] = None"
| "first_origin origin_of (candidate # rest) =
     (let v = trim candidate in
      if v = [] then first_origin origin_of rest
      else (case origin_of v of Some ori \<Rightarrow> Some ori | None \<Rightarrow> first_origin origin_of rest))"

definition configuredUiOrigin :: "(string \<Rightarrow> string option) \<Rightarrow> env \<Rightarrow> string option" where
  "configuredUiOrigin origin_of env =
     first_origin origin_of [env_or env ''GOOGLE_OAUTH_REDIRECT_BASE_URL'' [], env_or env ''CONTROL_PLANE_UI_URL'' [],
       env_or env ''NEXT_PUBLIC_CONTROL_PLANE_UI_URL'' []]"

definition googleRedirectUri :: "(string \<Rightarrow> string option) \<Rightarrow> env \<Rightarrow> request \<Rightarrow> string" where
  "googleRedirectUri origin_of env req =
     (let explicit = trim (env_or env ''GOOGLE_OAUTH_REDIRECT_URI'' []) in
      if explicit \<noteq> [] then explicit
      else strip_trailing CHR ''/'' (case configuredUiOrigin origin_of env of Some ori \<Rightarrow> ori | None \<Rightarrow> publicOrigin req)
             @ ''/api/auth/google/callback'')"

definition shouldUseSecureCookie :: "env \<Rightarrow> request \<Rightarrow> bool" where
  "shouldUseSecureCookie env req =
     (let override = to_lower (trim (env_or env ''AUTH_COOKIE_SECURE'' [])) in
      if override = ''1'' \<or> override = ''true'' \<or> override = ''yes'' \<or> override = ''on'' then True
      else if override = ''0'' \<or> override = ''false'' \<or> override = ''no'' \<or> override = ''off'' then False
      else to_lower (header_or req ''x-forwarded-proto'' (replace_first CHR '':'' [] (protocol req))) = ''https'')"

definition with_query :: "string \<Rightarrow> (string \<times> string) list \<Rightarrow> string" where
  "with_query url ps = url @ (if ps = [] then [] else ''?'' @ search_to_string ps)"

definition new_url :: "(string \<Rightarrow> string \<Rightarrow> string option) \<Rightarrow> string \<Rightarrow> string \<Rightarrow> string res" where
  "new_url resolve ref base = (case resolve ref base of None \<Rightarrow> Inl (UrlError ref) | Some u \<Rightarrow> Inr u)"

definition state_cookie :: string where
  "state_cookie = ''quoodle_google_oauth_state''"

definition google_state :: "string \<Rightarrow> request \<Rightarrow> string" where
  "google_state nonce req =
     base64Url (case json_body [(''nonce'', Str nonce),
        (''next'', Str (case al_get (searchParams req) ''next'' of Some n \<Rightarrow> n | None \<Rightarrow> []))] of
        Some t \<Rightarrow> t | None \<Rightarrow> [])"

definition google_start_GET ::
  "(string \<Rightarrow> string option) \<Rightarrow> (string \<Rightarrow> string \<Rightarrow> string option) \<Rightarrow> env \<Rightarrow> string \<Rightarrow> request \<Rightarrow> response res" where
  "google_start_GET origin_of resolve env nonce req =
     (let clientId = env_or env ''GOOGLE_CLIENT_ID'' (env_or env ''NEXT_PUBLIC_GOOGLE_CLIENT_ID'' []) in
      if clientId = [] then
        res_bind (new_url resolve ''/sign-up-login-screen'' (publicOrigin req)) (\<lambda>loginUrl.
          Inr (redirect_response (with_query loginUrl [(''error'', ''google_not_configured'')])))
      else
        let redirectUri = googleRedirectUri origin_of env req; state = google_state nonce req in
        Inr (set_cookie \<lparr>cookieName = state_cookie, cookieValue = state, httpOnly = True, sameSite = ''lax'',
               secure = shouldUseSecureCookie env req, cookiePath = ''/'', maxAge = Some 600\<rparr>
          (redirect_response (with_query ''https://accounts.google.com/o/oauth2/v2/auth''
             [(''client_id'', clientId), (''redirect_uri'', redirectUri), (''response_type'', ''code''),
              (''scope'', ''openid email profile''), (''prompt'', ''select_account''), (''state'', state)]))))"

section \<open>Definitions: callback\<close>

definition decodeState :: "string \<Rightarrow> js option" where
  "decodeState state =
     (case utf8_decode (base64url_decode state) of None \<Rightarrow> None | Some text \<Rightarrow> json_parse text)"

definition callback_publicOrigin :: "request \<Rightarrow> string" where
  "callback_publicOrigin req =
     (let forwardedProto = al_get (headers req) ''x-forwarded-proto'';
          forwardedHost = al_get (headers req) ''x-forwarded-host'';
          hst = (case forwardedHost of Some h \<Rightarrow> h
                 | None \<Rightarrow> (case al_get (headers req) ''host'' of Some h \<Rightarrow> h | None \<Rightarrow> host req));
          proto = (case forwardedProto of Some p \<Rightarrow> p | None \<Rightarrow> replace_first CHR '':'' [] (protocol req))
      in proto @ ''://'' @ hst)"

definition callback_configuredUiOrigin :: "(string \<Rightarrow> string option) \<Rightarrow> env \<Rightarrow> string option" where
  "callback_configuredUiOrigin origin_of env =
     first_origin origin_of (map (\<lambda>k. env_or env k [])
       [''GOOGLE_OAUTH_REDIRECT_BASE_URL'', ''CONTROL_PLANE_UI_URL'', ''NEXT_PUBLIC_CONTROL_PLANE_UI_URL''])"

definition callback_googleRedirectUri :: "(string \<Rightarrow> string option) \<Rightarrow> env \<Rightarrow> request \<Rightarrow> string" where
  "callback_googleRedirectUri origin_of env req =
     (let explicit = trim (env_or env ''GOOGLE_OAUTH_REDIRECT_URI'' []);
          ori = (case callback_configuredUiOrigin origin_of env of Some v \<Rightarrow> v | None \<Rightarrow> callback_publicOrigin req)
      in if explicit \<noteq> [] then explicit else strip_trailing CHR ''/'' ori @ ''/api/auth/google/callback'')"

definition redirect_path :: "string \<Rightarrow> user_role \<Rightarrow> string" where
  "redirect_path state rl =
     (let nextFromState = (case decodeState state of None \<Rightarrow> []
            | Some v \<Rightarrow> (case js_field v ''next'' of Str s \<Rightarrow> s | _ \<Rightarrow> []))
      in if nextFromState \<noteq> [] \<and> starts_with nextFromState ''/'' then nextFromState else roleHomePath rl)"

definition exchange_request :: "(string \<Rightarrow> string option) \<Rightarrow> env \<Rightarrow> request \<Rightarrow> string \<Rightarrow> api_request" where
  "exchange_request origin_of env req code =
     api_post env ''/auth/google/exchange''
       [(''code'', Str code), (''redirect_uri'', Str (callback_googleRedirectUri origin_of env req)),
        (''device_fingerprint'', Str (slice 0 255 (header_or req ''user-agent'' ''unknown-agent'' @ ''|'' @
           header_or req ''x-forwarded-for'' ''unknown-ip'')))]"

definition login_failure :: "string \<Rightarrow> string \<Rightarrow> response" where
  "login_failure loginUrl err = delete_cookie state_cookie (redirect_response (with_query loginUrl [(''error'', err)]))"

text \<open>Lines 78 to 101: the answer to the exchange decides.\<close>

definition exchange_finish ::
  "(string \<Rightarrow> string \<Rightarrow> string option) \<Rightarrow> env \<Rightarrow> request \<Rightarrow> string \<Rightarrow> string \<Rightarrow> api_response \<Rightarrow> response res" where
  "exchange_finish resolve env req state loginUrl exchangeResponse =
     (let exchangeJson = json_or exchangeResponse (Obj []) in
      if \<not> resp_ok (apiStatus exchangeResponse)
      then res_bind (str_member exchangeJson ''message'' ''google_exchange_failed'') (\<lambda>msg. Inr (login_failure loginUrl msg))
      else res_bind (authCookiesFromPayload exchangeJson) (\<lambda>cookieValues.
        case cookieValues of None \<Rightarrow> Inr (login_failure loginUrl ''invalid_google_exchange_response'')
        | Some (c, rl) \<Rightarrow>
            res_bind (new_url resolve (redirect_path state rl) (callback_publicOrigin req)) (\<lambda>target.
              Inr (delete_cookie state_cookie
                (attachAuthCookies env (Some req) c rl (redirect_response target))))))"

definition google_callback_GET ::
  "(string \<Rightarrow> string option) \<Rightarrow> (string \<Rightarrow> string \<Rightarrow> string option) \<Rightarrow> env \<Rightarrow> upstream \<Rightarrow> request \<Rightarrow> response io" where
  "google_callback_GET origin_of resolve env up req =
     (let code = param_or_empty req ''code'';
          state = param_or_empty req ''state'';
          storedState = cookie_or_empty req state_cookie
      in io_bind (io_lift (new_url resolve ''/sign-up-login-screen'' (callback_publicOrigin req))) (\<lambda>loginUrl.
        if code = [] \<or> state = [] \<or> storedState = [] \<or> state \<noteq> storedState
        then io_return (login_failure loginUrl ''google_state_invalid'')
        else io_bind (fetch up (exchange_request origin_of env req code)) (\<lambda>exchangeResponse.
          io_lift (exchange_finish resolve env req state loginUrl exchangeResponse))))"

section \<open>Lemmas\<close>

lemma skip_ws_quote [simp]: "skip_ws (CHR 0x22 # s) = CHR 0x22 # s"
  by (simp add: skip_ws_def json_ws_def)

lemma parse_value_quote: "parse_value (Suc n) (quote s @ r) = Some (Str s, r)"
  by (simp add: quote_def parse_quoted)

lemma parse_members_last:
  "parse_members (Suc (Suc n)) m (quote k @ CHR '':'' # quote a @ CHR ''}'' # r) = Some (own_put k (Str a) m, r)"
proof -
  have "skip_ws (CHR '':'' # s) = CHR '':'' # s" "skip_ws (CHR ''}'' # s) = CHR ''}'' # s" for s
    by (simp_all add: skip_ws_def json_ws_def)
  then show ?thesis
    using parse_value_quote [of n a "CHR ''}'' # r"] by (simp add: quote_def [of k] parse_quoted del: parse_value.simps)
qed

lemma parse_members_more:
  "parse_members (Suc (Suc n)) m (quote k @ CHR '':'' # quote a @ CHR '','' # r) =
     parse_members (Suc n) (own_put k (Str a) m) r"
proof -
  have "skip_ws (CHR '':'' # s) = CHR '':'' # s" "skip_ws (CHR '','' # s) = CHR '','' # s" for s
    by (simp_all add: skip_ws_def json_ws_def)
  then show ?thesis
    using parse_value_quote [of n a "CHR '','' # r"]
    by (simp add: quote_def [of k] parse_quoted del: parse_value.simps)
qed

text \<open>An object of strings with two keys reads back.\<close>

lemma parse_two_strings:
  assumes "k1 \<noteq> k2" "array_index k1 = None" "array_index k2 = None"
    and body: "json_body [(k1, Str a), (k2, Str b)] = Some t"
  shows "json_parse t = Some (Obj [(k1, Str a), (k2, Str b)])"
proof -
  let ?body = "quote k1 @ CHR '':'' # quote a @ CHR '','' # quote k2 @ CHR '':'' # quote b @ CHR ''}'' # []"
  have t: "t = CHR ''{'' # ?body"
    using body by (auto simp: json_body_def stringify_def json_brackets_def)
  have open_brace: "skip_ws (CHR ''{'' # s) = CHR ''{'' # s" for s by (simp add: skip_ws_def json_ws_def)
  have "hd (skip_ws ?body) \<noteq> CHR ''}''" by (simp add: quote_def [of k1])
  moreover have "parse_members (Suc (Suc (Suc n))) [] ?body = Some ([(k1, Str a), (k2, Str b)], [])" for n
    using assms(1-3) by (simp add: parse_members_more parse_members_last own_put_def del: parse_members.simps)
  ultimately have "parse_value (Suc (Suc (Suc (Suc n)))) t = Some (Obj [(k1, Str a), (k2, Str b)], [])" for n
    unfolding t by (simp add: open_brace del: parse_members.simps)
  moreover obtain n where "2 * length t + 2 = Suc (Suc (Suc (Suc n)))"
    unfolding t by (simp add: quote_def)
  ultimately show ?thesis by (simp add: json_parse_def skip_ws_def del: parse_value.simps)
qed

lemma decodeState_google_state:
  "decodeState (google_state nonce req) =
     Some (Obj [(''nonce'', Str nonce), (''next'', Str (case al_get (searchParams req) ''next'' of Some n \<Rightarrow> n | None \<Rightarrow> []))])"
proof -
  have idx: "array_index ''nonce'' = None" "array_index ''next'' = None" by code_simp+
  obtain t where t: "json_body [(''nonce'', Str nonce),
      (''next'', Str (case al_get (searchParams req) ''next'' of Some n \<Rightarrow> n | None \<Rightarrow> []))] = Some t"
    by (simp add: json_body_def stringify_def)
  from parse_two_strings [OF _ idx t] show ?thesis
    unfolding decodeState_def google_state_def t by (simp add: base64Url_def base64url_decode_encode utf8_decode_encode)
qed

lemma redirect_path_google_state:
  "redirect_path (google_state nonce req) rl =
     (case al_get (searchParams req) ''next'' of None \<Rightarrow> roleHomePath rl
      | Some n \<Rightarrow> if n \<noteq> [] \<and> starts_with n ''/'' then n else roleHomePath rl)"
  by (simp add: redirect_path_def decodeState_google_state js_field_def obj_get_def split: option.split)

lemma google_state_nonempty: "google_state nonce req \<noteq> []"
  using decodeState_google_state [of nonce req] by (auto simp: decodeState_def base64url_decode_def json_parse_def skip_ws_def List.map_filter_def)

lemma state_cookie_differs [simp]:
  "state_cookie \<noteq> cookie_jwt" "state_cookie \<noteq> cookie_refreshToken" "state_cookie \<noteq> cookie_sessionId" "state_cookie \<noteq> cookie_role"
  "cookie_jwt \<noteq> state_cookie" "cookie_refreshToken \<noteq> state_cookie" "cookie_sessionId \<noteq> state_cookie" "cookie_role \<noteq> state_cookie"
  by (simp_all add: state_cookie_def cookie_names)

text \<open>The two ways the callback answers: a failure, or a login.\<close>

lemma exchange_finish_cases:
  assumes "exchange_finish resolve env req state loginUrl a = Inr resp"
  obtains (failed) err where "resp = login_failure loginUrl err"
  | (login) c rl u where "resp_ok (apiStatus a)" "authCookiesFromPayload (json_or a (Obj [])) = Inr (Some (c, rl))"
      "resolve (redirect_path state rl) (callback_publicOrigin req) = Some u"
      "resp = delete_cookie state_cookie (attachAuthCookies env (Some req) c rl (redirect_response u))"
proof (cases "resp_ok (apiStatus a)")
  case False
  with assms show thesis by (auto simp: exchange_finish_def Let_def res_bind_Inr_iff intro: failed)
next
  case True
  with assms obtain cv where cv: "authCookiesFromPayload (json_or a (Obj [])) = Inr cv"
    by (auto simp: exchange_finish_def Let_def res_bind_Inr_iff)
  show thesis
  proof (cases cv)
    case None
    with True cv assms show thesis by (auto simp: exchange_finish_def intro: failed)
  next
    case (Some p)
    with True cv assms show thesis
      by (cases p; cases "resolve (redirect_path state (snd p)) (callback_publicOrigin req)")
        (auto simp: exchange_finish_def new_url_def intro: login)
  qed
qed

lemma google_callback_cases:
  assumes "google_callback_GET origin_of resolve env up req l = (Inr resp, l')"
  obtains (failed) url err where "resp = login_failure url err"
      "l' = l \<or> (param_or_empty req ''state'' \<noteq> [] \<and> cookie_or_empty req state_cookie = param_or_empty req ''state'')"
  | (login) c rl u where
      "param_or_empty req ''state'' \<noteq> []" "cookie_or_empty req state_cookie = param_or_empty req ''state''"
      "resolve (redirect_path (param_or_empty req ''state'') rl) (callback_publicOrigin req) = Some u"
      "resp = delete_cookie state_cookie (attachAuthCookies env (Some req) c rl (redirect_response u))"
proof (cases "param_or_empty req ''code'' = [] \<or> param_or_empty req ''state'' = [] \<or>
    cookie_or_empty req state_cookie = [] \<or> param_or_empty req ''state'' \<noteq> cookie_or_empty req state_cookie")
  case True
  with assms show thesis by (auto simp: google_callback_GET_def Let_def io_bind_Inr_iff intro: failed)
next
  case False
  with assms obtain lu a where fin: "exchange_finish resolve env req (param_or_empty req ''state'') lu a = Inr resp"
    by (auto simp: google_callback_GET_def Let_def io_bind_Inr_iff)
  from False show thesis
    by (cases rule: exchange_finish_cases [OF fin]) (auto intro: failed login)
qed

lemma respCookies_login:
  "map snd (respCookies (delete_cookie state_cookie (attachAuthCookies env q c rl (redirect_response u)))) =
     map snd (respCookies (attachAuthCookies env q c rl (redirect_response u))) @ [DeleteCookie state_cookie]"
  by (simp add: attachAuthCookies_def Let_def)

lemma browser_after_login:
  "browser_after (delete_cookie state_cookie (attachAuthCookies env q c rl (redirect_response u))) jar =
     al_del state_cookie (browser_after (attachAuthCookies env q c rl (redirect_response u)) jar)"
  unfolding browser_after_def respCookies_login by simp

lemma browser_after_login_failure: "browser_after (login_failure url err) jar = al_del state_cookie jar"
  by (simp add: browser_after_def login_failure_def)

lemma google_start_cookie:
  assumes "google_start_GET origin_of resolve env nonce req = Inr resp"
    and "env_or env ''GOOGLE_CLIENT_ID'' (env_or env ''NEXT_PUBLIC_GOOGLE_CLIENT_ID'' []) \<noteq> []"
  shows "al_get (browser_after resp jar) state_cookie = Some (google_state nonce req)"
  using assms by (auto simp: google_start_GET_def Let_def browser_after_def)

section \<open>Properties\<close>

text \<open>
  C18: the Google login brings the user back. When the browser starts at a page, the state travels through
  Google unchanged and the API accepts the code (the response sets a session), the callback
  redirects to exactly the page the login was started for, if that begins with a slash.
\<close>

theorem google_login_returns_to_next:
  assumes "google_start_GET origin_of resolve env nonce req = Inr resp"
    and "env_or env ''GOOGLE_CLIENT_ID'' (env_or env ''NEXT_PUBLIC_GOOGLE_CLIENT_ID'' []) \<noteq> []"
    and "al_get (searchParams req) ''next'' = Some n" and "starts_with n ''/''"
    and "cookies req' = browser_after resp jar" and "al_get (searchParams req') ''state'' = Some (google_state nonce req)"
    and "google_callback_GET origin_of resolve env up req' l = (Inr resp', l')"
    and "al_get (respCookies resp') cookie_jwt \<noteq> None"
  shows "\<exists>u. resolve n (callback_publicOrigin req') = Some u \<and> al_get (respHeaders resp') ''location'' = Some u"
proof -
  have "n \<noteq> []" using assms(4) by (auto simp: starts_with_def)
  then have path: "redirect_path (google_state nonce req) rl = n" for rl
    using assms(3,4) by (simp add: redirect_path_google_state)
  have st: "param_or_empty req' ''state'' = google_state nonce req" using assms(6) by (simp add: param_or_empty_def)
  show ?thesis
    using assms(8) by (cases rule: google_callback_cases [OF assms(7)]) (auto simp: login_failure_def st path)
qed

definition demo_resolve :: "string \<Rightarrow> string \<Rightarrow> string option" where
  "demo_resolve r b = Some (if starts_with r ''//'' then ''https:'' @ r else b @ r)"

definition demo_google_env :: env where
  "demo_google_env = [(''GOOGLE_CLIENT_ID'', ''id'')]"

definition demo_start :: "string \<Rightarrow> request" where
  "demo_start n = (demo_request [])\<lparr>searchParams := [(''next'', n)]\<rparr>"

definition demo_callback :: "string \<Rightarrow> request" where
  "demo_callback n = (demo_request [(state_cookie, google_state ''n1'' (demo_start n))])
     \<lparr>searchParams := [(''code'', ''c''), (''state'', google_state ''n1'' (demo_start n))]\<rparr>"

lemma demo_started:
  "\<exists>resp. google_start_GET (\<lambda>_. None) demo_resolve demo_google_env ''n1'' (demo_start n) = Inr resp \<and>
     cookies (demo_callback n) = browser_after resp []"
  by (simp add: google_start_GET_def Let_def demo_google_env_def env_or_def browser_after_def demo_callback_def demo_request_def)

lemma demo_login_answer:
  "authCookiesFromPayload (json_or (the (demo_login_api l q)) (Obj [])) =
     Inr (Some (\<lparr>jwt = ''j1'', refreshToken = ''r1'', sessionId = ''s1''\<rparr>, Operator))"
  unfolding demo_login_api_def by code_simp

lemma demo_finished:
  assumes "starts_with n ''/''"
  shows "google_callback_GET (\<lambda>_. None) demo_resolve demo_google_env demo_login_api (demo_callback n) [] =
    (Inr (delete_cookie state_cookie (attachAuthCookies demo_google_env (Some (demo_callback n))
       \<lparr>jwt = ''j1'', refreshToken = ''r1'', sessionId = ''s1''\<rparr> Operator
       (redirect_response (the (demo_resolve n ''https://h''))))),
     [exchange_request (\<lambda>_. None) demo_google_env (demo_callback n) ''c''])"
proof -
  have "n \<noteq> []" using assms by (auto simp: starts_with_def)
  then have path: "redirect_path (google_state ''n1'' (demo_start n)) rl = n" for rl
    using assms by (simp add: redirect_path_google_state demo_start_def)
  have origin: "callback_publicOrigin (demo_callback n) = ''https://h''"
    by (simp add: callback_publicOrigin_def demo_callback_def demo_request_def)
  have "param_or_empty (demo_callback n) ''code'' = ''c''"
    "param_or_empty (demo_callback n) ''state'' = google_state ''n1'' (demo_start n)"
    "cookie_or_empty (demo_callback n) state_cookie = google_state ''n1'' (demo_start n)"
    by (simp_all add: param_or_empty_def cookie_or_empty_def demo_callback_def demo_request_def)
  moreover have "fetch demo_login_api q l = (Inr (the (demo_login_api l q)), l @ [q])"
    "resp_ok (apiStatus (the (demo_login_api l q)))" for q l
    by (simp_all add: fetch_apply demo_login_api_def demo_json_def)
  ultimately show ?thesis
    by (simp add: google_callback_GET_def exchange_finish_def Let_def io_bind_apply google_state_nonempty demo_login_answer path origin
        new_url_def demo_resolve_def)
qed

theorem google_login_returns_to_next_witness:
  "\<exists>resp l. google_callback_GET (\<lambda>_. None) demo_resolve demo_google_env demo_login_api (demo_callback ''/audit'') [] = (Inr resp, l) \<and>
     al_get (respHeaders resp) ''location'' = Some ''https://h/audit''"
proof -
  obtain started where st: "google_start_GET (\<lambda>_. None) demo_resolve demo_google_env ''n1'' (demo_start ''/audit'') = Inr started"
    "cookies (demo_callback ''/audit'') = browser_after started []"
    using demo_started by blast
  have hyps: "env_or demo_google_env ''GOOGLE_CLIENT_ID'' (env_or demo_google_env ''NEXT_PUBLIC_GOOGLE_CLIENT_ID'' []) \<noteq> []"
    "al_get (searchParams (demo_start ''/audit'')) ''next'' = Some ''/audit''" "starts_with ''/audit'' ''/''"
    "al_get (searchParams (demo_callback ''/audit'')) ''state'' = Some (google_state ''n1'' (demo_start ''/audit''))"
    "demo_resolve ''/audit'' (callback_publicOrigin (demo_callback ''/audit'')) = Some ''https://h/audit''"
    by (simp_all add: demo_google_env_def env_or_def demo_start_def demo_callback_def starts_with_def demo_resolve_def
        callback_publicOrigin_def demo_request_def)
  show ?thesis
    using google_login_returns_to_next [OF st(1) hyps(1-3) st(2) hyps(4) demo_finished [OF hyps(3)]] hyps(5)
    by (simp add: demo_finished [OF hyps(3)] attachAuthCookies_def Let_def)
qed

text \<open>
  C34: the \<^verbatim>\<open>next\<close> page of a Google login is not confined to the console. A login started with a
  \<^verbatim>\<open>next\<close> of two slashes and a foreign host ends, with the session set, on that host, for every URL
  parser that resolves such a reference against the console's origin as the URL standard says.
\<close>

theorem google_next_leaves_console:
  assumes "google_start_GET origin_of resolve env nonce req = Inr resp"
    and "env_or env ''GOOGLE_CLIENT_ID'' (env_or env ''NEXT_PUBLIC_GOOGLE_CLIENT_ID'' []) \<noteq> []"
    and "al_get (searchParams req) ''next'' = Some (''//'' @ foreign)"
    and "cookies req' = browser_after resp jar" and "al_get (searchParams req') ''state'' = Some (google_state nonce req)"
    and "google_callback_GET origin_of resolve env up req' l = (Inr resp', l')"
    and "al_get (respCookies resp') cookie_jwt \<noteq> None"
    and "callback_publicOrigin req' = proto @ ''://'' @ own"
    and "resolve (''//'' @ foreign) (proto @ ''://'' @ own) = Some (proto @ ''://'' @ foreign)"
  shows "al_get (respHeaders resp') ''location'' = Some (proto @ ''://'' @ foreign)"
proof -
  have st: "param_or_empty req' ''state'' = google_state nonce req" using assms(5) by (simp add: param_or_empty_def)
  have "starts_with (''//'' @ foreign) ''/''" by (simp add: starts_with_def)
  then have path: "redirect_path (google_state nonce req) rl = ''//'' @ foreign" for rl
    using assms(3) by (simp add: redirect_path_google_state)
  show ?thesis
    using assms(7-9) by (cases rule: google_callback_cases [OF assms(6)]) (auto simp: login_failure_def st path)
qed

theorem google_next_leaves_console_witness:
  "\<exists>resp l. google_callback_GET (\<lambda>_. None) demo_resolve demo_google_env demo_login_api (demo_callback ''//evil.example/'') [] = (Inr resp, l) \<and>
     al_get (respHeaders resp) ''location'' = Some ''https://evil.example/''"
proof -
  let ?n = "''//'' @ ''evil.example/''"
  obtain started where st: "google_start_GET (\<lambda>_. None) demo_resolve demo_google_env ''n1'' (demo_start ?n) = Inr started"
    "cookies (demo_callback ?n) = browser_after started []"
    using demo_started by blast
  have hyps: "env_or demo_google_env ''GOOGLE_CLIENT_ID'' (env_or demo_google_env ''NEXT_PUBLIC_GOOGLE_CLIENT_ID'' []) \<noteq> []"
    "al_get (searchParams (demo_start ?n)) ''next'' = Some ?n"
    "al_get (searchParams (demo_callback ?n)) ''state'' = Some (google_state ''n1'' (demo_start ?n))"
    "callback_publicOrigin (demo_callback ?n) = ''https'' @ ''://'' @ ''h''"
    "demo_resolve ?n (''https'' @ ''://'' @ ''h'') = Some (''https'' @ ''://'' @ ''evil.example/'')" "starts_with ?n ''/''"
    by (simp_all add: demo_google_env_def env_or_def demo_start_def demo_callback_def starts_with_def demo_resolve_def
        callback_publicOrigin_def demo_request_def)
  show ?thesis
    using google_next_leaves_console [OF st(1) hyps(1,2) st(2) hyps(3) demo_finished [OF hyps(6)] _ hyps(4,5)]
    by (simp add: demo_finished [OF hyps(6), simplified] attachAuthCookies_def Let_def)
qed

text \<open>
  C21: a forged callback achieves nothing. When the state in the query is missing or not the one in the
  browser's cookie, the API is not called and the response changes no cookie but the state, which it
  removes.
\<close>

theorem google_callback_needs_own_state:
  assumes "param_or_empty req ''state'' = [] \<or> param_or_empty req ''state'' \<noteq> cookie_or_empty req state_cookie"
  shows "snd (google_callback_GET origin_of resolve env up req l) = l \<and>
    (\<forall>resp jar. fst (google_callback_GET origin_of resolve env up req l) = Inr resp \<longrightarrow>
       browser_after resp jar = al_del state_cookie jar)"
proof (cases "google_callback_GET origin_of resolve env up req l")
  case (Pair r l')
  have "l' = l" using Pair assms by (auto simp: google_callback_GET_def Let_def io_bind_apply split: sum.splits if_splits)
  moreover have "browser_after resp jar = al_del state_cookie jar" if "r = Inr resp" for resp jar
  proof -
    from Pair that have run: "google_callback_GET origin_of resolve env up req l = (Inr resp, l')" by simp
    from assms show ?thesis
      by (cases rule: google_callback_cases [OF run]) (auto simp: browser_after_login_failure)
  qed
  ultimately show ?thesis using Pair by simp
qed

theorem google_callback_needs_own_state_witness:
  "snd (google_callback_GET (\<lambda>_. None) demo_resolve [] demo_api
     ((demo_request [(state_cookie, ''mine'')])\<lparr>searchParams := [(''code'', ''c''), (''state'', ''forged'')]\<rparr>) []) = []"
  using google_callback_needs_own_state [of "(demo_request [(state_cookie, ''mine'')])\<lparr>searchParams := [(''code'', ''c''), (''state'', ''forged'')]\<rparr>"
      "\<lambda>_. None" demo_resolve "[]" demo_api "[]"]
  by (simp add: param_or_empty_def cookie_or_empty_def demo_request_def)

text \<open>
  The helpers that the routes copy agree with one another: the redirect address sent to Google
  is the one sent in the exchange, the state cookie and the session cookies use the same secure flag,
  the current-user route refreshes as the proxy does, and the fingerprint of the Google login is
  the one of the code login.
\<close>

theorem copied_helpers_agree:
  "callback_googleRedirectUri origin_of env req = googleRedirectUri origin_of env req \<and>
   shouldUseSecureCookie env req = shouldUseSecureCookies env (Some req) \<and>
   me_refreshJwt = refreshJwt \<and>
   exchange_request origin_of env req code = api_post env ''/auth/google/exchange''
     [(''code'', Str code), (''redirect_uri'', Str (googleRedirectUri origin_of env req)),
      (''device_fingerprint'', Str (deriveDeviceFingerprint req))]"
proof -
  have "callback_publicOrigin req = publicOrigin req"
    by (simp add: callback_publicOrigin_def publicOrigin_def header_or_def Let_def)
  moreover have "callback_configuredUiOrigin origin_of env = configuredUiOrigin origin_of env"
    unfolding callback_configuredUiOrigin_def configuredUiOrigin_def by (simp only: list.map)
  ultimately have uri: "callback_googleRedirectUri origin_of env req = googleRedirectUri origin_of env req"
    by (simp add: callback_googleRedirectUri_def googleRedirectUri_def Let_def split: option.split)
  have "shouldUseSecureCookie env req = shouldUseSecureCookies env (Some req)"
    by (cases "trim (env_or env ''AUTH_COOKIE_SECURE'' []) = []") (simp_all add: shouldUseSecureCookie_def shouldUseSecureCookies_def envForcesSecureCookie_def request_is_https_def header_or_def Let_def)
  with uri show ?thesis
    by (simp add: me_refreshJwt_eq exchange_request_def deriveDeviceFingerprint_def header_or_def)
qed

section \<open>Token cookies of the Google login\<close>

lemma google_start_hides_tokens: "google_start_GET origin_of resolve env nonce req = Inr resp \<Longrightarrow> hides_tokens resp"
  by (auto simp: google_start_GET_def Let_def res_bind_Inr_iff redirect_response_def hides_tokens_def set_cookie_def
      split: if_splits)

lemma google_callback_hides_tokens:
  assumes "google_callback_GET origin_of resolve env up req l = (Inr resp, l')"
  shows "hides_tokens resp"
proof -
  have bare: "respCookies (redirect_response u) = []" for u by (simp add: redirect_response_def)
  have failure: "hides_tokens (login_failure u e)" for u e by (simp add: login_failure_def hides_tokens_delete hides_tokens_bare bare)
  have finish: "hides_tokens r" if "exchange_finish resolve env req st u a = Inr r" for st u a r
    using that failure by (auto simp: exchange_finish_def Let_def res_bind_Inr_iff bare intro!: hides_tokens_delete hides_tokens_attachAuth
        split: if_splits option.splits)
  from assms failure show ?thesis
    by (auto simp: google_callback_GET_def Let_def io_bind_Inr_iff dest: finish split: if_splits)
qed

end
