(* ===== verification/Routes.thy ===== *)
theory Routes
  imports AuthRoutes Codec
begin

text \<open>
  The API routes of the console outside \<^verbatim>\<open>src/app/api/auth\<close>. One definition per handler,
  named by its path and method. Each calls a proxy of \<open>Proxy\<close> with a path built from the route's
  parameters; \<^verbatim>\<open>commands\<close> normalises the parameters of a file listing first, and the alerts of a
  device are filtered from the fleet's alerts.
\<close>

section \<open>Forwarding routes\<close>

text \<open>\<^verbatim>\<open>query ? `path?query` : path\<close> for the query of the request.\<close>

definition with_query_path :: "request \<Rightarrow> string \<Rightarrow> string" where
  "with_query_path request path =
     (let query = search_to_string (searchParams request) in if query \<noteq> [] then path @ ''?'' @ query else path)"

definition ai_copilot_ask_POST :: "env \<Rightarrow> upstream \<Rightarrow> request \<Rightarrow> response io" where
  "ai_copilot_ask_POST env up request =
     proxyAuthedRequest env up request ''/ai/copilot/ask''
     \<lparr>optMethod = Some ''POST'', optBody = Some (reqText request),
      optHeaders = [(''Content-Type'', header_or request ''content-type'' ''application/json''),
        (''X-Quoodle-Client-Channel'', ''control_ui'')]\<rparr>"

definition ai_copilot_conversations_conversationId_GET :: "env \<Rightarrow> upstream \<Rightarrow> string \<Rightarrow> request \<Rightarrow> response io" where
  "ai_copilot_conversations_conversationId_GET env up conversationId request =
     proxyAuthedGet env up request (''/ai/copilot/conversations/'' @ encodeURIComponent conversationId)"

definition alerts_alertId_ack_POST :: "env \<Rightarrow> upstream \<Rightarrow> string \<Rightarrow> request \<Rightarrow> response io" where
  "alerts_alertId_ack_POST env up alertId request =
     proxyAuthedRequest env up request (''/alerts/'' @ encodeURIComponent alertId @ ''/ack'')
     \<lparr>optMethod = Some ''POST'', optBody = None, optHeaders = []\<rparr>"

definition alerts_GET :: "env \<Rightarrow> upstream \<Rightarrow> request \<Rightarrow> response io" where
  "alerts_GET env up request =
     proxyAuthedGet env up request (with_query_path request ''/alerts'')"

definition artifact_artifactId_GET :: "env \<Rightarrow> upstream \<Rightarrow> string \<Rightarrow> request \<Rightarrow> response io" where
  "artifact_artifactId_GET env up artifactId request =
     proxyAuthedBinaryGet env up request (''/artifact/'' @ encodeURIComponent artifactId)"

definition audit_device_deviceId_GET :: "env \<Rightarrow> upstream \<Rightarrow> string \<Rightarrow> request \<Rightarrow> response io" where
  "audit_device_deviceId_GET env up deviceId request =
     proxyAuthedGet env up request (with_query_path request (''/audit/device/'' @ encodeURIComponent deviceId))"

definition audit_events_export_GET :: "env \<Rightarrow> upstream \<Rightarrow> request \<Rightarrow> response io" where
  "audit_events_export_GET env up request =
     proxyAuthedBinaryGet env up request (with_query_path request ''/audit/events/export'')"

definition audit_events_GET :: "env \<Rightarrow> upstream \<Rightarrow> request \<Rightarrow> response io" where
  "audit_events_GET env up request =
     proxyAuthedGet env up request (with_query_path request ''/audit/events'')"

definition commands_commandId_GET :: "env \<Rightarrow> upstream \<Rightarrow> string \<Rightarrow> request \<Rightarrow> response io" where
  "commands_commandId_GET env up commandId request =
     proxyAuthedGet env up request (''/commands/'' @ encodeURIComponent commandId)"

definition commands_capabilities_GET :: "env \<Rightarrow> upstream \<Rightarrow> request \<Rightarrow> response io" where
  "commands_capabilities_GET env up request =
     proxyAuthedGet env up request (with_query_path request ''/commands/capabilities'')"

definition commands_GET :: "env \<Rightarrow> upstream \<Rightarrow> request \<Rightarrow> response io" where
  "commands_GET env up request =
     proxyAuthedGet env up request (with_query_path request ''/commands'')"

definition compliance_audit_GET :: "env \<Rightarrow> upstream \<Rightarrow> request \<Rightarrow> response io" where
  "compliance_audit_GET env up request =
     proxyAuthedGet env up request (with_query_path request ''/compliance/audit'')"

definition compliance_export_GET :: "env \<Rightarrow> upstream \<Rightarrow> request \<Rightarrow> response io" where
  "compliance_export_GET env up request =
     proxyAuthedBinaryGet env up request (with_query_path request ''/compliance/export'')"

definition compliance_overview_GET :: "env \<Rightarrow> upstream \<Rightarrow> request \<Rightarrow> response io" where
  "compliance_overview_GET env up request =
     proxyAuthedGet env up request (with_query_path request ''/compliance/overview'')"

definition devices_deviceId_audit_GET :: "env \<Rightarrow> upstream \<Rightarrow> string \<Rightarrow> request \<Rightarrow> response io" where
  "devices_deviceId_audit_GET env up deviceId request =
     proxyAuthedGet env up request (with_query_path request (''/audit/device/'' @ encodeURIComponent deviceId))"

definition devices_deviceId_commands_GET :: "env \<Rightarrow> upstream \<Rightarrow> string \<Rightarrow> request \<Rightarrow> response io" where
  "devices_deviceId_commands_GET env up deviceId request =
     proxyAuthedGet env up request (with_query_path request (''/devices/'' @ encodeURIComponent deviceId @ ''/commands''))"

definition devices_deviceId_GET :: "env \<Rightarrow> upstream \<Rightarrow> string \<Rightarrow> request \<Rightarrow> response io" where
  "devices_deviceId_GET env up deviceId request =
     proxyAuthedGet env up request (''/devices/'' @ encodeURIComponent deviceId)"

definition devices_deviceId_telemetry_latest_GET :: "env \<Rightarrow> upstream \<Rightarrow> string \<Rightarrow> request \<Rightarrow> response io" where
  "devices_deviceId_telemetry_latest_GET env up deviceId request =
     proxyAuthedGet env up request (''/devices/'' @ encodeURIComponent deviceId @ ''/telemetry/latest'')"

definition devices_deviceId_telemetry_GET :: "env \<Rightarrow> upstream \<Rightarrow> string \<Rightarrow> request \<Rightarrow> response io" where
  "devices_deviceId_telemetry_GET env up deviceId request =
     proxyAuthedGet env up request (''/devices/'' @ encodeURIComponent deviceId @ ''/telemetry/latest'')"

definition devices_GET :: "env \<Rightarrow> upstream \<Rightarrow> request \<Rightarrow> response io" where
  "devices_GET env up request =
     proxyAuthedGet env up request (with_query_path request ''/devices'')"

definition mobile_devices_GET :: "env \<Rightarrow> upstream \<Rightarrow> request \<Rightarrow> response io" where
  "mobile_devices_GET env up request =
     proxyAuthedGet env up request (with_query_path request ''/mobile-devices'')"

definition notifications_notificationId_read_POST :: "env \<Rightarrow> upstream \<Rightarrow> string \<Rightarrow> request \<Rightarrow> response io" where
  "notifications_notificationId_read_POST env up notificationId request =
     proxyAuthedRequest env up request (''/notifications/'' @ encodeURIComponent notificationId @ ''/read'')
     \<lparr>optMethod = Some ''POST'', optBody = None, optHeaders = []\<rparr>"

definition notifications_notificationId_DELETE :: "env \<Rightarrow> upstream \<Rightarrow> string \<Rightarrow> request \<Rightarrow> response io" where
  "notifications_notificationId_DELETE env up notificationId request =
     proxyAuthedRequest env up request (''/notifications/'' @ encodeURIComponent notificationId)
     \<lparr>optMethod = Some ''DELETE'', optBody = None, optHeaders = []\<rparr>"

definition notifications_GET :: "env \<Rightarrow> upstream \<Rightarrow> request \<Rightarrow> response io" where
  "notifications_GET env up request =
     proxyAuthedGet env up request (with_query_path request ''/notifications'')"

definition notifications_POST :: "env \<Rightarrow> upstream \<Rightarrow> request \<Rightarrow> response io" where
  "notifications_POST env up request =
     proxyAuthedRequest env up request ''/notifications/read-all''
     \<lparr>optMethod = Some ''POST'', optBody = Some (reqText request),
      optHeaders = [(''Content-Type'', ''application/json'')]\<rparr>"

definition pair_confirm_POST :: "env \<Rightarrow> upstream \<Rightarrow> request \<Rightarrow> response io" where
  "pair_confirm_POST env up request =
     proxyAuthedRequest env up request ''/pair/confirm''
     \<lparr>optMethod = Some ''POST'', optBody = Some (reqText request),
      optHeaders = [(''Content-Type'', header_or request ''content-type'' ''application/json'')]\<rparr>"

definition pair_init_POST :: "env \<Rightarrow> upstream \<Rightarrow> request \<Rightarrow> response io" where
  "pair_init_POST env up request =
     proxyAuthedRequest env up request ''/pair/init''
     \<lparr>optMethod = Some ''POST'', optBody = Some (reqText request),
      optHeaders = [(''Content-Type'', header_or request ''content-type'' ''application/json'')]\<rparr>"

definition pair_session_pairSessionId_GET :: "env \<Rightarrow> upstream \<Rightarrow> string \<Rightarrow> request \<Rightarrow> response io" where
  "pair_session_pairSessionId_GET env up pairSessionId request =
     proxyAuthedGet env up request (''/pair/session/'' @ encodeURIComponent pairSessionId)"

definition schedules_scheduleId_PATCH :: "env \<Rightarrow> upstream \<Rightarrow> string \<Rightarrow> request \<Rightarrow> response io" where
  "schedules_scheduleId_PATCH env up scheduleId request =
     proxyAuthedRequest env up request (''/schedules/'' @ encodeURIComponent scheduleId)
     \<lparr>optMethod = Some ''PATCH'', optBody = Some (reqText request),
      optHeaders = [(''Content-Type'', header_or request ''content-type'' ''application/json'')]\<rparr>"

definition schedules_scheduleId_DELETE :: "env \<Rightarrow> upstream \<Rightarrow> string \<Rightarrow> request \<Rightarrow> response io" where
  "schedules_scheduleId_DELETE env up scheduleId request =
     proxyAuthedRequest env up request (''/schedules/'' @ encodeURIComponent scheduleId)
     \<lparr>optMethod = Some ''DELETE'', optBody = None, optHeaders = []\<rparr>"

definition schedules_scheduleId_run_now_POST :: "env \<Rightarrow> upstream \<Rightarrow> string \<Rightarrow> request \<Rightarrow> response io" where
  "schedules_scheduleId_run_now_POST env up scheduleId request =
     proxyAuthedRequest env up request (''/schedules/'' @ encodeURIComponent scheduleId @ ''/run-now'')
     \<lparr>optMethod = Some ''POST'', optBody = Some ''{}'', optHeaders = [(''Content-Type'', ''application/json'')]\<rparr>"

definition schedules_GET :: "env \<Rightarrow> upstream \<Rightarrow> request \<Rightarrow> response io" where
  "schedules_GET env up request =
     proxyAuthedGet env up request (with_query_path request ''/schedules'')"

definition schedules_POST :: "env \<Rightarrow> upstream \<Rightarrow> request \<Rightarrow> response io" where
  "schedules_POST env up request =
     proxyAuthedRequest env up request ''/schedules''
     \<lparr>optMethod = Some ''POST'', optBody = Some (reqText request),
      optHeaders = [(''Content-Type'', header_or request ''content-type'' ''application/json'')]\<rparr>"

definition schedules_runs_GET :: "env \<Rightarrow> upstream \<Rightarrow> request \<Rightarrow> response io" where
  "schedules_runs_GET env up request =
     proxyAuthedGet env up request (with_query_path request ''/schedules/runs'')"

definition settings_alert_rules_id_PATCH :: "env \<Rightarrow> upstream \<Rightarrow> string \<Rightarrow> request \<Rightarrow> response io" where
  "settings_alert_rules_id_PATCH env up ident request =
     proxyAuthedRequest env up request (''/settings/alert-rules/'' @ encodeURIComponent ident)
     \<lparr>optMethod = Some ''PATCH'', optBody = Some (reqText request),
      optHeaders = [(''Content-Type'', header_or request ''content-type'' ''application/json'')]\<rparr>"

definition settings_alert_rules_id_DELETE :: "env \<Rightarrow> upstream \<Rightarrow> string \<Rightarrow> request \<Rightarrow> response io" where
  "settings_alert_rules_id_DELETE env up ident request =
     proxyAuthedRequest env up request (''/settings/alert-rules/'' @ encodeURIComponent ident)
     \<lparr>optMethod = Some ''DELETE'', optBody = None, optHeaders = []\<rparr>"

definition settings_alert_rules_GET :: "env \<Rightarrow> upstream \<Rightarrow> request \<Rightarrow> response io" where
  "settings_alert_rules_GET env up request =
     proxyAuthedGet env up request ''/settings/alert-rules''"

definition settings_alert_rules_POST :: "env \<Rightarrow> upstream \<Rightarrow> request \<Rightarrow> response io" where
  "settings_alert_rules_POST env up request =
     proxyAuthedRequest env up request ''/settings/alert-rules''
     \<lparr>optMethod = Some ''POST'', optBody = Some (reqText request),
      optHeaders = [(''Content-Type'', header_or request ''content-type'' ''application/json'')]\<rparr>"

definition settings_compliance_thresholds_id_PATCH :: "env \<Rightarrow> upstream \<Rightarrow> string \<Rightarrow> request \<Rightarrow> response io" where
  "settings_compliance_thresholds_id_PATCH env up ident request =
     proxyAuthedRequest env up request (''/settings/compliance-thresholds/'' @ encodeURIComponent ident)
     \<lparr>optMethod = Some ''PATCH'', optBody = Some (reqText request),
      optHeaders = [(''Content-Type'', header_or request ''content-type'' ''application/json'')]\<rparr>"

definition settings_compliance_thresholds_id_DELETE :: "env \<Rightarrow> upstream \<Rightarrow> string \<Rightarrow> request \<Rightarrow> response io" where
  "settings_compliance_thresholds_id_DELETE env up ident request =
     proxyAuthedRequest env up request (''/settings/compliance-thresholds/'' @ encodeURIComponent ident)
     \<lparr>optMethod = Some ''DELETE'', optBody = None, optHeaders = []\<rparr>"

definition settings_compliance_thresholds_GET :: "env \<Rightarrow> upstream \<Rightarrow> request \<Rightarrow> response io" where
  "settings_compliance_thresholds_GET env up request =
     proxyAuthedGet env up request ''/settings/compliance-thresholds''"

definition settings_compliance_thresholds_POST :: "env \<Rightarrow> upstream \<Rightarrow> request \<Rightarrow> response io" where
  "settings_compliance_thresholds_POST env up request =
     proxyAuthedRequest env up request ''/settings/compliance-thresholds''
     \<lparr>optMethod = Some ''POST'', optBody = Some (reqText request),
      optHeaders = [(''Content-Type'', header_or request ''content-type'' ''application/json'')]\<rparr>"

definition settings_policy_entries_id_PATCH :: "env \<Rightarrow> upstream \<Rightarrow> string \<Rightarrow> request \<Rightarrow> response io" where
  "settings_policy_entries_id_PATCH env up ident request =
     proxyAuthedRequest env up request (''/settings/policy-entries/'' @ encodeURIComponent ident)
     \<lparr>optMethod = Some ''PATCH'', optBody = Some (reqText request),
      optHeaders = [(''Content-Type'', header_or request ''content-type'' ''application/json'')]\<rparr>"

definition settings_policy_entries_GET :: "env \<Rightarrow> upstream \<Rightarrow> request \<Rightarrow> response io" where
  "settings_policy_entries_GET env up request =
     proxyAuthedGet env up request (with_query_path request ''/settings/policy-entries'')"

definition settings_roles_role_permissions_GET :: "env \<Rightarrow> upstream \<Rightarrow> string \<Rightarrow> request \<Rightarrow> response io" where
  "settings_roles_role_permissions_GET env up roleName request =
     proxyAuthedGet env up request (''/settings/roles/'' @ encodeURIComponent roleName @ ''/permissions'')"

definition settings_roles_role_permissions_PATCH :: "env \<Rightarrow> upstream \<Rightarrow> string \<Rightarrow> request \<Rightarrow> response io" where
  "settings_roles_role_permissions_PATCH env up roleName request =
     proxyAuthedRequest env up request (''/settings/roles/'' @ encodeURIComponent roleName @ ''/permissions'')
     \<lparr>optMethod = Some ''PATCH'', optBody = Some (reqText request),
      optHeaders = [(''Content-Type'', header_or request ''content-type'' ''application/json'')]\<rparr>"

definition settings_roles_permissions_GET :: "env \<Rightarrow> upstream \<Rightarrow> request \<Rightarrow> response io" where
  "settings_roles_permissions_GET env up request =
     proxyAuthedGet env up request ''/settings/roles/permissions''"

definition settings_team_members_id_activate_POST :: "env \<Rightarrow> upstream \<Rightarrow> string \<Rightarrow> request \<Rightarrow> response io" where
  "settings_team_members_id_activate_POST env up ident request =
     proxyAuthedRequest env up request (''/settings/team-members/'' @ encodeURIComponent ident @ ''/activate'')
     \<lparr>optMethod = Some ''POST'', optBody = Some ''{}'', optHeaders = [(''Content-Type'', ''application/json'')]\<rparr>"

definition settings_team_members_id_deactivate_POST :: "env \<Rightarrow> upstream \<Rightarrow> string \<Rightarrow> request \<Rightarrow> response io" where
  "settings_team_members_id_deactivate_POST env up ident request =
     proxyAuthedRequest env up request (''/settings/team-members/'' @ encodeURIComponent ident @ ''/deactivate'')
     \<lparr>optMethod = Some ''POST'', optBody = Some ''{}'', optHeaders = [(''Content-Type'', ''application/json'')]\<rparr>"

definition settings_team_members_id_device_access_deviceId_DELETE :: "env \<Rightarrow> upstream \<Rightarrow> string \<Rightarrow> string \<Rightarrow> request \<Rightarrow> response io" where
  "settings_team_members_id_device_access_deviceId_DELETE env up ident deviceId request =
     proxyAuthedRequest env up request (''/settings/team-members/'' @ encodeURIComponent ident @ ''/device-access/'' @ encodeURIComponent deviceId)
     \<lparr>optMethod = Some ''DELETE'', optBody = None, optHeaders = []\<rparr>"

definition settings_team_members_id_device_access_GET :: "env \<Rightarrow> upstream \<Rightarrow> string \<Rightarrow> request \<Rightarrow> response io" where
  "settings_team_members_id_device_access_GET env up ident request =
     proxyAuthedGet env up request (''/settings/team-members/'' @ encodeURIComponent ident @ ''/device-access'')"

definition settings_team_members_id_device_access_POST :: "env \<Rightarrow> upstream \<Rightarrow> string \<Rightarrow> request \<Rightarrow> response io" where
  "settings_team_members_id_device_access_POST env up ident request =
     proxyAuthedRequest env up request (''/settings/team-members/'' @ encodeURIComponent ident @ ''/device-access'')
     \<lparr>optMethod = Some ''POST'', optBody = Some (reqText request),
      optHeaders = [(''Content-Type'', header_or request ''content-type'' ''application/json'')]\<rparr>"

definition settings_team_members_id_PATCH :: "env \<Rightarrow> upstream \<Rightarrow> string \<Rightarrow> request \<Rightarrow> response io" where
  "settings_team_members_id_PATCH env up ident request =
     proxyAuthedRequest env up request (''/settings/team-members/'' @ encodeURIComponent ident)
     \<lparr>optMethod = Some ''PATCH'', optBody = Some (reqText request),
      optHeaders = [(''Content-Type'', header_or request ''content-type'' ''application/json'')]\<rparr>"

definition settings_team_members_GET :: "env \<Rightarrow> upstream \<Rightarrow> request \<Rightarrow> response io" where
  "settings_team_members_GET env up request =
     proxyAuthedGet env up request ''/settings/team-members''"

definition settings_team_members_POST :: "env \<Rightarrow> upstream \<Rightarrow> request \<Rightarrow> response io" where
  "settings_team_members_POST env up request =
     proxyAuthedRequest env up request ''/settings/team-members''
     \<lparr>optMethod = Some ''POST'', optBody = Some (reqText request),
      optHeaders = [(''Content-Type'', header_or request ''content-type'' ''application/json'')]\<rparr>"

definition system_health_components_GET :: "env \<Rightarrow> upstream \<Rightarrow> request \<Rightarrow> response io" where
  "system_health_components_GET env up request =
     proxyAuthedGet env up request ''/system-health/components''"

definition system_health_events_GET :: "env \<Rightarrow> upstream \<Rightarrow> request \<Rightarrow> response io" where
  "system_health_events_GET env up request =
     proxyAuthedGet env up request (with_query_path request ''/system-health/events'')"

definition system_health_overview_GET :: "env \<Rightarrow> upstream \<Rightarrow> request \<Rightarrow> response io" where
  "system_health_overview_GET env up request =
     proxyAuthedGet env up request ''/system-health/overview''"

definition system_health_timeseries_GET :: "env \<Rightarrow> upstream \<Rightarrow> request \<Rightarrow> response io" where
  "system_health_timeseries_GET env up request =
     proxyAuthedGet env up request (with_query_path request ''/system-health/timeseries'')"

definition telemetry_activity_GET :: "env \<Rightarrow> upstream \<Rightarrow> request \<Rightarrow> response io" where
  "telemetry_activity_GET env up request =
     proxyAuthedGet env up request (with_query_path request ''/telemetry/activity'')"

definition telemetry_devices_deviceId_history_GET :: "env \<Rightarrow> upstream \<Rightarrow> string \<Rightarrow> request \<Rightarrow> response io" where
  "telemetry_devices_deviceId_history_GET env up deviceId request =
     proxyAuthedGet env up request (with_query_path request (''/telemetry/devices/'' @ encodeURIComponent deviceId @ ''/history''))"

definition telemetry_devices_deviceId_latest_GET :: "env \<Rightarrow> upstream \<Rightarrow> string \<Rightarrow> request \<Rightarrow> response io" where
  "telemetry_devices_deviceId_latest_GET env up deviceId request =
     proxyAuthedGet env up request (''/telemetry/devices/'' @ encodeURIComponent deviceId @ ''/latest'')"

definition telemetry_fleet_summary_GET :: "env \<Rightarrow> upstream \<Rightarrow> request \<Rightarrow> response io" where
  "telemetry_fleet_summary_GET env up request =
     proxyAuthedGet env up request ''/telemetry/fleet/summary''"

definition telemetry_fleet_timeseries_GET :: "env \<Rightarrow> upstream \<Rightarrow> request \<Rightarrow> response io" where
  "telemetry_fleet_timeseries_GET env up request =
     proxyAuthedGet env up request (with_query_path request ''/telemetry/fleet/timeseries'')"

definition webhooks_deliveries_deliveryId_replay_POST :: "env \<Rightarrow> upstream \<Rightarrow> string \<Rightarrow> request \<Rightarrow> response io" where
  "webhooks_deliveries_deliveryId_replay_POST env up deliveryId request =
     proxyAuthedRequest env up request (''/integrations/webhooks/deliveries/'' @ encodeURIComponent deliveryId @ ''/replay'')
     \<lparr>optMethod = Some ''POST'', optBody = Some ''{}'', optHeaders = [(''Content-Type'', ''application/json'')]\<rparr>"

definition webhooks_deliveries_GET :: "env \<Rightarrow> upstream \<Rightarrow> request \<Rightarrow> response io" where
  "webhooks_deliveries_GET env up request =
     proxyAuthedGet env up request (with_query_path request ''/integrations/webhooks/deliveries'')"

definition webhooks_endpoints_endpointId_pause_POST :: "env \<Rightarrow> upstream \<Rightarrow> string \<Rightarrow> request \<Rightarrow> response io" where
  "webhooks_endpoints_endpointId_pause_POST env up endpointId request =
     proxyAuthedRequest env up request (''/integrations/webhooks/endpoints/'' @ encodeURIComponent endpointId @ ''/pause'')
     \<lparr>optMethod = Some ''POST'', optBody = Some ''{}'', optHeaders = [(''Content-Type'', ''application/json'')]\<rparr>"

definition webhooks_endpoints_endpointId_resume_POST :: "env \<Rightarrow> upstream \<Rightarrow> string \<Rightarrow> request \<Rightarrow> response io" where
  "webhooks_endpoints_endpointId_resume_POST env up endpointId request =
     proxyAuthedRequest env up request (''/integrations/webhooks/endpoints/'' @ encodeURIComponent endpointId @ ''/resume'')
     \<lparr>optMethod = Some ''POST'', optBody = Some ''{}'', optHeaders = [(''Content-Type'', ''application/json'')]\<rparr>"

definition webhooks_endpoints_endpointId_reveal_secret_GET :: "env \<Rightarrow> upstream \<Rightarrow> string \<Rightarrow> request \<Rightarrow> response io" where
  "webhooks_endpoints_endpointId_reveal_secret_GET env up endpointId request =
     proxyAuthedGet env up request (''/integrations/webhooks/endpoints/'' @ encodeURIComponent endpointId @ ''/reveal-secret'')"

definition webhooks_endpoints_endpointId_rotate_secret_POST :: "env \<Rightarrow> upstream \<Rightarrow> string \<Rightarrow> request \<Rightarrow> response io" where
  "webhooks_endpoints_endpointId_rotate_secret_POST env up endpointId request =
     proxyAuthedRequest env up request (''/integrations/webhooks/endpoints/'' @ encodeURIComponent endpointId @ ''/rotate-secret'')
     \<lparr>optMethod = Some ''POST'', optBody = Some ''{}'', optHeaders = [(''Content-Type'', ''application/json'')]\<rparr>"

definition webhooks_endpoints_endpointId_GET :: "env \<Rightarrow> upstream \<Rightarrow> string \<Rightarrow> request \<Rightarrow> response io" where
  "webhooks_endpoints_endpointId_GET env up endpointId request =
     proxyAuthedGet env up request (''/integrations/webhooks/endpoints/'' @ encodeURIComponent endpointId)"

definition webhooks_endpoints_endpointId_PATCH :: "env \<Rightarrow> upstream \<Rightarrow> string \<Rightarrow> request \<Rightarrow> response io" where
  "webhooks_endpoints_endpointId_PATCH env up endpointId request =
     proxyAuthedRequest env up request (''/integrations/webhooks/endpoints/'' @ encodeURIComponent endpointId)
     \<lparr>optMethod = Some ''PATCH'', optBody = Some (reqText request),
      optHeaders = [(''Content-Type'', header_or request ''content-type'' ''application/json'')]\<rparr>"

definition webhooks_endpoints_endpointId_DELETE :: "env \<Rightarrow> upstream \<Rightarrow> string \<Rightarrow> request \<Rightarrow> response io" where
  "webhooks_endpoints_endpointId_DELETE env up endpointId request =
     proxyAuthedRequest env up request (''/integrations/webhooks/endpoints/'' @ encodeURIComponent endpointId)
     \<lparr>optMethod = Some ''DELETE'', optBody = None, optHeaders = []\<rparr>"

definition webhooks_endpoints_endpointId_test_POST :: "env \<Rightarrow> upstream \<Rightarrow> string \<Rightarrow> request \<Rightarrow> response io" where
  "webhooks_endpoints_endpointId_test_POST env up endpointId request =
     proxyAuthedRequest env up request (''/integrations/webhooks/endpoints/'' @ encodeURIComponent endpointId @ ''/test'')
     \<lparr>optMethod = Some ''POST'', optBody = Some (reqText request),
      optHeaders = [(''Content-Type'', header_or request ''content-type'' ''application/json'')]\<rparr>"

definition webhooks_endpoints_GET :: "env \<Rightarrow> upstream \<Rightarrow> request \<Rightarrow> response io" where
  "webhooks_endpoints_GET env up request =
     proxyAuthedGet env up request (with_query_path request ''/integrations/webhooks/endpoints'')"

definition webhooks_endpoints_POST :: "env \<Rightarrow> upstream \<Rightarrow> request \<Rightarrow> response io" where
  "webhooks_endpoints_POST env up request =
     proxyAuthedRequest env up request ''/integrations/webhooks/endpoints''
     \<lparr>optMethod = Some ''POST'', optBody = Some (reqText request),
      optHeaders = [(''Content-Type'', header_or request ''content-type'' ''application/json'')]\<rparr>"

definition webhooks_inbound_GET :: "env \<Rightarrow> upstream \<Rightarrow> request \<Rightarrow> response io" where
  "webhooks_inbound_GET env up request =
     proxyAuthedGet env up request (with_query_path request ''/integrations/webhooks/inbound'')"

definition app_lock_upstreamPath :: "request \<Rightarrow> string" where
  "app_lock_upstreamPath request =
     (let deviceId = trim (param_or_empty request ''device_id'') in
      if deviceId = [] then ''/policy/app-lock'' else ''/policy/app-lock?device_id='' @ encodeURIComponent deviceId)"

definition policy_app_lock_GET :: "env \<Rightarrow> upstream \<Rightarrow> request \<Rightarrow> response io" where
  "policy_app_lock_GET env up request = proxyAuthedGet env up request (app_lock_upstreamPath request)"

definition policy_app_lock_PUT :: "env \<Rightarrow> upstream \<Rightarrow> request \<Rightarrow> response io" where
  "policy_app_lock_PUT env up request =
     proxyAuthedRequest env up request (app_lock_upstreamPath request)
     \<lparr>optMethod = Some ''PUT'', optBody = Some (reqText request),
      optHeaders = [(''Content-Type'', header_or request ''content-type'' ''application/json'')]\<rparr>"

definition policy_app_lock_DELETE :: "env \<Rightarrow> upstream \<Rightarrow> request \<Rightarrow> response io" where
  "policy_app_lock_DELETE env up request =
     proxyAuthedRequest env up request (app_lock_upstreamPath request)
     \<lparr>optMethod = Some ''DELETE'', optBody = None, optHeaders = []\<rparr>"

section \<open>Sending a command\<close>

text \<open>
  \<^verbatim>\<open>commands/route.ts\<close>: the parameters of \<^verbatim>\<open>list_files\<close> are brought into range before the command is
  forwarded. \<open>Inr None\<close>: some other command; \<open>Inl\<close>: a conversion threw and the text is sent as it is.
\<close>

definition clamp_param :: "js \<Rightarrow> rat \<Rightarrow> rat \<Rightarrow> js res" where
  "clamp_param v hi d =
     res_bind (js_Number v) (\<lambda>raw.
       Inr (Num (if num_is_finite raw then num_min (num_max (num_trunc raw) (Fin 1)) (Fin hi) else Fin d)))"

definition list_files_params :: "obj \<Rightarrow> obj res" where
  "list_files_params p0 =
     res_bind (clamp_param (obj_get p0 ''limit'') 1000 200) (\<lambda>lim.
     let p1 = own_put ''limit'' lim p0 in
     res_bind (clamp_param (obj_get p1 ''max_depth'') 8 1) (\<lambda>depth.
     let p2 = own_put ''max_depth'' depth p1;
         p3 = own_put ''recursive'' (Bool (obj_get p2 ''recursive'' = Bool True)) p2
     in Inr (case obj_get p3 ''path'' of
          Str s \<Rightarrow> if trim s = [] then own_put ''path'' (Str (''C:'' @ [CHR 0x5C] @ ''Users'')) p3 else p3
        | _ \<Rightarrow> own_put ''path'' (Str (''C:'' @ [CHR 0x5C] @ ''Users'')) p3)))"

definition command_params :: "obj \<Rightarrow> obj" where
  "command_params m = (case obj_get m ''params'' of Obj p \<Rightarrow> p | _ \<Rightarrow> [])"

definition normalize_command :: "js \<Rightarrow> js option res" where
  "normalize_command parsed =
     res_bind (js_String (coalesce (js_field parsed ''method'') (Str []))) (\<lambda>meth.
       case parsed of
         Obj m \<Rightarrow>
           if to_lower (trim meth) = ''list_files''
           then res_bind (list_files_params (command_params m)) (\<lambda>p.
                  Inr (Some (Obj (own_put ''params'' (Obj p) m))))
           else Inr None
       | _ \<Rightarrow> Inr None)"

definition command_body :: "string \<Rightarrow> string \<Rightarrow> string" where
  "command_body contentType rawBody =
     (if str_includes (to_lower contentType) ''application/json''
      then (case json_parse rawBody of None \<Rightarrow> rawBody
        | Some parsed \<Rightarrow> (case normalize_command parsed of
            Inr (Some v) \<Rightarrow> (case stringify [] v of Some t \<Rightarrow> t | None \<Rightarrow> rawBody)
          | _ \<Rightarrow> rawBody))
      else rawBody)"

definition commands_POST :: "env \<Rightarrow> upstream \<Rightarrow> request \<Rightarrow> response io" where
  "commands_POST env up request =
     (let contentType = header_or request ''content-type'' ''application/json'' in
      proxyAuthedRequest env up request ''/commands''
      \<lparr>optMethod = Some ''POST'', optBody = Some (command_body contentType (reqText request)),
       optHeaders = [(''Content-Type'', contentType), (''X-Quoodle-Client-Channel'', ''control_ui'')]\<rparr>)"

section \<open>The alerts of a device\<close>

text \<open>\<^verbatim>\<open>devices/[deviceId]/alerts/route.ts\<close>.\<close>

definition device_alerts_path :: "request \<Rightarrow> string" where
  "device_alerts_path request =
     (let limit = num_min (num_max (string_to_number
            (case al_get (searchParams request) ''limit'' of Some v \<Rightarrow> v | None \<Rightarrow> ''100'')) (Fin 1)) (Fin 200);
          severity = param_or_empty request ''severity''
      in if severity \<noteq> [] then ''/alerts?limit='' @ number_to_string limit @ ''&severity='' @ encodeURIComponent severity
         else ''/alerts?limit='' @ number_to_string limit)"

definition filter_alerts :: "string \<Rightarrow> js \<Rightarrow> js list res" where
  "filter_alerts deviceId payload =
     res_bind (js_member payload ''alerts'') (\<lambda>v.
       case coalesce v (Arr []) of
         Arr xs \<Rightarrow>
           res_bind (res_map (\<lambda>a. res_bind (js_member a ''device_id'') (\<lambda>d. Inr (d = Str deviceId, a))) xs) (\<lambda>ps.
             Inr (map snd (filter fst ps)))
       | _ \<Rightarrow> Inl (NotAFunction ''filter''))"

definition devices_deviceId_alerts_GET :: "env \<Rightarrow> upstream \<Rightarrow> string \<Rightarrow> request \<Rightarrow> response io" where
  "devices_deviceId_alerts_GET env up deviceId request =
     io_bind (proxyAuthedGet env up request (device_alerts_path request)) (\<lambda>upstreamResponse.
       if \<not> resp_ok (status upstreamResponse) then io_return upstreamResponse
       else let payload = (case respBody upstreamResponse of JsonBody v \<Rightarrow> v | _ \<Rightarrow> Obj []) in
         io_bind (io_lift (filter_alerts deviceId payload)) (\<lambda>alerts.
           io_return (json_response (Obj [(''alerts'', Arr alerts)]) 200)))"

section \<open>The table of routes\<close>

text \<open>
  Every handler of this theory that forwards its request, with the segments of the API path it stands for.
  Route parameters are single segments of it. \<open>api_routes\<close> adds the one handler that does more, the alerts of a device.
\<close>

inductive_set routed :: "env \<Rightarrow> upstream \<Rightarrow> (string list \<times> (request \<Rightarrow> response io)) set" for env up where
  r_ai_copilot_ask_POST: "([''ai'', ''copilot'', ''ask''], ai_copilot_ask_POST env up) \<in> routed env up"
| r_ai_copilot_conversations_conversationId_GET: 
     "([''ai'', ''copilot'', ''conversations'', conversationId], ai_copilot_conversations_conversationId_GET env up conversationId) \<in> routed env up"
| r_alerts_alertId_ack_POST: 
     "([''alerts'', alertId, ''ack''], alerts_alertId_ack_POST env up alertId) \<in> routed env up"
| r_alerts_GET: "([''alerts''], alerts_GET env up) \<in> routed env up"
| r_artifact_artifactId_GET: 
     "([''artifact'', artifactId], artifact_artifactId_GET env up artifactId) \<in> routed env up"
| r_audit_device_deviceId_GET: 
     "([''audit'', ''device'', deviceId], audit_device_deviceId_GET env up deviceId) \<in> routed env up"
| r_audit_events_export_GET: 
     "([''audit'', ''events'', ''export''], audit_events_export_GET env up) \<in> routed env up"
| r_audit_events_GET: "([''audit'', ''events''], audit_events_GET env up) \<in> routed env up"
| r_commands_commandId_GET: 
     "([''commands'', commandId], commands_commandId_GET env up commandId) \<in> routed env up"
| r_commands_capabilities_GET: 
     "([''commands'', ''capabilities''], commands_capabilities_GET env up) \<in> routed env up"
| r_commands_GET: "([''commands''], commands_GET env up) \<in> routed env up"
| r_compliance_audit_GET: "([''compliance'', ''audit''], compliance_audit_GET env up) \<in> routed env up"
| r_compliance_export_GET: "([''compliance'', ''export''], compliance_export_GET env up) \<in> routed env up"
| r_compliance_overview_GET: 
     "([''compliance'', ''overview''], compliance_overview_GET env up) \<in> routed env up"
| r_devices_deviceId_audit_GET: 
     "([''audit'', ''device'', deviceId], devices_deviceId_audit_GET env up deviceId) \<in> routed env up"
| r_devices_deviceId_commands_GET: 
     "([''devices'', deviceId, ''commands''], devices_deviceId_commands_GET env up deviceId) \<in> routed env up"
| r_devices_deviceId_GET: 
     "([''devices'', deviceId], devices_deviceId_GET env up deviceId) \<in> routed env up"
| r_devices_deviceId_telemetry_latest_GET: 
     "([''devices'', deviceId, ''telemetry'', ''latest''], devices_deviceId_telemetry_latest_GET env up deviceId) \<in> routed env up"
| r_devices_deviceId_telemetry_GET: 
     "([''devices'', deviceId, ''telemetry'', ''latest''], devices_deviceId_telemetry_GET env up deviceId) \<in> routed env up"
| r_devices_GET: "([''devices''], devices_GET env up) \<in> routed env up"
| r_mobile_devices_GET: "([''mobile-devices''], mobile_devices_GET env up) \<in> routed env up"
| r_notifications_notificationId_read_POST: 
     "([''notifications'', notificationId, ''read''], notifications_notificationId_read_POST env up notificationId) \<in> routed env up"
| r_notifications_notificationId_DELETE: 
     "([''notifications'', notificationId], notifications_notificationId_DELETE env up notificationId) \<in> routed env up"
| r_notifications_GET: "([''notifications''], notifications_GET env up) \<in> routed env up"
| r_notifications_POST: "([''notifications'', ''read-all''], notifications_POST env up) \<in> routed env up"
| r_pair_confirm_POST: "([''pair'', ''confirm''], pair_confirm_POST env up) \<in> routed env up"
| r_pair_init_POST: "([''pair'', ''init''], pair_init_POST env up) \<in> routed env up"
| r_pair_session_pairSessionId_GET: 
     "([''pair'', ''session'', pairSessionId], pair_session_pairSessionId_GET env up pairSessionId) \<in> routed env up"
| r_schedules_scheduleId_PATCH: 
     "([''schedules'', scheduleId], schedules_scheduleId_PATCH env up scheduleId) \<in> routed env up"
| r_schedules_scheduleId_DELETE: 
     "([''schedules'', scheduleId], schedules_scheduleId_DELETE env up scheduleId) \<in> routed env up"
| r_schedules_scheduleId_run_now_POST: 
     "([''schedules'', scheduleId, ''run-now''], schedules_scheduleId_run_now_POST env up scheduleId) \<in> routed env up"
| r_schedules_GET: "([''schedules''], schedules_GET env up) \<in> routed env up"
| r_schedules_POST: "([''schedules''], schedules_POST env up) \<in> routed env up"
| r_schedules_runs_GET: "([''schedules'', ''runs''], schedules_runs_GET env up) \<in> routed env up"
| r_settings_alert_rules_id_PATCH: 
     "([''settings'', ''alert-rules'', ident], settings_alert_rules_id_PATCH env up ident) \<in> routed env up"
| r_settings_alert_rules_id_DELETE: 
     "([''settings'', ''alert-rules'', ident], settings_alert_rules_id_DELETE env up ident) \<in> routed env up"
| r_settings_alert_rules_GET: 
     "([''settings'', ''alert-rules''], settings_alert_rules_GET env up) \<in> routed env up"
| r_settings_alert_rules_POST: 
     "([''settings'', ''alert-rules''], settings_alert_rules_POST env up) \<in> routed env up"
| r_settings_compliance_thresholds_id_PATCH: 
     "([''settings'', ''compliance-thresholds'', ident], settings_compliance_thresholds_id_PATCH env up ident) \<in> routed env up"
| r_settings_compliance_thresholds_id_DELETE: 
     "([''settings'', ''compliance-thresholds'', ident], settings_compliance_thresholds_id_DELETE env up ident) \<in> routed env up"
| r_settings_compliance_thresholds_GET: 
     "([''settings'', ''compliance-thresholds''], settings_compliance_thresholds_GET env up) \<in> routed env up"
| r_settings_compliance_thresholds_POST: 
     "([''settings'', ''compliance-thresholds''], settings_compliance_thresholds_POST env up) \<in> routed env up"
| r_settings_policy_entries_id_PATCH: 
     "([''settings'', ''policy-entries'', ident], settings_policy_entries_id_PATCH env up ident) \<in> routed env up"
| r_settings_policy_entries_GET: 
     "([''settings'', ''policy-entries''], settings_policy_entries_GET env up) \<in> routed env up"
| r_settings_roles_role_permissions_GET: 
     "([''settings'', ''roles'', roleName, ''permissions''], settings_roles_role_permissions_GET env up roleName) \<in> routed env up"
| r_settings_roles_role_permissions_PATCH: 
     "([''settings'', ''roles'', roleName, ''permissions''], settings_roles_role_permissions_PATCH env up roleName) \<in> routed env up"
| r_settings_roles_permissions_GET: 
     "([''settings'', ''roles'', ''permissions''], settings_roles_permissions_GET env up) \<in> routed env up"
| r_settings_team_members_id_activate_POST: 
     "([''settings'', ''team-members'', ident, ''activate''], settings_team_members_id_activate_POST env up ident) \<in> routed env up"
| r_settings_team_members_id_deactivate_POST: 
     "([''settings'', ''team-members'', ident, ''deactivate''], settings_team_members_id_deactivate_POST env up ident) \<in> routed env up"
| r_settings_team_members_id_device_access_deviceId_DELETE: 
     "([''settings'', ''team-members'', ident, ''device-access'', deviceId], settings_team_members_id_device_access_deviceId_DELETE env up ident deviceId) \<in> routed env up"
| r_settings_team_members_id_device_access_GET: 
     "([''settings'', ''team-members'', ident, ''device-access''], settings_team_members_id_device_access_GET env up ident) \<in> routed env up"
| r_settings_team_members_id_device_access_POST: 
     "([''settings'', ''team-members'', ident, ''device-access''], settings_team_members_id_device_access_POST env up ident) \<in> routed env up"
| r_settings_team_members_id_PATCH: 
     "([''settings'', ''team-members'', ident], settings_team_members_id_PATCH env up ident) \<in> routed env up"
| r_settings_team_members_GET: 
     "([''settings'', ''team-members''], settings_team_members_GET env up) \<in> routed env up"
| r_settings_team_members_POST: 
     "([''settings'', ''team-members''], settings_team_members_POST env up) \<in> routed env up"
| r_system_health_components_GET: 
     "([''system-health'', ''components''], system_health_components_GET env up) \<in> routed env up"
| r_system_health_events_GET: 
     "([''system-health'', ''events''], system_health_events_GET env up) \<in> routed env up"
| r_system_health_overview_GET: 
     "([''system-health'', ''overview''], system_health_overview_GET env up) \<in> routed env up"
| r_system_health_timeseries_GET: 
     "([''system-health'', ''timeseries''], system_health_timeseries_GET env up) \<in> routed env up"
| r_telemetry_activity_GET: 
     "([''telemetry'', ''activity''], telemetry_activity_GET env up) \<in> routed env up"
| r_telemetry_devices_deviceId_history_GET: 
     "([''telemetry'', ''devices'', deviceId, ''history''], telemetry_devices_deviceId_history_GET env up deviceId) \<in> routed env up"
| r_telemetry_devices_deviceId_latest_GET: 
     "([''telemetry'', ''devices'', deviceId, ''latest''], telemetry_devices_deviceId_latest_GET env up deviceId) \<in> routed env up"
| r_telemetry_fleet_summary_GET: 
     "([''telemetry'', ''fleet'', ''summary''], telemetry_fleet_summary_GET env up) \<in> routed env up"
| r_telemetry_fleet_timeseries_GET: 
     "([''telemetry'', ''fleet'', ''timeseries''], telemetry_fleet_timeseries_GET env up) \<in> routed env up"
| r_webhooks_deliveries_deliveryId_replay_POST: 
     "([''integrations'', ''webhooks'', ''deliveries'', deliveryId, ''replay''], webhooks_deliveries_deliveryId_replay_POST env up deliveryId) \<in> routed env up"
| r_webhooks_deliveries_GET: 
     "([''integrations'', ''webhooks'', ''deliveries''], webhooks_deliveries_GET env up) \<in> routed env up"
| r_webhooks_endpoints_endpointId_pause_POST: 
     "([''integrations'', ''webhooks'', ''endpoints'', endpointId, ''pause''], webhooks_endpoints_endpointId_pause_POST env up endpointId) \<in> routed env up"
| r_webhooks_endpoints_endpointId_resume_POST: 
     "([''integrations'', ''webhooks'', ''endpoints'', endpointId, ''resume''], webhooks_endpoints_endpointId_resume_POST env up endpointId) \<in> routed env up"
| r_webhooks_endpoints_endpointId_reveal_secret_GET: 
     "([''integrations'', ''webhooks'', ''endpoints'', endpointId, ''reveal-secret''], webhooks_endpoints_endpointId_reveal_secret_GET env up endpointId) \<in> routed env up"
| r_webhooks_endpoints_endpointId_rotate_secret_POST: 
     "([''integrations'', ''webhooks'', ''endpoints'', endpointId, ''rotate-secret''], webhooks_endpoints_endpointId_rotate_secret_POST env up endpointId) \<in> routed env up"
| r_webhooks_endpoints_endpointId_GET: 
     "([''integrations'', ''webhooks'', ''endpoints'', endpointId], webhooks_endpoints_endpointId_GET env up endpointId) \<in> routed env up"
| r_webhooks_endpoints_endpointId_PATCH: 
     "([''integrations'', ''webhooks'', ''endpoints'', endpointId], webhooks_endpoints_endpointId_PATCH env up endpointId) \<in> routed env up"
| r_webhooks_endpoints_endpointId_DELETE: 
     "([''integrations'', ''webhooks'', ''endpoints'', endpointId], webhooks_endpoints_endpointId_DELETE env up endpointId) \<in> routed env up"
| r_webhooks_endpoints_endpointId_test_POST: 
     "([''integrations'', ''webhooks'', ''endpoints'', endpointId, ''test''], webhooks_endpoints_endpointId_test_POST env up endpointId) \<in> routed env up"
| r_webhooks_endpoints_GET: 
     "([''integrations'', ''webhooks'', ''endpoints''], webhooks_endpoints_GET env up) \<in> routed env up"
| r_webhooks_endpoints_POST: 
     "([''integrations'', ''webhooks'', ''endpoints''], webhooks_endpoints_POST env up) \<in> routed env up"
| r_webhooks_inbound_GET: 
     "([''integrations'', ''webhooks'', ''inbound''], webhooks_inbound_GET env up) \<in> routed env up"
| r_commands_POST: "([''commands''], commands_POST env up) \<in> routed env up"
| r_policy_app_lock_GET: "([''policy'', ''app-lock''], policy_app_lock_GET env up) \<in> routed env up"
| r_policy_app_lock_PUT: "([''policy'', ''app-lock''], policy_app_lock_PUT env up) \<in> routed env up"
| r_policy_app_lock_DELETE: "([''policy'', ''app-lock''], policy_app_lock_DELETE env up) \<in> routed env up"

inductive_set api_routes :: "env \<Rightarrow> upstream \<Rightarrow> (string list \<times> (request \<Rightarrow> response io)) set" for env up where
  forwarded: "(segs, h) \<in> routed env up \<Longrightarrow> (segs, h) \<in> api_routes env up"
| device_alerts: "([''alerts''], devices_deviceId_alerts_GET env up deviceId) \<in> api_routes env up"

lemmas handler_defs =
  ai_copilot_ask_POST_def ai_copilot_conversations_conversationId_GET_def alerts_alertId_ack_POST_def
  alerts_GET_def artifact_artifactId_GET_def audit_device_deviceId_GET_def
  audit_events_export_GET_def audit_events_GET_def commands_commandId_GET_def
  commands_capabilities_GET_def commands_GET_def compliance_audit_GET_def
  compliance_export_GET_def compliance_overview_GET_def devices_deviceId_audit_GET_def
  devices_deviceId_commands_GET_def devices_deviceId_GET_def devices_deviceId_telemetry_latest_GET_def
  devices_deviceId_telemetry_GET_def devices_GET_def mobile_devices_GET_def
  notifications_notificationId_read_POST_def notifications_notificationId_DELETE_def notifications_GET_def
  notifications_POST_def pair_confirm_POST_def pair_init_POST_def
  pair_session_pairSessionId_GET_def schedules_scheduleId_PATCH_def schedules_scheduleId_DELETE_def
  schedules_scheduleId_run_now_POST_def schedules_GET_def schedules_POST_def
  schedules_runs_GET_def settings_alert_rules_id_PATCH_def settings_alert_rules_id_DELETE_def
  settings_alert_rules_GET_def settings_alert_rules_POST_def settings_compliance_thresholds_id_PATCH_def
  settings_compliance_thresholds_id_DELETE_def settings_compliance_thresholds_GET_def settings_compliance_thresholds_POST_def
  settings_policy_entries_id_PATCH_def settings_policy_entries_GET_def settings_roles_role_permissions_GET_def
  settings_roles_role_permissions_PATCH_def settings_roles_permissions_GET_def settings_team_members_id_activate_POST_def
  settings_team_members_id_deactivate_POST_def settings_team_members_id_device_access_deviceId_DELETE_def settings_team_members_id_device_access_GET_def
  settings_team_members_id_device_access_POST_def settings_team_members_id_PATCH_def settings_team_members_GET_def
  settings_team_members_POST_def system_health_components_GET_def system_health_events_GET_def
  system_health_overview_GET_def system_health_timeseries_GET_def telemetry_activity_GET_def
  telemetry_devices_deviceId_history_GET_def telemetry_devices_deviceId_latest_GET_def telemetry_fleet_summary_GET_def
  telemetry_fleet_timeseries_GET_def webhooks_deliveries_deliveryId_replay_POST_def webhooks_deliveries_GET_def
  webhooks_endpoints_endpointId_pause_POST_def webhooks_endpoints_endpointId_resume_POST_def webhooks_endpoints_endpointId_reveal_secret_GET_def
  webhooks_endpoints_endpointId_rotate_secret_POST_def webhooks_endpoints_endpointId_GET_def webhooks_endpoints_endpointId_PATCH_def
  webhooks_endpoints_endpointId_DELETE_def webhooks_endpoints_endpointId_test_POST_def webhooks_endpoints_GET_def
  webhooks_endpoints_POST_def webhooks_inbound_GET_def policy_app_lock_GET_def
  policy_app_lock_PUT_def policy_app_lock_DELETE_def commands_POST_def

section \<open>What the routes send\<close>

text \<open>The API path of a list of segments, and the handlers that forward to it.\<close>

definition api_path :: "string list \<Rightarrow> string" where
  "api_path segs = ''/'' @ join ''/'' (map encodeURIComponent segs)"

definition is_query :: "string \<Rightarrow> bool" where
  "is_query q \<longleftrightarrow> q = [] \<or> hd q = CHR ''?''"

definition forwards :: "env \<Rightarrow> upstream \<Rightarrow> string list \<Rightarrow> (request \<Rightarrow> response io) \<Rightarrow> bool" where
  "forwards env up segs h \<longleftrightarrow>
     (\<exists>query opts. (\<forall>req. is_query (query req)) \<and>
        (h = (\<lambda>req. proxyAuthedRequest env up req (api_path segs @ query req) (opts req)) \<or>
         h = (\<lambda>req. proxyAuthedBinaryGet env up req (api_path segs @ query req))))"

lemma with_query_path_eq: "\<exists>query. is_query query \<and> with_query_path req p = p @ query"
  by (simp add: with_query_path_def is_query_def Let_def)

lemma forwards_requestI:
  assumes "\<And>req. h req = proxyAuthedRequest env up req (path req) (opts req)"
    and "\<And>req. \<exists>query. is_query query \<and> path req = api_path segs @ query"
  shows "forwards env up segs h"
proof -
  from assms(2) obtain query where "\<And>req. is_query (query req) \<and> path req = api_path segs @ query req" by metis
  with assms(1) show ?thesis unfolding forwards_def by (intro exI [of _ query] exI [of _ opts]) auto
qed

lemma forwards_binaryI:
  assumes "\<And>req. h req = proxyAuthedBinaryGet env up req (path req)"
    and "\<And>req. \<exists>query. is_query query \<and> path req = api_path segs @ query"
  shows "forwards env up segs h"
proof -
  from assms(2) obtain query where "\<And>req. is_query (query req) \<and> path req = api_path segs @ query req" by metis
  with assms(1) show ?thesis unfolding forwards_def by (intro exI [of _ query]) auto
qed

lemma plain_path: "p = api_path segs \<Longrightarrow> \<exists>query. is_query query \<and> p = api_path segs @ query"
  by (simp add: is_query_def)

lemma query_path: "p = api_path segs \<Longrightarrow> \<exists>query. is_query query \<and> with_query_path req p = api_path segs @ query"
  using with_query_path_eq [of req p] by simp

lemma encodeURIComponent_Nil: "encodeURIComponent [] = []"
  by (simp add: encodeURIComponent_def)

lemma encodeURIComponent_plain: "uri_unreserved c \<Longrightarrow> encodeURIComponent (c # s) = c # encodeURIComponent s"
  by (simp add: encodeURIComponent_Cons)

lemmas path_eval = api_path_def encodeURIComponent_Nil encodeURIComponent_plain uri_unreserved_def is_alnum_def

lemma app_lock_upstreamPath_eq:
  "\<exists>query. is_query query \<and> app_lock_upstreamPath req = api_path [''policy'', ''app-lock''] @ query"
proof -
  have "api_path [''policy'', ''app-lock''] = ''/policy/app-lock''" by (simp add: path_eval)
  then show ?thesis by (simp add: app_lock_upstreamPath_def is_query_def Let_def)
qed

lemma routed_forwards:
  assumes "(segs, h) \<in> routed env up"
  shows "forwards env up segs h"
  using assms
  by cases
    (simp, ((rule forwards_requestI, (simp only: handler_defs proxyAuthedGet_def Let_def; fail)) |
            (rule forwards_binaryI, (simp only: handler_defs; fail))),
     (rule plain_path query_path app_lock_upstreamPath_eq; (simp add: path_eval)?; fail))+

lemma forwards_console: "forwards env up segs h \<Longrightarrow> h \<in> console env up"
  by (auto simp: forwards_def intro: console.proxied proxied.json proxied.binary)

lemma split_on_join_encoded:
  assumes "segs \<noteq> []"
  shows "split_on CHR ''/'' (join ''/'' (map encodeURIComponent segs)) = map encodeURIComponent segs"
proof (rule split_on_join)
  show "CHR ''/'' \<notin> set w" if "w \<in> set (map encodeURIComponent segs)" for w
    using that encodeURIComponent_safe uri_safe_delimiters(1) unfolding list_all_iff by (metis imageE list.set_map)
qed (simp add: assms)

lemma routed_segments: "(segs, h) \<in> routed env up \<Longrightarrow> segs \<noteq> []"
  by (erule routed.cases) simp_all

lemma api_url: "controlPlaneApiUrl env (api_path segs @ query) =
    strip_trailing CHR ''/'' (CONTROL_PLANE_API_URL env) @ ''/'' @ join ''/'' (map encodeURIComponent segs) @ query"
  by (simp add: controlPlaneApiUrl_def api_path_def starts_with_def)

lemma request_urls:
  "apiUrl (authed_request env path opts t) = controlPlaneApiUrl env path"
  "apiUrl (binary_request env path t) = controlPlaneApiUrl env path"
  by (simp_all add: authed_request_def binary_request_def)

text \<open>A route's requests: the refresh, or a request to its path.\<close>

definition own_request :: "env \<Rightarrow> request \<Rightarrow> string list \<Rightarrow> api_request \<Rightarrow> bool" where
  "own_request env req segs q \<longleftrightarrow> q = refresh_request env (cookie_or_empty req cookie_refreshToken) \<or>
     (\<exists>query. is_query query \<and> apiUrl q = strip_trailing CHR ''/'' (CONTROL_PLANE_API_URL env) @ ''/'' @
        join ''/'' (map encodeURIComponent segs) @ query)"

lemma own_request_refresh: "own_request env req segs (refresh_request env (cookie_or_empty req cookie_refreshToken))"
  by (simp add: own_request_def)

lemma own_request_sent:
  assumes "is_query query"
  shows "own_request env req segs (authed_request env (api_path segs @ query) opts t)"
    "own_request env req segs (binary_request env (api_path segs @ query) t)"
  unfolding own_request_def request_urls api_url using assms by (intro disjI2 exI [of _ query], simp)+

lemma forwards_requests:
  assumes "forwards env up segs h"
  shows "\<exists>qs. snd (h req l) = l @ qs \<and> list_all (own_request env req segs) qs"
proof -
  obtain query opts where q: "\<forall>req. is_query (query req)" and
    h: "h = (\<lambda>req. proxyAuthedRequest env up req (api_path segs @ query req) (opts req)) \<or>
     h = (\<lambda>req. proxyAuthedBinaryGet env up req (api_path segs @ query req))"
    using assms unfolding forwards_def by (elim exE conjE)
  from q have q: "is_query (query req)" by (rule spec)
  from h show ?thesis
  proof
    assume "h = (\<lambda>req. proxyAuthedRequest env up req (api_path segs @ query req) (opts req))"
    then have "h req l = proxyAuthedRequest env up req (api_path segs @ query req) (opts req) l" by (rule ssubst) (rule refl)
    then show ?thesis using proxied_requests [where P = "own_request env req segs", OF own_request_sent(1) [OF q] own_request_refresh] by simp
  next
    assume "h = (\<lambda>req. proxyAuthedBinaryGet env up req (api_path segs @ query req))"
    then have "h req l = proxyAuthedBinaryGet env up req (api_path segs @ query req) l" by (rule ssubst) (rule refl)
    then show ?thesis using binary_requests [where P = "own_request env req segs", OF own_request_sent(2) [OF q] own_request_refresh] by simp
  qed
qed

lemma device_alerts_path_eq: "\<exists>query. is_query query \<and> device_alerts_path req = api_path [''alerts''] @ query"
proof -
  have "api_path [''alerts''] = ''/alerts''" by (simp add: path_eval)
  then show ?thesis by (simp add: device_alerts_path_def is_query_def Let_def)
qed

lemma device_alerts_requests:
  "\<exists>qs. snd (devices_deviceId_alerts_GET env up deviceId req l) = l @ qs \<and> list_all (own_request env req [''alerts'']) qs"
proof -
  obtain query where q: "is_query query" "device_alerts_path req = api_path [''alerts''] @ query" using device_alerts_path_eq by blast
  have "snd (devices_deviceId_alerts_GET env up deviceId req l) =
      snd (proxyAuthedRequest env up req (api_path [''alerts''] @ query) \<lparr>optMethod = Some ''GET'', optBody = None, optHeaders = []\<rparr> l)"
    by (simp add: devices_deviceId_alerts_GET_def proxyAuthedGet_def q(2) io_bind_apply Let_def split: prod.split sum.split)
  then show ?thesis
    using proxied_requests [where P = "own_request env req [''alerts'']", OF own_request_sent(1) [OF q(1)] own_request_refresh] by simp
qed

lemma api_route_requests:
  assumes "(segs, h) \<in> api_routes env up"
  shows "\<exists>qs. snd (h req l) = l @ qs \<and> list_all (own_request env req segs) qs"
  using assms
proof cases
  case forwarded
  then show ?thesis by (rule forwards_requests [OF routed_forwards])
next
  case (device_alerts deviceId)
  show ?thesis unfolding device_alerts by (rule device_alerts_requests)
qed

lemma api_route_segments: "(segs, h) \<in> api_routes env up \<Longrightarrow> segs \<noteq> []"
  by (erule api_routes.cases) (auto dest: routed_segments)

section \<open>Properties\<close>

text \<open>
  C4: an API route talks to its own resource only. Each request a route sends is the token refresh or goes to the API path
  whose segments are the route's, with every parameter encoded into a single segment from which it can be read back; only a
  query may follow. The URL parser leaves that path as it is, below whatever path the API has, exactly when no parameter is a dot or two
  dots, which \<^verbatim>\<open>encodeURIComponent\<close> does not encode. And every route is a session handler, with the one exception of the alerts
  of a device.
\<close>

theorem routes_stay_on_their_path:
  assumes "(segs, h) \<in> api_routes env up"
  shows "(\<exists>qs. snd (h req l) = l @ qs \<and> list_all (own_request env req segs) qs) \<and>
    map (\<lambda>s. utf8_decode (percent_decode s)) (split_on CHR ''/'' (join ''/'' (map encodeURIComponent segs))) = map Some segs \<and>
    (url_path base (split_on CHR ''/'' (join ''/'' (map encodeURIComponent segs))) = base @ map encodeURIComponent segs \<longleftrightarrow>
      ''.'' \<notin> set segs \<and> ''..'' \<notin> set segs) \<and>
    (h \<in> console env up \<or> (\<exists>deviceId. h = devices_deviceId_alerts_GET env up deviceId))"
proof (intro conjI)
  have split: "split_on CHR ''/'' (join ''/'' (map encodeURIComponent segs)) = map encodeURIComponent segs"
    by (rule split_on_join_encoded [OF api_route_segments [OF assms]])
  show "map (\<lambda>s. utf8_decode (percent_decode s)) (split_on CHR ''/'' (join ''/'' (map encodeURIComponent segs))) = map Some segs"
    unfolding split by (simp add: percent_decode_encodeURIComponent utf8_decode_encode)
  show "url_path base (split_on CHR ''/'' (join ''/'' (map encodeURIComponent segs))) = base @ map encodeURIComponent segs \<longleftrightarrow>
      ''.'' \<notin> set segs \<and> ''..'' \<notin> set segs"
    unfolding split by (rule url_path_encoded)
  show "h \<in> console env up \<or> (\<exists>deviceId. h = devices_deviceId_alerts_GET env up deviceId)"
    using assms by cases (auto intro: forwards_console routed_forwards)
qed (rule api_route_requests [OF assms])

theorem routes_stay_on_their_path_witness:
  "url_path [''api''] (split_on CHR ''/'' (join ''/'' (map encodeURIComponent [''devices'', ''a/../b'']))) =
     [''api''] @ map encodeURIComponent [''devices'', ''a/../b'']"
  using routes_stay_on_their_path [OF api_routes.forwarded [OF routed.r_devices_deviceId_GET [of "''a/../b''" "[]" demo_api]]] by simp

section \<open>The parameters of a file listing\<close>

lemma clamp_param_range:
  assumes "clamp_param v (of_int hi) (of_int d) = Inr w" "1 \<le> d" "d \<le> hi"
  obtains i where "w = Num (Fin (of_int i))" "1 \<le> i" "i \<le> hi"
proof -
  from assms(1) obtain raw where w: "w = Num (if num_is_finite raw
      then num_min (num_max (num_trunc raw) (Fin 1)) (Fin (of_int hi)) else Fin (of_int d))"
    by (auto simp: clamp_param_def res_bind_Inr_iff)
  show thesis
  proof (cases "num_is_finite raw")
    case True
    then obtain k where "num_trunc raw = Fin (of_int k)" by (cases raw) auto
    then have "num_min (num_max (num_trunc raw) (Fin 1)) (Fin (of_int hi)) = Fin (of_int (min (max k 1) hi))"
      using assms(2,3) by (simp add: num_min_def num_max_def min_def max_def)
    then show thesis using w True assms(2,3) by (intro that [of "min (max k 1) hi"]) simp_all
  qed (use w assms(2,3) that in auto)
qed

lemma clamp_param_fixed:
  assumes "1 \<le> i" "i \<le> hi"
  shows "clamp_param (Num (Fin (of_int i))) (of_int hi) d = Inr (Num (Fin (of_int i)))"
  using assms by (simp add: clamp_param_def js_Number_def num_min_def num_max_def)

text \<open>Parameters in range.\<close>

definition params_in_range :: "obj \<Rightarrow> bool" where
  "params_in_range p \<longleftrightarrow>
     (\<exists>i. al_get p ''limit'' = Some (Num (Fin (of_int i))) \<and> 1 \<le> i \<and> i \<le> 1000) \<and>
     (\<exists>i. al_get p ''max_depth'' = Some (Num (Fin (of_int i))) \<and> 1 \<le> i \<and> i \<le> 8) \<and>
     (\<exists>b. al_get p ''recursive'' = Some (Bool b)) \<and>
     (\<exists>s. al_get p ''path'' = Some (Str s) \<and> trim s \<noteq> [])"

lemma trim_users: "trim (''C:'' @ [CHR 0x5C] @ ''Users'') \<noteq> []"
  by code_simp

lemma list_files_params_ok:
  assumes "list_files_params p0 = Inr p"
  shows "params_in_range p \<and> (\<forall>k. k \<notin> {''limit'', ''max_depth'', ''recursive'', ''path''} \<longrightarrow> al_get p k = al_get p0 k)"
proof -
  from assms obtain lim depth where
    lim: "clamp_param (obj_get p0 ''limit'') (of_int 1000) (of_int 200) = Inr lim" and
    depth: "clamp_param (obj_get (own_put ''limit'' lim p0) ''max_depth'') (of_int 8) (of_int 1) = Inr depth"
    by (auto simp: list_files_params_def res_bind_Inr_iff Let_def)
  obtain i where i: "lim = Num (Fin (of_int i))" "1 \<le> i" "i \<le> 1000" by (rule clamp_param_range [OF lim]) simp_all
  obtain k where k: "depth = Num (Fin (of_int k))" "1 \<le> k" "k \<le> 8" by (rule clamp_param_range [OF depth]) simp_all
  define p3 where "p3 = own_put ''recursive'' (Bool (obj_get (own_put ''max_depth'' depth (own_put ''limit'' lim p0)) ''recursive'' = Bool True))
      (own_put ''max_depth'' depth (own_put ''limit'' lim p0))"
  have "p = p3 \<and> (\<exists>s. obj_get p3 ''path'' = Str s \<and> trim s \<noteq> []) \<or>
      p = own_put ''path'' (Str (''C:'' @ [CHR 0x5C] @ ''Users'')) p3"
    using assms lim depth by (auto simp: list_files_params_def Let_def p3_def [symmetric] split: js.splits if_splits)
  moreover have "al_get p3 ''path'' = al_get p0 ''path''" "inherited ''path'' = Undefined" by (simp add: p3_def, code_simp)
  ultimately show ?thesis
    using i k trim_users by (auto simp: params_in_range_def p3_def obj_get_def split: option.splits)
qed

text \<open>
  A \<^verbatim>\<open>list_files\<close> command reaches the API with parameters in range: a whole limit from 1 to 1000, a whole
  depth from 1 to 8, a boolean recursion flag and a path that is not blank. The other parameters and the
  other fields of the command are those of the request.
\<close>

theorem list_files_in_range:
  assumes "normalize_command parsed = Inr (Some v)"
  shows "\<exists>m m' p. parsed = Obj m \<and> v = Obj m' \<and> al_get m' ''params'' = Some (Obj p) \<and> params_in_range p \<and>
    (\<forall>k. k \<noteq> ''params'' \<longrightarrow> al_get m' k = al_get m k) \<and>
    (\<forall>k. k \<notin> {''limit'', ''max_depth'', ''recursive'', ''path''} \<longrightarrow> al_get p k = al_get (command_params m) k)"
proof -
  from assms obtain m p where m: "parsed = Obj m" and p: "list_files_params (command_params m) = Inr p"
    and v: "v = Obj (own_put ''params'' (Obj p) m)"
    by (cases parsed) (auto simp: normalize_command_def res_bind_Inr_iff split: if_splits)
  from list_files_params_ok [OF p] m v show ?thesis
    by (intro exI [of _ m] exI [of _ "own_put ''params'' (Obj p) m"] exI [of _ p]) simp
qed

definition demo_command :: js where
  "demo_command = Obj [(''method'', Str '' LIST_FILES''), (''params'', Obj [(''limit'', Str ''x''), (''path'', Str '' '')])]"

theorem list_files_in_range_witness:
  "\<exists>v m' p. normalize_command demo_command = Inr (Some v) \<and> v = Obj m' \<and> al_get m' ''params'' = Some (Obj p) \<and> params_in_range p"
proof -
  have run: "normalize_command demo_command = Inr (Some (Obj [(''method'', Str '' LIST_FILES''),
      (''params'', Obj [(''limit'', Num (Fin 200)), (''path'', Str (''C:'' @ [CHR 0x5C] @ ''Users'')),
         (''max_depth'', Num (Fin 1)), (''recursive'', Bool False)])]))"
    by code_simp
  then show ?thesis using list_files_in_range [OF run] by (elim exE conjE) (intro exI conjI)
qed

lemma normalize_list_files_again:
  assumes "params_in_range p"
  shows "list_files_params p = Inr p"
proof -
  from assms obtain i k b s where p: "al_get p ''limit'' = Some (Num (Fin (of_int i)))" "1 \<le> i" "i \<le> 1000"
    "al_get p ''max_depth'' = Some (Num (Fin (of_int k)))" "1 \<le> k" "k \<le> 8"
    "al_get p ''recursive'' = Some (Bool b)" "al_get p ''path'' = Some (Str s)" "trim s \<noteq> []"
    unfolding params_in_range_def by (elim exE conjE)
  have lim: "clamp_param (Num (Fin (of_int i))) 1000 200 = Inr (Num (Fin (of_int i)))"
    using clamp_param_fixed [OF p(2,3)] by simp
  have depth: "clamp_param (Num (Fin (of_int k))) 8 1 = Inr (Num (Fin (of_int k)))"
    using clamp_param_fixed [OF p(5,6)] by simp
  show ?thesis
    using p(1,4,7,8,9) by (simp add: list_files_params_def Let_def obj_get_def lim depth own_put_same)
qed

text \<open>
  Normalising a command is idempotent: a \<^verbatim>\<open>list_files\<close> command that went through the route once
  goes through it again unchanged.
\<close>

theorem normalize_command_idem:
  assumes "normalize_command parsed = Inr (Some v)"
  shows "normalize_command v = Inr (Some v)"
proof -
  from assms obtain m p meth where m: "parsed = Obj m" and p: "list_files_params (command_params m) = Inr p"
    and v: "v = Obj (own_put ''params'' (Obj p) m)"
    and meth: "js_String (coalesce (obj_get m ''method'') (Str [])) = Inr meth" "to_lower (trim meth) = ''list_files''"
    by (cases parsed) (auto simp: normalize_command_def res_bind_Inr_iff split: if_splits)
  have "obj_get (own_put ''params'' (Obj p) m) ''method'' = obj_get m ''method''" by (simp add: obj_get_def)
  moreover have "command_params (own_put ''params'' (Obj p) m) = p" by (simp add: command_params_def obj_get_def)
  moreover have "list_files_params p = Inr p" using list_files_params_ok [OF p] normalize_list_files_again by blast
  ultimately show ?thesis
    using meth by (simp add: v normalize_command_def own_put_same)
qed

theorem normalize_command_idem_witness:
  "\<exists>v. normalize_command demo_command = Inr (Some v) \<and> normalize_command v = Inr (Some v)"
proof -
  have run: "normalize_command demo_command = Inr (Some (Obj [(''method'', Str '' LIST_FILES''),
      (''params'', Obj [(''limit'', Num (Fin 200)), (''path'', Str (''C:'' @ [CHR 0x5C] @ ''Users'')),
         (''max_depth'', Num (Fin 1)), (''recursive'', Bool False)])]))"
    by code_simp
  show ?thesis by (intro exI conjI, rule run, rule normalize_command_idem [OF run])
qed

section \<open>The alerts of a device: properties\<close>

lemma res_map_pairs:
  "res_map (\<lambda>a. res_bind (f a) (\<lambda>d. Inr (P d, a))) xs = Inr ps \<Longrightarrow>
     map snd (filter fst ps) = filter (\<lambda>a. \<exists>d. f a = Inr d \<and> P d) xs"
  by (induction xs arbitrary: ps) (auto simp: res_bind_Inr_iff)

lemma filter_alerts_Inr:
  assumes "filter_alerts deviceId payload = Inr ys"
  shows "\<exists>xs. coalesce (js_field payload ''alerts'') (Arr []) = Arr xs \<and> ys = filter (\<lambda>a. js_field a ''device_id'' = Str deviceId) xs"
proof -
  from assms obtain xs ps where xs: "coalesce (js_field payload ''alerts'') (Arr []) = Arr xs" and
    ps: "res_map (\<lambda>a. res_bind (js_member a ''device_id'') (\<lambda>d. Inr (d = Str deviceId, a))) xs = Inr ps"
    and ys: "ys = map snd (filter fst ps)"
  proof -
    from assms have "js_member payload ''alerts'' = Inr (js_field payload ''alerts'')"
      by (auto simp: filter_alerts_def js_member_def)
    with assms that show thesis
      by (cases "coalesce (js_field payload ''alerts'') (Arr [])") (auto simp: filter_alerts_def res_bind_Inr_iff)
  qed
  have "(\<exists>d. js_member a ''device_id'' = Inr d \<and> d = Str deviceId) \<longleftrightarrow> js_field a ''device_id'' = Str deviceId" for a
    by (cases a) (auto simp: js_member_def js_field_def)
  with res_map_pairs [OF ps] ys xs show ?thesis by auto
qed

lemma device_alerts_cases:
  assumes "devices_deviceId_alerts_GET env up deviceId req l = (Inr resp, l')" "resp_ok (status resp)"
  obtains u ys where "proxyAuthedGet env up req (device_alerts_path req) l = (Inr u, l')" "resp_ok (status u)"
    "filter_alerts deviceId (case respBody u of JsonBody v \<Rightarrow> v | _ \<Rightarrow> Obj []) = Inr ys"
    "resp = json_response (Obj [(''alerts'', Arr ys)]) 200"
  using assms
  by (fastforce simp: devices_deviceId_alerts_GET_def io_bind_Inr_iff Let_def split: if_splits)

text \<open>
  The alerts route of a device answers with exactly the alerts of the fleet's answer that carry the
  device's identifier, in their order.
\<close>

theorem device_alerts_exact:
  assumes "devices_deviceId_alerts_GET env up deviceId req l = (Inr resp, l')" "resp_ok (status resp)"
  shows "\<exists>u payload xs. proxyAuthedGet env up req (device_alerts_path req) l = (Inr u, l') \<and>
    payload = (case respBody u of JsonBody v \<Rightarrow> v | _ \<Rightarrow> Obj []) \<and>
    coalesce (js_field payload ''alerts'') (Arr []) = Arr xs \<and>
    resp = json_response (Obj [(''alerts'', Arr (filter (\<lambda>a. js_field a ''device_id'' = Str deviceId) xs))]) 200"
proof -
  obtain u ys where u: "proxyAuthedGet env up req (device_alerts_path req) l = (Inr u, l')"
    and ys: "filter_alerts deviceId (case respBody u of JsonBody v \<Rightarrow> v | _ \<Rightarrow> Obj []) = Inr ys"
    and resp: "resp = json_response (Obj [(''alerts'', Arr ys)]) 200"
    by (rule device_alerts_cases [OF assms])
  from filter_alerts_Inr [OF ys] u resp show ?thesis by blast
qed

definition demo_alerts_api :: upstream where
  "demo_alerts_api l q =
     Some (if q = refresh_request [] ''r1'' then demo_json 200 ''{\"jwt\":\"j2\",\"refresh_token\":\"r2\"}''
           else if al_get (apiHeaders q) ''Authorization'' = Some ''Bearer j2''
           then demo_json 200 ''{\"alerts\":[{\"device_id\":\"d1\"},{\"device_id\":\"d2\"}]}''
           else demo_json 401 ''{}'')"

abbreviation demo_alert :: js where
  "demo_alert \<equiv> Obj [(''device_id'', Str ''d1'')]"

lemma demo_alerts_run:
  "fst (devices_deviceId_alerts_GET [] demo_alerts_api ''d1'' (demo_request demo_jar) []) =
     Inr (json_response (Obj [(''alerts'', Arr [demo_alert])]) 200)"
  by code_simp

theorem device_alerts_exact_witness:
  "\<exists>xs. json_response (Obj [(''alerts'', Arr [demo_alert])]) 200 =
     json_response (Obj [(''alerts'', Arr (filter (\<lambda>a. js_field a ''device_id'' = Str ''d1'') xs))]) 200"
proof -
  have "devices_deviceId_alerts_GET [] demo_alerts_api ''d1'' (demo_request demo_jar) [] =
     (Inr (json_response (Obj [(''alerts'', Arr [demo_alert])]) 200),
      snd (devices_deviceId_alerts_GET [] demo_alerts_api ''d1'' (demo_request demo_jar) []))"
    using demo_alerts_run by (metis prod.collapse)
  from device_alerts_exact [OF this] show ?thesis by auto
qed

text \<open>
  The alerts route loses a refreshed session. When the proxy refreshes the token and the repeated call
  succeeds, the route builds its own response without the cookies: the browser keeps a refresh token that
  is no longer in force.
\<close>

theorem device_alerts_drop_tokens:
  assumes run: "devices_deviceId_alerts_GET env up deviceId req l = (Inr resp, l')" and ok: "resp_ok (status resp)"
    and "cookie_or_empty req cookie_jwt = j" "j \<noteq> []" "cookie_or_empty req cookie_refreshToken = rt"
    and "fst (refreshJwt env up rt (l @ [authed_request env (device_alerts_path req)
          \<lparr>optMethod = Some ''GET'', optBody = None, optHeaders = []\<rparr> j])) = Inr (Some t)"
    and "refreshes up (authed_request env (device_alerts_path req) \<lparr>optMethod = Some ''GET'', optBody = None, optHeaders = []\<rparr> j)
          rt (cookie_or_empty req cookie_sessionId) l"
  shows "browser_after resp (cookies req) = cookies req \<and>
    (\<exists>qs. l' = l @ qs \<and> current_token env up rt l qs = newRefreshToken t)"
proof -
  let ?opts = "\<lparr>optMethod = Some ''GET'', optBody = None, optHeaders = []\<rparr>"
  let ?mk = "authed_request env (device_alerts_path req) ?opts"
  obtain u ys where u: "proxyAuthedGet env up req (device_alerts_path req) l = (Inr u, l')" "resp_ok (status u)"
    and resp: "resp = json_response (Obj [(''alerts'', Arr ys)]) 200"
    by (rule device_alerts_cases [OF run ok])
  have "snd (proxyAuthedRequest env up req (device_alerts_path req) ?opts l) = snd (session_exchange env up req ?mk l)"
    using assms(3,4) by (simp add: proxyAuthedRequest_def Let_def io_bind_apply split: prod.split sum.split)
  moreover have "snd (session_exchange env up req ?mk l) = l @ [?mk j, refresh_request env rt, ?mk (newJwt t)]"
    unfolding assms(3,5)
    by (cases rule: send_with_refresh_cases [of up ?mk j rt "cookie_or_empty req cookie_sessionId" l env])
      (use assms(6,7) in auto)
  ultimately have "l' = l @ [?mk j, refresh_request env rt, ?mk (newJwt t)]"
    using u(1) by (simp add: proxyAuthedGet_def)
  then show ?thesis using resp assms(6)
    by (auto simp: browser_after_def intro!: exI [of _ "[?mk j, refresh_request env rt, ?mk (newJwt t)]"])
qed

theorem device_alerts_drop_tokens_witness:
  "browser_after (json_response (Obj [(''alerts'', Arr [demo_alert])]) 200) demo_jar = demo_jar \<and>
   (\<exists>qs. current_token [] demo_alerts_api ''r1'' [] qs = ''r2'')"
proof -
  let ?mk = "authed_request [] (device_alerts_path (demo_request demo_jar)) \<lparr>optMethod = Some ''GET'', optBody = None, optHeaders = []\<rparr>"
  have run: "devices_deviceId_alerts_GET [] demo_alerts_api ''d1'' (demo_request demo_jar) [] =
     (Inr (json_response (Obj [(''alerts'', Arr [demo_alert])]) 200),
      snd (devices_deviceId_alerts_GET [] demo_alerts_api ''d1'' (demo_request demo_jar) []))"
    using demo_alerts_run by (metis prod.collapse)
  have "refreshes demo_alerts_api (?mk ''j1'') ''r1'' (cookie_or_empty (demo_request demo_jar) cookie_sessionId) []"
    unfolding refreshes_def by (intro conjI exI [of _ "demo_json 401 ''{}''"]) code_simp+
  moreover have "fst (refreshJwt [] demo_alerts_api ''r1'' ([] @ [?mk ''j1''])) = Inr (Some \<lparr>newJwt = ''j2'', newRefreshToken = ''r2''\<rparr>)"
    by code_simp
  moreover have "cookie_or_empty (demo_request demo_jar) cookie_jwt = ''j1''"
    "cookie_or_empty (demo_request demo_jar) cookie_refreshToken = ''r1''" by code_simp+
  ultimately show ?thesis
    using device_alerts_drop_tokens [OF run, of "''j1''" "''r1''" "\<lparr>newJwt = ''j2'', newRefreshToken = ''r2''\<rparr>"]
    by (auto simp: demo_cookies)
qed

section \<open>Token cookies of the routes\<close>

lemma api_route_hides_tokens:
  assumes "(segs, h) \<in> api_routes env up" "h req l = (Inr resp, l')"
  shows "hides_tokens resp"
  using assms(1)
proof cases
  case forwarded
  then show ?thesis using forwards_console [OF routed_forwards] console_hides_tokens assms(2) by blast
next
  case (device_alerts deviceId)
  have proxy: "hides_tokens u" if "proxyAuthedGet env up req path l = (Inr u, l'')" for u l'' path
    using that console_hides_tokens [OF console.proxied [OF proxied.json [of env up "\<lambda>_. path"]]] by (simp add: proxyAuthedGet_def)
  show ?thesis using assms(2) unfolding device_alerts
    by (auto simp: devices_deviceId_alerts_GET_def io_bind_Inr_iff Let_def json_response_def hides_tokens_bare split: if_splits dest: proxy)
qed

end
