(* ===== verification/Session.thy ===== *)
theory Session
  imports AuthRoutes Codec
begin

text \<open>
  The browser's side of a session: \<^verbatim>\<open>src/contexts/AuthContext.tsx\<close>, which asks the console who is signed in and what they may do, and the
  login form \<^verbatim>\<open>src/app/sign-up-login-screen/components/LoginContent.tsx\<close>. A reply is a response of the console, \<open>None\<close> when \<^verbatim>\<open>fetch\<close>
  rejects. Toasts are the values the form shows.
\<close>

section \<open>Replies\<close>

text \<open>
  What is left of a value that a handler writes as JSON and a page reads back: \<^verbatim>\<open>undefined\<close> and functions are dropped from objects and
  turn into \<^verbatim>\<open>null\<close> in arrays, as do the numbers that JSON does not have.
\<close>

fun json_wire :: "js \<Rightarrow> js option" where
  "json_wire Undefined = None"
| "json_wire (Fun _) = None"
| "json_wire (Num n) = Some (if num_is_finite n then Num n else Null)"
| "json_wire (Arr xs) = Some (Arr (map (\<lambda>v. case json_wire v of None \<Rightarrow> Null | Some w \<Rightarrow> w) xs))"
| "json_wire (Obj m) = Some (Obj (concat (map (\<lambda>p. case json_wire (snd p) of None \<Rightarrow> [] | Some w \<Rightarrow> [(fst p, w)]) m)))"
| "json_wire v = Some v"

text \<open>
  \<^verbatim>\<open>response.json()\<close>, \<open>None\<close> when it rejects. Bytes are read as UTF-8, within the modelled strings.
\<close>

definition reply_json :: "response \<Rightarrow> js option" where
  "reply_json r = (case respBody r of
     JsonBody v \<Rightarrow> json_wire v
   | BytesBody b \<Rightarrow> Option.bind (utf8_decode b) json_parse
   | NoBody \<Rightarrow> None)"

definition reply_json_or :: "response \<Rightarrow> js \<Rightarrow> js" where
  "reply_json_or r d = (case reply_json r of None \<Rightarrow> d | Some v \<Rightarrow> v)"

section \<open>Permissions\<close>

datatype permission =
    ViewDevices | ManageDevices | SendCommands | SendSensitiveCommands | ViewAlerts | AcknowledgeAlerts | ViewCompliance
  | ManageCompliance | ViewAudit | ManageUsers | ManageSettings | ExportData | PairDevices

definition all_permissions :: "permission list" where
  "all_permissions = [ViewDevices, ManageDevices, SendCommands, SendSensitiveCommands, ViewAlerts, AcknowledgeAlerts, ViewCompliance,
     ManageCompliance, ViewAudit, ManageUsers, ManageSettings, ExportData, PairDevices]"

fun ROLE_PERMISSIONS :: "user_role \<Rightarrow> permission list" where
  "ROLE_PERMISSIONS Admin = all_permissions"
| "ROLE_PERMISSIONS Operator =
     [ViewDevices, SendCommands, ViewAlerts, AcknowledgeAlerts, ViewCompliance, ViewAudit, ExportData, PairDevices]"
| "ROLE_PERMISSIONS Viewer = [ViewDevices, ViewCompliance, ViewAudit, PairDevices]"

definition role_named :: "string \<Rightarrow> user_role option" where
  "role_named s = find (\<lambda>r. role_string r = s) [Admin, Operator, Viewer]"

text \<open>The table is read by the text of the role; a name it does not hold has no permission, inherited names included.\<close>

definition hasPermission :: "js \<Rightarrow> permission \<Rightarrow> bool res" where
  "hasPermission user p =
     (if \<not> truthy user then Inr False
      else if js_field user ''role'' = Str ''admin'' then Inr True
      else res_bind (js_String (js_field user ''role'')) (\<lambda>r.
        Inr (case role_named r of None \<Rightarrow> False | Some rl \<Rightarrow> p \<in> set (ROLE_PERMISSIONS rl))))"

section \<open>The context\<close>

record auth_context =
  ctxUser :: js
  ctxLoading :: bool

definition context_start :: auth_context where
  "context_start = \<lparr>ctxUser = Null, ctxLoading = True\<rparr>"

text \<open>The user a reply to \<^verbatim>\<open>/api/auth/me\<close> leaves: none when it fails in any way.\<close>

definition user_of_reply :: "response option \<Rightarrow> js" where
  "user_of_reply reply =
     (case reply of None \<Rightarrow> Null
      | Some r \<Rightarrow>
          if \<not> resp_ok (status r) then Null
          else (case reply_json r of None \<Rightarrow> Null
            | Some payload \<Rightarrow>
                if truthy (js_field payload ''authenticated'') then coalesce (js_field payload ''user'') Null else Null))"

definition refreshUser :: "response option \<Rightarrow> auth_context \<Rightarrow> auth_context" where
  "refreshUser reply c = c\<lparr>ctxUser := user_of_reply reply\<rparr>"

definition context_mount :: "response option \<Rightarrow> auth_context \<Rightarrow> auth_context" where
  "context_mount reply c = (refreshUser reply (c\<lparr>ctxLoading := True\<rparr>))\<lparr>ctxLoading := False\<rparr>"

definition context_setUser :: "js \<Rightarrow> auth_context \<Rightarrow> auth_context" where
  "context_setUser u c = c\<lparr>ctxUser := u\<rparr>"

text \<open>The user is gone whether or not the request to \<^verbatim>\<open>/api/auth/logout\<close> gets through.\<close>

definition context_logout :: "response option \<Rightarrow> auth_context \<Rightarrow> auth_context" where
  "context_logout reply c = c\<lparr>ctxUser := Null\<rparr>"

section \<open>The login form\<close>

record login_form =
  lfEmail :: string
  lfOtp :: string
  lfChallenge :: string
  lfResend :: jsnum
  lfSending :: bool
  lfVerifying :: bool

datatype toast = ToastError string string | ToastSuccess string


definition canRequestOtp :: "login_form \<Rightarrow> bool" where
  "canRequestOtp f \<longleftrightarrow> trim (lfEmail f) \<noteq> [] \<and> \<not> lfSending f"

definition canVerifyOtp :: "login_form \<Rightarrow> bool" where
  "canVerifyOtp f \<longleftrightarrow> trim (lfEmail f) \<noteq> [] \<and> trim (lfOtp f) \<noteq> [] \<and> lfChallenge f \<noteq> [] \<and> \<not> lfVerifying f"

definition resend_tick :: "login_form \<Rightarrow> login_form" where
  "resend_tick f = f\<lparr>lfResend := (if num_lt (Fin 0) (lfResend f) then num_add (lfResend f) (Fin (- 1)) else Fin 0)\<rparr>"

definition resendLabel :: "login_form \<Rightarrow> string" where
  "resendLabel f =
     (if num_lt (lfResend f) (Fin 0) \<or> lfResend f = Fin 0 then ''Resend OTP''
      else ''Resend in 0:'' @ pad_start 2 CHR ''0'' (number_to_string (lfResend f)))"

text \<open>What the page says about an error in its address.\<close>

definition login_error_text :: "string \<Rightarrow> string" where
  "login_error_text e =
     (if e = ''google_not_configured'' then ''Google sign-in is not configured in this environment.''
      else if e = ''google_state_invalid'' then ''Google sign-in state expired. Please try again.''
      else map (\<lambda>c. if c = CHR ''_'' then CHR '' '' else c) e)"

text \<open>The body of a request, when the form sends one.\<close>

definition requestOtp_start :: "login_form \<Rightarrow> (login_form \<times> string option) option" where
  "requestOtp_start f =
     (if canRequestOtp f then Some (f\<lparr>lfSending := True\<rparr>, json_body [(''email'', Str (trim (lfEmail f)))]) else None)"

definition request_error :: "js \<Rightarrow> string" where
  "request_error message =
     (if message = Str ''rate_limited'' then ''Too many requests. Please wait a minute and try again.''
      else if message = Str ''control_plane_unreachable'' then ''Auth service is unreachable. Ensure control-plane is running.''
      else if message = Str ''auth_service_unavailable'' then ''Auth service is starting up. Please try again in a few seconds.''
      else ''Please check your email and try again.'')"

definition requestOtp_settle :: "response option \<Rightarrow> login_form \<Rightarrow> login_form \<times> toast res" where
  "requestOtp_settle reply f =
     (let f' = f\<lparr>lfSending := False\<rparr> in
      case reply of None \<Rightarrow> (f', Inl FetchRejected)
      | Some r \<Rightarrow>
          (let payload = reply_json_or r (Obj []) in
           if \<not> resp_ok (status r)
           then (f', res_bind (js_member payload ''message'') (\<lambda>m. Inr (ToastError ''Could not send OTP'' (request_error m))))
           else
             (case str_member payload ''challenge_id'' [] of
                Inl e \<Rightarrow> (f', Inl e)
              | Inr challenge \<Rightarrow>
                  if challenge = [] then (f', Inr (ToastError ''Could not send OTP'' ''Unexpected server response.''))
                  else
                    (case js_Number (coalesce (js_field payload ''resend_after_seconds'') (Num (Fin 60))) of
                       Inl e \<Rightarrow> (f'\<lparr>lfChallenge := challenge\<rparr>, Inl e)
                     | Inr n \<Rightarrow> (f'\<lparr>lfChallenge := challenge, lfResend := num_max (Fin 0) n\<rparr>, Inr (ToastSuccess ''OTP sent''))))))"

definition verifyOtp_start :: "login_form \<Rightarrow> (login_form \<times> string option) option" where
  "verifyOtp_start f =
     (if canVerifyOtp f
      then Some (f\<lparr>lfVerifying := True\<rparr>,
        json_body [(''email'', Str (trim (lfEmail f))), (''challengeId'', Str (lfChallenge f)), (''otp'', Str (trim (lfOtp f)))])
      else None)"

text \<open>\<^verbatim>\<open>roleHomePath\<close> of a role that comes from a payload.\<close>

definition home_of_role :: "js \<Rightarrow> string" where
  "home_of_role v = (if v = Str ''admin'' then ''/dashboard'' else if v = Str ''operator'' then ''/operator-console'' else ''/viewer-console'')"



text \<open>A user who is already signed in leaves the page at once; the button for Google keeps the page to go on to.\<close>

definition login_redirect :: "auth_context \<Rightarrow> string option" where
  "login_redirect c =
     (if ctxLoading c \<or> \<not> truthy (ctxUser c) then None else Some (home_of_role (js_field (ctxUser c) ''role'')))"

definition continueWithGoogle :: "(string \<times> string) list \<Rightarrow> string" where
  "continueWithGoogle params =
     (case al_get params ''next'' of
        None \<Rightarrow> ''/api/auth/google/start''
      | Some next \<Rightarrow>
          if next = [] then ''/api/auth/google/start'' else ''/api/auth/google/start?next='' @ encodeURIComponent next)"

section \<open>Who the page takes the user for\<close>

lemma home_of_role_string: "home_of_role (Str (role_string r)) = roleHomePath r"
  by (cases r) (simp_all add: home_of_role_def)

lemma user_json_role: "js_field (user_json u) ''role'' = Str (role_string (role u))"
  by (simp add: user_json_def obj_get_def)

text \<open>A successful answer of \<^verbatim>\<open>/api/auth/me\<close> gives the user in the answer of the API, for the token that the browser then holds.\<close>

lemma me_finish_200:
  assumes "me_finish env req aj art a = Inr resp" "resp_ok (status resp)" "aj \<noteq> []"
    and "art = [] \<or> cookie_or_empty req cookie_sessionId = [] \<Longrightarrow> al_get (cookies req) cookie_jwt = Some aj"
  shows "resp_ok (apiStatus a) \<and> (\<exists>u. mapMePayload (json_or a Null) = Inr (Some u) \<and>
     respBody resp = JsonBody (Obj [(''authenticated'', Bool True), (''user'', user_json u)]) \<and>
     al_get (browser_after resp (cookies req)) cookie_role = Some (role_string (role u)) \<and>
     al_get (browser_after resp (cookies req)) cookie_jwt = Some aj)"
proof -
  have ok: "resp_ok (apiStatus a)" using assms(1,2)
    by (auto simp: me_finish_def Let_def me_unavailable_def not_authenticated_def split: if_splits)
  obtain u where u: "(if truthy (json_or a Null) then mapMePayload (json_or a Null) else Inr None) = Inr (Some u)"
    using assms(1,2) ok by (auto simp: me_finish_def Let_def res_bind_Inr_iff not_authenticated_def split: option.splits)
  then have payload: "mapMePayload (json_or a Null) = Inr (Some u)" by (auto split: if_splits)
  let ?bare = "json_response (Obj [(''authenticated'', Bool True), (''user'', user_json u)]) 200"
  show ?thesis
  proof (cases "art \<noteq> [] \<and> cookie_or_empty req cookie_sessionId \<noteq> []")
    case True
    then have "resp = attachTokenCookies env (Some req) \<lparr>jwt = aj, refreshToken = art, sessionId = cookie_or_empty req cookie_sessionId\<rparr>
        (Some (role u)) ?bare"
      using assms(1) ok u by (simp add: me_finish_def Let_def)
    then show ?thesis using ok payload by (auto simp: browser_after_attachToken)
  next
    case False
    then have "resp = set_cookie (session_cookie cookie_role (role_string (role u)) False (shouldUseSecureCookies env (Some req))) ?bare"
      using assms(1) ok u by (auto simp: me_finish_def Let_def)
    then show ?thesis using assms(4) False ok payload cookie_names_distinct by (auto simp: browser_after_def)
  qed
qed

text \<open>What the API answered to the last request, asked for the user of a token.\<close>

definition api_user :: "env \<Rightarrow> upstream \<Rightarrow> api_request list \<Rightarrow> string \<Rightarrow> auth_user \<Rightarrow> bool" where
  "api_user env up l token u \<longleftrightarrow> l \<noteq> [] \<and> last l = me_request env token \<and>
     (\<exists>a. up (butlast l) (last l) = Some a \<and> resp_ok (apiStatus a) \<and> mapMePayload (json_or a Null) = Inr (Some u))"

lemma api_user_snoc:
  "up l (me_request env token) = Some a \<Longrightarrow> resp_ok (apiStatus a) \<Longrightarrow> mapMePayload (json_or a Null) = Inr (Some u) \<Longrightarrow>
     api_user env up (l @ [me_request env token]) token u"
  by (simp add: api_user_def)

lemma me_GET_200:
  assumes run: "me_GET env up req l = (Inr resp, l')" and s: "resp_ok (status resp)"
  shows "\<exists>u token. api_user env up l' token u \<and> token \<noteq> [] \<and>
     respBody resp = JsonBody (Obj [(''authenticated'', Bool True), (''user'', user_json u)]) \<and>
     al_get (browser_after resp (cookies req)) cookie_role = Some (role_string (role u)) \<and>
     al_get (browser_after resp (cookies req)) cookie_jwt = Some token"
proof (cases "cookie_or_empty req cookie_jwt = []")
  case True
  with run s show ?thesis by (auto simp: me_GET_def not_authenticated_def)
next
  case False
  let ?j = "cookie_or_empty req cookie_jwt"
  let ?rt = "cookie_or_empty req cookie_refreshToken"
  let ?q = "me_request env ?j"
  note app = me_GET_apply [OF refl False refl refl, of env up l]
  have down: "\<not> resp_ok (status (me_unavailable msg))" for msg by (simp add: me_unavailable_def)
  have jar: "al_get (cookies req) cookie_jwt = Some ?j" using False by (auto simp: cookie_or_empty_def split: option.splits)
  obtain a where a: "up l ?q = Some a" using app run s down by (cases "up l ?q") auto
  consider (plain) "me_finish env req ?j ?rt a = Inr resp" "l' = l @ [?q]"
    | (refused) "me_finish env req ?j ?rt a = Inr resp" "apiStatus a = 401"
    | (retried) t b where "fst (refreshJwt env up ?rt (l @ [?q])) = Inr (Some t)" "cookie_or_empty req cookie_sessionId \<noteq> []"
        "up (l @ [?q, refresh_request env ?rt]) (me_request env (newJwt t)) = Some b"
        "me_finish env req (newJwt t) (newRefreshToken t) b = Inr resp"
        "l' = (l @ [?q, refresh_request env ?rt]) @ [me_request env (newJwt t)]"
    using app run s down a by (auto simp: refreshes_def split: if_splits sum.splits option.splits)
  then show ?thesis
  proof cases
    case plain
    from me_finish_200 [OF plain(1) s False jar] a show ?thesis unfolding plain(2) using False api_user_snoc by blast
  next
    case refused
    from me_finish_200 [OF refused(1) s False jar] refused(2) show ?thesis by simp
  next
    case (retried t b)
    have "newJwt t \<noteq> []" "newRefreshToken t \<noteq> []" using refreshJwt_Some [OF retried(1)] by simp_all
    with me_finish_200 [OF retried(4) s] retried(2,3) show ?thesis unfolding retried(5) using api_user_snoc by blast
  qed
qed


lemma wire_user:
  "\<exists>m. json_wire (user_json u) = Some (Obj m) \<and> js_field (Obj m) ''role'' = Str (role_string (role u))"
  by (cases "json_wire (userId u)"; cases "json_wire (email u)"; cases "twoFactorEnabled u")
    (simp_all add: user_json_def js_field_def obj_get_def)

text \<open>What a page reads in a successful reply of \<^verbatim>\<open>/api/auth/me\<close>.\<close>

lemma me_GET_reply:
  assumes "me_GET env up req l = (Inr resp, l')" "resp_ok (status resp)"
  obtains u token m where "api_user env up l' token u" "reply_json resp = Some (Obj [(''authenticated'', Bool True), (''user'', Obj m)])"
    "json_wire (user_json u) = Some (Obj m)" "js_field (Obj m) ''role'' = Str (role_string (role u))"
    "al_get (browser_after resp (cookies req)) cookie_role = Some (role_string (role u))"
    "al_get (browser_after resp (cookies req)) cookie_jwt = Some token"
    "middleware (page\<lparr>pathname := roleHomePath (role u), cookies := browser_after resp (cookies req)\<rparr>) = MwNext"
proof -
  obtain u j where u: "respBody resp = JsonBody (Obj [(''authenticated'', Bool True), (''user'', user_json u)])"
    "al_get (browser_after resp (cookies req)) cookie_role = Some (role_string (role u))"
    "al_get (browser_after resp (cookies req)) cookie_jwt = Some j" "j \<noteq> []" and api: "api_user env up l' j u"
    using me_GET_200 [OF assms] by blast
  obtain m where m: "json_wire (user_json u) = Some (Obj m)" "js_field (Obj m) ''role'' = Str (role_string (role u))"
    using wire_user by blast
  have "middleware (page\<lparr>pathname := roleHomePath (role u), cookies := browser_after resp (cookies req)\<rparr>) = MwNext"
    using u by (intro middleware_home_served [of _ "role u"]) (simp_all add: cookie_or_empty_def)
  with u m api show thesis by (intro that [of j u m]) (simp_all add: reply_json_def)
qed


lemma hasPermission_role:
  assumes "js_field (Obj m) ''role'' = Str (role_string rl)"
  shows "hasPermission (Obj m) p = Inr (p \<in> set (ROLE_PERMISSIONS rl))"
  using assms by (cases rl; cases p) (simp_all add: hasPermission_def role_named_def all_permissions_def)






section \<open>Properties\<close>






text \<open>
  C17: the user a page knows is the user of the session. When the context has loaded a user, it is the one the API answered with when the
  console last asked it, for the token the browser now holds; the page grants exactly the permissions of that user's role, which is the role
  in the role cookie; and the login page sends the user to the home page of that role, which the gate serves.
\<close>

theorem page_user_is_session_user:
  assumes "me_GET env up req l = (Inr me, l')" "ctxUser (context_mount (Some me) c) \<noteq> Null"
  shows "\<exists>u token. api_user env up l' token u \<and> al_get (browser_after me (cookies req)) cookie_jwt = Some token \<and>
    json_wire (user_json u) = Some (ctxUser (context_mount (Some me) c)) \<and>
    al_get (browser_after me (cookies req)) cookie_role = Some (role_string (role u)) \<and>
    (\<forall>p. hasPermission (ctxUser (context_mount (Some me) c)) p = Inr (p \<in> set (ROLE_PERMISSIONS (role u)))) \<and>
    login_redirect (context_mount (Some me) c) = Some (roleHomePath (role u)) \<and>
    middleware (page\<lparr>pathname := roleHomePath (role u), cookies := browser_after me (cookies req)\<rparr>) = MwNext"
proof -
  have ok: "resp_ok (status me)" using assms(2) by (auto simp: context_mount_def refreshUser_def user_of_reply_def split: if_splits)
  obtain u token m where api: "api_user env up l' token u" and u: "reply_json me = Some (Obj [(''authenticated'', Bool True), (''user'', Obj m)])"
    "json_wire (user_json u) = Some (Obj m)" "js_field (Obj m) ''role'' = Str (role_string (role u))"
    "al_get (browser_after me (cookies req)) cookie_role = Some (role_string (role u))"
    "al_get (browser_after me (cookies req)) cookie_jwt = Some token"
    "middleware (page\<lparr>pathname := roleHomePath (role u), cookies := browser_after me (cookies req)\<rparr>) = MwNext"
    by (rule me_GET_reply [OF assms(1) ok, of page])
  have c: "context_mount (Some me) c = c\<lparr>ctxUser := Obj m, ctxLoading := False\<rparr>"
    using ok u(1) by (simp add: context_mount_def refreshUser_def user_of_reply_def js_field_def obj_get_def coalesce_def)
  show ?thesis using api u hasPermission_role [OF u(3)]
    by (intro exI [of _ u] exI [of _ token]) (simp add: c login_redirect_def home_of_role_string)
qed

theorem page_user_is_session_user_witness:
  "\<exists>me (u :: auth_user). fst (me_GET [] (demo_me_api 200) (demo_request demo_jar) []) = Inr me \<and>
     login_redirect (context_mount (Some me) context_start) = Some (roleHomePath (role u)) \<and>
     hasPermission (ctxUser (context_mount (Some me) context_start)) SendCommands = Inr (SendCommands \<in> set (ROLE_PERMISSIONS (role u))) \<and>
     middleware (demo_login\<lparr>pathname := roleHomePath (role u), cookies := browser_after me demo_jar\<rparr>) = MwNext"
proof -
  let ?m = "me_GET [] (demo_me_api 200) (demo_request demo_jar) []"
  have "case fst ?m of Inl e \<Rightarrow> False | Inr me \<Rightarrow> ctxUser (context_mount (Some me) context_start) \<noteq> Null" by code_simp
  then obtain me where me: "?m = (Inr me, snd ?m)" and user: "ctxUser (context_mount (Some me) context_start) \<noteq> Null"
    by (cases ?m; cases "fst ?m") auto
  have run: "fst ?m = Inr me" by (subst me) (rule fst_conv)
  from page_user_is_session_user [OF me user, of demo_login]
  obtain u :: auth_user where "login_redirect (context_mount (Some me) context_start) = Some (roleHomePath (role u))"
    "hasPermission (ctxUser (context_mount (Some me) context_start)) SendCommands = Inr (SendCommands \<in> set (ROLE_PERMISSIONS (role u)))"
    "middleware (demo_login\<lparr>pathname := roleHomePath (role u), cookies := browser_after me demo_jar\<rparr>) = MwNext"
    unfolding demo_cookies by (elim exE conjE) (rule that; (assumption | erule spec))
  with run show ?thesis by (intro exI conjI)
qed

end
