(* ===== verification/Telemetry.thy ===== *)
theory Telemetry
  imports JsJson
begin

text \<open>
  \<^verbatim>\<open>src/lib/telemetry.ts\<close>: numbers, percentages, risk scores and texts read from telemetry values of any
  type, and the normal form of a kernel event.
\<close>

section \<open>Definitions\<close>

definition finite_number :: "jsnum \<Rightarrow> jsnum option" where
  "finite_number n = (if num_is_finite n then Some n else None)"

definition telemetryNumber :: "js \<Rightarrow> jsnum option" where
  "telemetryNumber v =
     (case v of
        Num n \<Rightarrow> finite_number n
      | Str s \<Rightarrow> finite_number (string_to_number (trim (replace_first CHR ''%'' [] s)))
      | _ \<Rightarrow> None)"

text \<open>\<^verbatim>\<open>Math.max(0, Math.min(100, x))\<close>.\<close>

definition clamp100 :: "jsnum \<Rightarrow> jsnum" where
  "clamp100 x = num_max (Fin 0) (num_min (Fin 100) x)"

definition telemetryPercent :: "js \<Rightarrow> string \<Rightarrow> string" where
  "telemetryPercent v fallback =
     (case telemetryNumber v of None \<Rightarrow> fallback | Some n \<Rightarrow> to_fixed 0 (clamp100 n) @ ''%'')"

definition telemetryRisk :: "js \<Rightarrow> jsnum option" where
  "telemetryRisk v =
     (case telemetryNumber v of None \<Rightarrow> None
      | Some n \<Rightarrow> Some (if num_le n (Fin 1) then clamp100 (num_scale n 100) else clamp100 n))"

definition telemetryText :: "js \<Rightarrow> string \<Rightarrow> string" where
  "telemetryText v fallback =
     (case v of
        Str s \<Rightarrow> if trim s \<noteq> [] then trim s else fallback
      | Num n \<Rightarrow> if num_is_finite n then number_to_string n else fallback
      | _ \<Rightarrow> fallback)"

definition telemetryBooleanStatus :: "js \<Rightarrow> string \<Rightarrow> string \<Rightarrow> string \<Rightarrow> string" where
  "telemetryBooleanStatus v trueText falseText fallback =
     (case v of Bool b \<Rightarrow> if b then trueText else falseText | _ \<Rightarrow> fallback)"

definition masked_texts :: "js list \<Rightarrow> string list" where
  "masked_texts xs = filter (\<lambda>s. s \<noteq> []) (map (\<lambda>v. telemetryText v []) xs)"

definition telemetryMaskedFields :: "js \<Rightarrow> string \<Rightarrow> string" where
  "telemetryMaskedFields v fallback =
     (case v of
        Arr xs \<Rightarrow> if xs = [] then ''None''
                 else if masked_texts xs \<noteq> [] then join '', '' (masked_texts xs) else ''None''
      | _ \<Rightarrow> fallback)"

datatype kernel_category = CatExec | CatIntegrity | CatAttestation | CatUpdate | CatRuntime

fun category_string :: "kernel_category \<Rightarrow> string" where
  "category_string CatExec = ''exec''"
| "category_string CatIntegrity = ''integrity''"
| "category_string CatAttestation = ''attestation''"
| "category_string CatUpdate = ''update''"
| "category_string CatRuntime = ''runtime''"

definition normalizeKernelCategory :: "js \<Rightarrow> kernel_category" where
  "normalizeKernelCategory v =
     (let category = to_lower (telemetryText v ''exec'') in
      if category = ''integrity'' then CatIntegrity else if category = ''attestation'' then CatAttestation
      else if category = ''update'' then CatUpdate else if category = ''runtime'' then CatRuntime else CatExec)"

record kernel_event =
  eventId :: jsnum
  eventType :: jsnum
  eventTimestampUnix :: jsnum
  category :: kernel_category
  subtype :: string
  severity :: string
  decision :: string
  reasonCode :: string
  durationMs :: jsnum
  queueDepth :: jsnum
  dropCount :: jsnum
  opcode :: string
  kstatus :: string
  errorCode :: jsnum
  policyRef :: string
  maskedFields :: "string list"
  payload :: obj
  payloadJson :: string

definition number_or_0 :: "js \<Rightarrow> jsnum" where
  "number_or_0 v = (case telemetryNumber v of Some n \<Rightarrow> n | None \<Rightarrow> Fin 0)"

text \<open>The payload of an event: its own object (or array), or the object in its JSON text.\<close>

definition kernel_payload :: "js \<Rightarrow> string \<Rightarrow> js" where
  "kernel_payload kernelEvent json =
     (case js_field kernelEvent ''payload'' of
        Obj m \<Rightarrow> Obj m
      | Arr xs \<Rightarrow> Arr xs
      | _ \<Rightarrow> (case json_parse json of Some (Obj m) \<Rightarrow> Obj m | Some (Arr xs) \<Rightarrow> Arr xs | _ \<Rightarrow> Obj []))"

text \<open>The ten normalised fields, from the raw field \<open>g k\<close> of each name.\<close>

definition kernel_fields :: "(string \<Rightarrow> js) \<Rightarrow> obj" where
  "kernel_fields g =
     (let st = to_lower (telemetryText (g ''status'') ''unknown'');
          err = number_or_0 (g ''error_code'')
      in [(''category'', Str (category_string (normalizeKernelCategory (g ''category'')))),
          (''subtype'', Str (to_lower (telemetryText (g ''subtype'') ''opcode''))),
          (''severity'', Str (to_lower (telemetryText (g ''severity'')
             (if st \<noteq> ''ok'' \<or> num_lt (Fin 0) err then ''high'' else ''info'')))),
          (''decision'', Str (to_lower (telemetryText (g ''decision'')
             (if st = ''ok'' \<or> st = ''completed'' then ''allow'' else ''deny'')))),
          (''reason_code'', Str (to_lower (telemetryText (g ''reason_code'') (if st \<noteq> [] then st else ''unknown'')))),
          (''duration_ms'', Num (number_or_0 (g ''duration_ms''))),
          (''queue_depth'', Num (number_or_0 (g ''queue_depth''))),
          (''drop_count'', Num (number_or_0 (coalesce (g ''drop_count'') (g ''dropped_events'')))),
          (''policy_ref'', Str (telemetryText (g ''policy_ref'') [])),
          (''masked_fields'', Arr (case g ''masked_fields'' of Arr xs \<Rightarrow> map Str (masked_texts xs) | _ \<Rightarrow> []))])"

definition normalized_payload_fields :: "js \<Rightarrow> obj" where
  "normalized_payload_fields pl = kernel_fields (js_field pl)"

text \<open>\<^verbatim>\<open>{ ...payload }\<close> followed by the ten assignments.\<close>

definition kernel_normalized :: "js \<Rightarrow> obj" where
  "kernel_normalized pl = spread (own_props pl) (normalized_payload_fields pl)"

definition parseKernelTelemetryEvent :: "js \<Rightarrow> kernel_event option" where
  "parseKernelTelemetryEvent v =
     (if \<not> (is_Obj v \<or> is_Arr v) then None
      else
        let json = telemetryText (js_field v ''payload_json'') ''{}'';
            pl = kernel_payload v json;
            st = to_lower (telemetryText (js_field pl ''status'') ''unknown'');
            np = kernel_normalized pl;
            txt = (\<lambda>k. case al_get np k of Some (Str s) \<Rightarrow> s | _ \<Rightarrow> []);
            num = (\<lambda>k. case al_get np k of Some (Num n) \<Rightarrow> n | _ \<Rightarrow> NaN)
        in Some \<lparr>eventId = number_or_0 (js_field v ''event_id''), eventType = number_or_0 (js_field v ''event_type''),
             eventTimestampUnix = number_or_0 (js_field v ''event_timestamp_unix''),
             category = normalizeKernelCategory (js_field pl ''category''),
             subtype = txt ''subtype'', severity = txt ''severity'', decision = txt ''decision'', reasonCode = txt ''reason_code'',
             durationMs = num ''duration_ms'', queueDepth = num ''queue_depth'', dropCount = num ''drop_count'',
             opcode = telemetryText (js_field pl ''opcode'') ''Unknown'', kstatus = st,
             errorCode = number_or_0 (js_field pl ''error_code''), policyRef = txt ''policy_ref'',
             maskedFields = (case al_get np ''masked_fields'' of Some (Arr xs) \<Rightarrow> map (\<lambda>v. case v of Str s \<Rightarrow> s | _ \<Rightarrow> []) xs | _ \<Rightarrow> []),
             payload = np, payloadJson = json\<rparr>)"

section \<open>Lemmas\<close>

lemma finite_number_Some: "finite_number n = Some k \<longleftrightarrow> k = n \<and> num_is_finite n"
  by (auto simp: finite_number_def)

lemma telemetryNumber_finite: "telemetryNumber v = Some n \<Longrightarrow> num_is_finite n"
  by (cases v) (auto simp: telemetryNumber_def finite_number_Some)

lemma clamp100_range: "num_is_finite x \<or> x \<noteq> NaN \<Longrightarrow> \<exists>r. clamp100 x = Fin r \<and> 0 \<le> r \<and> r \<le> 100"
  unfolding clamp100_def by (rule num_clamp_Fin) auto

lemma number_or_0_finite: "num_is_finite (number_or_0 v)"
  by (auto simp: number_or_0_def dest: telemetryNumber_finite split: option.split)

lemma number_or_0_Num [simp]: "num_is_finite n \<Longrightarrow> number_or_0 (Num n) = n"
  by (simp add: number_or_0_def telemetryNumber_def finite_number_def)

text \<open>A settled text is not empty and has no white space at its ends.\<close>

definition settled :: "string \<Rightarrow> bool" where
  "settled s \<longleftrightarrow> s \<noteq> [] \<and> trim s = s"

lemma telemetryText_settled: "settled fb \<Longrightarrow> settled (telemetryText v fb)"
  by (cases v) (auto simp: telemetryText_def settled_def trim_no_ws [OF number_to_string_no_ws])

lemma telemetryText_cases: "telemetryText v fb = fb \<or> settled (telemetryText v fb)"
  by (cases v) (auto simp: telemetryText_def settled_def trim_no_ws [OF number_to_string_no_ws])

lemma telemetryText_Str [simp]: "settled s \<Longrightarrow> telemetryText (Str s) fb = s"
  by (simp add: telemetryText_def settled_def)

lemma settled_to_lower: "settled s \<Longrightarrow> settled (to_lower s)"
  by (simp add: settled_def trim_to_lower)

lemma telemetryText_empty_again: "telemetryText (Str (telemetryText v [])) [] = telemetryText v []"
  using telemetryText_cases [of v "[]"] by (auto simp: telemetryText_def [of "Str []"])

lemma masked_texts_again: "masked_texts (map Str (masked_texts xs)) = masked_texts xs"
proof -
  have "map (\<lambda>v. telemetryText v []) (map Str (masked_texts xs)) = masked_texts xs"
    using telemetryText_empty_again by (auto simp: masked_texts_def intro!: map_idI)
  then show ?thesis by (simp add: masked_texts_def [of "map Str _"]) (simp add: masked_texts_def)
qed

lemma normalizeKernelCategory_string [simp]: "normalizeKernelCategory (Str (category_string c)) = c"
  by (cases c; hypsubst; code_simp)

lemma array_keys: "al_get (own_props (Arr xs)) k \<noteq> None \<Longrightarrow> list_all is_digit k"
  by (auto simp: al_get_None_iff string_of_nat_digits dest: set_zip_leftD)

lemma own_props_field:
  assumes "is_Obj pl \<or> is_Arr pl" "\<not> list_all is_digit k" "inherited k = Undefined"
  shows "obj_get (own_props pl) k = js_field pl k"
proof (cases pl)
  case (Arr xs)
  then have "al_get (own_props pl) k = None" using array_keys [of xs k] assms(2) by blast
  with Arr assms(3) show ?thesis by (simp add: obj_get_def js_field_def)
qed (use assms(1) in \<open>auto simp: is_Obj_def is_Arr_def\<close>)

lemma fields_distinct: "distinct (al_keys (normalized_payload_fields pl))"
  by (simp add: normalized_payload_fields_def kernel_fields_def Let_def)

lemma kernel_normalized_get:
  "al_get (kernel_normalized pl) k =
     (case al_get (normalized_payload_fields pl) k of None \<Rightarrow> al_get (own_props pl) k | Some v \<Rightarrow> Some v)"
  unfolding kernel_normalized_def by (rule al_get_spread [OF fields_distinct])

lemma kernel_payload_shape: "is_Obj (kernel_payload v json) \<or> is_Arr (kernel_payload v json)"
  by (auto simp: kernel_payload_def is_Obj_def is_Arr_def split: js.split option.split)

lemma kernel_normalized_field:
  assumes "is_Obj pl \<or> is_Arr pl" "\<not> list_all is_digit k" "inherited k = Undefined" "al_get (normalized_payload_fields pl) k = None"
  shows "obj_get (kernel_normalized pl) k = js_field pl k"
  using own_props_field [OF assms(1-3)] by (simp add: obj_get_def kernel_normalized_get assms(4))

lemma kernel_normalized_set:
  "al_get (normalized_payload_fields pl) k = Some v \<Longrightarrow> obj_get (kernel_normalized pl) k = v"
  by (simp add: obj_get_def kernel_normalized_get)

text \<open>The normal form is a fixed point.\<close>

lemma settled_literals:
  "settled ''unknown''" "settled ''opcode''" "settled ''high''" "settled ''info''" "settled ''allow''" "settled ''deny''"
  by code_simp+

lemmas settled_intros = settled_to_lower telemetryText_settled settled_literals

lemma lower_again: "settled fb \<Longrightarrow> to_lower (telemetryText (Str (to_lower (telemetryText v fb))) fb') = to_lower (telemetryText v fb)"
  by (simp add: settled_to_lower telemetryText_settled)

lemma kernel_fields_again:
  assumes g: "\<And>k v. al_get (kernel_fields g) k = Some v \<Longrightarrow> g' k = v"
    and "g' ''status'' = g ''status''" "g' ''error_code'' = g ''error_code''"
  shows "kernel_fields g' = kernel_fields g"
proof -
  define st where "st = to_lower (telemetryText (g ''status'') ''unknown'')"
  have st: "settled st" "st \<noteq> []" using settled_intros unfolding st_def settled_def by blast+
  note fields = kernel_fields_def [of g, folded st_def, unfolded Let_def]
  have "g' ''category'' = Str (category_string (normalizeKernelCategory (g ''category'')))"
    "g' ''subtype'' = Str (to_lower (telemetryText (g ''subtype'') ''opcode''))"
    "g' ''severity'' = Str (to_lower (telemetryText (g ''severity'')
       (if st \<noteq> ''ok'' \<or> num_lt (Fin 0) (number_or_0 (g ''error_code'')) then ''high'' else ''info'')))"
    "g' ''decision'' = Str (to_lower (telemetryText (g ''decision'') (if st = ''ok'' \<or> st = ''completed'' then ''allow'' else ''deny'')))"
    "g' ''reason_code'' = Str (to_lower (telemetryText (g ''reason_code'') st))"
    "g' ''duration_ms'' = Num (number_or_0 (g ''duration_ms''))"
    "g' ''queue_depth'' = Num (number_or_0 (g ''queue_depth''))"
    "g' ''drop_count'' = Num (number_or_0 (coalesce (g ''drop_count'') (g ''dropped_events'')))"
    "g' ''policy_ref'' = Str (telemetryText (g ''policy_ref'') [])"
    "g' ''masked_fields'' = Arr (case g ''masked_fields'' of Arr xs \<Rightarrow> map Str (masked_texts xs) | _ \<Rightarrow> [])"
    by (rule g, simp add: fields st(2))+
  moreover have "masked_texts (case g ''masked_fields'' of Arr xs \<Rightarrow> map Str (masked_texts xs) | _ \<Rightarrow> []) =
      (case g ''masked_fields'' of Arr xs \<Rightarrow> masked_texts xs | _ \<Rightarrow> [])"
    by (simp add: masked_texts_again masked_texts_def [of "[]"] split: js.split)
  ultimately show ?thesis
    using st assms(2,3) settled_literals
    by (simp add: fields kernel_fields_def [of g', unfolded assms(2,3), folded st_def, unfolded Let_def]
        lower_again number_or_0_finite telemetryText_empty_again split: js.split)
qed

definition kernel_keys :: "string list" where
  "kernel_keys = [''category'', ''subtype'', ''severity'', ''decision'', ''reason_code'', ''duration_ms'', ''queue_depth'',
     ''drop_count'', ''policy_ref'', ''masked_fields'']"

lemma fields_keys: "al_keys (normalized_payload_fields pl) = kernel_keys"
  by (simp add: normalized_payload_fields_def kernel_fields_def Let_def kernel_keys_def)

lemma kernel_kept:
  assumes "is_Obj pl \<or> is_Arr pl" "k \<in> set [''status'', ''error_code'', ''opcode'']"
  shows "obj_get (kernel_normalized pl) k = js_field pl k"
proof -
  have "list_all (\<lambda>k. \<not> list_all is_digit k \<and> inherited k = Undefined \<and> k \<notin> set kernel_keys) [''status'', ''error_code'', ''opcode'']"
    by code_simp
  with assms(2) have "\<not> list_all is_digit k" "inherited k = Undefined" "k \<notin> set kernel_keys" by (simp_all only: list_all_iff simp_thms)
  with assms(1) show ?thesis
    by (intro kernel_normalized_field) (simp_all add: al_get_None_iff fields_keys del: set_map)
qed

lemma kernel_normalized_again:
  assumes "is_Obj pl \<or> is_Arr pl"
  shows "normalized_payload_fields (Obj (kernel_normalized pl)) = normalized_payload_fields pl"
    "kernel_normalized (Obj (kernel_normalized pl)) = kernel_normalized pl"
proof -
  note kept = kernel_kept [OF assms]
  show fields: "normalized_payload_fields (Obj (kernel_normalized pl)) = normalized_payload_fields pl"
    unfolding normalized_payload_fields_def
    by (rule kernel_fields_again) (simp_all add: kernel_normalized_set normalized_payload_fields_def kept)
  show "kernel_normalized (Obj (kernel_normalized pl)) = kernel_normalized pl"
    unfolding kernel_normalized_def [of "Obj _"] fields own_props.simps
  proof (rule spread_same)
    fix k v assume "(k, v) \<in> set (normalized_payload_fields pl)"
    then have "al_get (normalized_payload_fields pl) k = Some v"
      using fields_distinct by (simp add: al_get_map_of)
    then show "al_get (kernel_normalized pl) k = Some v" by (simp add: kernel_normalized_get)
  qed
qed

text \<open>A kernel event as a telemetry value again.\<close>

definition kernel_value :: "kernel_event \<Rightarrow> js" where
  "kernel_value e = Obj [(''event_id'', Num (eventId e)), (''event_type'', Num (eventType e)),
     (''event_timestamp_unix'', Num (eventTimestampUnix e)), (''payload'', Obj (payload e)), (''payload_json'', Str (payloadJson e))]"

section \<open>Properties\<close>

text \<open>
  C25: the normal form of a kernel event is stable: an event that was parsed once, sent on with its normalised
  payload and parsed again, is the same event in every field.
\<close>

theorem kernel_event_stable:
  assumes "parseKernelTelemetryEvent v = Some e"
  shows "parseKernelTelemetryEvent (kernel_value e) = Some e"
proof -
  define json where "json = telemetryText (js_field v ''payload_json'') ''{}''"
  define pl where "pl = kernel_payload v json"
  have shape: "is_Obj pl \<or> is_Arr pl" unfolding pl_def by (rule kernel_payload_shape)
  note kept = kernel_kept [OF shape]
  have cat: "obj_get (kernel_normalized pl) ''category'' = Str (category_string (normalizeKernelCategory (js_field pl ''category'')))"
    by (rule kernel_normalized_set) (simp add: normalized_payload_fields_def kernel_fields_def Let_def)
  have "settled ''{}''" by code_simp
  then have json: "settled json" unfolding json_def by (rule telemetryText_settled)
  have e: "payload e = kernel_normalized pl" "payloadJson e = json" "eventId e = number_or_0 (js_field v ''event_id'')"
    "eventType e = number_or_0 (js_field v ''event_type'')" "eventTimestampUnix e = number_or_0 (js_field v ''event_timestamp_unix'')"
    using assms unfolding parseKernelTelemetryEvent_def json_def [symmetric] Let_def pl_def [symmetric] by (auto split: if_splits)
  have fields: "js_field (kernel_value e) ''payload_json'' = Str json" "js_field (kernel_value e) ''payload'' = Obj (kernel_normalized pl)"
    "js_field (kernel_value e) ''event_id'' = Num (eventId e)" "js_field (kernel_value e) ''event_type'' = Num (eventType e)"
    "js_field (kernel_value e) ''event_timestamp_unix'' = Num (eventTimestampUnix e)"
    by (simp_all add: kernel_value_def e obj_get_def)
  then have "kernel_payload (kernel_value e) json = Obj (kernel_normalized pl)" by (simp add: kernel_payload_def)
  with assms json show ?thesis
    unfolding parseKernelTelemetryEvent_def json_def [symmetric] Let_def pl_def [symmetric] fields telemetryText_Str [OF json]
    by (auto simp: kernel_normalized_again [OF shape] kept cat e number_or_0_finite kernel_value_def is_Obj_def split: if_splits)
qed

theorem kernel_event_stable_witness:
  "\<exists>e. parseKernelTelemetryEvent (Obj [(''payload_json'', Str ''{\"category\":\" Update\"}'')]) = Some e \<and>
     parseKernelTelemetryEvent (kernel_value e) = Some e"
proof -
  obtain e where "parseKernelTelemetryEvent (Obj [(''payload_json'', Str ''{\"category\":\" Update\"}'')]) = Some e"
    by (simp add: parseKernelTelemetryEvent_def is_Obj_def Let_def)
  with kernel_event_stable [OF this] show ?thesis by blast
qed

text \<open>
  Displayed telemetry is in range for a value of any type: a risk score lies between 0 and 100, and a
  percentage is the fallback or a whole number up to 100 with a percent sign.
\<close>

theorem telemetry_in_range:
  "(\<forall>x. telemetryRisk v = Some x \<longrightarrow> (\<exists>r. x = Fin r \<and> 0 \<le> r \<and> r \<le> 100)) \<and>
   (telemetryPercent v fallback = fallback \<or> (\<exists>n \<le> 100. telemetryPercent v fallback = string_of_nat n @ ''%''))"
proof (cases "telemetryNumber v")
  case None
  then show ?thesis by (simp add: telemetryRisk_def telemetryPercent_def)
next
  case (Some n)
  then obtain q where q: "n = Fin q" using telemetryNumber_finite [OF Some] by (cases n) auto
  obtain r where r: "clamp100 n = Fin r" "0 \<le> r" "r \<le> 100" using clamp100_range [of n] q by auto
  have "telemetryPercent v fallback = string_of_nat (nat \<lfloor>r + 1 / 2\<rfloor>) @ ''%''"
    using Some r by (simp add: telemetryPercent_def fixed_digits_def)
  moreover have "nat \<lfloor>r + 1 / 2\<rfloor> \<le> 100" using r(2,3) by linarith
  ultimately have "\<exists>k \<le> 100. telemetryPercent v fallback = string_of_nat k @ ''%''" by blast
  moreover have "\<exists>r. x = Fin r \<and> 0 \<le> r \<and> r \<le> 100" if "telemetryRisk v = Some x" for x
  proof -
    have "num_scale n 100 \<noteq> NaN" "n \<noteq> NaN" by (simp_all add: q)
    with clamp100_range have "\<exists>r. clamp100 y = Fin r \<and> 0 \<le> r \<and> r \<le> 100" if "y \<in> {num_scale n 100, n}" for y
      using that by blast
    moreover have "x \<in> {clamp100 (num_scale n 100), clamp100 n}" using that Some by (auto simp: telemetryRisk_def split: if_splits)
    ultimately show ?thesis by blast
  qed
  ultimately show ?thesis by blast
qed

theorem telemetry_in_range_witness: "\<exists>r. Fin r = clamp100 (Fin 250) \<and> r \<le> (100 :: rat)"
proof -
  have "telemetryRisk (Num (Fin 250)) = Some (clamp100 (Fin 250))"
    by (simp add: telemetryRisk_def telemetryNumber_def finite_number_def num_le_def num_eq_def)
  with telemetry_in_range [of "Num (Fin 250)" "[]"] show ?thesis by auto
qed

end
