(* ===== verification/Uuid.thy ===== *)
theory Uuid
  imports JsNumber "HOL-Library.Word"
begin

text \<open>
  \<^verbatim>\<open>src/lib/uuid.ts\<close>: identifiers of client messages. What the platform offers is a parameter: the text of
  \<^verbatim>\<open>crypto.randomUUID()\<close> if there is one, the sixteen bytes of \<^verbatim>\<open>crypto.getRandomValues\<close> if there are any, the clock in
  milliseconds and the number of \<^verbatim>\<open>Math.random()\<close>.
\<close>

unbundle bit_operations_syntax

section \<open>Definitions\<close>

definition hex_byte :: "8 word \<Rightarrow> string" where
  "hex_byte b = pad_start 2 CHR ''0'' (nat_digits 16 (unat b))"

definition version_bytes :: "8 word list \<Rightarrow> 8 word list" where
  "version_bytes bytes = bytes[6 := (bytes ! 6 AND 0x0F) OR 0x40, 8 := (bytes ! 8 AND 0x3F) OR 0x80]"

definition uuid_of_bytes :: "8 word list \<Rightarrow> string" where
  "uuid_of_bytes bytes =
     (let hex = concat (map hex_byte (version_bytes bytes))
      in JsString.slice 0 8 hex @ ''-'' @ JsString.slice 8 12 hex @ ''-'' @ JsString.slice 12 16 hex @ ''-'' @ JsString.slice 16 20 hex @ ''-'' @ JsString.slice 20 32 hex)"

text \<open>\<^verbatim>\<open>Math.floor(Math.random() * Number.MAX_SAFE_INTEGER)\<close>.\<close>

definition random_integer :: "rat \<Rightarrow> nat" where
  "random_integer r = (case to_double (r * (2 ^ 53 - 1)) of Fin x \<Rightarrow> nat \<lfloor>x\<rfloor> | _ \<Rightarrow> 0)"

definition uuid_of_clock :: "nat \<Rightarrow> nat \<Rightarrow> string" where
  "uuid_of_clock millis random =
     (let now = pad_start 12 CHR ''0'' (nat_digits 16 millis); rand = pad_start 13 CHR ''0'' (nat_digits 16 random)
      in JsString.slice 0 8 now @ ''-'' @ JsString.slice 8 12 now @ ''-4'' @ JsString.slice 0 3 rand @ ''-a'' @ JsString.slice 3 6 rand @ ''-'' @ pad_end 12 CHR ''0'' (JsString.slice 6 18 rand))"

definition randomUuid :: "string option \<Rightarrow> 8 word list option \<Rightarrow> nat \<Rightarrow> rat \<Rightarrow> string" where
  "randomUuid native bytes millis r =
     (case native of
        Some u \<Rightarrow> u
      | None \<Rightarrow> (case bytes of Some bs \<Rightarrow> uuid_of_bytes bs | None \<Rightarrow> uuid_of_clock millis (random_integer r)))"

section \<open>Laws\<close>

text \<open>A version 4 identifier in the form of RFC 4122, lower-case.\<close>

definition is_hex :: "char \<Rightarrow> bool" where
  "is_hex c \<longleftrightarrow> c \<in> set ''0123456789abcdef''"

definition uuid_v4 :: "string \<Rightarrow> bool" where
  "uuid_v4 s \<longleftrightarrow>
     map length (split_on CHR ''-'' s) = [8, 4, 4, 4, 12] \<and> list_all (list_all is_hex) (split_on CHR ''-'' s) \<and>
     s ! 14 = CHR ''4'' \<and> s ! 19 \<in> set ''89ab''"

lemma is_hex_digit: "n < 16 \<Longrightarrow> is_hex (digit_char n)"
proof -
  have "list_all (\<lambda>n. is_hex (digit_char n)) [0..<16]" by code_simp
  then show "n < 16 \<Longrightarrow> is_hex (digit_char n)" by (simp add: list_all_iff)
qed

lemma nat_digits_hex: "list_all is_hex (nat_digits 16 n)"
proof (induction n rule: less_induct)
  case (less n)
  then show ?case by (subst nat_digits.simps) (auto simp: is_hex_digit)
qed

lemma length_nat_digits: "n < 16 ^ Suc k \<Longrightarrow> length (nat_digits 16 n) \<le> Suc k"
proof (induction k arbitrary: n)
  case 0
  then show ?case by (subst nat_digits.simps) simp
next
  case (Suc k)
  then have "n div 16 < 16 ^ Suc k" by (simp add: less_mult_imp_div_less mult.commute)
  from Suc.IH [OF this] show ?case by (subst nat_digits.simps) simp
qed

lemma is_hex_zero: "is_hex CHR ''0''"
  by code_simp

lemma pad_start_hex: "list_all is_hex s \<Longrightarrow> list_all is_hex (pad_start n CHR ''0'' s)"
  using is_hex_zero by (auto simp: pad_start_def list_all_iff)

lemma pad_end_hex: "list_all is_hex s \<Longrightarrow> list_all is_hex (pad_end n CHR ''0'' s)"
  using is_hex_zero by (auto simp: pad_end_def list_all_iff)

lemma length_pad_end: "length s \<le> n \<Longrightarrow> length (pad_end n c s) = n"
  by (simp add: pad_end_def)

lemma split_on_dash: "list_all is_hex s \<Longrightarrow> split_on CHR ''-'' s = [s]" "list_all is_hex s \<Longrightarrow> split_on CHR ''-'' (s @ CHR ''-'' # t) = s # split_on CHR ''-'' t"
  by (induction s) (auto simp: is_hex_def)

lemma uuid_v4_parts:
  assumes "map length [a, b, c, d, e] = [8, 4, 4, 4, 12]" "list_all (list_all is_hex) [a, b, c, d, e]" "c ! 0 = CHR ''4''" "d ! 0 \<in> set ''89ab''"
  shows "uuid_v4 (a @ ''-'' @ b @ ''-'' @ c @ ''-'' @ d @ ''-'' @ e)"
proof -
  have "split_on CHR ''-'' (a @ ''-'' @ b @ ''-'' @ c @ ''-'' @ d @ ''-'' @ e) = [a, b, c, d, e]"
    using assms(2) by (simp add: split_on_dash)
  then show ?thesis using assms by (simp add: uuid_v4_def nth_append nth_Cons')
qed

lemma byte_less: "unat (b :: 8 word) < 256"
proof -
  have "unat b < 2 ^ LENGTH(8)" by (rule unsigned_less)
  then show ?thesis by simp
qed

lemma hex_byte_digits: "hex_byte b = [digit_char (unat b div 16), digit_char (unat b mod 16)]"
proof -
  have "unat b div 16 < 16" using byte_less [of b] by simp
  then have "nat_digits 16 (unat b) = (if unat b < 16 then [digit_char (unat b)] else [digit_char (unat b div 16), digit_char (unat b mod 16)])"
    by (simp add: nat_digits.simps [of 16 "unat b"] nat_digits.simps [of 16 "unat b div 16"])
  moreover have "digit_char 0 = CHR ''0''" by code_simp
  ultimately show ?thesis by (simp add: hex_byte_def pad_start_def)
qed

lemma nat_and_mask: "(n :: nat) AND mask k = n mod 2 ^ k"
  by (simp add: take_bit_eq_mask [symmetric] take_bit_eq_mod)

lemma version_nibble: "unat ((b AND 0x0F) OR 0x40 :: 8 word) div 16 = 4"
proof -
  have "list_all (\<lambda>n. (n OR 64) div 16 = (4 :: nat)) [0..<16]" by code_simp
  then have "(unat b mod 16 OR 64) div 16 = 4" by (simp add: list_all_iff)
  then show ?thesis using nat_and_mask [of "unat b" 4] by (simp add: unsigned_or_eq unsigned_and_eq mask_eq_exp_minus_1)
qed

lemma variant_nibble: "unat ((b AND 0x3F) OR 0x80 :: 8 word) div 16 \<in> {8, 9, 10, 11}"
proof -
  have "list_all (\<lambda>n. (n OR 128) div 16 \<in> {8, 9, 10, 11 :: nat}) [0..<64]" by code_simp
  then have "(unat b mod 64 OR 128) div 16 \<in> {8, 9, 10, 11}" by (simp only: list_all_iff) simp
  then show ?thesis using nat_and_mask [of "unat b" 6] by (simp add: unsigned_or_eq unsigned_and_eq mask_eq_exp_minus_1)
qed

lemma version_digit: "digit_char (unat ((b AND 0x0F) OR 0x40 :: 8 word) div 16) = CHR ''4''"
  unfolding version_nibble by code_simp

lemma variant_digit: "digit_char (unat ((b AND 0x3F) OR 0x80 :: 8 word) div 16) \<in> set ''89ab''"
proof -
  have "list_all (\<lambda>n. digit_char n \<in> set ''89ab'') [8, 9, 10, 11]" by code_simp
  then show ?thesis using variant_nibble [of b] unfolding list_all_iff by (metis list.set)
qed

lemma uuid_of_bytes_v4:
  assumes "length bs = 16"
  shows "uuid_v4 (uuid_of_bytes bs)"
proof -
  obtain b0 b1 b2 b3 b4 b5 b6 b7 b8 b9 b10 b11 b12 b13 b14 b15
    where bs: "bs = [b0, b1, b2, b3, b4, b5, b6, b7, b8, b9, b10, b11, b12, b13, b14, b15]"
    using assms by (auto simp: length_Suc_conv eval_nat_numeral)
  have hex: "is_hex (digit_char (unat b div 16))" "is_hex (digit_char (unat b mod 16))" for b :: "8 word"
    using byte_less [of b] by (simp_all add: is_hex_digit)
  have "digit_char (unat ((b6 AND 0x0F) OR 0x40) div 16) = CHR ''4''" "digit_char (unat ((b8 AND 0x3F) OR 0x80) div 16) \<in> set ''89ab''"
    "is_hex CHR ''4''"
    by (rule version_digit, rule variant_digit, code_simp)
  moreover have "concat (map hex_byte (version_bytes bs)) = concat (map hex_byte
      [b0, b1, b2, b3, b4, b5, (b6 AND 0x0F) OR 0x40, b7, (b8 AND 0x3F) OR 0x80, b9, b10, b11, b12, b13, b14, b15])"
    by (simp add: version_bytes_def bs)
  ultimately show ?thesis
    unfolding uuid_of_bytes_def Let_def by (intro uuid_v4_parts) (simp_all add: hex_byte_digits JsString.slice_def hex)
qed

lemma uuid_of_clock_v4:
  assumes "millis < 2 ^ 48"
  shows "uuid_v4 (uuid_of_clock millis random)"
proof -
  have now: "length (pad_start 12 CHR ''0'' (nat_digits 16 millis)) = 12"
    using assms length_nat_digits [of millis 11] by (simp add: length_pad_start)
  have rand: "13 \<le> length (pad_start 13 CHR ''0'' (nat_digits 16 random))" by (simp add: length_pad_start)
  have sl: "list_all is_hex (JsString.slice i j (pad_start n CHR ''0'' (nat_digits 16 k)))" for i j n k
    using pad_start_hex [OF nat_digits_hex] by (auto simp: JsString.slice_def list_all_iff dest!: in_set_takeD in_set_dropD)
  have "is_hex CHR ''4''" "is_hex CHR ''a''" "is_hex CHR ''0''" by code_simp+
  with sl now rand have "uuid_v4 (JsString.slice 0 8 (pad_start 12 CHR ''0'' (nat_digits 16 millis)) @ ''-'' @
      JsString.slice 8 12 (pad_start 12 CHR ''0'' (nat_digits 16 millis)) @ ''-'' @
      (CHR ''4'' # JsString.slice 0 3 (pad_start 13 CHR ''0'' (nat_digits 16 random))) @ ''-'' @
      (CHR ''a'' # JsString.slice 3 6 (pad_start 13 CHR ''0'' (nat_digits 16 random))) @ ''-'' @
      pad_end 12 CHR ''0'' (JsString.slice 6 18 (pad_start 13 CHR ''0'' (nat_digits 16 random))))"
    by (intro uuid_v4_parts) (simp_all only: list.pred_inject pad_end_hex sl simp_thms, simp_all add: JsString.slice_def length_pad_end)
  then show ?thesis by (simp add: uuid_of_clock_def Let_def)
qed

section \<open>Properties\<close>

text \<open>
  C26: on every platform the identifier of a message is a version 4 UUID: eight, four, four, four and twelve lower-case hexadecimal
  digits, with the version digit 4 and a variant digit from 8 to b. The clock is before the year 10889, and a built-in
  \<^verbatim>\<open>randomUUID\<close> is assumed to return such a text.
\<close>

theorem randomUuid_v4:
  assumes "\<And>u. native = Some u \<Longrightarrow> uuid_v4 u" "\<And>bs. bytes = Some bs \<Longrightarrow> length bs = 16" "millis < 2 ^ 48"
  shows "uuid_v4 (randomUuid native bytes millis r)"
  using assms by (simp add: randomUuid_def uuid_of_bytes_v4 uuid_of_clock_v4 split: option.split)

theorem randomUuid_v4_witness:
  "uuid_v4 (randomUuid None (Some (replicate 16 255)) 0 0) \<and> uuid_v4 (randomUuid None None 1700000000000 (1 / 2))"
  by (intro conjI randomUuid_v4) simp_all

end
