(* ===== verification/CommandResults.thy ===== *)
theory CommandResults
  imports JsJson
begin

text \<open>
  \<^verbatim>\<open>src/lib/commandResults.ts\<close>: rows and details of commands from the API become the records the pages show.
  \<open>url_pathname t\<close> is \<^verbatim>\<open>new URL(t).pathname\<close> of the platform, \<open>None\<close> when it throws. A field whose
  \<^verbatim>\<open>trim\<close> is called must be a string or absent: any other value throws.
\<close>

section \<open>Definitions\<close>

datatype command_state = Queued | Dispatched | AckReceived | Executing | Completed | Failed | Expired | Rejected

fun state_string :: "command_state \<Rightarrow> string" where
  "state_string Queued = ''queued''"
| "state_string Dispatched = ''dispatched''"
| "state_string AckReceived = ''ack_received''"
| "state_string Executing = ''executing''"
| "state_string Completed = ''completed''"
| "state_string Failed = ''failed''"
| "state_string Expired = ''expired''"
| "state_string Rejected = ''rejected''"

datatype origin_channel = ControlUi | MobileApp | ApiChannel | Schedule | SystemChannel | UnknownChannel

fun channel_string :: "origin_channel \<Rightarrow> string" where
  "channel_string ControlUi = ''control_ui''"
| "channel_string MobileApp = ''mobile_app''"
| "channel_string ApiChannel = ''api''"
| "channel_string Schedule = ''schedule''"
| "channel_string SystemChannel = ''system''"
| "channel_string UnknownChannel = ''unknown''"

record command_result =
  rowId :: string
  commandId :: string
  deviceId :: string
  deviceName :: string
  cmethod :: string
  params :: js
  cstate :: command_state
  executionState :: "string option"
  queuedAt :: js
  dispatchedAt :: js
  completedAt :: js
  traceId :: "string option"
  actorEmail :: string
  originChannel :: origin_channel
  originSessionId :: "string option"
  originMobileDeviceId :: "string option"
  result :: "obj option"
  resultStatus :: "string option"
  resultNotes :: "string option"
  artifactUrl :: "string option"
  artifactChecksum :: "string option"
  cerrorCode :: "jsnum option"
  errorMessage :: "string option"
  reason :: "string option"

definition command_state_of :: "string \<Rightarrow> command_state" where
  "command_state_of s =
     (let n = to_lower (trim s) in
      if n = ''dispatched'' then Dispatched else if n = ''ack_received'' then AckReceived
      else if n = ''executing'' then Executing else if n = ''completed'' then Completed
      else if n = ''failed'' then Failed else if n = ''expired'' then Expired
      else if n = ''rejected'' then Rejected else Queued)"

definition normalizeCommandState :: "js \<Rightarrow> command_state res" where
  "normalizeCommandState v = res_bind (js_String (coalesce v (Str []))) (\<lambda>s. Inr (command_state_of s))"

definition normalizeResultObject :: "js \<Rightarrow> obj option" where
  "normalizeResultObject v = (case v of Obj m \<Rightarrow> Some m | _ \<Rightarrow> None)"

definition toNumber :: "js \<Rightarrow> jsnum option" where
  "toNumber v =
     (case v of
        Num n \<Rightarrow> if num_is_finite n then Some n else None
      | Str s \<Rightarrow> if trim s \<noteq> [] \<and> num_is_finite (string_to_number s) then Some (string_to_number s) else None
      | _ \<Rightarrow> None)"

text \<open>The first match of \<^verbatim>\<open>/\/api\/artifact\/([^/?#]+)/i\<close> and its group.\<close>

fun artifact_match :: "string \<Rightarrow> string option" where
  "artifact_match [] = None"
| "artifact_match (c # s) =
     (let rest = drop 14 (c # s); seg = takeWhile (\<lambda>d. d \<notin> {CHR ''/'', CHR ''?'', CHR ''#''}) rest
      in if starts_with (to_lower (c # s)) ''/api/artifact/'' \<and> seg \<noteq> [] then Some seg else artifact_match s)"

definition normalizeArtifactUrl :: "(string \<Rightarrow> string option) \<Rightarrow> js \<Rightarrow> string option" where
  "normalizeArtifactUrl url_pathname v =
     (case v of
        Str s \<Rightarrow>
          (let raw = trim s in
           if raw = [] then None
           else if starts_with raw ''/api/artifact/'' then Some raw
           else (case url_pathname raw of None \<Rightarrow> Some raw
             | Some path \<Rightarrow> (case artifact_match path of None \<Rightarrow> Some raw | Some seg \<Rightarrow> Some (''/api/artifact/'' @ seg))))
      | _ \<Rightarrow> None)"

definition channel_of :: "string \<Rightarrow> origin_channel" where
  "channel_of s =
     (let n = to_lower (trim s) in
      if n = ''control_ui'' then ControlUi else if n = ''mobile_app'' then MobileApp else if n = ''api'' then ApiChannel
      else if n = ''schedule'' then Schedule else if n = ''system'' then SystemChannel else UnknownChannel)"

definition normalizeOriginChannel :: "js \<Rightarrow> origin_channel res" where
  "normalizeOriginChannel v = res_bind (js_String (coalesce v (Str []))) (\<lambda>s. Inr (channel_of s))"

fun originChannelLabel :: "origin_channel \<Rightarrow> string" where
  "originChannelLabel ControlUi = ''Control UI''"
| "originChannelLabel MobileApp = ''Mobile App''"
| "originChannelLabel ApiChannel = ''API''"
| "originChannelLabel Schedule = ''Scheduler''"
| "originChannelLabel SystemChannel = ''System''"
| "originChannelLabel UnknownChannel = ''Unknown''"

text \<open>\<^verbatim>\<open>v?.trim()\<close>, the empty string standing for \<^verbatim>\<open>undefined\<close> (both are falsy); then \<^verbatim>\<open>|| d\<close>.\<close>

definition opt_trim :: "js \<Rightarrow> string res" where
  "opt_trim v = (if is_nullish v then Inr [] else case v of Str s \<Rightarrow> Inr (trim s) | _ \<Rightarrow> Inl (NotAFunction ''trim''))"

definition or_text :: "string \<Rightarrow> string \<Rightarrow> string" where
  "or_text s d = (if s \<noteq> [] then s else d)"

definition or_null :: "string \<Rightarrow> string option \<Rightarrow> string option" where
  "or_null s d = (if s \<noteq> [] then Some s else d)"

text \<open>\<^verbatim>\<open>typeof result?.k === 'string' ? result.k : null\<close>.\<close>

definition result_text :: "obj option \<Rightarrow> string \<Rightarrow> string option" where
  "result_text res k = (case res of None \<Rightarrow> None | Some m \<Rightarrow> (case obj_get m k of Str s \<Rightarrow> Some s | _ \<Rightarrow> None))"

definition mapCommandListRow :: "(string \<Rightarrow> string option) \<Rightarrow> js \<Rightarrow> command_result res" where
  "mapCommandListRow url_pathname row =
     (let f = js_field row in
      res_bind (js_member row ''result'') (\<lambda>rv.
      res_bind (opt_trim (f ''command_id'')) (\<lambda>cid.
      res_bind (opt_trim (f ''device_id'')) (\<lambda>did.
      res_bind (opt_trim (f ''device_name'')) (\<lambda>dname.
      res_bind (opt_trim (f ''method'')) (\<lambda>meth.
      res_bind (normalizeCommandState (f ''state'')) (\<lambda>st.
      res_bind (opt_trim (f ''execution_state'')) (\<lambda>es.
      res_bind (opt_trim (f ''trace_id'')) (\<lambda>tid.
      res_bind (opt_trim (f ''actor_email'')) (\<lambda>actor.
      res_bind (normalizeOriginChannel (f ''origin_channel'')) (\<lambda>ch.
      res_bind (opt_trim (f ''origin_session_id'')) (\<lambda>osid.
      res_bind (opt_trim (f ''origin_mobile_device_id'')) (\<lambda>omid.
      res_bind (opt_trim (f ''result_status'')) (\<lambda>rs.
      res_bind (opt_trim (f ''result_notes'')) (\<lambda>rn.
      res_bind (opt_trim (f ''artifact_checksum'')) (\<lambda>ac.
      res_bind (opt_trim (f ''error_message'')) (\<lambda>em.
      res_bind (opt_trim (f ''reason'')) (\<lambda>rsn.
        let res = normalizeResultObject rv; c = or_text cid ''unknown''; d = or_text did ''unknown'' in
        Inr \<lparr>rowId = c, commandId = c, deviceId = d, deviceName = or_text dname d, cmethod = or_text meth ''unknown'',
          params = coalesce (f ''params'') (Obj []), cstate = st, executionState = or_null es None,
          queuedAt = coalesce (f ''queued_at'') Null, dispatchedAt = coalesce (f ''dispatched_at'') Null,
          completedAt = coalesce (f ''completed_at'') Null, traceId = or_null tid None, actorEmail = or_text actor ''Unknown'',
          originChannel = ch, originSessionId = or_null osid None, originMobileDeviceId = or_null omid None,
          result = res, resultStatus = or_null rs (result_text res ''status''),
          resultNotes = or_null rn (result_text res ''notes''),
          artifactUrl = (case normalizeArtifactUrl url_pathname (f ''artifact_url'') of Some u \<Rightarrow> Some u
             | None \<Rightarrow> (case res of None \<Rightarrow> None | Some m \<Rightarrow> normalizeArtifactUrl url_pathname (obj_get m ''artifact_url''))),
          artifactChecksum = or_null ac (result_text res ''artifact_checksum''),
          cerrorCode = toNumber (f ''error_code''), errorMessage = or_null em None, reason = or_null rsn None\<rparr>))))))))))))))))))"

text \<open>\<^verbatim>\<open>null\<close> or a text, number or object as a value.\<close>

definition of_text :: "string option \<Rightarrow> js" where
  "of_text v = (case v of None \<Rightarrow> Null | Some s \<Rightarrow> Str s)"

definition base_fields :: "command_result \<Rightarrow> obj" where
  "base_fields base =
     [(''command_id'', Str (commandId base)), (''device_id'', Str (deviceId base)), (''device_name'', Str (deviceName base)),
      (''method'', Str (cmethod base)), (''params'', params base), (''state'', Str (state_string (cstate base))),
      (''execution_state'', of_text (executionState base)), (''queued_at'', queuedAt base),
      (''dispatched_at'', dispatchedAt base), (''completed_at'', completedAt base), (''trace_id'', of_text (traceId base)),
      (''actor_email'', Str (actorEmail base)), (''origin_channel'', Str (channel_string (originChannel base))),
      (''origin_session_id'', of_text (originSessionId base)), (''origin_mobile_device_id'', of_text (originMobileDeviceId base)),
      (''result'', case result base of None \<Rightarrow> Null | Some m \<Rightarrow> Obj m), (''result_status'', of_text (resultStatus base)),
      (''result_notes'', of_text (resultNotes base)), (''artifact_url'', of_text (artifactUrl base)),
      (''artifact_checksum'', of_text (artifactChecksum base)),
      (''error_code'', case cerrorCode base of None \<Rightarrow> Null | Some n \<Rightarrow> Num n), (''error_message'', of_text (errorMessage base)),
      (''reason'', of_text (reason base))]"

text \<open>\<^verbatim>\<open>{ ...detail, k: detail.k ?? base.k, ... }\<close>.\<close>

definition merged_row :: "command_result \<Rightarrow> js \<Rightarrow> js" where
  "merged_row base detail =
     Obj (spread (own_props detail) (map (\<lambda>(k, b). (k, coalesce (js_field detail k) b)) (base_fields base)))"

definition mergeCommandDetail :: "(string \<Rightarrow> string option) \<Rightarrow> command_result \<Rightarrow> js \<Rightarrow> command_result res" where
  "mergeCommandDetail url_pathname base detail =
     res_bind (js_member detail ''command_id'') (\<lambda>_.
     res_bind (mapCommandListRow url_pathname (merged_row base detail)) (\<lambda>r. Inr (r\<lparr>rowId := rowId base\<rparr>)))"

definition extractResultData :: "command_result \<Rightarrow> js" where
  "extractResultData row =
     (case result row of None \<Rightarrow> Null
      | Some m \<Rightarrow> if obj_get m ''data'' \<noteq> Undefined then obj_get m ''data'' else Null)"

definition nonblank_text :: "js \<Rightarrow> string option" where
  "nonblank_text v = (case v of Str s \<Rightarrow> if trim s \<noteq> [] then Some s else None | _ \<Rightarrow> None)"

definition extractOutputText :: "command_result \<Rightarrow> string" where
  "extractOutputText row =
     (case result row of None \<Rightarrow> []
      | Some m \<Rightarrow> (case nonblank_text (obj_get m ''output_text'') of Some s \<Rightarrow> s
          | None \<Rightarrow> (case nonblank_text (obj_get m ''notes'') of Some s \<Rightarrow> s | None \<Rightarrow> [])))"

definition toRawResultJson :: "command_result \<Rightarrow> string option" where
  "toRawResultJson row =
     stringify ''  '' (Obj
       [(''command_id'', Str (commandId row)), (''device_id'', Str (deviceId row)), (''method'', Str (cmethod row)),
        (''state'', Str (state_string (cstate row))), (''execution_state'', of_text (executionState row)),
        (''queued_at'', queuedAt row), (''dispatched_at'', dispatchedAt row), (''completed_at'', completedAt row),
        (''trace_id'', of_text (traceId row)), (''actor_email'', Str (actorEmail row)),
        (''origin_channel'', Str (channel_string (originChannel row))), (''origin_session_id'', of_text (originSessionId row)),
        (''origin_mobile_device_id'', of_text (originMobileDeviceId row)),
        (''result'', case result row of None \<Rightarrow> Null | Some m \<Rightarrow> Obj m),
        (''error_code'', case cerrorCode row of None \<Rightarrow> Null | Some n \<Rightarrow> Num n),
        (''error_message'', of_text (errorMessage row)), (''reason'', of_text (reason row))])"

text \<open>\<^verbatim>\<open>a || b\<close> on texts that may be \<^verbatim>\<open>null\<close>.\<close>

definition or_else :: "string option \<Rightarrow> string \<Rightarrow> string" where
  "or_else v d = (case v of None \<Rightarrow> d | Some s \<Rightarrow> or_text s d)"

definition resultPreview :: "command_result \<Rightarrow> string" where
  "resultPreview row =
     or_else (resultNotes row) (or_else (errorMessage row) (or_else (reason row) (or_else (resultStatus row)
       (case cerrorCode row of None \<Rightarrow> ''No data available'' | Some n \<Rightarrow> ''error '' @ number_to_string n))))"

definition isTerminalState :: "command_state \<Rightarrow> bool" where
  "isTerminalState s \<longleftrightarrow> s \<in> {Completed, Failed, Expired, Rejected}"

section \<open>The invariant of a command record\<close>

definition clean :: "string \<Rightarrow> bool" where
  "clean s \<longleftrightarrow> s \<noteq> [] \<and> trim s = s"

text \<open>A text read from the row, or else from the result as it is there.\<close>

definition clean_or_result :: "string option \<Rightarrow> obj option \<Rightarrow> string \<Rightarrow> bool" where
  "clean_or_result v res k \<longleftrightarrow> (case v of None \<Rightarrow> False | Some s \<Rightarrow> clean s) \<or> v = result_text res k"

text \<open>A link of the console to an artifact: one segment after the path of the artifact route.\<close>

definition artifact_link :: "string \<Rightarrow> bool" where
  "artifact_link s \<longleftrightarrow> starts_with s ''/api/artifact/'' \<and> drop 14 s \<noteq> [] \<and>
     list_all (\<lambda>d. d \<notin> {CHR ''/'', CHR ''?'', CHR ''#''}) (drop 14 s)"

text \<open>An address is one that normalising leaves alone, or a link; without one the result has none either.\<close>

definition settled_artifact :: "(string \<Rightarrow> string option) \<Rightarrow> obj option \<Rightarrow> string option \<Rightarrow> bool" where
  "settled_artifact url res u \<longleftrightarrow>
     (case u of Some s \<Rightarrow> clean s \<and> normalizeArtifactUrl url (Str s) = Some s \<or> artifact_link s
      | None \<Rightarrow> (case res of None \<Rightarrow> True | Some m \<Rightarrow> normalizeArtifactUrl url (obj_get m ''artifact_url'') = None))"

definition wf_command :: "(string \<Rightarrow> string option) \<Rightarrow> command_result \<Rightarrow> bool" where
  "wf_command url r \<longleftrightarrow>
     list_all clean [commandId r, deviceId r, deviceName r, cmethod r, actorEmail r] \<and>
     list_all (\<lambda>v. case v of None \<Rightarrow> True | Some s \<Rightarrow> clean s)
       [executionState r, traceId r, originSessionId r, originMobileDeviceId r, errorMessage r, reason r] \<and> settled_artifact url (result r) (artifactUrl r) \<and>
     list_all (\<lambda>v. v \<noteq> Undefined) [queuedAt r, dispatchedAt r, completedAt r] \<and> \<not> is_nullish (params r) \<and>
     (case cerrorCode r of None \<Rightarrow> True | Some n \<Rightarrow> num_is_finite n) \<and>
     clean_or_result (resultStatus r) (result r) ''status'' \<and> clean_or_result (resultNotes r) (result r) ''notes'' \<and>
     clean_or_result (artifactChecksum r) (result r) ''artifact_checksum''"

lemma opt_trim_simps [simp]:
  "opt_trim (Str s) = Inr (trim s)" "opt_trim Null = Inr []" "opt_trim Undefined = Inr []"
  by (simp_all add: opt_trim_def)

lemma opt_trim_trimmed: "opt_trim v = Inr s \<Longrightarrow> trim s = s"
  by (cases v) (auto simp: opt_trim_def)

lemma clean_or_text: "trim s = s \<Longrightarrow> clean d \<Longrightarrow> clean (or_text s d)"
  by (simp add: clean_def or_text_def)

lemma clean_or_null: "trim s = s \<Longrightarrow> (case or_null s None of None \<Rightarrow> True | Some s \<Rightarrow> clean s)"
  by (simp add: clean_def or_null_def)

lemma clean_or_result_or_null: "trim s = s \<Longrightarrow> clean_or_result (or_null s (result_text m k)) m k"
  by (simp add: clean_or_result_def clean_def or_null_def)

lemma clean_literals: "clean ''unknown'' \<and> clean ''Unknown''"
  by code_simp

lemma artifact_linkI:
  assumes "seg \<noteq> []" "\<And>d. d \<in> set seg \<Longrightarrow> d \<notin> {CHR ''/'', CHR ''?'', CHR ''#''}"
  shows "artifact_link (''/api/artifact/'' @ seg)"
  using assms unfolding artifact_link_def list_all_iff by (simp add: starts_with_def)

lemma artifact_match_link: "artifact_match p = Some seg \<Longrightarrow> artifact_link (''/api/artifact/'' @ seg)"
proof (induction p)
  case (Cons c p)
  let ?w = "takeWhile (\<lambda>d. d \<notin> {CHR ''/'', CHR ''?'', CHR ''#''}) (drop 14 (c # p))"
  have "artifact_match (c # p) = (if starts_with (to_lower (c # p)) ''/api/artifact/'' \<and> ?w \<noteq> [] then Some ?w else artifact_match p)"
    unfolding artifact_match.simps Let_def ..
  then consider "seg = ?w" "?w \<noteq> []" | "artifact_match p = Some seg" using Cons.prems by (metis option.inject)
  then show ?case
  proof cases
    case 1
    show ?thesis unfolding 1(1) by (rule artifact_linkI [OF 1(2)]) (drule set_takeWhileD, elim conjE)
  qed (rule Cons.IH)
qed simp

lemma normalizeArtifactUrl_settled:
  assumes "normalizeArtifactUrl url v = Some u"
  shows "clean u \<and> normalizeArtifactUrl url (Str u) = Some u \<or> artifact_link u"
proof -
  consider s where "v = Str s" "u = trim s" "u \<noteq> []" "normalizeArtifactUrl url (Str u) = Some u"
    | p seg where "artifact_match p = Some seg" "u = ''/api/artifact/'' @ seg"
    using assms by (cases v) (auto simp: normalizeArtifactUrl_def Let_def split: if_splits option.splits)
  then show ?thesis
  proof cases
    case (2 p seg)
    from artifact_match_link [OF 2(1)] show ?thesis unfolding 2(2) by (rule disjI2)
  qed (simp add: clean_def)
qed

lemma artifact_link_again: "artifact_link u \<Longrightarrow> trim u = u \<Longrightarrow> normalizeArtifactUrl url (Str u) = Some u"
  by (auto simp: artifact_link_def normalizeArtifactUrl_def)

lemma mapped_wf:
  assumes "mapCommandListRow url row = Inr r"
  shows "wf_command url r \<and> rowId r = commandId r"
proof -
  have "case toNumber v of None \<Rightarrow> True | Some n \<Rightarrow> num_is_finite n" for v
    by (cases v) (simp_all add: toNumber_def)
  moreover have "coalesce v Null \<noteq> Undefined" "\<not> is_nullish (coalesce v (Obj []))" for v
    by (cases v; simp)+
  moreover have "settled_artifact url m (case normalizeArtifactUrl url a of Some u \<Rightarrow> Some u
      | None \<Rightarrow> (case m of None \<Rightarrow> None | Some m \<Rightarrow> normalizeArtifactUrl url (obj_get m ''artifact_url'')))" for a m
    using normalizeArtifactUrl_settled by (auto simp: settled_artifact_def split: option.split)
  ultimately show ?thesis
    using assms clean_literals
    unfolding mapCommandListRow_def Let_def
    by (auto simp only: res_bind_Inr_iff sum.inject wf_command_def command_result.simps list.pred_inject simp_thms
        intro!: clean_or_text clean_or_null clean_or_result_or_null dest!: opt_trim_trimmed)
qed

lemma merged_row_field:
  assumes "al_get (base_fields b) k = Some v"
  shows "js_field (merged_row b d) k = coalesce (js_field d k) v"
proof -
  let ?f = "\<lambda>(k, b). (k, coalesce (js_field d k) b)"
  have keys: "map fst (map ?f xs) = map fst xs" and get: "al_get (map ?f xs) k = map_option (coalesce (js_field d k)) (al_get xs k)" for xs
    by (induction xs) auto
  have "distinct (al_keys (map ?f (base_fields b)))" unfolding keys by (simp add: base_fields_def)
  then show ?thesis
    unfolding merged_row_def js_field_Obj obj_get_def by (simp only: al_get_spread get assms option.map option.case)
qed

definition command_keys :: "string list" where
  "command_keys = [''command_id'', ''device_id'', ''device_name'', ''method'', ''params'', ''state'', ''execution_state'',
     ''queued_at'', ''dispatched_at'', ''completed_at'', ''trace_id'', ''actor_email'', ''origin_channel'', ''origin_session_id'',
     ''origin_mobile_device_id'', ''result'', ''result_status'', ''result_notes'', ''artifact_url'', ''artifact_checksum'',
     ''error_code'', ''error_message'', ''reason'']"

lemma base_fields_keys: "al_keys (base_fields b) = command_keys"
  by (simp add: base_fields_def command_keys_def)

lemma mapCommandListRow_cong:
  assumes "\<And>k. k \<in> set command_keys \<Longrightarrow> js_field row k = js_field row' k" "is_nullish row \<longleftrightarrow> is_nullish row'"
  shows "mapCommandListRow url row = mapCommandListRow url row'"
proof -
  have "list_all (\<lambda>k. js_field row k = js_field row' k) command_keys" using assms(1) by (simp add: list_all_iff)
  then show ?thesis
    unfolding mapCommandListRow_def js_member_def Let_def assms(2)
    by (simp only: command_keys_def list.pred_inject simp_thms)
qed

lemma command_keys_plain: "k \<in> set command_keys \<Longrightarrow> inherited k = Undefined"
proof -
  have "list_all (\<lambda>k. inherited k = Undefined) command_keys" by code_simp
  then show "k \<in> set command_keys \<Longrightarrow> inherited k = Undefined" by (simp add: list_all_iff)
qed

lemma normalized_again [simp]:
  "command_state_of (state_string st) = st" "channel_of (channel_string ch) = ch"
proof -
  have "list_all (\<lambda>st. command_state_of (state_string st) = st)
      [Queued, Dispatched, AckReceived, Executing, Completed, Failed, Expired, Rejected]" by code_simp
  then show "command_state_of (state_string st) = st" by (cases st) (simp_all only: list.pred_inject simp_thms)
  have "list_all (\<lambda>ch. channel_of (channel_string ch) = ch)
      [ControlUi, MobileApp, ApiChannel, Schedule, SystemChannel, UnknownChannel]" by code_simp
  then show "channel_of (channel_string ch) = ch" by (cases ch) (simp_all only: list.pred_inject simp_thms)
qed

lemma or_null_again:
  assumes "clean_or_result v m k" "\<And>s. result_text m k = Some s \<Longrightarrow> trim s = [] \<or> trim s = s"
  shows "\<exists>s. opt_trim (of_text v) = Inr s \<and> or_null s (result_text m k) = v"
proof (cases v)
  case None
  with assms(1) show ?thesis by (simp add: clean_or_result_def of_text_def or_null_def)
next
  case (Some t)
  then have "clean t \<or> result_text m k = Some t" using assms(1) by (auto simp: clean_or_result_def)
  then have "trim t = t \<or> trim t = [] \<and> result_text m k = Some t" "t = [] \<longrightarrow> result_text m k = Some t"
    using assms(2) [of t] by (auto simp: clean_def)
  with Some show ?thesis by (auto simp: of_text_def or_null_def)
qed

section \<open>Properties\<close>

text \<open>
  The command records a page holds: one of the list, then any number of details merged into it. The index is the
  identifier the page knows the record by.
\<close>

inductive shown :: "(string \<Rightarrow> string option) \<Rightarrow> string \<Rightarrow> command_result \<Rightarrow> bool" for url where
  listed: "mapCommandListRow url row = Inr r \<Longrightarrow> shown url (commandId r) r"
| merged: "shown url i b \<Longrightarrow> mergeCommandDetail url b d = Inr r \<Longrightarrow> shown url i r"

lemma merge_wf:
  assumes "mergeCommandDetail url b d = Inr r"
  shows "wf_command url r \<and> rowId r = rowId b"
proof -
  obtain r' where "mapCommandListRow url (merged_row b d) = Inr r'" "r = r'\<lparr>rowId := rowId b\<rparr>"
    using assms by (auto simp: mergeCommandDetail_def res_bind_Inr_iff)
  with mapped_wf [OF this(1)] show ?thesis by (simp add: wf_command_def)
qed

lemma shown_wf:
  assumes "shown url i r"
  shows "rowId r = i \<and> wf_command url r"
  using assms
proof induction
  case (listed row r)
  then show ?case using mapped_wf by blast
next
  case (merged i b d r)
  then show ?case using merge_wf by auto
qed

text \<open>A record read back from its own fields.\<close>

lemma clean_fields_again:
  "clean s \<Longrightarrow> trim s = s" "clean s \<Longrightarrow> or_text s d = s"
  "(case v of None \<Rightarrow> True | Some s \<Rightarrow> clean s) \<Longrightarrow> opt_trim (of_text v) = Inr (case v of None \<Rightarrow> [] | Some s \<Rightarrow> s)"
  "(case v of None \<Rightarrow> True | Some s \<Rightarrow> clean s) \<Longrightarrow> or_null (case v of None \<Rightarrow> [] | Some s \<Rightarrow> s) None = v"
  by (auto simp: clean_def or_text_def or_null_def of_text_def split: option.splits)

lemma obj_get_Cons: "obj_get ((a, v) # m) k = (if a = k then v else obj_get m k)"
  by (simp add: obj_get_def)

lemma remapped:
  assumes wf: "wf_command url b"
    and "\<And>k s. k \<in> {''status'', ''notes'', ''artifact_checksum''} \<Longrightarrow> result_text (result b) k = Some s \<Longrightarrow> trim s = [] \<or> trim s = s"
    and "\<And>u. artifactUrl b = Some u \<Longrightarrow> trim u = u"
  shows "mapCommandListRow url (Obj (base_fields b)) = Inr (b\<lparr>rowId := commandId b\<rparr>)"
proof -
  obtain s1 s2 s3 where
    texts: "opt_trim (of_text (resultStatus b)) = Inr s1" "or_null s1 (result_text (result b) ''status'') = resultStatus b"
    "opt_trim (of_text (resultNotes b)) = Inr s2" "or_null s2 (result_text (result b) ''notes'') = resultNotes b"
    "opt_trim (of_text (artifactChecksum b)) = Inr s3" "or_null s3 (result_text (result b) ''artifact_checksum'') = artifactChecksum b"
    using wf assms(2) or_null_again unfolding wf_command_def by (metis insertCI)
  have result: "normalizeResultObject (case result b of None \<Rightarrow> Null | Some m \<Rightarrow> Obj m) = result b"
    by (simp add: normalizeResultObject_def split: option.split)
  have code: "toNumber (case cerrorCode b of None \<Rightarrow> Null | Some n \<Rightarrow> Num n) = cerrorCode b"
    using wf unfolding wf_command_def by (cases "cerrorCode b") (simp_all add: toNumber_def)
  have "settled_artifact url (result b) (artifactUrl b)" using wf by (simp add: wf_command_def)
  then have artifact: "(case normalizeArtifactUrl url (of_text (artifactUrl b)) of Some u \<Rightarrow> Some u
      | None \<Rightarrow> (case result b of None \<Rightarrow> None | Some m \<Rightarrow> normalizeArtifactUrl url (obj_get m ''artifact_url''))) = artifactUrl b"
    using artifact_link_again assms(3) by (auto simp: settled_artifact_def of_text_def normalizeArtifactUrl_def [of _ Null] split: option.splits)
  have times: "coalesce v Null = v" if "v \<noteq> Undefined" for v using that by (cases v) simp_all
  show ?thesis
    unfolding mapCommandListRow_def Let_def js_member_def
    using wf [unfolded wf_command_def list.pred_inject]
    by (simp add: base_fields_def obj_get_Cons texts result code artifact times clean_fields_again normalizeCommandState_def normalizeOriginChannel_def
        cong del: option.case_cong_weak)
qed

text \<open>
  C8: whatever the API sends in the list and in the details, and however the platform parses URLs, the record a page holds keeps the
  identifier it was listed under, satisfies the type of a normalised command (identifiers, method and actor trimmed and not empty,
  optional texts absent or trimmed and not empty, texts taken from the result as they are there, the address of an artifact settled or a
  link of the console with one segment, the error code a finite number), and its preview is not empty.
\<close>

theorem shown_command_wf:
  assumes "shown url i r"
  shows "rowId r = i \<and> wf_command url r \<and> resultPreview r \<noteq> []"
proof -
  have "rowId r = i \<and> wf_command url r" by (rule shown_wf [OF assms])
  moreover have "or_else v d \<noteq> []" if "d \<noteq> []" for v d
    using that by (simp add: or_else_def or_text_def split: option.split)
  ultimately show ?thesis by (simp add: resultPreview_def split: option.split)
qed

text \<open>Rows for the witnesses, and a URL parser for the addresses of one host.\<close>

definition demo_url :: "string \<Rightarrow> string option" where
  "demo_url t = (if starts_with t ''https://h/'' then Some (drop 9 t) else None)"

definition demo_row :: js where
  "demo_row = Obj [(''command_id'', Str '' c1 ''), (''state'', Str ''Completed''), (''result'', Obj [(''status'', Str ''ok'')]),
     (''artifact_url'', Str ''https://h/x/api/artifact/a1/raw'')]"

theorem shown_command_wf_witness:
  "\<exists>r. shown demo_url ''c1'' r \<and> rowId r = ''c1'' \<and> cstate r = Completed \<and> artifactUrl r = Some ''/api/artifact/a1'' \<and> wf_command demo_url r"
proof -
  define r where "r = (case mapCommandListRow demo_url demo_row of Inr r \<Rightarrow> r)"
  have "mapCommandListRow demo_url demo_row = Inr r \<and> commandId r = ''c1'' \<and> cstate r = Completed \<and> artifactUrl r = Some ''/api/artifact/a1''"
    unfolding r_def by code_simp
  moreover from this have "shown demo_url ''c1'' r" using shown.listed by metis
  ultimately show ?thesis using shown_command_wf by blast
qed

text \<open>
  A detail that has no field of a command leaves the record as it is, so polling an empty detail loses nothing.
  The texts taken from the result must be blank or without surrounding whitespace, and so must the address of the artifact.
\<close>

theorem merge_nothing:
  assumes "shown url i b" "\<And>u. artifactUrl b = Some u \<Longrightarrow> trim u = u"
    "\<And>k s. k \<in> {''status'', ''notes'', ''artifact_checksum''} \<Longrightarrow> result_text (result b) k = Some s \<Longrightarrow> trim s = [] \<or> trim s = s"
    "\<And>k. k \<in> set command_keys \<Longrightarrow> is_nullish (js_field d k)" "\<not> is_nullish d"
  shows "mergeCommandDetail url b d = Inr b"
proof -
  have wf: "wf_command url b" using shown_wf [OF assms(1)] by simp
  have "mapCommandListRow url (merged_row b d) = mapCommandListRow url (Obj (base_fields b))"
  proof (rule mapCommandListRow_cong)
    fix k assume k: "k \<in> set command_keys"
    then obtain v where v: "al_get (base_fields b) k = Some v"
      using al_get_None_iff [of "base_fields b" k] by (auto simp: base_fields_keys simp del: set_map)
    then show "js_field (merged_row b d) k = js_field (Obj (base_fields b)) k"
      using merged_row_field [OF v, of d] assms(4) [OF k] by (simp add: coalesce_def)
  qed (simp add: merged_row_def)
  then show ?thesis
    using remapped [OF wf assms(3) assms(2)] assms(5) by (simp add: mergeCommandDetail_def js_member_def)
qed

theorem merge_nothing_witness:
  "\<exists>b. shown demo_url ''c1'' b \<and> resultStatus b = Some ''ok'' \<and> mergeCommandDetail demo_url b (Obj [(''audit'', Null)]) = Inr b"
proof -
  define b where "b = (case mapCommandListRow demo_url demo_row of Inr r \<Rightarrow> r)"
  have b: "mapCommandListRow demo_url demo_row = Inr b \<and> commandId b = ''c1'' \<and> resultStatus b = Some ''ok'' \<and>
      artifactUrl b = Some ''/api/artifact/a1'' \<and> trim ''/api/artifact/a1'' = ''/api/artifact/a1'' \<and>
      list_all (\<lambda>k. case result_text (result b) k of None \<Rightarrow> True | Some s \<Rightarrow> trim s = s) [''status'', ''notes'', ''artifact_checksum'']"
    unfolding b_def by code_simp
  have d: "list_all (\<lambda>k. is_nullish (js_field (Obj [(''audit'', Null)]) k)) command_keys" by code_simp
  have shown: "shown demo_url ''c1'' b" using b shown.listed by metis
  moreover have "mergeCommandDetail demo_url b (Obj [(''audit'', Null)]) = Inr b"
  proof (rule merge_nothing [OF shown])
    show "trim s = [] \<or> trim s = s" if "k \<in> {''status'', ''notes'', ''artifact_checksum''}" "result_text (result b) k = Some s" for k s
      using b that by (auto simp: list_all_iff split: option.splits)
    show "is_nullish (js_field (Obj [(''audit'', Null)]) k)" if "k \<in> set command_keys" for k
      using d that by (simp only: list_all_iff)
  qed (use b in auto)
  ultimately show ?thesis using b by blast
qed

text \<open>
  A detail that has every field of a command replaces the record: merging it is mapping it, errors included,
  and only the identifier of the page is kept.
\<close>

theorem merge_complete:
  assumes "\<And>k. k \<in> set command_keys \<Longrightarrow> \<not> is_nullish (js_field d k)"
  shows "mergeCommandDetail url b d = res_bind (mapCommandListRow url d) (\<lambda>r. Inr (r\<lparr>rowId := rowId b\<rparr>))"
proof -
  have d: "\<not> is_nullish d" using assms [of "''command_id''"] by (cases d) (simp_all add: command_keys_def js_field_def)
  have "mapCommandListRow url (merged_row b d) = mapCommandListRow url d"
  proof (rule mapCommandListRow_cong)
    fix k assume k: "k \<in> set command_keys"
    then obtain v where v: "al_get (base_fields b) k = Some v"
      using al_get_None_iff [of "base_fields b" k] by (auto simp: base_fields_keys simp del: set_map)
    show "js_field (merged_row b d) k = js_field d k"
      using merged_row_field [OF v, of d] assms [OF k] by simp
  qed (simp add: merged_row_def d)
  with d show ?thesis by (simp add: mergeCommandDetail_def js_member_def)
qed

theorem merge_complete_witness:
  "\<forall>b. mergeCommandDetail (\<lambda>_. None) b (Obj (map (\<lambda>k. (k, Num (Fin 1))) command_keys)) = Inl (NotAFunction ''trim'')"
proof -
  have "mapCommandListRow (\<lambda>_. None) (Obj (map (\<lambda>k. (k, Num (Fin 1))) command_keys)) = Inl (NotAFunction ''trim'')" by code_simp
  moreover have "list_all (\<lambda>k. \<not> is_nullish (js_field (Obj (map (\<lambda>k. (k, Num (Fin 1))) command_keys)) k)) command_keys" by code_simp
  ultimately show ?thesis
    using merge_complete [of "Obj (map (\<lambda>k. (k, Num (Fin 1))) command_keys)"] unfolding list_all_iff by simp
qed

end
