(* ===== verification/Commands.thy ===== *)
theory Commands
  imports JsJson
begin

text \<open>
  \<^verbatim>\<open>src/lib/commandMethodResolver.ts\<close> and \<^verbatim>\<open>src/lib/commandParams.ts\<close>: legacy names of command methods,
  default parameters, and the checks before a command is sent. The tables are plain objects, so a
  method named like a member of \<^verbatim>\<open>Object.prototype\<close> finds that member.
\<close>

section \<open>Definitions\<close>

definition LEGACY_METHOD_ALIASES :: obj where
  "LEGACY_METHOD_ALIASES = map (\<lambda>(k, v). (k, Str v))
    [(''system-info'', ''collect_system_info''), (''hardware-info'', ''collect_system_info''),
     (''performance-metrics'', ''collect_system_info''), (''uptime'', ''collect_system_info''),
     (''screenshot-capture'', ''screenshot''), (''display-info'', ''get_active_window''),
     (''active-window'', ''get_active_window''), (''filesystem'', ''list_files''),
     (''download-file'', ''download_file''), (''upload-file'', ''upload_file''),
     (''create-file'', ''create_file''), (''create-folder'', ''create_directory''),
     (''create-directory'', ''create_directory''), (''delete-file'', ''delete_file''),
     (''delete-folder'', ''delete_directory''), (''delete-directory'', ''delete_directory''),
     (''kill-process'', ''kill_process''), (''kill-process-tree'', ''kill_process_tree''),
     (''process-list'', ''list_processes''), (''network-info'', ''network_info''),
     (''netstat'', ''list_connections''), (''dns-lookup'', ''network_info''),
     (''services-list'', ''list_services''), (''mounts-list'', ''list_mounts''),
     (''mount-list'', ''list_mounts''), (''service-start'', ''start_service''),
     (''service-stop'', ''stop_service''), (''service-restart'', ''restart_service''),
     (''event-logs'', ''collect_logs''), (''security-logs'', ''collect_logs''),
     (''application-logs'', ''collect_logs''), (''users-list'', ''get_users''),
     (''active-sessions'', ''list_sessions''), (''power-info'', ''collect_system_info'')]"

definition resolveCommandMethod :: "string \<Rightarrow> js" where
  "resolveCommandMethod meth = coalesce (obj_get LEGACY_METHOD_ALIASES meth) (Str meth)"

text \<open>\<open>win parts\<close> is a Windows path: its parts joined by backslashes.\<close>

definition win :: "string list \<Rightarrow> js" where
  "win parts = Str (join [CHR 0x5C] parts)"

definition COMMAND_PARAM_TEMPLATES :: obj where
  "COMMAND_PARAM_TEMPLATES =
    [(''download_file'', Obj [(''path'', win [''C:'', ''ProgramData'', ''Quoodle'', ''device_id'']), (''max_bytes'', Num (Fin 4096))]),
     (''upload_file'', Obj [(''artifact_id'', Str ''<artifact-id>''), (''destination'', win [''C:'', ''Users'', ''Public'', ''uploaded.bin'']), (''overwrite'', Bool True)]),
     (''create_directory'', Obj [(''path'', win [''C:'', ''Users'', ''Public'', ''quoodle_test'']), (''recursive'', Bool True)]),
     (''create_file'', Obj [(''path'', win [''C:'', ''Users'', ''Public'', ''quoodle_test'', ''note.txt'']), (''overwrite'', Bool True)]),
     (''delete_file'', Obj [(''path'', win [''C:'', ''Users'', ''Public'', ''quoodle_test'', ''note.txt'']), (''confirm'', Bool True)]),
     (''delete_directory'', Obj [(''path'', win [''C:'', ''Users'', ''Public'', ''quoodle_test'']), (''confirm'', Bool True)]),
     (''kill_process'', Obj [(''pid'', Num (Fin 1234))]),
     (''kill_process_tree'', Obj [(''pid'', Num (Fin 1234))])]"

definition COMMAND_REQUIRED_PARAM_HINTS :: obj where
  "COMMAND_REQUIRED_PARAM_HINTS =
    [(''download_file'', Str ''Required: path''), (''upload_file'', Str ''Required: artifact_id, destination''),
     (''create_directory'', Str ''Required: path''), (''create_file'', Str ''Required: path''),
     (''delete_file'', Str ''Required: path, confirm=true''), (''delete_directory'', Str ''Required: path, confirm=true''),
     (''kill_process'', Str ''Required: pid''), (''kill_process_tree'', Str ''Required: pid'')]"

definition isAcceptedValue :: "js \<Rightarrow> bool" where
  "isAcceptedValue v \<longleftrightarrow>
     v = Bool True \<or> v = Num (Fin 1) \<or>
     (case v of Str s \<Rightarrow> to_lower (trim s) \<in> {''1'', ''true'', ''yes'', ''on''} | _ \<Rightarrow> False)"

definition positive_integer :: "jsnum \<Rightarrow> jsnum option" where
  "positive_integer n = (if num_is_integer n \<and> num_lt (Fin 0) n then Some n else None)"

definition parsePositiveInteger :: "js \<Rightarrow> jsnum option" where
  "parsePositiveInteger v =
     (case v of
        Num n \<Rightarrow> positive_integer n
      | Str s \<Rightarrow> if trim s \<noteq> [] then positive_integer (string_to_number s) else None
      | _ \<Rightarrow> None)"

text \<open>\<^verbatim>\<open>table[resolved]\<close>: the key is the text of the resolved value.\<close>

definition table_get :: "obj \<Rightarrow> js \<Rightarrow> js res" where
  "table_get table resolved = res_bind (js_String resolved) (\<lambda>k. Inr (obj_get table k))"

definition defaultParamsForCommand :: "string \<Rightarrow> js res" where
  "defaultParamsForCommand meth =
     res_bind (table_get COMMAND_PARAM_TEMPLATES (resolveCommandMethod meth)) (\<lambda>v. Inr (coalesce v (Obj [])))"

definition requiredParamsHintForCommand :: "string \<Rightarrow> js res" where
  "requiredParamsHintForCommand meth =
     res_bind (table_get COMMAND_REQUIRED_PARAM_HINTS (resolveCommandMethod meth)) (\<lambda>v. Inr (coalesce v Null))"

text \<open>\<^verbatim>\<open>typeof v === 'string' ? v.trim() : ''\<close>.\<close>

definition trimmed_or_empty :: "js \<Rightarrow> string" where
  "trimmed_or_empty v = (case v of Str s \<Rightarrow> trim s | _ \<Rightarrow> [])"

definition validateCommandParams :: "string \<Rightarrow> obj \<Rightarrow> string option" where
  "validateCommandParams meth params =
     (let resolved = resolveCommandMethod meth;
          path = trimmed_or_empty (obj_get params ''path'')
      in if resolved \<in> {Str ''download_file'', Str ''create_directory'', Str ''create_file''} then
           (if path = [] then Some ''Missing required field: path'' else None)
         else if resolved = Str ''upload_file'' then
           (if trimmed_or_empty (obj_get params ''artifact_id'') = [] then Some ''Missing required field: artifact_id''
            else if trimmed_or_empty (obj_get params ''destination'') = [] then Some ''Missing required field: destination''
            else None)
         else if resolved \<in> {Str ''delete_file'', Str ''delete_directory''} then
           (if path = [] then Some ''Missing required field: path''
            else if \<not> isAcceptedValue (obj_get params ''confirm'') then Some ''Missing required field: confirm=true''
            else None)
         else if resolved \<in> {Str ''kill_process'', Str ''kill_process_tree''} then
           (case parsePositiveInteger (obj_get params ''pid'') of
              None \<Rightarrow> Some ''Missing/invalid required field: pid (integer >= 2)''
            | Some pid \<Rightarrow> if num_lt pid (Fin 2) then Some ''Missing/invalid required field: pid (integer >= 2)'' else None)
         else None)"

section \<open>What a command needs\<close>

text \<open>
  The requirements of a method, as a specification: fields that may not be blank, a confirmation, a process to kill. Whether they are met is
  stated on the values themselves, and \<open>complaint\<close> is what is said of one that is not.
\<close>

datatype requirement = NonBlank string | Confirmed | KillablePid

fun meets :: "obj \<Rightarrow> requirement \<Rightarrow> bool" where
  "meets p (NonBlank k) = (\<exists>s. obj_get p k = Str s \<and> trim s \<noteq> [])"
| "meets p Confirmed =
     (obj_get p ''confirm'' \<in> {Bool True, Num (Fin 1)} \<or>
      (\<exists>s. obj_get p ''confirm'' = Str s \<and> to_lower (trim s) \<in> {''1'', ''true'', ''yes'', ''on''}))"
| "meets p KillablePid =
     (\<exists>n. n \<ge> 2 \<and> (obj_get p ''pid'' = Num (Fin (of_int n)) \<or>
        (\<exists>s. obj_get p ''pid'' = Str s \<and> string_to_number s = Fin (of_int n))))"

fun complaint :: "requirement \<Rightarrow> string" where
  "complaint (NonBlank k) = ''Missing required field: '' @ k"
| "complaint Confirmed = ''Missing required field: confirm=true''"
| "complaint KillablePid = ''Missing/invalid required field: pid (integer >= 2)''"

definition requirements :: "string \<Rightarrow> requirement list" where
  "requirements resolved =
     (if resolved \<in> {''download_file'', ''create_directory'', ''create_file''} then [NonBlank ''path'']
      else if resolved = ''upload_file'' then [NonBlank ''artifact_id'', NonBlank ''destination'']
      else if resolved \<in> {''delete_file'', ''delete_directory''} then [NonBlank ''path'', Confirmed]
      else if resolved \<in> {''kill_process'', ''kill_process_tree''} then [KillablePid]
      else [])"

section \<open>Lemmas\<close>

lemma trimmed_or_empty_iff: "trimmed_or_empty v \<noteq> [] \<longleftrightarrow> (\<exists>s. v = Str s \<and> trim s \<noteq> [])"
  by (cases v) (auto simp: trimmed_or_empty_def)

lemma positive_integer_Some: "positive_integer n = Some k \<longleftrightarrow> k = n \<and> (\<exists>i. n = Fin (of_int i) \<and> i > 0)"
proof (cases n)
  case (Fin r)
  have "of_int \<lfloor>r\<rfloor> = r \<longleftrightarrow> (\<exists>i. r = of_int i)" by (metis floor_of_int)
  then show ?thesis using Fin by (auto simp: positive_integer_def)
qed (auto simp: positive_integer_def)

lemma parsePositiveInteger_range:
  assumes "parsePositiveInteger v = Some k"
  obtains i where "k = Fin (of_int i)" "i > 0"
  using assms by (cases v) (auto simp: parsePositiveInteger_def positive_integer_Some split: if_splits)

lemma positive_integer_int: "positive_integer (Fin (of_int i)) = (if i > 0 then Some (Fin (of_int i)) else None)"
  by (simp add: positive_integer_def)

lemma killable_iff:
  "meets p KillablePid \<longleftrightarrow> (case parsePositiveInteger (obj_get p ''pid'') of None \<Rightarrow> False | Some k \<Rightarrow> \<not> num_lt k (Fin 2))"
proof
  assume "meets p KillablePid"
  then obtain n where n: "n \<ge> 2" and
    v: "obj_get p ''pid'' = Num (Fin (of_int n)) \<or> (\<exists>s. obj_get p ''pid'' = Str s \<and> string_to_number s = Fin (of_int n))" by auto
  have "trim s \<noteq> []" if "string_to_number s = Fin (of_int n)" for s
    using that n by (auto simp: string_to_number_def)
  with v n have "parsePositiveInteger (obj_get p ''pid'') = Some (Fin (of_int n))"
    by (auto simp: parsePositiveInteger_def positive_integer_int)
  with n show "case parsePositiveInteger (obj_get p ''pid'') of None \<Rightarrow> False | Some k \<Rightarrow> \<not> num_lt k (Fin 2)" by simp
next
  assume k: "case parsePositiveInteger (obj_get p ''pid'') of None \<Rightarrow> False | Some k \<Rightarrow> \<not> num_lt k (Fin 2)"
  then obtain k where Some: "parsePositiveInteger (obj_get p ''pid'') = Some k" by (cases "parsePositiveInteger (obj_get p ''pid'')") auto
  then obtain i where i: "k = Fin (of_int i)" "i > 0" by (rule parsePositiveInteger_range)
  with k Some have "i \<ge> 2" by simp
  moreover have "obj_get p ''pid'' = Num k \<or> (\<exists>s. obj_get p ''pid'' = Str s \<and> string_to_number s = k)"
    using Some by (cases "obj_get p ''pid''") (auto simp: parsePositiveInteger_def positive_integer_Some split: if_splits)
  ultimately show "meets p KillablePid" using i by auto
qed

lemma confirmed_iff: "meets p Confirmed \<longleftrightarrow> isAcceptedValue (obj_get p ''confirm'')"
  by (cases "obj_get p ''confirm''") (simp_all add: isAcceptedValue_def)

text \<open>
  C9: the check before a command is sent implements the requirements: it reports the first requirement of the resolved method that the
  parameters do not meet, and nothing when they meet all. In particular nothing is deleted without a confirmation and no process below 2 is killed.
\<close>

theorem validateCommandParams_correct:
  "validateCommandParams meth p =
     map_option complaint (find (\<lambda>r. \<not> meets p r) (case resolveCommandMethod meth of Str resolved \<Rightarrow> requirements resolved | _ \<Rightarrow> []))"
proof -
  have pid: "(case parsePositiveInteger (obj_get p ''pid'') of None \<Rightarrow> Some e | Some k \<Rightarrow> if num_lt k (Fin 2) then Some e else None) =
      (if meets p KillablePid then None else Some e)" for e :: string
    by (simp add: killable_iff del: meets.simps split: option.split)
  have blank: "meets p (NonBlank k) \<longleftrightarrow> trimmed_or_empty (obj_get p k) \<noteq> []" for k
    by (simp add: trimmed_or_empty_iff)
  show ?thesis
    by (cases "resolveCommandMethod meth")
      (simp_all add: validateCommandParams_def requirements_def pid blank confirmed_iff Let_def del: meets.simps)
qed

definition reserved :: "string list" where
  "reserved = ''__proto__'' # prototype_keys"

lemma inherited_unreserved: "k \<notin> set reserved \<Longrightarrow> inherited k = Undefined"
  by (auto simp: reserved_def)

lemma aliases_unreserved:
  "list_all (\<lambda>(k, v). k \<notin> set reserved \<and> (case v of Str r \<Rightarrow> r \<notin> set reserved \<and> al_get LEGACY_METHOD_ALIASES r = None | _ \<Rightarrow> False)) LEGACY_METHOD_ALIASES"
  by code_simp

text \<open>A method resolves to a name that is not reserved, or it is itself a reserved name.\<close>

lemma resolve_cases:
  obtains (name) r where "resolveCommandMethod meth = Str r" "resolveCommandMethod r = Str r" "r \<notin> set reserved"
  | (reserved) "meth \<in> set reserved" "resolveCommandMethod meth = inherited meth"
proof (cases "al_get LEGACY_METHOD_ALIASES meth")
  case (Some v)
  then have "(meth, v) \<in> set LEGACY_METHOD_ALIASES" by (rule al_get_Some_in)
  then obtain r where "v = Str r" "r \<notin> set reserved" "al_get LEGACY_METHOD_ALIASES r = None"
    using aliases_unreserved by (cases v) (auto simp: list_all_iff)
  with Some show thesis by (intro name [of r]) (simp_all add: resolveCommandMethod_def obj_get_def inherited_unreserved)
next
  case None
  show thesis
  proof (cases "meth \<in> set reserved")
    case True
    then have "\<not> is_nullish (inherited meth)" by (auto simp: inherited_def reserved_def)
    with None True show thesis by (intro reserved) (simp_all add: resolveCommandMethod_def obj_get_def)
  next
    case False
    with None show thesis by (intro name [of meth]) (simp_all add: resolveCommandMethod_def obj_get_def inherited_unreserved)
  qed
qed

lemma templates_valid:
  "list_all (\<lambda>(k, v). case v of Obj p \<Rightarrow> validateCommandParams k p = None | _ \<Rightarrow> False) COMMAND_PARAM_TEMPLATES"
  by code_simp

lemma validate_resolved:
  "resolveCommandMethod meth = resolveCommandMethod meth' \<Longrightarrow> validateCommandParams meth p = validateCommandParams meth' p"
  by (simp add: validateCommandParams_def)

lemma no_template:
  assumes "resolveCommandMethod meth = Str r" "al_get COMMAND_PARAM_TEMPLATES r = None"
  shows "validateCommandParams meth p = None"
  using assms by (auto simp: validateCommandParams_def COMMAND_PARAM_TEMPLATES_def split: if_splits)

lemma reserved_key: 
  assumes "meth \<in> set reserved"
  obtains k where "js_String (inherited meth) = Inr k" "k \<notin> set reserved" "al_get COMMAND_PARAM_TEMPLATES k = None"
proof -
  have "list_all (\<lambda>meth. case js_String (inherited meth) of Inl _ \<Rightarrow> False
      | Inr k \<Rightarrow> k \<notin> set reserved \<and> al_get COMMAND_PARAM_TEMPLATES k = None) reserved" by code_simp
  with assms that show thesis by (cases "js_String (inherited meth)") (auto simp: list_all_iff)
qed

lemma reserved_not_name: "meth \<in> set reserved \<Longrightarrow> inherited meth \<noteq> Str r"
  by (auto simp: inherited_def)

text \<open>
  The parameters offered by default pass the check, for every method name: known, unknown, legacy, or named
  like a member of the prototype.
\<close>

theorem default_params_accepted:
  "\<exists>p. defaultParamsForCommand meth = Inr (Obj p) \<and> validateCommandParams meth p = None"
proof (cases rule: resolve_cases [of meth])
  case (name r)
  show ?thesis
  proof (cases "al_get COMMAND_PARAM_TEMPLATES r")
    case None
    then show ?thesis using name
      by (intro exI [of _ "[]"]) (simp add: defaultParamsForCommand_def table_get_def obj_get_def inherited_unreserved no_template)
  next
    case (Some v)
    then have "(r, v) \<in> set COMMAND_PARAM_TEMPLATES" by (rule al_get_Some_in)
    then obtain p where "v = Obj p" "validateCommandParams r p = None"
      using templates_valid by (cases v) (auto simp: list_all_iff)
    with Some name show ?thesis
      using validate_resolved [of meth r p] by (simp add: defaultParamsForCommand_def table_get_def)
  qed
next
  case reserved
  then obtain k where "js_String (inherited meth) = Inr k" "k \<notin> set reserved" "al_get COMMAND_PARAM_TEMPLATES k = None"
    using reserved_key by blast
  with reserved show ?thesis
    using reserved_not_name [OF reserved(1)]
    by (intro exI [of _ "[]"])
      (simp add: defaultParamsForCommand_def table_get_def obj_get_def inherited_unreserved validateCommandParams_def)
qed

text \<open>
  The tables fit together: a method has a hint exactly when it has requirements.
\<close>

lemma hint_iff_requirements:
  assumes "resolveCommandMethod meth = Str r" "r \<notin> set reserved"
  shows "requiredParamsHintForCommand meth = Inr Null \<longleftrightarrow> requirements r = []"
  using assms
  by (auto simp: requiredParamsHintForCommand_def table_get_def obj_get_def COMMAND_REQUIRED_PARAM_HINTS_def
      inherited_unreserved requirements_def split: if_splits)

end
