(* ===== verification/ResultView.thy ===== *)
theory ResultView
  imports CommandResults Commands
begin

text \<open>
  \<^verbatim>\<open>src/lib/resultRenderer.ts\<close>, first part: the view model of a command result, labels and display values, key-value
  blocks, tables, and the readers of structured data the builders share. An optional field that is not set and one that is
  \<^verbatim>\<open>null\<close> are both \<open>None\<close>.
\<close>

section \<open>The view model\<close>

datatype widget = Stats | Kv | Table | Log | Diagnostics | Artifact | Filesystem
datatype severity = SevInfo | SevWarning | SevError
datatype tone = ToneDefault | ToneSuccess | ToneWarning | ToneDanger | ToneInfo
datatype entry_type = Directory | File | Other

record shell_meta =
  sh_commandId :: string
  sh_method :: js
  sh_state :: string
  sh_status :: "string option"
  sh_deviceName :: string
  sh_actorEmail :: string
  sh_queuedAt :: js
  sh_completedAt :: js
  sh_transport :: "string option"
  sh_requestId :: "string option"
  sh_kernelExecId :: "string option"
  sh_kernelTimestamp :: "string option"

record diagnostics_item =
  dseverity :: severity
  dfield :: "string option"
  dreason :: string
  dmessage :: string

record hero_stat =
  label :: string
  svalue :: string
  tone :: "tone option"

record key_value =
  kv_key :: string
  kv_label :: string
  kv_value :: string
  isEmpty :: bool

record table_def =
  columns :: "string list"
  rows :: "(string \<times> string) list list"

record artifact_def =
  url :: "string option"
  checksum :: "string option"
  contentType :: string

record fs_entry =
  ename :: string
  epath :: string
  etype :: entry_type
  parentPath :: "string option"
  esize :: "jsnum option"
  extension :: "string option"
  modifiedAt :: "string option"
  createdAt :: "string option"
  isHidden :: bool
  isSystem :: bool
  isSymlink :: bool
  targetPath :: "string option"
  downloadable :: bool
  downloadMethod :: "string option"

record fs_def =
  rootPath :: string
  entries :: "fs_entry list"
  recursive :: bool
  maxDepth :: "jsnum option"
  partial :: bool
  nextCursor :: "string option"
  canDownload :: bool
  fs_downloadMethod :: "string option"

record section_def =
  sid :: string
  stitle :: string
  swidget :: widget
  description :: "string option"
  stats :: "hero_stat list option"
  keyValues :: "key_value list option"
  table :: "table_def option"
  logText :: "string option"
  sdiagnostics :: "diagnostics_item list option"
  artifact :: "artifact_def option"
  filesystem :: "fs_def option"
  collapsedByDefault :: bool
  emptySummary :: "string option"

record view_model =
  title :: js
  subtitle :: string
  commandMethod :: js
  shell :: shell_meta
  hero :: "hero_stat list"
  sections :: "section_def list"
  diagnostics :: "diagnostics_item list"
  rawJson :: "string option"
  fallbackUsed :: bool

text \<open>A section with no optional field, and one per widget.\<close>

definition blank_section :: "string \<Rightarrow> string \<Rightarrow> widget \<Rightarrow> section_def" where
  "blank_section i t w = \<lparr>sid = i, stitle = t, swidget = w, description = None, stats = None, keyValues = None, table = None,
     logText = None, sdiagnostics = None, artifact = None, filesystem = None, collapsedByDefault = False, emptySummary = None\<rparr>"

definition only_if :: "bool \<Rightarrow> 'a \<Rightarrow> 'a option" where
  "only_if c x = (if c then Some x else None)"

section \<open>Labels and values\<close>

definition KNOWN_COLLECT_SECTIONS :: "string list" where
  "KNOWN_COLLECT_SECTIONS = [''identity'', ''os'', ''hardware'', ''runtime'', ''storage'', ''network'', ''security'']"

definition methodTitleMap :: obj where
  "methodTitleMap = map (\<lambda>(k, v). (k, Str v))
     [(''collect_system_info'', ''System Snapshot''), (''ping'', ''Ping Result''), (''list_processes'', ''Process Inventory''),
      (''list_services'', ''Service Inventory''), (''list_connections'', ''Connection Inventory''),
      (''list_mounts'', ''Mount Inventory''), (''network_info'', ''Network Inventory''), (''get_active_window'', ''Active Window''),
      (''list_files'', ''Filesystem Browser''), (''download_file'', ''File Download''), (''upload_file'', ''File Upload''),
      (''create_directory'', ''Create Directory''), (''create_file'', ''Create File''), (''delete_file'', ''Delete File''),
      (''delete_directory'', ''Delete Directory''), (''screenshot'', ''Screenshot Capture'')]"

definition isPrimitive :: "js \<Rightarrow> bool" where
  "isPrimitive v \<longleftrightarrow> is_nullish v \<or> js_typeof v = ''string'' \<or> js_typeof v = ''number'' \<or> js_typeof v = ''boolean''"

definition ascii_lower :: "char \<Rightarrow> bool" where
  "ascii_lower c \<longleftrightarrow> 97 \<le> (of_char c :: nat) \<and> (of_char c :: nat) \<le> 122"

definition ascii_upper :: "char \<Rightarrow> bool" where
  "ascii_upper c \<longleftrightarrow> 65 \<le> (of_char c :: nat) \<and> (of_char c :: nat) \<le> 90"

text \<open>\<^verbatim>\<open>replace(/([a-z])([A-Z])/g, '$1 $2')\<close>; matches cannot overlap.\<close>

fun camel_split :: "string \<Rightarrow> string" where
  "camel_split (a # b # s) = (if ascii_lower a \<and> ascii_upper b then a # CHR '' '' # camel_split (b # s) else a # camel_split (b # s))"
| "camel_split s = s"

text \<open>\<^verbatim>\<open>replace(/^./, m => m.toUpperCase())\<close>; after \<^verbatim>\<open>trim\<close> the first character is no line break.\<close>

fun upper_first :: "string \<Rightarrow> string" where
  "upper_first [] = []"
| "upper_first (c # s) = upper_char c @ s"

definition toLabel :: "string \<Rightarrow> string" where
  "toLabel raw =
     upper_first (trim (collapse is_ws CHR '' '' (camel_split (map (\<lambda>c. if c = CHR ''_'' then CHR '' '' else c) raw))))"

definition toDisplayValue :: "js \<Rightarrow> string" where
  "toDisplayValue v =
     (case v of
        Undefined \<Rightarrow> ''Not collected''
      | Null \<Rightarrow> ''Not collected''
      | Bool b \<Rightarrow> if b then ''Yes'' else ''No''
      | Num n \<Rightarrow> if num_is_finite n then number_to_string n else ''Not collected''
      | Str s \<Rightarrow> if trim s = [] then ''Not collected'' else s
      | Arr xs \<Rightarrow> string_of_nat (length xs) @ '' item(s)''
      | Obj m \<Rightarrow> string_of_nat (length m) @ '' field(s)''
      | Fun f \<Rightarrow> native_source f)"

definition empty_value :: "js \<Rightarrow> bool" where
  "empty_value v \<longleftrightarrow> is_nullish v \<or> v = Str []"

definition key_value_of :: "string \<times> js \<Rightarrow> key_value" where
  "key_value_of p = \<lparr>kv_key = fst p, kv_label = toLabel (fst p), kv_value = toDisplayValue (snd p), isEmpty = empty_value (snd p)\<rparr>"

record entries_block =
  bkeyValues :: "key_value list"
  hiddenCount :: nat
  total :: nat

text \<open>The loop over the keys: the accumulator is the list so far and the count of hidden ones.\<close>

fun entries_loop :: "bool \<Rightarrow> obj \<Rightarrow> key_value list \<Rightarrow> nat \<Rightarrow> key_value list \<times> nat" where
  "entries_loop hideNull [] kvs hidden = (kvs, hidden)"
| "entries_loop hideNull (p # ps) kvs hidden =
     (if hideNull \<and> empty_value (snd p) then entries_loop hideNull ps kvs (hidden + 1)
      else entries_loop hideNull ps (kvs @ [key_value_of p]) hidden)"

definition objectEntries :: "obj \<Rightarrow> bool \<Rightarrow> entries_block" where
  "objectEntries source hideNull =
     (let (kvs, hidden) = entries_loop hideNull source [] 0
      in \<lparr>bkeyValues = kvs, hiddenCount = hidden, total = length source\<rparr>)"

section \<open>The row\<close>

definition result_field :: "command_result \<Rightarrow> string \<Rightarrow> js" where
  "result_field row k = (case result row of None \<Rightarrow> Undefined | Some m \<Rightarrow> obj_get m k)"

definition extractStructuredData :: "command_result \<Rightarrow> js" where
  "extractStructuredData row = coalesce (result_field row ''data'') Null"

definition buildShell :: "command_result \<Rightarrow> js \<Rightarrow> shell_meta" where
  "buildShell row meth =
     (let meta = as_obj (result_field row ''meta''); txt = (\<lambda>k. result_text meta k)
      in \<lparr>sh_commandId = commandId row, sh_method = meth, sh_state = state_string (cstate row), sh_status = resultStatus row,
          sh_deviceName = deviceName row, sh_actorEmail = actorEmail row, sh_queuedAt = queuedAt row, sh_completedAt = completedAt row,
          sh_transport = txt ''transport'', sh_requestId = txt ''request_id'', sh_kernelExecId = txt ''kernel_exec_id'',
          sh_kernelTimestamp = txt ''kernel_timestamp''\<rparr>)"

definition buildBaseModel :: "command_result \<Rightarrow> js \<Rightarrow> js \<Rightarrow> view_model" where
  "buildBaseModel row meth t =
     \<lparr>title = t, subtitle = resultPreview row, commandMethod = meth, shell = buildShell row meth, hero = [], sections = [],
      diagnostics = [], rawJson = toRawResultJson row, fallbackUsed = False\<rparr>"

definition warning :: "string \<Rightarrow> string \<Rightarrow> diagnostics_item" where
  "warning r msg = \<lparr>dseverity = SevWarning, dfield = None, dreason = r, dmessage = msg\<rparr>"

definition buildDiagnosticsFromRow :: "command_result \<Rightarrow> diagnostics_item list" where
  "buildDiagnosticsFromRow row =
     (if cstate row \<in> {Failed, Rejected, Expired}
      then [\<lparr>dseverity = SevError, dfield = None,
             dreason = or_else (reason row) (or_else (errorMessage row) ''command_failed''),
             dmessage = or_else (errorMessage row) (or_else (reason row) (''Command ended in '' @ state_string (cstate row)))\<rparr>]
      else []) @
     (case cerrorCode row of None \<Rightarrow> [] | Some n \<Rightarrow> [warning ''error_code'' (''Error code '' @ number_to_string n)])"

section \<open>Tables\<close>

definition objects_of :: "js list \<Rightarrow> obj list" where
  "objects_of xs = List.map_filter as_obj xs"

definition rows_at :: "string \<Rightarrow> js \<Rightarrow> obj list" where
  "rows_at k data = (case data of Obj m \<Rightarrow> (case obj_get m k of Arr xs \<Rightarrow> objects_of xs | _ \<Rightarrow> []) | _ \<Rightarrow> [])"

definition rows_or_at :: "string \<Rightarrow> js \<Rightarrow> obj list" where
  "rows_or_at k data = (case data of Arr xs \<Rightarrow> objects_of xs | _ \<Rightarrow> rows_at k data)"

definition normalizeProcessArray :: "js \<Rightarrow> obj list" where "normalizeProcessArray = rows_or_at ''processes''"
definition normalizeServicesArray :: "js \<Rightarrow> obj list" where "normalizeServicesArray = rows_or_at ''services''"
definition normalizeConnectionsArray :: "js \<Rightarrow> obj list" where "normalizeConnectionsArray = rows_or_at ''connections''"
definition normalizeMountsArray :: "js \<Rightarrow> obj list" where "normalizeMountsArray = rows_or_at ''mounts''"
definition normalizeNetworkAdaptersArray :: "js \<Rightarrow> obj list" where "normalizeNetworkAdaptersArray = rows_or_at ''adapters''"
definition normalizeTopTalkersArray :: "js \<Rightarrow> obj list" where "normalizeTopTalkersArray = rows_at ''top_talkers_by_connection_count''"
definition normalizeRoutesArray :: "js \<Rightarrow> obj list" where "normalizeRoutesArray = rows_at ''default_routes''"
definition normalizeFileEntriesArray :: "js \<Rightarrow> obj list" where "normalizeFileEntriesArray = rows_or_at ''entries''"

text \<open>\<^verbatim>\<open>isObject(v) ? v : {}\<close>.\<close>

definition object_or_empty :: "js \<Rightarrow> obj" where
  "object_or_empty v = (case v of Obj m \<Rightarrow> m | _ \<Rightarrow> [])"

definition normalizeWifiPayload :: "js \<Rightarrow> obj" where
  "normalizeWifiPayload data = (case data of Obj m \<Rightarrow> object_or_empty (obj_get m ''wifi'') | _ \<Rightarrow> [])"

definition normalizeVpnSummaryPayload :: "js \<Rightarrow> obj" where
  "normalizeVpnSummaryPayload data = (case data of Obj m \<Rightarrow> object_or_empty (obj_get m ''vpn_summary'') | _ \<Rightarrow> [])"

definition array_at :: "js \<Rightarrow> string \<Rightarrow> js list" where
  "array_at data k = (case data of Obj m \<Rightarrow> (case obj_get m k of Arr xs \<Rightarrow> xs | _ \<Rightarrow> []) | _ \<Rightarrow> [])"

definition normalizeStringArrayField :: "js \<Rightarrow> string \<Rightarrow> string list" where
  "normalizeStringArrayField data k = filter (\<lambda>s. s \<noteq> []) (map trim (List.map_filter as_str (array_at data k)))"

text \<open>\<^verbatim>\<open>new Set\<close> filled with the keys of the rows, then the preferred columns first.\<close>

definition set_add :: "string \<Rightarrow> string list \<Rightarrow> string list" where
  "set_add k seen = (if k \<in> set seen then seen else seen @ [k])"

definition discovered_keys :: "obj list \<Rightarrow> string list" where
  "discovered_keys rs = fold (\<lambda>r. fold set_add (al_keys r)) rs []"

definition preferred_columns :: "string list" where
  "preferred_columns = [''pid'', ''name'', ''cpu'', ''memory'', ''memory_mb'', ''user'', ''path'', ''start_time'']"

definition ordered_columns :: "obj list \<Rightarrow> string list" where
  "ordered_columns rs =
     (let discovered = discovered_keys rs
      in fold set_add discovered (filter (\<lambda>k. k \<in> set discovered) preferred_columns))"

definition table_row :: "string list \<Rightarrow> nat \<times> obj \<Rightarrow> (string \<times> string) list" where
  "table_row cols p =
     fold (\<lambda>c. obj_put c (toDisplayValue (obj_get (snd p) c))) cols [(''__id'', string_of_nat (fst p + 1))]"

definition buildProcessTable :: "obj list \<Rightarrow> table_def" where
  "buildProcessTable rs =
     (let cols = take 8 (ordered_columns rs)
      in \<lparr>columns = cols, rows = map (table_row cols) (enumerate 0 (take 250 rs))\<rparr>)"

section \<open>Counts and Wi-Fi profiles\<close>

definition nat_count :: "js \<Rightarrow> jsnum option" where
  "nat_count v = (case v of Num n \<Rightarrow> if num_is_finite n then Some (num_max (Fin 0) (num_trunc n)) else None | _ \<Rightarrow> None)"

definition readSnapshotCounts :: "js \<Rightarrow> jsnum \<times> jsnum option" where
  "readSnapshotCounts data =
     (case data of
        Obj m \<Rightarrow> (case nat_count (obj_get m ''count'') of Some n \<Rightarrow> n | None \<Rightarrow> Fin 0, nat_count (obj_get m ''total_seen''))
      | _ \<Rightarrow> (Fin 0, None))"

record wifi_profile =
  ssid :: string
  password :: string

definition no_password :: string where
  "no_password = ''(no saved password or open network)''"

definition wifi_profile_of :: "js \<Rightarrow> wifi_profile option" where
  "wifi_profile_of row =
     (case row of
        Str s \<Rightarrow> if trim s = [] then None else Some \<lparr>ssid = trim s, password = no_password\<rparr>
      | Obj m \<Rightarrow>
          (let name = trimmed_or_empty (obj_get m ''ssid''); pw = trimmed_or_empty (obj_get m ''password'')
           in if name = [] then None else Some \<lparr>ssid = name, password = (if pw \<noteq> [] then pw else no_password)\<rparr>)
      | _ \<Rightarrow> None)"

definition normalizeSavedWifiProfilesField :: "js \<Rightarrow> string \<Rightarrow> wifi_profile list" where
  "normalizeSavedWifiProfilesField data k = List.map_filter wifi_profile_of (array_at data k)"

definition newline :: string where "newline = [CHR 0x0A]"

definition formatSavedWifiProfilesLog :: "wifi_profile list \<Rightarrow> string" where
  "formatSavedWifiProfilesLog profiles =
     (if profiles = []
      then ''Saved Wi-Fi networks and passwords:'' @ newline @ newline @ ''(no saved Wi-Fi profiles found)''
      else join newline ([''Saved Wi-Fi networks and passwords:'', []] @
        concat (map (\<lambda>p. [''SSID: '' @ ssid p, ''Password: '' @ password p, replicate 40 CHR ''-'']) profiles)))"

section \<open>Laws\<close>

lemma fold_set_add:
  "distinct seen \<Longrightarrow> distinct (fold set_add ks seen) \<and> set (fold set_add ks seen) = set seen \<union> set ks"
proof (induction ks arbitrary: seen)
  case (Cons k ks)
  have "distinct (set_add k seen)" "set (set_add k seen) = insert k (set seen)"
    using Cons.prems by (auto simp: set_add_def)
  with Cons.IH [of "set_add k seen"] show ?case by simp
qed simp

lemma fold_set_add_prefix: "\<exists>ys. fold set_add ks seen = seen @ ys"
proof (induction ks arbitrary: seen)
  case (Cons k ks)
  obtain ys where "fold set_add ks (set_add k seen) = set_add k seen @ ys" using Cons.IH by blast
  moreover have "\<exists>zs. set_add k seen = seen @ zs" by (simp add: set_add_def)
  ultimately show ?case by auto
qed simp

lemma discovered_keys_spec:
  "distinct (discovered_keys rs) \<and> set (discovered_keys rs) = (\<Union>r \<in> set rs. set (al_keys r))"
proof -
  have "distinct seen \<Longrightarrow> distinct (fold (\<lambda>r. fold set_add (al_keys r)) rs seen) \<and>
      set (fold (\<lambda>r. fold set_add (al_keys r)) rs seen) = set seen \<union> (\<Union>r \<in> set rs. set (al_keys r))" for seen
  proof (induction rs arbitrary: seen)
    case (Cons r rs)
    note step = fold_set_add [OF Cons.prems, of "al_keys r"]
    show ?case using Cons.IH [OF conjunct1 [OF step]] conjunct2 [OF step] by (simp add: Un_assoc del: set_map)
  qed simp
  from this [of "[]"] show ?thesis by (simp add: discovered_keys_def del: set_map)
qed

lemma ordered_columns_spec:
  "distinct (ordered_columns rs) \<and> set (ordered_columns rs) = (\<Union>r \<in> set rs. set (al_keys r))"
proof -
  have "distinct preferred_columns" by code_simp
  then have "distinct (filter (\<lambda>k. k \<in> set (discovered_keys rs)) preferred_columns)" by (rule distinct_filter)
  from fold_set_add [OF this, of "discovered_keys rs"] show ?thesis
    using discovered_keys_spec [of rs] by (auto simp: ordered_columns_def Let_def simp del: set_map)
qed

lemma table_row_get:
  assumes "c \<in> set cols" "c \<noteq> ''__proto__''"
  shows "al_get (table_row cols p) c = Some (toDisplayValue (obj_get (snd p) c))"
proof -
  have "c \<in> set cols \<or> al_get acc c = Some (toDisplayValue (obj_get (snd p) c)) \<Longrightarrow>
      al_get (fold (\<lambda>c. obj_put c (toDisplayValue (obj_get (snd p) c))) cols acc) c = Some (toDisplayValue (obj_get (snd p) c))" for acc
    using assms(2) by (induction cols arbitrary: acc) (auto simp: al_get_obj_put)
  then show ?thesis using assms(1) by (simp add: table_row_def)
qed

lemma entries_loop_spec:
  "entries_loop h m kvs n = (kvs @ map key_value_of (filter (\<lambda>p. \<not> (h \<and> empty_value (snd p))) m), n + length (filter (\<lambda>p. h \<and> empty_value (snd p)) m))"
  by (induction m arbitrary: kvs n) auto

lemma objectEntries_spec:
  "bkeyValues (objectEntries m h) = map key_value_of (filter (\<lambda>p. \<not> (h \<and> empty_value (snd p))) m)"
  "hiddenCount (objectEntries m h) + length (bkeyValues (objectEntries m h)) = total (objectEntries m h)"
  using sum_length_filter_compl [of "\<lambda>p. h \<and> empty_value (snd p)" m] by (simp_all add: objectEntries_def entries_loop_spec)

section \<open>Properties\<close>

text \<open>
  C23: a table of rows is bounded and faithful: at most 8 columns, each once, all of them properties of the rows, and every
  property when there are at most 8; the known columns come first; at most 250 rows, and the cell of row \<open>i\<close> under a column is
  the display value of that property of row \<open>i\<close>. Only a property named \<^verbatim>\<open>__proto__\<close> has no cell.
\<close>

theorem process_table_correct:
  fixes rs :: "obj list"
  defines "t \<equiv> buildProcessTable rs" and "ks \<equiv> (\<Union>r \<in> set rs. set (al_keys r))"
  shows "distinct (columns t) \<and> length (columns t) \<le> 8 \<and> set (columns t) \<subseteq> ks \<and> (card ks \<le> 8 \<longrightarrow> set (columns t) = ks) \<and>
     (\<exists>others. filter (\<lambda>k. k \<in> ks) preferred_columns @ others = columns t) \<and> length (rows t) = min 250 (length rs) \<and>
     (\<forall>i < length (rows t). \<forall>c \<in> set (columns t). c \<noteq> ''__proto__'' \<longrightarrow>
        al_get (rows t ! i) c = Some (toDisplayValue (obj_get (rs ! i) c)))"
proof -
  have cols: "columns t = take 8 (ordered_columns rs)" by (simp add: t_def buildProcessTable_def Let_def)
  note spec = ordered_columns_spec [of rs, folded ks_def]
  have rows: "rows t = map (table_row (columns t)) (enumerate 0 (take 250 rs))" by (simp add: t_def buildProcessTable_def Let_def)
  have "card ks = length (ordered_columns rs)" using spec distinct_card by metis
  then have "card ks \<le> 8 \<longrightarrow> set (columns t) = ks" using spec by (simp add: cols)
  moreover have "set (columns t) \<subseteq> ks" using spec set_take_subset [of 8 "ordered_columns rs"] by (simp add: cols)
  moreover obtain ys where "ordered_columns rs = filter (\<lambda>k. k \<in> ks) preferred_columns @ ys"
    using fold_set_add_prefix discovered_keys_spec [of rs, folded ks_def] unfolding ordered_columns_def Let_def by metis
  moreover have "length (filter (\<lambda>k. k \<in> ks) preferred_columns) \<le> 8"
    using length_filter_le [of "\<lambda>k. k \<in> ks" preferred_columns] by (simp add: preferred_columns_def)
  ultimately have "\<exists>others. filter (\<lambda>k. k \<in> ks) preferred_columns @ others = columns t" by (simp add: cols)
  moreover have "al_get (rows t ! i) c = Some (toDisplayValue (obj_get (rs ! i) c))"
    if "i < length (rows t)" "c \<in> set (columns t)" "c \<noteq> ''__proto__''" for i c
    using that table_row_get [OF that(2,3)] by (simp add: rows nth_enumerate_eq)
  ultimately show ?thesis
    using spec \<open>card ks \<le> 8 \<longrightarrow> set (columns t) = ks\<close> \<open>set (columns t) \<subseteq> ks\<close> by (simp add: cols rows min.commute)
qed

theorem process_table_correct_witness:
  "al_get (rows (buildProcessTable [[(''name'', Str ''init''), (''pid'', Num (Fin 1))]]) ! 0) ''name'' = Some ''init''"
proof -
  have "''name'' \<in> set (columns (buildProcessTable [[(''name'', Str ''init''), (''pid'', Num (Fin 1))]])) \<and>
      length (rows (buildProcessTable [[(''name'', Str ''init''), (''pid'', Num (Fin 1))]])) = 1 \<and>
      toDisplayValue (obj_get [(''name'', Str ''init''), (''pid'', Num (Fin 1))] ''name'') = ''init'' \<and> ''name'' \<noteq> ''__proto__''"
    by code_simp
  with process_table_correct [of "[[(''name'', Str ''init''), (''pid'', Num (Fin 1))]]"] show ?thesis by (metis nth_Cons_0 zero_less_one)
qed

end
