(* ===== verification/ResultFiles.thy ===== *)
theory ResultFiles
  imports ResultView
begin

text \<open>
  \<^verbatim>\<open>src/lib/resultRenderer.ts\<close>, second part: paths and the entries of a directory listing. \<open>collate a b\<close> is
  \<^verbatim>\<open>a.localeCompare(b, undefined, { sensitivity: 'base' })\<close> of the platform; what the code relies on is that it is a
  comparator.
\<close>

section \<open>Definitions\<close>

definition separator :: "char \<Rightarrow> bool" where
  "separator c \<longleftrightarrow> c = CHR ''/'' \<or> c = CHR 0x5C"

definition normalizePathSeparator :: "string \<Rightarrow> string" where
  "normalizePathSeparator p = collapse separator CHR ''/'' p"

definition toCanonicalPath :: "string \<Rightarrow> string" where
  "toCanonicalPath p =
     (let trimmed = trim p in
      if trimmed = [] then []
      else let canonical = strip_trailing CHR ''/'' (normalizePathSeparator trimmed)
           in if canonical = [] then ''/'' else canonical)"

text \<open>\<^verbatim>\<open>p.split('/').filter(Boolean)\<close>.\<close>

definition path_parts :: "string \<Rightarrow> string list" where
  "path_parts p = filter (\<lambda>s. s \<noteq> []) (split_on CHR ''/'' p)"

definition parentPathOf :: "string \<Rightarrow> string option" where
  "parentPathOf p =
     (let canonical = toCanonicalPath p; parts = path_parts canonical in
      if canonical = [] \<or> canonical = ''/'' \<or> length parts \<le> 1 then None else Some (join ''/'' (butlast parts)))"

definition parseBoolean :: "js \<Rightarrow> bool" where
  "parseBoolean v =
     (case v of
        Bool b \<Rightarrow> b
      | Num n \<Rightarrow> n = Fin 1
      | Str s \<Rightarrow> to_lower (trim s) \<in> {''true'', ''1'', ''yes''}
      | _ \<Rightarrow> False)"

definition parseOptionalNumber :: "js \<Rightarrow> jsnum option" where
  "parseOptionalNumber v =
     (case v of
        Num n \<Rightarrow> if num_is_finite n then Some n else None
      | Str s \<Rightarrow> if trim s \<noteq> [] \<and> num_is_finite (string_to_number s) then Some (string_to_number s) else None
      | _ \<Rightarrow> None)"

definition parseOptionalString :: "js \<Rightarrow> string option" where
  "parseOptionalString v = (case v of Str s \<Rightarrow> if trim s = [] then None else Some (trim s) | _ \<Rightarrow> None)"

text \<open>\<^verbatim>\<open>a ?? b\<close> on texts that may be \<^verbatim>\<open>null\<close>.\<close>

definition or_given :: "'a option \<Rightarrow> 'a \<Rightarrow> 'a" where
  "or_given v d = (case v of Some s \<Rightarrow> s | None \<Rightarrow> d)"

definition fallback_name :: "string \<Rightarrow> string" where
  "fallback_name p = (if p = [] then ''unknown'' else if path_parts p = [] then p else last (path_parts p))"

definition attr_hints :: "js \<Rightarrow> string list res" where
  "attr_hints v = (case v of Arr xs \<Rightarrow> res_map (\<lambda>x. res_bind (js_String x) (\<lambda>s. Inr (to_lower s))) xs | _ \<Rightarrow> Inr [])"

definition entry_type_of :: "obj \<Rightarrow> string list \<Rightarrow> entry_type" where
  "entry_type_of row attrs =
     (let f = obj_get row;
          rawType = to_lower (or_given (parseOptionalString (f ''type'')) (or_given (parseOptionalString (f ''entry_type'')) ''other''));
          isDirectoryHint = list_ex (\<lambda>k. parseBoolean (f k)) [''is_directory'', ''is_dir'', ''directory'', ''is_folder''];
          isFileHint = list_ex (\<lambda>k. parseBoolean (f k)) [''is_file'', ''file'']
      in if rawType \<in> {''directory'', ''dir'', ''folder''} \<or> isDirectoryHint \<or> list_ex (\<lambda>a. str_includes a ''directory'') attrs then Directory
         else if rawType \<in> {''file'', ''regular'', ''regular_file''} \<or> isFileHint \<or>
            list_ex (\<lambda>a. str_includes a ''archive'' \<or> str_includes a ''file'') attrs then File
         else Other)"

text \<open>\<^verbatim>\<open>extension.replace(/^\./, '').toLowerCase()\<close>.\<close>

definition drop_dot :: "string \<Rightarrow> string" where
  "drop_dot s = (case s of c # r \<Rightarrow> if c = CHR ''.'' then r else s | [] \<Rightarrow> [])"

definition filesystem_entry :: "obj \<Rightarrow> fs_entry res" where
  "filesystem_entry row =
     (let f = obj_get row; path = toCanonicalPath (or_given (parseOptionalString (f ''path'')) []) in
      res_bind (attr_hints (f ''attributes'')) (\<lambda>attrs.
        Inr \<lparr>ename = or_given (parseOptionalString (f ''name'')) (fallback_name path), epath = path, etype = entry_type_of row attrs,
          parentPath = parentPathOf path, esize = parseOptionalNumber (f ''size''),
          extension = map_option (\<lambda>e. to_lower (drop_dot e)) (parseOptionalString (f ''extension'')),
          modifiedAt = parseOptionalString (f ''modified_at''), createdAt = parseOptionalString (f ''created_at''),
          isHidden = parseBoolean (f ''is_hidden''), isSystem = parseBoolean (f ''is_system''),
          isSymlink = parseBoolean (f ''is_symlink''), targetPath = parseOptionalString (f ''target_path''),
          downloadable = parseBoolean (f ''downloadable''), downloadMethod = parseOptionalString (f ''download_method'')\<rparr>))"

definition entry_cmp :: "(string \<Rightarrow> string \<Rightarrow> int) \<Rightarrow> fs_entry \<Rightarrow> fs_entry \<Rightarrow> int" where
  "entry_cmp collate a b =
     (if etype a \<noteq> etype b \<and> etype a = Directory then - 1
      else if etype a \<noteq> etype b \<and> etype b = Directory then 1
      else collate (epath a) (epath b))"

definition normalizeFilesystemEntries :: "(string \<Rightarrow> string \<Rightarrow> int) \<Rightarrow> obj list \<Rightarrow> fs_entry list res" where
  "normalizeFilesystemEntries collate rs =
     res_bind (res_map filesystem_entry rs) (\<lambda>mapped. Inr (js_sort (entry_cmp collate) (filter (\<lambda>e. epath e \<noteq> []) mapped)))"

section \<open>The order of a listing\<close>

lemma entry_comparator:
  assumes "comparator collate"
  shows "comparator (entry_cmp collate)"
proof -
  note flip = comparator.cmp_flip [OF assms] and trans = comparator.cmp_trans [OF assms]
  show ?thesis
  proof
    show "entry_cmp collate a b < 0 \<longleftrightarrow> 0 < entry_cmp collate b a" for a b
      using flip [of "epath a" "epath b"] by (cases "etype a"; cases "etype b") (simp_all add: entry_cmp_def)
    show "entry_cmp collate a c \<le> 0" if "entry_cmp collate a b \<le> 0" "entry_cmp collate b c \<le> 0" for a b c
      using that trans [of "epath a" "epath b" "epath c"]
      by (cases "etype a"; cases "etype b"; cases "etype c") (simp_all add: entry_cmp_def)
  qed
qed

text \<open>A collation for concrete listings: ASCII letters without case, by code unit.\<close>

fun base_collate :: "string \<Rightarrow> string \<Rightarrow> int" where
  "base_collate [] [] = 0"
| "base_collate [] (_ # _) = - 1"
| "base_collate (_ # _) [] = 1"
| "base_collate (a # s) (b # t) =
     (let x = of_char (lower_char a) :: int; y = of_char (lower_char b) in if x < y then - 1 else if y < x then 1 else base_collate s t)"

lemma base_collate_flip: "base_collate s t < 0 \<longleftrightarrow> 0 < base_collate t s"
  by (induction s t rule: base_collate.induct) (auto simp: Let_def)

lemma base_collate_trans: "base_collate s t \<le> 0 \<Longrightarrow> base_collate t u \<le> 0 \<Longrightarrow> base_collate s u \<le> 0"
proof (induction s t arbitrary: u rule: base_collate.induct)
  case 1
  then show ?case by simp
next
  case (2 b t)
  then show ?case by (cases u) auto
next
  case (3 a s)
  then show ?case by simp
next
  case (4 a s b t)
  define low where "low c = (of_char (lower_char c) :: int)" for c
  have step: "base_collate (x # p) (y # q) \<le> 0 \<longleftrightarrow> low x < low y \<or> low x = low y \<and> base_collate p q \<le> 0" for x y p q
    by (auto simp: low_def Let_def)
  have IH: "base_collate s t \<le> 0 \<Longrightarrow> base_collate t v \<le> 0 \<Longrightarrow> base_collate s v \<le> 0" if "low a = low b" for v
    using 4(1) [OF refl refl] that by (simp add: low_def)
  show ?case
  proof (cases u)
    case Nil
    with 4 show ?thesis by simp
  next
    case (Cons c v)
    with 4(2,3) IH [of v] show ?thesis unfolding Cons step by auto
  qed
qed

interpretation ascii: comparator base_collate
  by unfold_locales (fact base_collate_flip, fact base_collate_trans)

interpretation listing_order: comparator "entry_cmp base_collate"
  by (rule entry_comparator) (rule ascii.comparator_axioms)

section \<open>Properties\<close>

text \<open>
  C10: a listing shows exactly the entries that have a path, each as often as it was sent, folders before everything else,
  each group in the order of the collation, and entries the collation cannot tell apart in the order they were sent.
\<close>

theorem listing_sorted:
  assumes "comparator collate" "normalizeFilesystemEntries collate rs = Inr es"
  shows "\<exists>sent. list_all2 (\<lambda>r e. filesystem_entry r = Inr e) rs sent \<and>
     mset es = {#e \<in># mset sent. epath e \<noteq> []#} \<and>
     sorted_wrt (\<lambda>a b. (etype b = Directory \<longrightarrow> etype a = Directory) \<and>
       ((etype a = Directory \<longleftrightarrow> etype b = Directory) \<longrightarrow> collate (epath a) (epath b) \<le> 0)) es \<and>
     (\<forall>e. filter (\<lambda>x. entry_cmp collate e x = 0) es = filter (\<lambda>x. entry_cmp collate e x = 0 \<and> epath x \<noteq> []) sent)"
proof -
  have cmp: "comparator (entry_cmp collate)" by (rule entry_comparator [OF assms(1)])
  obtain sent where sent: "res_map filesystem_entry rs = Inr sent" and es: "es = js_sort (entry_cmp collate) (filter (\<lambda>e. epath e \<noteq> []) sent)"
    using assms(2) by (auto simp: normalizeFilesystemEntries_def res_bind_Inr_iff)
  have "(etype b = Directory \<longrightarrow> etype a = Directory) \<and>
      ((etype a = Directory \<longleftrightarrow> etype b = Directory) \<longrightarrow> collate (epath a) (epath b) \<le> 0)" if "entry_cmp collate a b \<le> 0" for a b
    using that by (auto simp: entry_cmp_def split: if_splits)
  then have "sorted_wrt (\<lambda>a b. (etype b = Directory \<longrightarrow> etype a = Directory) \<and>
      ((etype a = Directory \<longleftrightarrow> etype b = Directory) \<longrightarrow> collate (epath a) (epath b) \<le> 0)) es"
    unfolding es by (rule sorted_wrt_mono_rel [OF _ comparator.sorted_js_sort [OF cmp]])
  moreover have "filter (\<lambda>x. entry_cmp collate e x = 0) es = filter (\<lambda>x. entry_cmp collate e x = 0 \<and> epath x \<noteq> []) sent" for e
    unfolding es comparator.js_sort_stable [OF cmp] by (simp add: conj_commute)
  moreover have "mset es = {#e \<in># mset sent. epath e \<noteq> []#}" unfolding es by simp
  ultimately show ?thesis using sent res_map_Inr_iff by blast
qed

definition demo_listing :: "obj list" where
  "demo_listing = [[(''path'', Str ''/srv/b''), (''type'', Str ''file'')], [(''path'', Str ''/srv/c''), (''type'', Str ''dir'')],
     [(''path'', Str ''/srv/A''), (''is_file'', Bool True)]]"

theorem listing_sorted_witness:
  "\<exists>es. normalizeFilesystemEntries base_collate demo_listing = Inr es \<and> map epath es = [''/srv/c'', ''/srv/A'', ''/srv/b''] \<and>
     sorted_wrt (\<lambda>a b. etype b = Directory \<longrightarrow> etype a = Directory) es"
proof -
  define es where "es = (case normalizeFilesystemEntries base_collate demo_listing of Inr es \<Rightarrow> es)"
  have es: "normalizeFilesystemEntries base_collate demo_listing = Inr es \<and> map epath es = [''/srv/c'', ''/srv/A'', ''/srv/b'']"
    unfolding es_def by code_simp
  obtain S: "sorted_wrt (\<lambda>a b. (etype b = Directory \<longrightarrow> etype a = Directory) \<and>
      ((etype a = Directory \<longleftrightarrow> etype b = Directory) \<longrightarrow> base_collate (epath a) (epath b) \<le> 0)) es"
    using listing_sorted [OF ascii.comparator_axioms conjunct1 [OF es]] by (elim exE conjE)
  show ?thesis
    by (intro exI [of _ es] conjI conjunct1 [OF es] conjunct2 [OF es]) (rule sorted_wrt_mono_rel [OF _ S], elim conjE)
qed

end
