(* ===== verification/ResultBuilders.thy ===== *)
theory ResultBuilders
  imports ResultFiles
begin

text \<open>
  \<^verbatim>\<open>src/lib/resultRenderer.ts\<close>, third part: one builder per command method, the generic builder, the table of
  renderers, the fallback and \<^verbatim>\<open>renderResult\<close>. \<open>message e\<close> is the text of a thrown error, which the platform chooses.
\<close>

section \<open>Sections\<close>

definition stat :: "string \<Rightarrow> string \<Rightarrow> tone option \<Rightarrow> hero_stat" where
  "stat l v t = \<lparr>label = l, svalue = v, tone = t\<rparr>"

definition overview_section :: "hero_stat list \<Rightarrow> string option \<Rightarrow> section_def" where
  "overview_section st d = (blank_section ''overview'' ''Overview'' Stats)\<lparr>stats := Some st, description := d\<rparr>"

definition kv_section :: "string \<Rightarrow> string \<Rightarrow> key_value list \<Rightarrow> string option \<Rightarrow> section_def" where
  "kv_section i t kvs summary = (blank_section i t Kv)\<lparr>keyValues := Some kvs, emptySummary := summary\<rparr>"

definition table_section :: "string \<Rightarrow> string \<Rightarrow> table_def \<Rightarrow> string option \<Rightarrow> section_def" where
  "table_section i t tab summary = (blank_section i t Table)\<lparr>table := Some tab, emptySummary := summary\<rparr>"

definition log_section :: "string \<Rightarrow> string \<Rightarrow> string \<Rightarrow> section_def" where
  "log_section i t txt = (blank_section i t Log)\<lparr>logText := Some txt\<rparr>"

definition artifact_section :: "string \<Rightarrow> artifact_def \<Rightarrow> section_def" where
  "artifact_section t a = (blank_section ''artifact'' t Artifact)\<lparr>artifact := Some a,
     emptySummary := only_if (url a = None) ''Artifact not available for this command result.''\<rparr>"

definition diagnostics_section :: "diagnostics_item list \<Rightarrow> section_def" where
  "diagnostics_section ds = (blank_section ''diagnostics'' ''Diagnostics'' Diagnostics)\<lparr>sdiagnostics := Some ds,
     emptySummary := only_if (ds = []) ''No diagnostics reported''\<rparr>"

definition state_label :: "command_result \<Rightarrow> string" where
  "state_label row = toLabel (state_string (cstate row))"

definition state_tone :: "command_result \<Rightarrow> tone option" where
  "state_tone row = Some (if cstate row = Completed then ToneSuccess else if cstate row = Failed then ToneDanger else ToneInfo)"

definition status_value :: "command_result \<Rightarrow> string" where
  "status_value row = toDisplayValue (coalesce (of_text (resultStatus row)) (Str (state_string (cstate row))))"

definition artifact_url_of :: "command_result \<Rightarrow> string option" where
  "artifact_url_of row = (case nonblank_text (of_text (artifactUrl row)) of Some u \<Rightarrow> Some u
     | None \<Rightarrow> nonblank_text (result_field row ''artifact_url''))"

definition artifact_checksum_of :: "command_result \<Rightarrow> string option" where
  "artifact_checksum_of row = (case nonblank_text (of_text (artifactChecksum row)) of Some u \<Rightarrow> Some u
     | None \<Rightarrow> nonblank_text (result_field row ''artifact_checksum''))"

section \<open>System snapshot\<close>

definition string_items :: "js \<Rightarrow> string list" where
  "string_items v = (case v of Arr xs \<Rightarrow> List.map_filter as_str xs | _ \<Rightarrow> [])"

definition collection_failure :: "obj \<Rightarrow> diagnostics_item" where
  "collection_failure item =
     (let r = or_given (as_str (obj_get item ''reason'')) ''collection_failure'' in
      \<lparr>dseverity = SevWarning, dfield = as_str (obj_get item ''field''), dreason = r,
       dmessage = (case as_str (obj_get item ''field'') of Some f \<Rightarrow> f @ '': '' @ r
         | None \<Rightarrow> or_given (as_str (obj_get item ''reason'')) ''Collection failure'')\<rparr>)"

definition not_requested :: "string \<Rightarrow> diagnostics_item" where
  "not_requested s = \<lparr>dseverity = SevInfo, dfield = Some s, dreason = ''not_requested'',
     dmessage = toLabel s @ '' was not requested in this snapshot''\<rparr>"

definition snapshot_diagnostics :: "obj \<Rightarrow> diagnostics_item list" where
  "snapshot_diagnostics payload =
     (let included = string_items (obj_get payload ''included_fields''); masked = string_items (obj_get payload ''masked_fields'');
          failures = (case obj_get payload ''collection_failures'' of Arr xs \<Rightarrow> xs | _ \<Rightarrow> [])
      in map collection_failure (objects_of failures) @
         map not_requested (filter (\<lambda>s. s \<notin> set included) KNOWN_COLLECT_SECTIONS) @
         (if masked \<noteq> [] then [warning ''masked_fields'' (string_of_nat (length masked) @ '' field(s) were masked by policy'')] else []))"

definition snapshot_hero :: "obj \<Rightarrow> hero_stat list" where
  "snapshot_hero payload =
     (let os = object_or_empty (obj_get payload ''os''); hw = object_or_empty (obj_get payload ''hardware'');
          rt = object_or_empty (obj_get payload ''runtime''); u = Str ''Unknown''
      in [stat ''OS'' (toDisplayValue (coalesce (obj_get os ''product_name'') u)) (Some ToneInfo),
          stat ''Version'' (toDisplayValue (coalesce (obj_get os ''version'') (coalesce (obj_get os ''build'') u))) None,
          stat ''CPU'' (toDisplayValue (coalesce (obj_get hw ''cpu_model'') u)) None,
          stat ''RAM'' (toDisplayValue (coalesce (obj_get hw ''ram_total_mb'') u)) None,
          stat ''Uptime'' (toDisplayValue (coalesce (obj_get rt ''uptime_sec'') u)) None,
          stat ''Kernel Mode'' (toDisplayValue (coalesce (obj_get payload ''kernel_mode'') (Bool False))) (Some ToneSuccess)])"

definition buildCollectSystemInfo :: "command_result \<Rightarrow> view_model" where
  "buildCollectSystemInfo row =
     (let payload = object_or_empty (extractStructuredData row);
          block = (\<lambda>k. objectEntries (object_or_empty (obj_get payload k)) True);
          included = string_items (obj_get payload ''included_fields'');
          ds = buildDiagnosticsFromRow row @ snapshot_diagnostics payload;
          hw = block ''hardware'';
          kv = (\<lambda>k t summary. kv_section k t (bkeyValues (block k)) (only_if (bkeyValues (block k) = []) summary))
      in (buildBaseModel row (Str ''collect_system_info'') (obj_get methodTitleMap ''collect_system_info''))
         \<lparr>hero := snapshot_hero payload, diagnostics := ds,
          sections :=
            [overview_section (snapshot_hero payload)
               (Some (''Included sections: '' @ (if included \<noteq> [] then join '', '' included else ''none''))),
             kv ''identity'' ''Identity'' ''No identity fields collected'',
             kv ''os'' ''OS'' ''No OS fields collected'',
             kv_section ''hardware'' ''Hardware'' (bkeyValues hw)
               (only_if (0 < hiddenCount hw) (string_of_nat (hiddenCount hw) @ '' field(s) not collected in this snapshot'')),
             kv ''runtime'' ''Runtime'' ''No runtime fields collected'',
             diagnostics_section ds]\<rparr>)"

section \<open>Ping and inventories\<close>

fun findNumericMetric :: "obj \<Rightarrow> string list \<Rightarrow> string option" where
  "findNumericMetric source [] = None"
| "findNumericMetric source (k # ks) =
     (case obj_get source k of
        Num n \<Rightarrow> if num_is_finite n then Some (number_to_string n) else findNumericMetric source ks
      | Str s \<Rightarrow> if trim s \<noteq> [] \<and> string_to_number s \<noteq> NaN then Some s else findNumericMetric source ks
      | _ \<Rightarrow> findNumericMetric source ks)"

definition buildPing :: "command_result \<Rightarrow> view_model" where
  "buildPing row =
     (let payload = object_or_empty (extractStructuredData row);
          latency = findNumericMetric payload [''latency_ms'', ''round_trip_ms'', ''rtt_ms'', ''duration_ms''];
          h = [stat ''State'' (state_label row) (Some (if cstate row = Completed then ToneSuccess else ToneWarning)),
               stat ''Status'' (toDisplayValue (coalesce (of_text (resultStatus row)) (coalesce (obj_get payload ''status'') (Str ''Unknown'')))) None,
               stat ''Latency'' (case latency of Some l \<Rightarrow> l @ '' ms'' | None \<Rightarrow> ''Unknown'') (Some ToneInfo)];
          details = objectEntries payload True; ds = buildDiagnosticsFromRow row
      in (buildBaseModel row (Str ''ping'') (obj_get methodTitleMap ''ping''))
         \<lparr>hero := h, diagnostics := ds,
          sections := [overview_section h None,
            kv_section ''details'' ''Details'' (bkeyValues details) (only_if (bkeyValues details = []) ''No ping details returned''),
            diagnostics_section ds]\<rparr>)"

text \<open>The three inventories have the same shape.\<close>

definition inventory :: "command_result \<Rightarrow> string \<Rightarrow> obj list \<Rightarrow> string \<Rightarrow> string \<Rightarrow> string \<Rightarrow> view_model" where
  "inventory row meth items i t summary =
     (let h = [stat ''Status'' (status_value row) (Some ToneInfo), stat t (string_of_nat (length items)) (Some ToneSuccess)];
          ds = buildDiagnosticsFromRow row
      in (buildBaseModel row (Str meth) (obj_get methodTitleMap meth))
         \<lparr>hero := h, diagnostics := ds,
          sections := [overview_section h (only_if (250 < length items) ''Showing first 250 rows''),
            table_section i t (buildProcessTable items) (only_if (items = []) summary),
            diagnostics_section ds]\<rparr>)"

definition buildListProcesses :: "command_result \<Rightarrow> view_model" where
  "buildListProcesses row = inventory row ''list_processes'' (normalizeProcessArray (extractStructuredData row))
     ''processes'' ''Processes'' ''No process rows were returned''"

definition buildListServices :: "command_result \<Rightarrow> view_model" where
  "buildListServices row = inventory row ''list_services'' (normalizeServicesArray (extractStructuredData row))
     ''services'' ''Services'' ''No service rows were returned''"

definition buildListMounts :: "command_result \<Rightarrow> view_model" where
  "buildListMounts row = inventory row ''list_mounts'' (normalizeMountsArray (extractStructuredData row))
     ''mounts'' ''Mounts'' ''No mount rows were returned''"

text \<open>\<^verbatim>\<open>counts.totalSeen != null && counts.totalSeen > counts.count\<close>, and the text of \<^verbatim>\<open>counts.count || n\<close>.\<close>

definition truncated :: "jsnum \<times> jsnum option \<Rightarrow> bool" where
  "truncated counts = (case snd counts of None \<Rightarrow> False | Some n \<Rightarrow> num_lt (fst counts) n)"

definition count_or :: "jsnum \<Rightarrow> nat \<Rightarrow> string" where
  "count_or n k = (if n \<noteq> Fin 0 \<and> n \<noteq> NaN then number_to_string n else string_of_nat k)"

definition total_text :: "jsnum \<times> jsnum option \<Rightarrow> string" where
  "total_text counts = (case snd counts of None \<Rightarrow> ''Not collected'' | Some n \<Rightarrow> number_to_string n)"

definition buildListConnections :: "command_result \<Rightarrow> view_model" where
  "buildListConnections row =
     (let data = extractStructuredData row; connections = normalizeConnectionsArray data; talkers = normalizeTopTalkersArray data;
          counts = readSnapshotCounts data; cut = truncated counts; c = number_to_string (fst counts);
          h = [stat ''Status'' (status_value row) (Some ToneInfo),
               stat ''Connections'' (count_or (fst counts) (length connections)) (Some ToneSuccess),
               stat ''Total Seen'' (total_text counts) (Some (if cut then ToneWarning else ToneDefault))];
          ds = buildDiagnosticsFromRow row @
            (if cut then [warning ''truncated_to_limit'' (''Showing '' @ c @ '' connection rows from '' @ total_text counts @ '' observed.'')] else [])
      in (buildBaseModel row (Str ''list_connections'') (obj_get methodTitleMap ''list_connections''))
         \<lparr>hero := h, diagnostics := ds,
          sections := [overview_section h (only_if cut (''Bounded snapshot: showing '' @ c @ '' of '' @ total_text counts @ '' rows.'')),
            table_section ''talkers'' ''Top Talkers'' (buildProcessTable talkers) (only_if (talkers = []) ''No top-talker summary was returned''),
            table_section ''connections'' ''Connections'' (buildProcessTable connections) (only_if (connections = []) ''No connection rows were returned''),
            diagnostics_section ds]\<rparr>)"

section \<open>Network\<close>

definition wifi_view :: "js \<Rightarrow> obj" where
  "wifi_view data =
     (let profiles = normalizeSavedWifiProfilesField data ''saved_wifi_profiles''; signals = normalizeStringArrayField data ''wifi_risk_signals''
      in spread (normalizeWifiPayload data)
         [(''saved_wifi_profile_count'', Num (num_of_nat (length profiles))),
          (''saved_wifi_profiles_preview'', Str (join '', '' (map ssid (take 12 profiles)))),
          (''wifi_risk_signal_count'', Num (num_of_nat (length signals))),
          (''wifi_risk_signals'', Str (join '', '' signals)),
          (''wifi_passwords_collected'', case data of Obj m \<Rightarrow> obj_get m ''wifi_passwords_collected'' | _ \<Rightarrow> Bool False),
          (''saved_wifi_password_count'', case data of Obj m \<Rightarrow> obj_get m ''saved_wifi_password_count'' | _ \<Rightarrow> Num (Fin 0))])"

definition network_hero :: "command_result \<Rightarrow> js \<Rightarrow> hero_stat list" where
  "network_hero row data =
     (let wifi = normalizeWifiPayload data; connected = (obj_get wifi ''connected'' = Bool True);
          detected = (obj_get (normalizeVpnSummaryPayload data) ''detected'' = Bool True)
      in [stat ''Status'' (status_value row) (Some ToneInfo),
          stat ''Adapters'' (count_or (fst (readSnapshotCounts data)) (length (normalizeNetworkAdaptersArray data))) (Some ToneSuccess),
          stat ''Wi-Fi'' (if connected then toDisplayValue (coalesce (obj_get wifi ''ssid'') (Str ''Connected'')) else ''Not connected'')
            (Some (if connected then ToneSuccess else ToneDefault)),
          stat ''VPN Candidate'' (if detected then ''Detected'' else ''Not detected'') (Some (if detected then ToneWarning else ToneSuccess))])"

definition buildNetworkInfo :: "command_result \<Rightarrow> view_model" where
  "buildNetworkInfo row =
     (let data = extractStructuredData row; adapters = normalizeNetworkAdaptersArray data; routes = normalizeRoutesArray data;
          signals = normalizeStringArrayField data ''wifi_risk_signals'';
          wifi = bkeyValues (objectEntries (wifi_view data) True);
          vpn = bkeyValues (objectEntries (normalizeVpnSummaryPayload data) True);
          counts = readSnapshotCounts data; cut = truncated counts; c = number_to_string (fst counts); h = network_hero row data;
          ds = buildDiagnosticsFromRow row @
            (if cut then [warning ''truncated_to_limit'' (''Showing '' @ c @ '' adapters from '' @ total_text counts @ '' observed.'')] else [])
      in (buildBaseModel row (Str ''network_info'') (obj_get methodTitleMap ''network_info''))
         \<lparr>hero := h, diagnostics := ds,
          sections :=
            [overview_section h (only_if cut (''Bounded snapshot: showing '' @ c @ '' of '' @ total_text counts @ '' adapters.'')),
             table_section ''interfaces'' ''Interfaces'' (buildProcessTable adapters) (only_if (adapters = []) ''No adapter rows were returned''),
             (kv_section ''wifi'' ''Wi-Fi'' wifi (only_if (wifi = []) ''No Wi-Fi details were returned''))
               \<lparr>description := only_if (signals \<noteq> []) (''Risk signals: '' @ join '', '' signals)\<rparr>,
             log_section ''saved-wifi'' ''Saved Wi-Fi Networks'' (formatSavedWifiProfilesLog (normalizeSavedWifiProfilesField data ''saved_wifi_profiles'')),
             (table_section ''vpn-routes'' ''VPN & Routes'' (buildProcessTable routes) (only_if (routes = []) ''No default route rows were returned''))
               \<lparr>description := only_if (vpn \<noteq> []) (join '' | '' (map (\<lambda>kv. kv_label kv @ '': '' @ kv_value kv) vpn))\<rparr>,
             diagnostics_section ds]\<rparr>)"

section \<open>Active window, files, downloads, screenshots\<close>

definition capture_envelope :: "obj \<Rightarrow> obj" where
  "capture_envelope payload = object_or_empty (obj_get (object_or_empty (obj_get payload ''screenshot'')) ''capture'')"

definition helper_window :: "obj \<Rightarrow> obj option" where
  "helper_window payload = as_obj (obj_get (object_or_empty (obj_get (capture_envelope payload) ''capture'')) ''active_window'')"

definition payload_effective :: "obj \<Rightarrow> obj" where
  "payload_effective payload =
     (if obj_get payload ''available'' = Bool True then payload
      else case helper_window payload of
        None \<Rightarrow> payload
      | Some w \<Rightarrow> if obj_get w ''available'' \<noteq> Bool True then payload
          else spread (spread payload w)
            [(''status'', Str ''ok''), (''available'', Bool True), (''source'', Str ''screenshot_helper'')])"

definition image_type :: "string \<Rightarrow> string" where
  "image_type format = (if to_lower format \<in> {''jpeg'', ''jpg''} then ''image/jpeg'' else ''image/png'')"

definition artifact_stat :: "string \<Rightarrow> string \<Rightarrow> command_result \<Rightarrow> hero_stat" where
  "artifact_stat l yes row = (case artifact_url_of row of
     Some _ \<Rightarrow> stat l yes (Some ToneSuccess) | None \<Rightarrow> stat l ''Unavailable'' (Some ToneWarning))"

definition artifact_missing :: "command_result \<Rightarrow> string \<Rightarrow> diagnostics_item list" where
  "artifact_missing row msg = (if artifact_url_of row = None then [warning ''artifact_missing'' msg] else [])"

definition artifact_of :: "command_result \<Rightarrow> string \<Rightarrow> artifact_def" where
  "artifact_of row ct = \<lparr>url = artifact_url_of row, checksum = artifact_checksum_of row, contentType = ct\<rparr>"

definition buildActiveWindow :: "command_result \<Rightarrow> view_model" where
  "buildActiveWindow row =
     (let payload = object_or_empty (extractStructuredData row); eff = payload_effective payload;
          available = (obj_get eff ''available'' = Bool True); u = Str ''Unknown'';
          ct = image_type (or_given (as_str (obj_get (capture_envelope payload) ''format'')) ''png'');
          kvs = bkeyValues (objectEntries eff True);
          h = [stat ''State'' (state_label row) (state_tone row),
               stat ''Window'' (toDisplayValue (coalesce (obj_get eff ''title'') (coalesce (obj_get eff ''status'') u)))
                 (Some (if available then ToneSuccess else ToneWarning)),
               stat ''Process'' (toDisplayValue (coalesce (obj_get eff ''process_name'') (coalesce (obj_get eff ''pid'') u))) (Some ToneInfo),
               artifact_stat ''Screenshot'' ''Captured'' row];
          ds = buildDiagnosticsFromRow row @
            (if \<not> available then [warning ''window_unavailable'' ''No interactive foreground window was available at collection time.''] else []) @
            artifact_missing row ''Screenshot artifact URL was not returned for active window capture.''
      in (buildBaseModel row (Str ''get_active_window'') (obj_get methodTitleMap ''get_active_window''))
         \<lparr>hero := h, diagnostics := ds,
          sections := [overview_section h None,
            (kv_section ''window'' ''Window Details'' kvs (only_if (kvs = []) ''No window details were returned''))\<lparr>collapsedByDefault := \<not> available\<rparr>,
            artifact_section ''Screenshot Artifact'' (artifact_of row ct),
            diagnostics_section ds]\<rparr>)"

definition listing_metadata :: "obj \<Rightarrow> fs_def \<Rightarrow> obj" where
  "listing_metadata payload fs =
     (let cnt = (\<lambda>P. Num (num_of_nat (length (filter P (entries fs)))));
          num = (\<lambda>v. case v of None \<Rightarrow> Null | Some n \<Rightarrow> Num n);
          root = toCanonicalPath (or_given (parseOptionalString (obj_get payload ''path'')) [])
      in [(''path'', js_or (Str root) (obj_get payload ''path'')), (''recursive'', Bool (recursive fs)), (''max_depth'', num (maxDepth fs)),
          (''count'', obj_get payload ''count''), (''total_seen'', obj_get payload ''total_seen''), (''hidden_items'', cnt isHidden),
          (''system_items'', cnt isSystem), (''partial'', Bool (partial fs)), (''next_cursor'', of_text (nextCursor fs)),
          (''download_supported'', Bool (canDownload fs)), (''download_method'', of_text (fs_downloadMethod fs))])"

definition listing_hero :: "command_result \<Rightarrow> obj \<Rightarrow> fs_def \<Rightarrow> hero_stat list" where
  "listing_hero row payload fs =
     (let cnt = (\<lambda>P. string_of_nat (length (filter P (entries fs))));
          root = toCanonicalPath (or_given (parseOptionalString (obj_get payload ''path'')) [])
      in [stat ''State'' (state_label row) (state_tone row),
          stat ''Path'' (toDisplayValue (js_or (js_or (Str root) (obj_get payload ''path'')) (Str ''Unknown''))) (Some ToneInfo),
          stat ''Folders'' (cnt (\<lambda>e. etype e = Directory)) (Some ToneSuccess), stat ''Files'' (cnt (\<lambda>e. etype e = File)) (Some ToneInfo),
          stat ''Downloadable'' (cnt downloadable) (Some (if canDownload fs then ToneSuccess else ToneWarning)),
          stat ''Partial'' (if partial fs then ''Yes'' else ''No'') (Some (if partial fs then ToneWarning else ToneDefault))])"

definition listing :: "(string \<Rightarrow> string \<Rightarrow> int) \<Rightarrow> obj \<Rightarrow> fs_def res" where
  "listing collate payload =
     res_bind (normalizeFilesystemEntries collate (normalizeFileEntriesArray (Obj payload))) (\<lambda>es.
       let root = toCanonicalPath (or_given (parseOptionalString (obj_get payload ''path'')) []);
           dl = object_or_empty (obj_get payload ''download'')
       in Inr \<lparr>rootPath = or_text root ''/'', entries = es, recursive = (obj_get payload ''recursive'' = Bool True),
           maxDepth = parseOptionalNumber (obj_get payload ''max_depth''), partial = (obj_get payload ''partial'' = Bool True),
           nextCursor = parseOptionalString (obj_get payload ''next_cursor''), canDownload = (obj_get dl ''supported'' = Bool True),
           fs_downloadMethod = parseOptionalString (obj_get dl ''method'')\<rparr>)"

definition buildListFiles :: "(string \<Rightarrow> string \<Rightarrow> int) \<Rightarrow> command_result \<Rightarrow> view_model res" where
  "buildListFiles collate row =
     (let payload = object_or_empty (extractStructuredData row) in
      res_bind (listing collate payload) (\<lambda>fs.
        let h = listing_hero row payload fs; kvs = bkeyValues (objectEntries (listing_metadata payload fs) True);
            ds = buildDiagnosticsFromRow row @
              (if partial fs then [warning ''partial_result'' ''Result was truncated by the current limit. Narrow path or increase limit.''] else [])
        in Inr ((buildBaseModel row (Str ''list_files'') (obj_get methodTitleMap ''list_files''))
             \<lparr>hero := h, diagnostics := ds,
              sections := [overview_section h (Some (if partial fs
                  then ''Partial snapshot. Refine path or lower depth/limit for full navigation.''
                  else ''Filesystem snapshot ready. Use Explorer tab to browse like a file explorer.'')),
                (blank_section ''explorer'' ''Explorer'' Filesystem)\<lparr>filesystem := Some fs,
                  emptySummary := only_if (entries fs = []) ''No entries were returned for this path''\<rparr>,
                kv_section ''metadata'' ''Browse Metadata'' kvs (only_if (kvs = []) ''No metadata returned''),
                diagnostics_section ds]\<rparr>)))"

definition buildDownloadFile :: "command_result \<Rightarrow> view_model" where
  "buildDownloadFile row =
     (let payload = object_or_empty (extractStructuredData row); f = obj_get payload; u = Str ''Unknown'';
          ct = or_given (nonblank_text (f ''content_type'')) ''application/octet-stream'';
          h = [stat ''State'' (state_label row) (state_tone row),
               stat ''Name'' (toDisplayValue (coalesce (f ''name'') (coalesce (f ''path'') u))) (Some ToneInfo),
               stat ''Size'' (toDisplayValue (coalesce (f ''size_bytes'') u)) None,
               artifact_stat ''Artifact'' ''Uploaded'' row];
          kvs = bkeyValues (objectEntries payload True);
          ds = buildDiagnosticsFromRow row @ artifact_missing row ''Download artifact URL was not returned.''
      in (buildBaseModel row (Str ''download_file'') (obj_get methodTitleMap ''download_file''))
         \<lparr>hero := h, diagnostics := ds,
          sections := [overview_section h None, artifact_section ''Artifact'' (artifact_of row ct),
            kv_section ''details'' ''File Details'' kvs (only_if (kvs = []) ''No file details returned''),
            diagnostics_section ds]\<rparr>)"

definition capture_dimensions :: "obj \<Rightarrow> string" where
  "capture_dimensions capture =
     (case (obj_get capture ''width'', obj_get capture ''height'') of
        (Num w, Num h) \<Rightarrow> number_to_string w @ '' x '' @ number_to_string h
      | _ \<Rightarrow> ''Unknown'')"

definition buildScreenshot :: "command_result \<Rightarrow> view_model" where
  "buildScreenshot row =
     (let payload = object_or_empty (extractStructuredData row); capture = object_or_empty (obj_get payload ''capture'');
          format = or_given (as_str (obj_get capture ''format'')) (or_given (as_str (obj_get payload ''format'')) ''png'');
          h = [stat ''State'' (state_label row) (state_tone row),
               stat ''Format'' (toDisplayValue (coalesce (obj_get payload ''format'') (coalesce (obj_get capture ''format'') (Str ''png'')))) (Some ToneInfo),
               stat ''Resolution'' (toDisplayValue (coalesce (obj_get payload ''resolution'')
                 (coalesce (obj_get capture ''resolution'') (Str (capture_dimensions capture))))) None,
               artifact_stat ''Artifact'' ''Uploaded'' row];
          cap = bkeyValues (objectEntries (al_del ''output_path'' capture) True);
          auth = bkeyValues (objectEntries (object_or_empty (obj_get payload ''authorization'')) True);
          ds = buildDiagnosticsFromRow row @ artifact_missing row ''Screenshot artifact URL was not returned.''
      in (buildBaseModel row (Str ''screenshot'') (obj_get methodTitleMap ''screenshot''))
         \<lparr>hero := h, diagnostics := ds,
          sections := [overview_section h None, artifact_section ''Artifact'' (artifact_of row (image_type format)),
            kv_section ''capture'' ''Capture Metadata'' cap (only_if (cap = []) ''No capture metadata returned''),
            (kv_section ''authorization'' ''Kernel Authorization'' auth (only_if (auth = []) ''No authorization metadata returned''))
              \<lparr>collapsedByDefault := auth = []\<rparr>,
            diagnostics_section ds]\<rparr>)"

section \<open>Any other method\<close>

definition generic_title :: "js \<Rightarrow> js res" where
  "generic_title meth =
     res_bind (table_get methodTitleMap meth) (\<lambda>t.
       if \<not> is_nullish t then Inr t
       else case meth of Str s \<Rightarrow> Inr (Str (toLabel s)) | _ \<Rightarrow> Inl (NotAFunction ''replace''))"

text \<open>\<^verbatim>\<open>hiddenCount / total >= 0.6\<close>.\<close>

definition mostly_hidden :: "entries_block \<Rightarrow> bool" where
  "mostly_hidden b \<longleftrightarrow> 0 < total b \<and> num_le (to_double (6 / 10)) (to_double (of_nat (hiddenCount b) / of_nat (total b)))"

definition generic_section :: "string \<times> js \<Rightarrow> section_def option" where
  "generic_section p =
     (let k = fst p; v = snd p in
      case v of
        Obj m \<Rightarrow>
          (let b = objectEntries m True in
           Some ((kv_section k (toLabel k) (bkeyValues b)
               (if bkeyValues b = [] then Some ''No populated fields in this section''
                else only_if (0 < hiddenCount b) (string_of_nat (hiddenCount b) @ '' field(s) hidden because they were not collected'')))
             \<lparr>collapsedByDefault := mostly_hidden b\<rparr>))
      | Arr xs \<Rightarrow>
          (if list_all is_Obj xs
           then Some ((table_section k (toLabel k) (buildProcessTable (objects_of xs)) (only_if (xs = []) ''No rows returned''))
             \<lparr>collapsedByDefault := xs = []\<rparr>)
           else None)
      | _ \<Rightarrow>
          (if isPrimitive v
           then Some ((kv_section k (toLabel k) [\<lparr>kv_key = k, kv_label = toLabel k, kv_value = toDisplayValue v, isEmpty = is_nullish v\<rparr>] None)
             \<lparr>collapsedByDefault := is_nullish v\<rparr>)
           else None))"

definition generic_sections :: "command_result \<Rightarrow> section_def list" where
  "generic_sections row =
     (let summary = [log_section ''summary'' ''Summary'' (resultPreview row)] in
      case extractStructuredData row of
        Obj m \<Rightarrow> (let ss = List.map_filter generic_section m in if ss \<noteq> [] then ss else summary)
      | _ \<Rightarrow> (case nonblank_text (result_field row ''output_text'') of
          Some t \<Rightarrow> [log_section ''output'' ''Output'' t] | None \<Rightarrow> summary))"

definition buildGeneric :: "command_result \<Rightarrow> js \<Rightarrow> view_model res" where
  "buildGeneric row meth =
     res_bind (generic_title meth) (\<lambda>t.
       let h = [stat ''State'' (state_label row) (Some (if cstate row = Completed then ToneSuccess else ToneWarning)),
                stat ''Status'' (toDisplayValue (coalesce (of_text (resultStatus row)) (coalesce (result_field row ''status'') (Str ''Unknown'')))) None];
           ds = buildDiagnosticsFromRow row
       in Inr ((buildBaseModel row meth t)\<lparr>hero := h, diagnostics := ds,
            sections := generic_sections row @ [(diagnostics_section ds)\<lparr>collapsedByDefault := ds = []\<rparr>]\<rparr>))"

section \<open>Rendering\<close>

definition renderDefinitions :: "(string \<Rightarrow> string \<Rightarrow> int) \<Rightarrow> (string \<times> (command_result \<Rightarrow> view_model res)) list" where
  "renderDefinitions collate =
     [(''collect_system_info'', \<lambda>r. Inr (buildCollectSystemInfo r)), (''ping'', \<lambda>r. Inr (buildPing r)),
      (''list_processes'', \<lambda>r. Inr (buildListProcesses r)), (''list_services'', \<lambda>r. Inr (buildListServices r)),
      (''list_connections'', \<lambda>r. Inr (buildListConnections r)), (''list_mounts'', \<lambda>r. Inr (buildListMounts r)),
      (''network_info'', \<lambda>r. Inr (buildNetworkInfo r)), (''get_active_window'', \<lambda>r. Inr (buildActiveWindow r)),
      (''list_files'', buildListFiles collate), (''download_file'', \<lambda>r. Inr (buildDownloadFile r)),
      (''screenshot'', \<lambda>r. Inr (buildScreenshot r))]"

text \<open>
  \<^verbatim>\<open>model.diagnostics.unshift\<close> changes the array in place, and the diagnostics section, the last one, holds the same array;
  its summary and its collapsed flag were computed before.
\<close>

definition unshift_diagnostics :: "diagnostics_item \<Rightarrow> view_model \<Rightarrow> view_model" where
  "unshift_diagnostics d m =
     m\<lparr>diagnostics := d # diagnostics m,
       sections := butlast (sections m) @ [(last (sections m))\<lparr>sdiagnostics := Some (d # diagnostics m)\<rparr>]\<rparr>"

definition safeFallback :: "(js_error \<Rightarrow> string) \<Rightarrow> command_result \<Rightarrow> js \<Rightarrow> js_error \<Rightarrow> view_model res" where
  "safeFallback message row meth e =
     res_bind (buildGeneric row meth) (\<lambda>m.
       Inr (unshift_diagnostics (warning ''renderer_fallback'' (message e)) (m\<lparr>fallbackUsed := True\<rparr>)))"

text \<open>A resolved name is never a member of \<^verbatim>\<open>Object.prototype\<close> (lemma \<open>resolved_plain\<close>), so own entries decide.\<close>

definition renderResult :: "(string \<Rightarrow> string \<Rightarrow> int) \<Rightarrow> (js_error \<Rightarrow> string) \<Rightarrow> string \<Rightarrow> command_result \<Rightarrow> view_model res" where
  "renderResult collate message meth row =
     (let canonical = resolveCommandMethod (or_text meth (cmethod row)) in
      res_bind (js_String canonical) (\<lambda>k.
        case (case al_get (renderDefinitions collate) k of Some build \<Rightarrow> build row | None \<Rightarrow> buildGeneric row canonical) of
          Inr m \<Rightarrow> Inr m
        | Inl e \<Rightarrow> safeFallback message row canonical e))"

definition isResultsRendererV2Enabled :: "js \<Rightarrow> bool" where
  "isResultsRendererV2Enabled flag \<longleftrightarrow> flag \<noteq> Str ''0''"

section \<open>The shape of a view\<close>

definition wf_section :: "section_def \<Rightarrow> bool" where
  "wf_section s \<longleftrightarrow>
     (stats s \<noteq> None \<longleftrightarrow> swidget s = Stats) \<and> (keyValues s \<noteq> None \<longleftrightarrow> swidget s = Kv) \<and> (table s \<noteq> None \<longleftrightarrow> swidget s = Table) \<and>
     (logText s \<noteq> None \<longleftrightarrow> swidget s = Log) \<and> (sdiagnostics s \<noteq> None \<longleftrightarrow> swidget s = Diagnostics) \<and>
     (artifact s \<noteq> None \<longleftrightarrow> swidget s = Artifact) \<and> (filesystem s \<noteq> None \<longleftrightarrow> swidget s = Filesystem)"

definition content_section :: "section_def \<Rightarrow> bool" where
  "content_section s \<longleftrightarrow> wf_section s \<and> swidget s \<noteq> Diagnostics"

definition wf_view :: "view_model \<Rightarrow> bool" where
  "wf_view v \<longleftrightarrow>
     sections v \<noteq> [] \<and> list_all content_section (butlast (sections v)) \<and> wf_section (last (sections v)) \<and>
     swidget (last (sections v)) = Diagnostics \<and> sdiagnostics (last (sections v)) = Some (diagnostics v) \<and>
     is_Str (title v) \<and> commandMethod v = sh_method (shell v)"

lemmas section_defs = overview_section_def kv_section_def table_section_def log_section_def artifact_section_def
  diagnostics_section_def blank_section_def

lemma content_sections [simp]:
  "content_section (overview_section st d)" "content_section (kv_section i t kvs su)" "content_section (table_section i t tab su)"
  "content_section (log_section i t txt)" "content_section (artifact_section t a)"
  "content_section ((blank_section i t Filesystem)\<lparr>filesystem := Some fs, emptySummary := su\<rparr>)"
  "content_section s \<Longrightarrow> content_section (s\<lparr>description := d\<rparr>)" "content_section s \<Longrightarrow> content_section (s\<lparr>collapsedByDefault := c\<rparr>)"
  by (simp_all add: content_section_def wf_section_def section_defs)

lemma diagnostics_sections [simp]:
  "wf_section (diagnostics_section ds)" "swidget (diagnostics_section ds) = Diagnostics" "sdiagnostics (diagnostics_section ds) = Some ds"
  "wf_section (s\<lparr>collapsedByDefault := c\<rparr>) = wf_section s"
  by (simp_all add: wf_section_def section_defs)

lemma method_titles: "list_all (\<lambda>p. is_Str (snd p)) methodTitleMap"
  by code_simp

lemma base_model [simp]:
  "title (buildBaseModel row meth t) = t" "commandMethod (buildBaseModel row meth t) = sh_method (shell (buildBaseModel row meth t))"
  by (simp_all add: buildBaseModel_def buildShell_def Let_def)

lemma title_Str: "al_get methodTitleMap k \<noteq> None \<Longrightarrow> is_Str (obj_get methodTitleMap k)"
  using method_titles al_get_Some_in [of methodTitleMap k] by (fastforce simp: obj_get_def list_all_iff)

lemma title_keys: "list_all (\<lambda>k. al_get methodTitleMap k \<noteq> None)
    [''collect_system_info'', ''ping'', ''list_processes'', ''list_services'', ''list_connections'', ''list_mounts'', ''network_info'',
     ''get_active_window'', ''list_files'', ''download_file'', ''screenshot'']"
  by code_simp

lemma titles [simp]:
  "is_Str (obj_get methodTitleMap ''collect_system_info'')" "is_Str (obj_get methodTitleMap ''ping'')"
  "is_Str (obj_get methodTitleMap ''list_processes'')" "is_Str (obj_get methodTitleMap ''list_services'')"
  "is_Str (obj_get methodTitleMap ''list_connections'')" "is_Str (obj_get methodTitleMap ''list_mounts'')"
  "is_Str (obj_get methodTitleMap ''network_info'')" "is_Str (obj_get methodTitleMap ''get_active_window'')"
  "is_Str (obj_get methodTitleMap ''list_files'')" "is_Str (obj_get methodTitleMap ''download_file'')"
  "is_Str (obj_get methodTitleMap ''screenshot'')"
  using title_keys by (simp_all only: list.pred_inject title_Str simp_thms)

lemma builders_wf:
  "wf_view (buildCollectSystemInfo row)" "wf_view (buildPing row)" "wf_view (buildListProcesses row)" "wf_view (buildListServices row)"
  "wf_view (buildListConnections row)" "wf_view (buildListMounts row)" "wf_view (buildNetworkInfo row)" "wf_view (buildActiveWindow row)"
  "wf_view (buildDownloadFile row)" "wf_view (buildScreenshot row)"
  by (simp_all add: wf_view_def Let_def buildCollectSystemInfo_def buildPing_def buildListProcesses_def buildListServices_def
      buildListConnections_def buildListMounts_def buildNetworkInfo_def buildActiveWindow_def buildDownloadFile_def buildScreenshot_def
      inventory_def)

lemma builders_no_fallback:
  "\<not> fallbackUsed (buildCollectSystemInfo row)" "\<not> fallbackUsed (buildPing row)" "\<not> fallbackUsed (buildListProcesses row)"
  "\<not> fallbackUsed (buildListServices row)" "\<not> fallbackUsed (buildListConnections row)" "\<not> fallbackUsed (buildListMounts row)"
  "\<not> fallbackUsed (buildNetworkInfo row)" "\<not> fallbackUsed (buildActiveWindow row)" "\<not> fallbackUsed (buildDownloadFile row)"
  "\<not> fallbackUsed (buildScreenshot row)"
  by (simp_all add: Let_def buildCollectSystemInfo_def buildPing_def buildListProcesses_def buildListServices_def
      buildListConnections_def buildListMounts_def buildNetworkInfo_def buildActiveWindow_def buildDownloadFile_def buildScreenshot_def
      inventory_def buildBaseModel_def)

lemma buildListFiles_wf: "buildListFiles collate row = Inr v \<Longrightarrow> wf_view v \<and> \<not> fallbackUsed v"
  by (auto simp: buildListFiles_def Let_def res_bind_Inr_iff wf_view_def) (simp add: buildBaseModel_def)

lemma generic_sections_content: "list_all content_section (generic_sections row)"
proof -
  have "content_section s" if "generic_section p = Some s" for p s
    using that by (cases "snd p") (auto simp: generic_section_def Let_def split: if_splits)
  then have "list_all content_section (List.map_filter generic_section m)" for m
    by (auto simp: list_all_iff map_filter_def)
  then show ?thesis by (simp add: generic_sections_def Let_def split: js.split option.split)
qed

section \<open>Resolved methods\<close>

abbreviation reserved_names :: "string list" where
  "reserved_names \<equiv> ''__proto__'' # prototype_keys"

lemma inherited_iff: "inherited k = Undefined \<longleftrightarrow> k \<notin> set reserved_names"
  by (auto simp: inherited_def prototype_keys_def)

lemma inherited_not_text: "inherited k \<noteq> Str s" "inherited k \<noteq> Null"
  by (simp_all add: inherited_def)

lemma aliases_plain:
  "list_all (\<lambda>p. case snd p of Str s \<Rightarrow> inherited s = Undefined \<and> inherited (fst p) = Undefined | _ \<Rightarrow> False) LEGACY_METHOD_ALIASES"
  by code_simp

lemma resolved_plain: "resolveCommandMethod m = Str s \<Longrightarrow> inherited s = Undefined"
proof (cases "al_get LEGACY_METHOD_ALIASES m")
  case None
  then show "resolveCommandMethod m = Str s \<Longrightarrow> inherited s = Undefined"
    using inherited_not_text [of m] by (cases "inherited m") (auto simp: resolveCommandMethod_def obj_get_def)
next
  case (Some v)
  then have "case v of Str s \<Rightarrow> inherited s = Undefined | _ \<Rightarrow> False"
    using aliases_plain al_get_Some_in [OF Some] by (fastforce simp: list_all_iff split: js.splits)
  with Some show "resolveCommandMethod m = Str s \<Longrightarrow> inherited s = Undefined"
    by (cases v) (auto simp: resolveCommandMethod_def obj_get_def)
qed

lemma resolved_text_iff: "(\<exists>s. resolveCommandMethod m = Str s) \<longleftrightarrow> m \<notin> set reserved_names"
proof (cases "al_get LEGACY_METHOD_ALIASES m")
  case None
  show ?thesis
    unfolding inherited_iff [symmetric]
    using None inherited_not_text [of m] by (cases "inherited m") (auto simp: resolveCommandMethod_def obj_get_def)
next
  case (Some v)
  then have "case v of Str s \<Rightarrow> inherited m = Undefined | _ \<Rightarrow> False"
    using aliases_plain al_get_Some_in [OF Some] by (fastforce simp: list_all_iff split: js.splits)
  with Some show ?thesis
    unfolding inherited_iff [symmetric] by (cases v) (auto simp: resolveCommandMethod_def obj_get_def)
qed

lemma resolved_other:
  assumes "m \<in> set reserved_names"
  shows "\<exists>k. js_String (resolveCommandMethod m) = Inr k \<and> al_get (renderDefinitions collate) k = None \<and> is_nullish (obj_get methodTitleMap k)"
proof -
  have "list_all (\<lambda>m. case js_String (resolveCommandMethod m) of Inl _ \<Rightarrow> False
      | Inr k \<Rightarrow> k \<notin> set (map fst methodTitleMap) \<and> inherited k = Undefined) reserved_names" by code_simp
  then obtain k where k: "js_String (resolveCommandMethod m) = Inr k" "k \<notin> set (map fst methodTitleMap)" "inherited k = Undefined"
    using assms unfolding list_all_iff by (cases "js_String (resolveCommandMethod m)") (force simp del: set_map)+
  have "al_get (renderDefinitions collate) k = None"
    using k(2) by (auto simp: renderDefinitions_def methodTitleMap_def)
  with k show ?thesis by (simp add: obj_get_def al_get_None_iff [symmetric] del: set_map)
qed

lemma buildGeneric_text:
  assumes "inherited s = Undefined"
  shows "\<exists>v. buildGeneric row (Str s) = Inr v \<and> wf_view v \<and> \<not> fallbackUsed v \<and> diagnostics v = buildDiagnosticsFromRow row"
proof -
  obtain t where t: "generic_title (Str s) = Inr t" "is_Str t"
  proof (cases "al_get methodTitleMap s")
    case None
    then show ?thesis using that assms by (simp add: generic_title_def table_get_def obj_get_def is_Str_def)
  next
    case (Some v)
    then have "is_Str (obj_get methodTitleMap s)" by (intro title_Str) simp
    then show ?thesis using that by (auto simp: generic_title_def table_get_def is_Str_iff)
  qed
  then show ?thesis
    using generic_sections_content [of row] by (auto simp: buildGeneric_def wf_view_def Let_def) (simp_all add: buildBaseModel_def buildShell_def Let_def)
qed

lemma buildGeneric_other:
  assumes "m \<in> set reserved_names"
  shows "buildGeneric row (resolveCommandMethod m) = Inl (NotAFunction ''replace'')"
proof -
  have no: "resolveCommandMethod m \<noteq> Str s" for s using assms resolved_text_iff by blast
  obtain k where k: "js_String (resolveCommandMethod m) = Inr k" "is_nullish (obj_get methodTitleMap k)"
    using resolved_other [OF assms] by blast
  have "(case v of Str s \<Rightarrow> f s | _ \<Rightarrow> e) = e" if "\<And>s. v \<noteq> Str s" for v :: js and f and e :: "js res"
    using that by (cases v) auto
  then have "generic_title (resolveCommandMethod m) = Inl (NotAFunction ''replace'')"
    using k no by (simp add: generic_title_def table_get_def)
  then show ?thesis by (simp add: buildGeneric_def)
qed

lemma unshift_wf: "wf_view v \<Longrightarrow> wf_view (unshift_diagnostics d v)"
  by (auto simp: wf_view_def unshift_diagnostics_def wf_section_def)

section \<open>Properties\<close>

lemma build_cases:
  assumes "al_get (renderDefinitions collate) k = Some build"
  shows "k \<noteq> ''list_files'' \<and> (\<exists>v. build row = Inr v \<and> wf_view v \<and> \<not> fallbackUsed v) \<or> k = ''list_files'' \<and> build = buildListFiles collate"
proof -
  have "list_all (\<lambda>p. fst p \<noteq> ''list_files'' \<and> (\<exists>v. snd p row = Inr v \<and> wf_view v \<and> \<not> fallbackUsed v) \<or>
      fst p = ''list_files'' \<and> snd p = buildListFiles collate) (renderDefinitions collate)"
    by (simp add: renderDefinitions_def builders_wf builders_no_fallback)
  with al_get_Some_in [OF assms] show ?thesis by (simp only: list_all_iff) (drule (1) bspec, simp only: fst_conv snd_conv)
qed

lemma res_map_error: "res_map f xs = Inl e \<Longrightarrow> \<exists>x \<in> set xs. f x = Inl e"
  by (induction xs) (auto simp: res_bind_Inl_iff)

lemma js_String_error: "js_String v = Inl e \<Longrightarrow> e = ToPrimitiveError"
proof (induction v)
  case (Arr xs)
  then have "res_map (\<lambda>v. if is_nullish v then Inr [] else js_String v) xs = Inl e" by (simp add: res_bind_Inl_iff)
  from res_map_error [OF this] Arr.IH show ?case by (auto split: if_splits)
qed (auto split: if_splits)

lemma res_map_Inl_iff: "(\<exists>e. res_map f xs = Inl e) \<longleftrightarrow> (\<exists>x \<in> set xs. \<exists>e. f x = Inl e)"
proof (induction xs)
  case (Cons x xs)
  then show ?case by (cases "f x"; cases "res_map f xs") auto
qed simp

lemma attr_hints_error: "attr_hints v = Inl e \<Longrightarrow> e = ToPrimitiveError"
  by (cases v) (auto simp: attr_hints_def res_bind_Inl_iff dest!: js_String_error res_map_error)

text \<open>The rows of a listing whose attributes cannot be printed.\<close>

definition unreadable :: "command_result \<Rightarrow> bool" where
  "unreadable row \<longleftrightarrow> (\<exists>r \<in> set (rows_at ''entries'' (extractStructuredData row)). \<exists>e. attr_hints (obj_get r ''attributes'') = Inl e)"

lemma buildListFiles_fails: "(\<exists>e. buildListFiles collate row = Inl e) \<longleftrightarrow> unreadable row"
proof -
  let ?rs = "rows_at ''entries'' (extractStructuredData row)"
  have rs: "normalizeFileEntriesArray (Obj (object_or_empty (extractStructuredData row))) = ?rs"
  proof (cases "extractStructuredData row")
    case (Obj m)
    then show ?thesis by (simp add: normalizeFileEntriesArray_def rows_or_at_def object_or_empty_def)
  qed (simp_all add: normalizeFileEntriesArray_def rows_or_at_def rows_at_def object_or_empty_def obj_get_def inherited_def prototype_keys_def)
  have entry: "(\<exists>e. filesystem_entry r = Inl e) \<longleftrightarrow> (\<exists>e. attr_hints (obj_get r ''attributes'') = Inl e)" for r
    by (cases "attr_hints (obj_get r ''attributes'')") (simp_all add: filesystem_entry_def Let_def)
  have "(\<exists>e. buildListFiles collate row = Inl e) \<longleftrightarrow> (\<exists>e. res_map filesystem_entry ?rs = Inl e)"
    by (cases "res_map filesystem_entry ?rs") (simp_all add: buildListFiles_def listing_def normalizeFilesystemEntries_def Let_def rs)
  then show ?thesis by (simp add: res_map_Inl_iff entry unreadable_def)
qed

lemma buildListFiles_error: "buildListFiles collate row = Inl e \<Longrightarrow> e = ToPrimitiveError"
  by (auto simp: buildListFiles_def listing_def normalizeFilesystemEntries_def filesystem_entry_def Let_def res_bind_Inl_iff
      dest!: attr_hints_error res_map_error)

lemma render_text:
  assumes "resolveCommandMethod (or_text meth (cmethod row)) = Str k"
  shows "\<exists>v. renderResult collate message meth row = Inr v \<and> wf_view v \<and>
     (fallbackUsed v \<longleftrightarrow> k = ''list_files'' \<and> unreadable row) \<and>
     (fallbackUsed v \<longrightarrow> diagnostics v = warning ''renderer_fallback'' (message ToPrimitiveError) # buildDiagnosticsFromRow row)"
proof -
  have render: "renderResult collate message meth row =
      (case (case al_get (renderDefinitions collate) k of Some build \<Rightarrow> build row | None \<Rightarrow> buildGeneric row (Str k)) of
        Inr m \<Rightarrow> Inr m | Inl e \<Rightarrow> safeFallback message row (Str k) e)"
    by (simp add: renderResult_def assms Let_def)
  obtain g where g: "buildGeneric row (Str k) = Inr g" "wf_view g" "\<not> fallbackUsed g" "diagnostics g = buildDiagnosticsFromRow row"
    using buildGeneric_text [OF resolved_plain [OF assms]] by blast
  have files: "al_get (renderDefinitions collate) ''list_files'' = Some (buildListFiles collate)" by (simp add: renderDefinitions_def)
  show ?thesis
  proof (cases "k = ''list_files'' \<and> unreadable row")
    case True
    then obtain e where e: "buildListFiles collate row = Inl e" using buildListFiles_fails by blast
    have "wf_view (unshift_diagnostics d (g\<lparr>fallbackUsed := True\<rparr>))" for d
      using g(2) by (intro unshift_wf) (simp add: wf_view_def)
    then show ?thesis
      using True e buildListFiles_error [OF e] g by (simp add: render files safeFallback_def unshift_diagnostics_def)
  next
    case False
    have "\<exists>v. (case al_get (renderDefinitions collate) k of Some build \<Rightarrow> build row | None \<Rightarrow> buildGeneric row (Str k)) = Inr v \<and>
        wf_view v \<and> \<not> fallbackUsed v"
    proof (cases "al_get (renderDefinitions collate) k")
      case None
      with g show ?thesis by simp
    next
      case (Some build)
      from build_cases [OF Some, of row] show ?thesis
      proof
        assume "k = ''list_files'' \<and> build = buildListFiles collate"
        moreover obtain v where "buildListFiles collate row = Inr v"
          using False calculation buildListFiles_fails [of collate row] by (cases "buildListFiles collate row") auto
        ultimately show ?thesis using Some buildListFiles_wf by auto
      qed (use Some in auto)
    qed
    with False show ?thesis by (elim exE conjE) (simp add: render)
  qed
qed

lemma render_reserved:
  assumes "or_text meth (cmethod row) \<in> set reserved_names"
  shows "renderResult collate message meth row = Inl (NotAFunction ''replace'')"
proof -
  obtain k where "js_String (resolveCommandMethod (or_text meth (cmethod row))) = Inr k" "al_get (renderDefinitions collate) k = None"
    using resolved_other [OF assms] by blast
  then show ?thesis
    unfolding renderResult_def Let_def by (simp add: safeFallback_def buildGeneric_other [OF assms])
qed

lemma render_spec:
  assumes "renderResult collate message meth row = Inr v"
  shows "\<exists>k. resolveCommandMethod (or_text meth (cmethod row)) = Str k \<and> wf_view v \<and>
     (fallbackUsed v \<longleftrightarrow> k = ''list_files'' \<and> unreadable row) \<and>
     (fallbackUsed v \<longrightarrow> diagnostics v = warning ''renderer_fallback'' (message ToPrimitiveError) # buildDiagnosticsFromRow row)"
proof -
  have "or_text meth (cmethod row) \<notin> set reserved_names" using assms render_reserved [of meth row collate message] by auto
  then obtain k where k: "resolveCommandMethod (or_text meth (cmethod row)) = Str k" using resolved_text_iff by blast
  obtain v' where v': "renderResult collate message meth row = Inr v'" and spec: "wf_view v' \<and>
     (fallbackUsed v' \<longleftrightarrow> k = ''list_files'' \<and> unreadable row) \<and>
     (fallbackUsed v' \<longrightarrow> diagnostics v' = warning ''renderer_fallback'' (message ToPrimitiveError) # buildDiagnosticsFromRow row)"
    using render_text [OF k, of collate message] by (elim exE conjE) (rule that, assumption, intro conjI)
  have "v = v'" using v' assms by simp
  with k spec show ?thesis by (intro exI [of _ k] conjI) simp_all
qed

text \<open>
  C5: the renderer produces a view for every row and every method, whatever the data of the result is, except when the method is
  named like a member of \<^verbatim>\<open>Object.prototype\<close>: then the lookup of its alias finds that member and the page fails.
\<close>

theorem render_total:
  "(\<exists>v. renderResult collate message meth row = Inr v) \<longleftrightarrow> or_text meth (cmethod row) \<notin> set (''__proto__'' # prototype_keys)"
proof (cases "or_text meth (cmethod row) \<in> set reserved_names")
  case True
  with render_reserved [OF True, of collate message] show ?thesis by simp
next
  case False
  then obtain k where "resolveCommandMethod (or_text meth (cmethod row)) = Str k" using resolved_text_iff by blast
  from render_text [OF this, of collate message] False show ?thesis by blast
qed

text \<open>
  C22: every view has a text as title, and sections that each carry exactly the content of their widget; the last section, and only
  that one, shows the diagnostics of the view.
\<close>

theorem render_wf:
  assumes "renderResult collate message meth row = Inr v"
  shows "wf_view v"
  using render_spec [OF assms] by (elim exE conjE)

definition demo_command :: "string \<Rightarrow> obj \<Rightarrow> command_result" where
  "demo_command meth data =
     \<lparr>rowId = ''c1'', commandId = ''c1'', deviceId = ''d1'', deviceName = ''d1'', cmethod = meth, params = Obj [], cstate = Completed,
      executionState = None, queuedAt = Null, dispatchedAt = Null, completedAt = Null, traceId = None, actorEmail = ''Unknown'',
      originChannel = UnknownChannel, originSessionId = None, originMobileDeviceId = None, result = Some [(''data'', Obj data)],
      resultStatus = None, resultNotes = None, artifactUrl = None, artifactChecksum = None, cerrorCode = None, errorMessage = None,
      reason = None\<rparr>"

theorem render_wf_witness:
  "\<exists>v. renderResult base_collate (\<lambda>_. []) ''process-list'' (demo_command [] []) = Inr v \<and> wf_view v"
proof -
  have "list_all (\<lambda>m. m \<noteq> ''process-list'') reserved_names" by code_simp
  then have "''process-list'' \<notin> set reserved_names" by (simp only: list_all_iff) blast
  then obtain k where "resolveCommandMethod (or_text ''process-list'' (cmethod (demo_command [] []))) = Str k"
    using resolved_text_iff [of "''process-list''"] by (auto simp: or_text_def)
  from render_text [OF this] obtain v where v: "renderResult base_collate (\<lambda>_. []) ''process-list'' (demo_command [] []) = Inr v" by blast
  with render_wf [OF v] show ?thesis by blast
qed

text \<open>
  A file listing falls back to the generic view exactly when an attribute of an entry has no text, and no other method ever
  falls back; the fallback view reports the failure first and keeps the diagnostics of the row.
\<close>

theorem fallback_exact:
  assumes "resolveCommandMethod (or_text meth (cmethod row)) = Str k" "renderResult collate message meth row = Inr v"
  shows "(fallbackUsed v \<longleftrightarrow> k = ''list_files'' \<and> unreadable row) \<and>
     (fallbackUsed v \<longrightarrow> diagnostics v = warning ''renderer_fallback'' (message ToPrimitiveError) # buildDiagnosticsFromRow row)"
  using render_spec [OF assms(2)] by (elim exE conjE) (simp add: assms(1))

theorem fallback_exact_witness:
  "\<exists>v. renderResult base_collate (\<lambda>_. []) ''filesystem''
      (demo_command [] [(''entries'', Arr [Obj [(''attributes'', Arr [Obj [(''toString'', Null)]])]])]) = Inr v \<and> fallbackUsed v"
proof -
  let ?row = "demo_command [] [(''entries'', Arr [Obj [(''attributes'', Arr [Obj [(''toString'', Null)]])]])]"
  have r: "resolveCommandMethod (or_text ''filesystem'' (cmethod ?row)) = Str ''list_files''" by code_simp
  have "list_ex (\<lambda>r. attr_hints (obj_get r ''attributes'') = Inl ToPrimitiveError) (rows_at ''entries'' (extractStructuredData ?row))"
    by code_simp
  then have "unreadable ?row" by (auto simp: unreadable_def list_ex_iff)
  moreover obtain v where v: "renderResult base_collate (\<lambda>_. []) ''filesystem'' ?row = Inr v"
    using render_text [OF r, of base_collate "\<lambda>_. []"] by blast
  ultimately show ?thesis using fallback_exact [OF r v] by blast
qed

end
