(* ===== verification/Explorer.thy ===== *)
theory Explorer
  imports ResultBuilders
begin

text \<open>
  \<^verbatim>\<open>src/components/results/CommandResultPresentation.tsx\<close>: the file explorer. Its React state and refs are one record, every event
  handler a function on it; what a handler does before and after it waits for the network are two steps. The replies, the clock and the
  collations of the platform are parameters; \<open>message e\<close> is the text of an error the platform throws.
\<close>

section \<open>Paths and sizes\<close>

definition normalizeExplorerPath :: "string \<Rightarrow> string" where
  "normalizeExplorerPath value =
     (let raw = trim value in
      if raw = [] then ''/''
      else or_text (strip_trailing CHR ''/'' (collapse separator CHR ''/'' raw)) ''/'')"

definition explorerParentPath :: "string \<Rightarrow> string option" where
  "explorerParentPath path =
     (let normalized = normalizeExplorerPath path; parts = path_parts normalized in
      if normalized = ''/'' \<or> length parts \<le> 1 then None else Some (join ''/'' (butlast parts)))"

definition formatBytes :: "jsnum option \<Rightarrow> string" where
  "formatBytes v =
     (case v of
        None \<Rightarrow> ''-''
      | Some n \<Rightarrow>
          if \<not> num_is_finite n then ''-''
          else if num_lt n (Fin 1024) then number_to_string n @ '' B''
          else if num_lt n (Fin (1024 * 1024)) then to_fixed 1 (num_scale n (1 / 1024)) @ '' KB''
          else if num_lt n (Fin (1024 * 1024 * 1024)) then to_fixed 1 (num_scale n (1 / (1024 * 1024))) @ '' MB''
          else to_fixed 2 (num_scale n (1 / (1024 * 1024 * 1024))) @ '' GB'')"

definition toWindowsPath :: "string \<Rightarrow> string" where
  "toWindowsPath path =
     (let normalized = normalizeExplorerPath path in
      if normalized = ''/'' then [CHR 0x5C] else map (\<lambda>c. if c = CHR ''/'' then CHR 0x5C else c) normalized)"

definition normalizeExplorerEntry :: "fs_entry \<Rightarrow> fs_entry" where
  "normalizeExplorerEntry e =
     e\<lparr>epath := normalizeExplorerPath (epath e),
       parentPath := (case parentPath e of
          None \<Rightarrow> explorerParentPath (epath e)
        | Some p \<Rightarrow> if p = [] then explorerParentPath (epath e) else Some (normalizeExplorerPath p))\<rparr>"

definition normalizeExplorerEntries :: "fs_entry list \<Rightarrow> fs_entry list" where
  "normalizeExplorerEntries es = filter (\<lambda>e. epath e \<noteq> ''/'') (map normalizeExplorerEntry es)"

section \<open>The state\<close>

datatype sort_key = ByName | ByModifiedAt | BySize | ByType

record explorer =
  xentries :: "fs_entry list"
  currentPath :: string
  selectedPath :: "string option"
  backStack :: "string list"
  forwardStack :: "string list"
  search :: string
  sortBy :: sort_key
  ascending :: bool
  showHidden :: bool
  showSystem :: bool
  gridView :: bool
  expandedPaths :: "string list"
  hydratingPath :: "string option"
  hydrationError :: "string option"
  hydratedPaths :: "string list"
  attemptedPaths :: "string list"

text \<open>The gates every explorer of the page shares: the time of the last attempt by key, and the blocked keys.\<close>

record lazy_gate =
  lazyAttemptGate :: "(string \<times> int) list"
  lazyBlockedPaths :: "string list"

definition users_candidate :: "string \<Rightarrow> fs_entry list \<Rightarrow> string" where
  "users_candidate base es =
     (case find (\<lambda>e. to_lower (epath e) = to_lower (base @ ''/Users'')) es of Some e \<Rightarrow> epath e | None \<Rightarrow> base)"

definition materialized :: "fs_entry list \<Rightarrow> string list" where
  "materialized es =
     fold (\<lambda>e. case parentPath e of None \<Rightarrow> id | Some p \<Rightarrow> if p = [] then id else set_add (normalizeExplorerPath p)) es []"

definition boot :: "string \<Rightarrow> fs_entry list \<Rightarrow> explorer \<Rightarrow> explorer" where
  "boot base es s =
     (let users = users_candidate base es in
      s\<lparr>xentries := es, currentPath := users, selectedPath := None, backStack := (if users \<noteq> base then [base] else []),
        forwardStack := [], expandedPaths := set_add users [base], hydratingPath := None, hydrationError := None,
        hydratedPaths := materialized es, attemptedPaths := materialized es\<rparr>)"

definition start :: "string \<Rightarrow> fs_entry list \<Rightarrow> explorer" where
  "start base es = boot base es
     \<lparr>xentries = es, currentPath = base, selectedPath = None, backStack = [], forwardStack = [], search = [], sortBy = ByName,
      ascending = True, showHidden = False, showSystem = False, gridView = False, expandedPaths = [], hydratingPath = None,
      hydrationError = None, hydratedPaths = [], attemptedPaths = []\<rparr>"

section \<open>What is shown\<close>

definition parent_key :: "string \<Rightarrow> fs_entry \<Rightarrow> string" where
  "parent_key base e = normalizeExplorerPath (or_given (parentPath e) base)"

definition childrenByParent :: "string \<Rightarrow> fs_entry list \<Rightarrow> (string \<times> fs_entry list) list" where
  "childrenByParent base es =
     fold (\<lambda>e m. let k = parent_key base e in al_set k (or_given (al_get m k) [] @ [e]) m) es []"

definition children_of :: "string \<Rightarrow> explorer \<Rightarrow> string \<Rightarrow> fs_entry list" where
  "children_of base s path = or_given (al_get (childrenByParent base (xentries s)) path) []"

definition isDirectoryLike :: "string \<Rightarrow> explorer \<Rightarrow> fs_entry \<Rightarrow> bool" where
  "isDirectoryLike base s e \<longleftrightarrow> etype e = Directory \<or> al_get (childrenByParent base (xentries s)) (epath e) \<noteq> None"

definition entry_shown :: "explorer \<Rightarrow> fs_entry \<Rightarrow> bool" where
  "entry_shown s e \<longleftrightarrow> (showHidden s \<or> \<not> isHidden e) \<and> (showSystem s \<or> \<not> isSystem e)"

fun type_string :: "entry_type \<Rightarrow> string" where
  "type_string Directory = ''directory''"
| "type_string File = ''file''"
| "type_string Other = ''other''"

text \<open>\<^verbatim>\<open>(a.size ?? -1) - (b.size ?? -1)\<close>, by its sign.\<close>

definition size_cmp :: "fs_entry \<Rightarrow> fs_entry \<Rightarrow> int" where
  "size_cmp a b =
     (let x = or_given (esize a) (Fin (- 1)); y = or_given (esize b) (Fin (- 1)) in if num_lt x y then - 1 else if num_lt y x then 1 else 0)"

definition child_cmp :: "(string \<Rightarrow> string \<Rightarrow> int) \<Rightarrow> (string \<Rightarrow> string \<Rightarrow> int) \<Rightarrow> string \<Rightarrow> explorer \<Rightarrow> fs_entry \<Rightarrow> fs_entry \<Rightarrow> int" where
  "child_cmp collate plain base s a b =
     (let da = isDirectoryLike base s a; db = isDirectoryLike base s b in
      if da \<noteq> db then (if da then - 1 else 1)
      else
        let cmp = (case sortBy s of
            ByName \<Rightarrow> collate (ename a) (ename b)
          | ByType \<Rightarrow> collate (or_given (extension a) (type_string (etype a))) (or_given (extension b) (type_string (etype b)))
          | BySize \<Rightarrow> size_cmp a b
          | ByModifiedAt \<Rightarrow> plain (or_given (modifiedAt a) []) (or_given (modifiedAt b) []))
        in if ascending s then cmp else - cmp)"

definition matches_search :: "explorer \<Rightarrow> fs_entry \<Rightarrow> bool" where
  "matches_search s e \<longleftrightarrow>
     (let lowered = to_lower (trim (search s)) in
      lowered = [] \<or> str_includes (to_lower (ename e)) lowered \<or> str_includes (to_lower (epath e)) lowered \<or>
      str_includes (to_lower (or_given (extension e) [])) lowered)"

definition visibleCurrentChildren :: "(string \<Rightarrow> string \<Rightarrow> int) \<Rightarrow> (string \<Rightarrow> string \<Rightarrow> int) \<Rightarrow> string \<Rightarrow> explorer \<Rightarrow> fs_entry list" where
  "visibleCurrentChildren collate plain base s =
     js_sort (child_cmp collate plain base s)
       (filter (\<lambda>e. entry_shown s e \<and> matches_search s e) (children_of base s (normalizeExplorerPath (currentPath s))))"

definition breadcrumbs :: "explorer \<Rightarrow> string list" where
  "breadcrumbs s =
     (let normalized = normalizeExplorerPath (currentPath s); parts = path_parts normalized in
      if normalized = ''/'' then [''/''] else map (\<lambda>i. join ''/'' (take (i + 1) parts)) [0..<length parts])"

definition selectedEntry :: "explorer \<Rightarrow> fs_entry option" where
  "selectedEntry s = (case selectedPath s of None \<Rightarrow> None
     | Some p \<Rightarrow> if p = [] then None else find (\<lambda>e. epath e = p) (xentries s))"

datatype tree = Node string "tree list"

text \<open>\<open>those\<close> is the list of the values when all are there.\<close>

definition tree_children :: "string \<Rightarrow> explorer \<Rightarrow> string \<Rightarrow> fs_entry list" where
  "tree_children base s path = filter (entry_shown s) (filter (isDirectoryLike base s) (children_of base s path))"

fun renderTree :: "nat \<Rightarrow> string \<Rightarrow> explorer \<Rightarrow> string \<Rightarrow> tree option" where
  "renderTree 0 base s path = None"
| "renderTree (Suc n) base s path =
     (if path \<in> set (expandedPaths s)
      then map_option (Node path) (those (map (\<lambda>e. renderTree n base s (epath e)) (tree_children base s path)))
      else Some (Node path []))"

section \<open>Navigation\<close>

definition navigateTo :: "string \<Rightarrow> explorer \<Rightarrow> explorer" where
  "navigateTo nextPath s =
     (let normalized = normalizeExplorerPath nextPath in
      if normalized = currentPath s then s
      else s\<lparr>backStack := backStack s @ [currentPath s], forwardStack := [], currentPath := normalized, selectedPath := None,
             expandedPaths := set_add normalized (expandedPaths s)\<rparr>)"

definition goBack :: "explorer \<Rightarrow> explorer" where
  "goBack s =
     (if backStack s = [] then s
      else s\<lparr>backStack := butlast (backStack s), forwardStack := forwardStack s @ [currentPath s],
             currentPath := last (backStack s), selectedPath := None\<rparr>)"

definition goForward :: "explorer \<Rightarrow> explorer" where
  "goForward s =
     (if forwardStack s = [] then s
      else s\<lparr>forwardStack := butlast (forwardStack s), backStack := backStack s @ [currentPath s],
             currentPath := last (forwardStack s), selectedPath := None\<rparr>)"

definition goUp :: "explorer \<Rightarrow> explorer" where
  "goUp s = (case explorerParentPath (currentPath s) of None \<Rightarrow> s | Some p \<Rightarrow> if p = [] then s else navigateTo p s)"

definition toggleExpanded :: "string \<Rightarrow> explorer \<Rightarrow> explorer" where
  "toggleExpanded path s =
     s\<lparr>expandedPaths := (if path \<in> set (expandedPaths s) then filter (\<lambda>p. p \<noteq> path) (expandedPaths s) else expandedPaths s @ [path])\<rparr>"

fun next_sort :: "sort_key \<Rightarrow> sort_key" where
  "next_sort ByName = ByModifiedAt"
| "next_sort ByModifiedAt = BySize"
| "next_sort BySize = ByType"
| "next_sort ByType = ByName"

text \<open>The payloads the explorer copies: to download the selected file, and to browse a folder.\<close>

definition browse_params :: "string \<Rightarrow> js" where
  "browse_params path = Obj [(''path'', Str path), (''recursive'', Bool False), (''max_depth'', Num (Fin 1)), (''limit'', Num (Fin 200)),
     (''include_hidden'', Bool False), (''include_system'', Bool False), (''follow_symlinks'', Bool False)]"

definition copyDownloadPayload :: "explorer \<Rightarrow> string option" where
  "copyDownloadPayload s =
     (case selectedEntry s of None \<Rightarrow> None
      | Some e \<Rightarrow> (case downloadMethod e of None \<Rightarrow> None
          | Some m \<Rightarrow> if \<not> downloadable e \<or> m = [] then None
              else stringify ''  '' (Obj [(''method'', Str m), (''params'', Obj [(''path'', Str (epath e))])])))"

definition copyBrowsePayload :: "string \<Rightarrow> string option" where
  "copyBrowsePayload path = stringify ''  '' (Obj [(''method'', Str ''list_files''), (''params'', browse_params path)])"

section \<open>Loading a folder\<close>

definition attempt_key :: "string \<Rightarrow> string \<Rightarrow> string" where
  "attempt_key device path = device @ '':'' @ path"

definition dispatch_body :: "string \<Rightarrow> string \<Rightarrow> string \<Rightarrow> js" where
  "dispatch_body uuid device path =
     Obj [(''client_message_id'', Str uuid), (''device_id'', Str device), (''method'', Str ''list_files''),
       (''params'', browse_params (toWindowsPath path)), (''sensitive'', Bool False)]"

text \<open>
  \<^verbatim>\<open>hydratePath\<close> up to the first request: the guards, then the marks and the request that is sent. \<open>listing_partial\<close> is
  \<^verbatim>\<open>filesystem.partial\<close>.
\<close>

definition hydrate_start ::
  "bool \<Rightarrow> string \<Rightarrow> string \<Rightarrow> int \<Rightarrow> bool \<Rightarrow> string \<Rightarrow> explorer \<Rightarrow> lazy_gate \<Rightarrow> explorer \<times> lazy_gate \<times> js option" where
  "hydrate_start listing_partial device uuid now force path s g =
     (let p = normalizeExplorerPath path; k = attempt_key device p;
          g1 = (if force then g\<lparr>lazyBlockedPaths := filter (\<lambda>b. b \<noteq> k) (lazyBlockedPaths g)\<rparr> else g);
          recent = (case al_get (lazyAttemptGate g1) k of None \<Rightarrow> False | Some t \<Rightarrow> now - t < 300000)
      in if \<not> listing_partial \<or> hydratingPath s = Some p \<or>
           \<not> force \<and> (k \<in> set (lazyBlockedPaths g1) \<or> p \<in> set (attemptedPaths s) \<or> recent) \<or> p \<in> set (hydratedPaths s)
         then (s, g1, None)
         else (s\<lparr>attemptedPaths := set_add p (attemptedPaths s), hydratingPath := Some p, hydrationError := None\<rparr>,
               g1\<lparr>lazyAttemptGate := al_set k now (lazyAttemptGate g1)\<rparr>, Some (dispatch_body uuid device p)))"

text \<open>A reply of \<^verbatim>\<open>fetch\<close>: the connection failed, or a status that is ok or not and the text of the body.\<close>

datatype reply = NoReply | Reply bool string

text \<open>The body as JSON; \<open>parse_message\<close> is the text of the error a body that is no JSON throws.\<close>

definition command_id_of :: "(js_error \<Rightarrow> string) \<Rightarrow> string \<Rightarrow> reply \<Rightarrow> string + string" where
  "command_id_of message parse_message r =
     (case r of
        NoReply \<Rightarrow> Inl (message FetchRejected)
      | Reply ok body \<Rightarrow>
          if \<not> ok then Inl (or_text (trim body) ''Failed to dispatch lazy folder browse command.'')
          else (case json_parse body of
              None \<Rightarrow> Inl parse_message
            | Some v \<Rightarrow> (case res_bind (js_member v ''command_id'') (\<lambda>c. js_String (coalesce c (Str []))) of
                Inl e \<Rightarrow> Inl (message e)
              | Inr c \<Rightarrow> if trim c = [] then Inl ''Missing command_id from lazy browse dispatch response.'' else Inr (trim c))))"

definition finished_state :: "string \<Rightarrow> bool" where
  "finished_state st \<longleftrightarrow> to_lower (trim st) \<in> {''completed'', ''failed'', ''expired'', ''rejected''}"

text \<open>
  The polling loop: \<open>clock i\<close> is what \<^verbatim>\<open>Date.now()\<close> reads at the \<open>i\<close>-th test, \<open>replies i\<close> the \<open>i\<close>-th reply; \<open>None\<close> means that
  the loop is still running after \<open>n\<close> rounds.
\<close>

fun poll :: "(js_error \<Rightarrow> string) \<Rightarrow> string \<Rightarrow> (nat \<Rightarrow> int) \<Rightarrow> (nat \<Rightarrow> reply) \<Rightarrow> int \<Rightarrow> nat \<Rightarrow> nat \<Rightarrow> js option \<Rightarrow> (string + js option) option" where
  "poll message parse_message clock replies startedAt 0 i detail = None"
| "poll message parse_message clock replies startedAt (Suc n) i detail =
     (if clock i - startedAt < 90000
      then (case replies i of
          NoReply \<Rightarrow> Some (Inl (message FetchRejected))
        | Reply ok body \<Rightarrow>
            if \<not> ok then Some (Inl (or_text (trim body) ''Failed to load lazy browse command status.''))
            else (case json_parse body of
                None \<Rightarrow> Some (Inl parse_message)
              | Some v \<Rightarrow> (case res_bind (js_member v ''state'') (\<lambda>c. js_String (coalesce c (Str []))) of
                  Inl e \<Rightarrow> Some (Inl (message e))
                | Inr st \<Rightarrow> if finished_state st then Some (Inr (Some v))
                    else poll message parse_message clock replies startedAt n (i + 1) (Some v))))
      else Some (Inr detail))"

text \<open>The listing in the detail, merged into the row of the explorer.\<close>

definition lazy_listing ::
  "(string \<Rightarrow> string option) \<Rightarrow> (string \<Rightarrow> string \<Rightarrow> int) \<Rightarrow> (js_error \<Rightarrow> string) \<Rightarrow> command_result \<Rightarrow> js option \<Rightarrow> string + fs_entry list" where
  "lazy_listing url_pathname collate message baseRow detail =
     (case detail of
        None \<Rightarrow> Inl ''Lazy browse command returned no detail payload.''
      | Some d \<Rightarrow>
          (case res_bind (mergeCommandDetail url_pathname baseRow d) (\<lambda>merged. renderResult collate message ''list_files'' merged) of
             Inl e \<Rightarrow> Inl (message e)
           | Inr vm \<Rightarrow> (case find (\<lambda>sec. swidget sec = Filesystem) (sections vm) of
               None \<Rightarrow> Inl ''Lazy browse command did not return filesystem data.''
             | Some sec \<Rightarrow> (case filesystem sec of
                 None \<Rightarrow> Inl ''Lazy browse command did not return filesystem data.''
               | Some fs \<Rightarrow> Inr (normalizeExplorerEntries (entries fs))))))"

definition put_entry :: "fs_entry \<Rightarrow> (string \<times> fs_entry) list \<Rightarrow> (string \<times> fs_entry) list" where
  "put_entry e m = al_set (epath e) e m"

definition merge_entries :: "fs_entry list \<Rightarrow> fs_entry list \<Rightarrow> fs_entry list" where
  "merge_entries prev incoming = map snd (fold put_entry incoming (fold put_entry prev []))"

text \<open>\<^verbatim>\<open>hydratePath\<close> after the last reply: the entries are merged, or the error is shown and the key may be blocked.\<close>

definition hydrate_finish :: "string \<Rightarrow> string \<Rightarrow> string + fs_entry list \<Rightarrow> explorer \<Rightarrow> lazy_gate \<Rightarrow> explorer \<times> lazy_gate" where
  "hydrate_finish device path outcome s g =
     (let p = normalizeExplorerPath path; idle = (if hydratingPath s = Some p then None else hydratingPath s) in
      case outcome of
        Inr incoming \<Rightarrow>
          (s\<lparr>xentries := merge_entries (xentries s) incoming, hydratingPath := idle,
             hydratedPaths := set_add p (fold set_add (materialized incoming) (hydratedPaths s))\<rparr>, g)
      | Inl msg \<Rightarrow>
          (s\<lparr>hydrationError := Some msg, hydratingPath := idle\<rparr>,
           if str_includes (to_lower msg) ''invalid_params'' \<or> str_includes (to_lower msg) ''limit field must not be greater than 1000''
           then g\<lparr>lazyBlockedPaths := set_add (attempt_key device p) (lazyBlockedPaths g)\<rparr> else g))"

text \<open>The effect that loads the current folder when it has no entries.\<close>

definition auto_hydrates :: "bool \<Rightarrow> bool \<Rightarrow> string \<Rightarrow> explorer \<Rightarrow> bool" where
  "auto_hydrates autoHydrate listing_partial base s \<longleftrightarrow>
     autoHydrate \<and> listing_partial \<and> children_of base s (normalizeExplorerPath (currentPath s)) = [] \<and>
     normalizeExplorerPath (currentPath s) \<notin> set (hydratedPaths s)"

section \<open>Parts of a path\<close>

text \<open>The number of maximal runs of characters that are no separators; \<open>b\<close> says that a new run may start.\<close>

fun runs :: "(char \<Rightarrow> bool) \<Rightarrow> bool \<Rightarrow> string \<Rightarrow> nat" where
  "runs P b [] = 0"
| "runs P b (c # s) = (if P c then runs P True s else (if b then 1 else 0) + runs P False s)"

lemma runs_False_le: "runs P False s \<le> runs P True s" "runs P True s \<le> Suc (runs P False s)"
  by (cases s; simp)+

lemma runs_append: "runs P b s \<le> runs P b (s @ t)"
  by (induction s arbitrary: b) auto

lemma runs_drop: "runs P True (dropWhile Q s) \<le> runs P True s"
proof (induction s)
  case (Cons c s)
  then show ?case using runs_False_le(2) [of P s] by auto
qed simp

lemma runs_trim: "runs P True (trim s) \<le> runs P True s"
proof -
  let ?u = "dropWhile is_ws s"
  have "?u = rev (dropWhile is_ws (rev ?u)) @ rev (takeWhile is_ws (rev ?u))"
    by (metis rev_append rev_rev_ident takeWhile_dropWhile_id)
  then have "runs P True (trim s) \<le> runs P True ?u" unfolding trim_def by (metis runs_append)
  then show ?thesis using runs_drop le_trans by blast
qed

lemma runs_strip: "runs P b (strip_trailing c s) \<le> runs P b s"
proof -
  have "s = strip_trailing c s @ rev (takeWhile (\<lambda>x. x = c) (rev s))"
    unfolding strip_trailing_def by (metis rev_append rev_rev_ident takeWhile_dropWhile_id)
  then show ?thesis by (metis runs_append)
qed

lemma runs_collapse: "runs (\<lambda>c. c = CHR ''/'') b (collapse separator CHR ''/'' s) \<le> runs separator b s"
proof (induction s arbitrary: b)
  case (Cons c s)
  show ?case
  proof (cases "separator c")
    case False
    with Cons.IH [of False] show ?thesis by (auto simp: separator_def)
  next
    case True
    then have "collapse separator CHR ''/'' (c # s) \<in> {CHR ''/'' # collapse separator CHR ''/'' s, collapse separator CHR ''/'' s}"
      by (cases s) simp_all
    then have "runs (\<lambda>c. c = CHR ''/'') b (collapse separator CHR ''/'' (c # s)) \<le> runs (\<lambda>c. c = CHR ''/'') True (collapse separator CHR ''/'' s)"
      using runs_False_le(1) by (cases b) auto
    also have "\<dots> \<le> runs separator True s" by (rule Cons.IH)
    finally show ?thesis using True by simp
  qed
qed simp

lemma parts_runs: "length (path_parts p) = runs (\<lambda>c. c = CHR ''/'') True p"
proof -
  have "length (filter (\<lambda>s. s \<noteq> []) (split_on CHR ''/'' p)) = runs (\<lambda>c. c = CHR ''/'') True p \<and>
      length (filter (\<lambda>s. s \<noteq> []) (tl (split_on CHR ''/'' p))) = runs (\<lambda>c. c = CHR ''/'') False p"
  proof (induction p)
    case (Cons c p)
    then show ?case by (cases "split_on CHR ''/'' p") auto
  qed simp
  then show ?thesis by (simp add: path_parts_def)
qed

lemma normalized_parts: "length (path_parts (normalizeExplorerPath s)) \<le> runs separator True s"
proof -
  have "runs (\<lambda>c. c = CHR ''/'') True (strip_trailing CHR ''/'' (collapse separator CHR ''/'' (trim s))) \<le> runs separator True s"
    by (rule order_trans [OF runs_strip order_trans [OF runs_collapse runs_trim]])
  then show ?thesis by (simp add: parts_runs normalizeExplorerPath_def Let_def or_text_def)
qed

lemma collapse_no_backslash: "CHR 0x5C \<notin> set (collapse separator CHR ''/'' s)"
  by (induction s) (auto simp: separator_def split: list.split)

lemma split_on_chars: "w \<in> set (split_on c s) \<Longrightarrow> set w \<subseteq> set s - {c}"
proof (induction s arbitrary: w)
  case (Cons x s)
  show ?case
  proof (cases "split_on c s")
    case Nil
    with Cons.prems show ?thesis by (auto split: if_splits)
  next
    case (Cons v vs)
    with Cons.prems Cons.IH show ?thesis by (fastforce split: if_splits)
  qed
qed simp

lemma normalized_part: "w \<in> set (path_parts (normalizeExplorerPath p)) \<Longrightarrow> w \<noteq> [] \<and> list_all (\<lambda>c. \<not> separator c) w"
proof -
  assume w: "w \<in> set (path_parts (normalizeExplorerPath p))"
  have "set (strip_trailing CHR ''/'' s) \<subseteq> set s" for s by (auto simp: strip_trailing_def dest: set_dropWhileD)
  then have "CHR 0x5C \<notin> set (normalizeExplorerPath p)"
    using collapse_no_backslash by (auto simp: normalizeExplorerPath_def Let_def or_text_def)
  then show ?thesis using w split_on_chars [of w "CHR ''/''" "normalizeExplorerPath p"]
    by (auto simp: path_parts_def list_all_iff separator_def)
qed

lemma runs_part: "w \<noteq> [] \<Longrightarrow> list_all (\<lambda>c. \<not> P c) w \<Longrightarrow> runs P True (w @ t) = Suc (runs P False t)"
proof -
  have "list_all (\<lambda>c. \<not> P c) w \<Longrightarrow> runs P False (w @ t) = runs P False t" for w by (induction w) auto
  then show "w \<noteq> [] \<Longrightarrow> list_all (\<lambda>c. \<not> P c) w \<Longrightarrow> runs P True (w @ t) = Suc (runs P False t)" by (cases w) auto
qed

lemma runs_join: "(\<And>w. w \<in> set ws \<Longrightarrow> w \<noteq> [] \<and> list_all (\<lambda>c. \<not> separator c) w) \<Longrightarrow> runs separator True (join ''/'' ws) = length ws"
proof (induction "''/''" ws rule: join.induct)
  case (2 w)
  then show ?case using runs_part [of w separator "[]"] by simp
next
  case (3 w v ws)
  then show ?case using runs_part [of w separator "CHR ''/'' # join ''/'' (v # ws)"] by (simp add: separator_def)
qed simp

text \<open>A folder has fewer parts than its entries.\<close>

lemma parent_parts:
  assumes "explorerParentPath p = Some q"
  shows "length (path_parts (normalizeExplorerPath q)) < length (path_parts (normalizeExplorerPath p))"
proof -
  let ?ps = "path_parts (normalizeExplorerPath p)"
  have q: "q = join ''/'' (butlast ?ps)" "1 < length ?ps"
    using assms by (auto simp: explorerParentPath_def Let_def split: if_splits)
  have "length (path_parts (normalizeExplorerPath q)) \<le> length (butlast ?ps)"
    using normalized_parts [of q] runs_join [of "butlast ?ps"] normalized_part [of _ p] unfolding q(1) by (metis in_set_butlastD)
  with q(2) show ?thesis by simp
qed

section \<open>Reachable states\<close>

text \<open>
  The states of an explorer on the folder \<open>base\<close>: it starts with a listing, may be started again with another one, and then takes the steps of
  its handlers and of the folders it loads, in any order.
\<close>

inductive explores :: "string \<Rightarrow> explorer \<Rightarrow> bool" for base where
  started: "normalizeFilesystemEntries collate rs = Inr es \<Longrightarrow> explores base (start base (normalizeExplorerEntries es))"
| restarted: "explores base s \<Longrightarrow> normalizeFilesystemEntries collate rs = Inr es \<Longrightarrow> explores base (boot base (normalizeExplorerEntries es) s)"
| navigated: "explores base s \<Longrightarrow> explores base (navigateTo p s)"
| went_back: "explores base s \<Longrightarrow> explores base (goBack s)"
| went_forward: "explores base s \<Longrightarrow> explores base (goForward s)"
| went_up: "explores base s \<Longrightarrow> explores base (goUp s)"
| toggled: "explores base s \<Longrightarrow> explores base (toggleExpanded p s)"
| adjusted: "explores base s \<Longrightarrow> explores base (s\<lparr>selectedPath := sel, search := q, sortBy := k, ascending := a, showHidden := h, showSystem := y, gridView := v\<rparr>)"
| loading: "explores base s \<Longrightarrow> hydrate_start part dev uuid now force p s g = (s', g', req) \<Longrightarrow> explores base s'"
| loaded: "explores base s \<Longrightarrow> outcome = lazy_listing url_pathname collate message row detail \<Longrightarrow>
    hydrate_finish dev p outcome s g = (s', g') \<Longrightarrow> explores base s'"

text \<open>What the tree relies on: the folder of an entry has fewer parts than the entry.\<close>

definition below_parent :: "fs_entry \<Rightarrow> bool" where
  "below_parent e \<longleftrightarrow> (case parentPath e of None \<Rightarrow> True
     | Some p \<Rightarrow> length (path_parts (normalizeExplorerPath p)) < length (path_parts (epath e)))"

lemma canonical_normalized: "toCanonicalPath p = (if trim p = [] then [] else normalizeExplorerPath p)"
  by (simp add: toCanonicalPath_def normalizeExplorerPath_def normalizePathSeparator_def Let_def or_text_def)

lemma parentPathOf_explorer: "parentPathOf p = explorerParentPath p"
proof (cases "trim p = []")
  case True
  then show ?thesis by (simp add: parentPathOf_def explorerParentPath_def canonical_normalized Let_def normalizeExplorerPath_def)
next
  case False
  moreover have "normalizeExplorerPath p \<noteq> []" by (simp add: normalizeExplorerPath_def Let_def or_text_def)
  ultimately show ?thesis by (simp add: parentPathOf_def explorerParentPath_def canonical_normalized Let_def)
qed

lemma explorer_entry_below:
  assumes "parentPath e = parentPathOf (epath e)"
  shows "below_parent (normalizeExplorerEntry e)"
proof (cases "explorerParentPath (epath e)")
  case None
  then show ?thesis using assms by (simp add: below_parent_def normalizeExplorerEntry_def parentPathOf_explorer)
next
  case (Some p)
  let ?q = "normalizeExplorerPath p"
  have "length (path_parts (normalizeExplorerPath ?q)) \<le> runs separator True ?q" by (rule normalized_parts)
  also have "runs separator True ?q = length (path_parts ?q)"
  proof -
    have "CHR 0x5C \<notin> set s \<Longrightarrow> runs separator b s = runs (\<lambda>c. c = CHR ''/'') b s" for s b
      by (induction s arbitrary: b) (auto simp: separator_def)
    moreover have "CHR 0x5C \<notin> set ?q"
      using collapse_no_backslash by (auto simp: normalizeExplorerPath_def Let_def or_text_def strip_trailing_def dest: set_dropWhileD)
    ultimately show ?thesis by (simp add: parts_runs)
  qed
  also have "\<dots> < length (path_parts (normalizeExplorerPath (epath e)))" by (rule parent_parts [OF Some])
  finally show ?thesis
    using Some parent_parts [OF Some] assms by (auto simp: below_parent_def normalizeExplorerEntry_def parentPathOf_explorer)
qed

lemma res_map_mem: "res_map f xs = Inr ys \<Longrightarrow> y \<in> set ys \<Longrightarrow> \<exists>x. f x = Inr y"
  by (induction xs arbitrary: ys) (auto simp: res_bind_Inr_iff)

lemma filesystem_entry_parent: "filesystem_entry r = Inr e \<Longrightarrow> parentPath e = parentPathOf (epath e)"
  unfolding filesystem_entry_def Let_def res_bind_Inr_iff by (elim exE conjE) (drule sum.inject(2) [THEN iffD1], erule subst, simp)

lemma explorer_entries_below:
  assumes "normalizeFilesystemEntries collate rs = Inr es"
  shows "list_all below_parent (normalizeExplorerEntries es)"
proof -
  obtain sent where sent: "res_map filesystem_entry rs = Inr sent" "es = js_sort (entry_cmp collate) (filter (\<lambda>e. epath e \<noteq> []) sent)"
    using assms by (cases "res_map filesystem_entry rs") (simp_all add: normalizeFilesystemEntries_def)
  have "below_parent (normalizeExplorerEntry e)" if e: "e \<in> set es" for e
  proof -
    obtain r where "filesystem_entry r = Inr e" using res_map_mem [OF sent(1)] e by (auto simp: sent(2))
    then show ?thesis by (intro explorer_entry_below filesystem_entry_parent)
  qed
  then show ?thesis unfolding normalizeExplorerEntries_def list_all_iff by auto
qed

lemma al_set_subset: "set (al_set k v m) \<subseteq> insert (k, v) (set m)"
proof (induction m)
  case (Cons p m)
  then show ?case by (cases p; cases "fst p = k") auto
qed simp

lemma merge_entries_set: "set (merge_entries prev incoming) \<subseteq> set prev \<union> set incoming"
proof -
  have step: "snd ` set (put_entry e m) \<subseteq> insert e (snd ` set m)" for e m
    using al_set_subset [of "epath e" e m] unfolding put_entry_def by auto
  have "snd ` set (fold put_entry es m) \<subseteq> snd ` set m \<union> set es" for es m
  proof (induction es arbitrary: m)
    case (Cons e es)
    have "snd ` set (fold put_entry (e # es) m) \<subseteq> snd ` set (put_entry e m) \<union> set es" using Cons.IH by simp
    also have "\<dots> \<subseteq> insert e (snd ` set m) \<union> set es" using step by blast
    finally show ?case by (simp only: list.set Un_insert_left Un_insert_right)
  qed simp
  note fold = this
  have "snd ` set (fold put_entry incoming (fold put_entry prev [])) \<subseteq> snd ` set (fold put_entry prev []) \<union> set incoming" by (rule fold)
  also have "\<dots> \<subseteq> set prev \<union> set incoming" using fold [of prev "[]"] by (intro Un_mono) simp_all
  finally have "snd ` set (fold put_entry incoming (fold put_entry prev [])) \<subseteq> set prev \<union> set incoming" .
  then show ?thesis unfolding merge_entries_def set_map .
qed

section \<open>The tree of folders\<close>

lemma render_listing:
  "renderResult collate message ''list_files'' row =
     (case buildListFiles collate row of Inr v \<Rightarrow> Inr v | Inl e \<Rightarrow> safeFallback message row (Str ''list_files'') e)"
proof -
  have "resolveCommandMethod ''list_files'' = Str ''list_files''" by code_simp
  moreover have "al_get (renderDefinitions collate) ''list_files'' = Some (buildListFiles collate)" by (simp add: renderDefinitions_def)
  ultimately show ?thesis by (simp add: renderResult_def Let_def or_text_def)
qed

lemma listing_section:
  "buildListFiles collate row = Inr v \<Longrightarrow> \<exists>fs sec. listing collate (object_or_empty (extractStructuredData row)) = Inr fs \<and>
     find (\<lambda>sec. swidget sec = Filesystem) (sections v) = Some sec \<and> filesystem sec = Some fs"
  by (auto simp: buildListFiles_def res_bind_Inr_iff Let_def section_defs)

lemma generic_no_listing:
  assumes "buildGeneric row meth = Inr v"
  shows "find (\<lambda>sec. swidget sec = Filesystem) (sections (unshift_diagnostics d (v\<lparr>fallbackUsed := True\<rparr>))) = None"
proof -
  have "swidget sec \<noteq> Filesystem" if "generic_section p = Some sec" for p sec
    using that by (cases "snd p") (auto simp: generic_section_def Let_def section_defs split: if_splits)
  then have "\<forall>sec \<in> set (List.map_filter generic_section m). swidget sec \<noteq> Filesystem" for m by (auto simp: map_filter_def)
  then have "\<forall>sec \<in> set (generic_sections row). swidget sec \<noteq> Filesystem"
    by (auto simp: generic_sections_def Let_def section_defs split: js.splits option.splits)
  then show ?thesis
    using assms by (auto simp: buildGeneric_def res_bind_Inr_iff Let_def find_None_iff unshift_diagnostics_def section_defs)
qed

lemma lazy_listing_Inr:
  assumes "lazy_listing url_pathname collate message row detail = Inr es"
  shows "\<exists>payload fs. listing collate payload = Inr fs \<and> es = normalizeExplorerEntries (entries fs)"
proof -
  obtain merged vm sec fs where vm: "renderResult collate message ''list_files'' merged = Inr vm"
    and sec: "find (\<lambda>sec. swidget sec = Filesystem) (sections vm) = Some sec" "filesystem sec = Some fs" "es = normalizeExplorerEntries (entries fs)"
    using assms unfolding lazy_listing_def by (auto simp: res_bind_Inr_iff split: option.splits sum.splits)
  show ?thesis
  proof (cases "buildListFiles collate merged")
    case (Inl e)
    then obtain v d where "buildGeneric merged (Str ''list_files'') = Inr v" "vm = unshift_diagnostics d (v\<lparr>fallbackUsed := True\<rparr>)"
      using vm by (auto simp: render_listing safeFallback_def res_bind_Inr_iff)
    with generic_no_listing sec(1) show ?thesis by fastforce
  next
    case (Inr v)
    with vm have "vm = v" by (simp add: render_listing)
    with listing_section [OF Inr] sec show ?thesis by auto
  qed
qed

lemma lazy_listing_below: "lazy_listing url_pathname collate message row detail = Inr es \<Longrightarrow> list_all below_parent es"
  by (drule lazy_listing_Inr) (auto simp: listing_def Let_def res_bind_Inr_iff intro: explorer_entries_below)

lemma hydrate_finish_entries:
  "xentries (fst (hydrate_finish dev p outcome s g)) =
     (case outcome of Inl _ \<Rightarrow> xentries s | Inr incoming \<Rightarrow> merge_entries (xentries s) incoming)"
  by (cases outcome) (simp_all add: hydrate_finish_def Let_def)

lemma entries_below: "explores base s \<Longrightarrow> list_all below_parent (xentries s)"
proof (induction rule: explores.induct)
  case (loading s part dev uuid now force p g s' g' req)
  then show ?case by (auto simp: hydrate_start_def Let_def split: if_splits)
next
  case (loaded s outcome url_pathname collate message row detail dev p g s' g')
  have "xentries s' = (case outcome of Inl _ \<Rightarrow> xentries s | Inr incoming \<Rightarrow> merge_entries (xentries s) incoming)"
    using hydrate_finish_entries [of dev p outcome s g] loaded(3) by simp
  moreover have "list_all below_parent incoming" if "outcome = Inr incoming" for incoming using lazy_listing_below loaded(2) that by metis
  ultimately show ?case
    using loaded(4) merge_entries_set [of "xentries s"] by (cases outcome) (fastforce simp: list_all_iff)+
qed (auto simp: start_def boot_def navigateTo_def goBack_def goForward_def goUp_def toggleExpanded_def Let_def explorer_entries_below
    split: option.split)

lemma children_of_filter: "children_of base s path = filter (\<lambda>e. parent_key base e = path) (xentries s)"
proof -
  let ?step = "\<lambda>e m. let k = parent_key base e in al_set k (or_given (al_get m k) [] @ [e]) m"
  have "or_given (al_get (fold ?step es m) path) [] = or_given (al_get m path) [] @ filter (\<lambda>e. parent_key base e = path) es" for es m
    by (induction es arbitrary: m) (auto simp: Let_def or_given_def)
  from this [of "xentries s" "[]"] show ?thesis by (simp add: children_of_def childrenByParent_def or_given_def)
qed

lemma those_Some: "(\<And>x. x \<in> set xs \<Longrightarrow> f x \<noteq> None) \<Longrightarrow> those (map f xs) \<noteq> None"
  by (induction xs) (auto split: option.split)

lemma tree_child:
  assumes "e \<in> set (tree_children base s path)" "list_all below_parent (xentries s)" "list_all (\<lambda>e. parentPath e \<noteq> None) (xentries s)"
  shows "e \<in> set (xentries s) \<and> length (path_parts path) < length (path_parts (epath e))"
proof -
  have e: "e \<in> set (xentries s)" "parent_key base e = path" using assms(1) by (auto simp: tree_children_def children_of_filter)
  then obtain p where "parentPath e = Some p" "below_parent e" using assms(2,3) by (auto simp: list_all_iff)
  with e show ?thesis by (auto simp: below_parent_def parent_key_def or_given_def)
qed

lemma renderTree_returns:
  assumes "list_all below_parent (xentries s)" "list_all (\<lambda>e. parentPath e \<noteq> None) (xentries s)"
    "\<And>e. e \<in> set (xentries s) \<Longrightarrow> length (path_parts (epath e)) \<le> length (path_parts path) + n"
  shows "renderTree (Suc n) base s path \<noteq> None"
  using assms(3)
proof (induction n arbitrary: path)
  case 0
  then have "tree_children base s path = []" using tree_child [OF _ assms(1,2)] by (metis add_0_right last_in_set not_le)
  then show ?case by simp
next
  case (Suc n)
  have "renderTree (Suc n) base s (epath e) \<noteq> None" if "e \<in> set (tree_children base s path)" for e
    using tree_child [OF that assms(1,2)] Suc.prems by (intro Suc.IH) fastforce
  then show ?case using those_Some [of "tree_children base s path" "\<lambda>e. renderTree (Suc n) base s (epath e)"]
    by (subst renderTree.simps) simp
qed

section \<open>Properties\<close>

text \<open>
  C7: the tree of folders is finite: in every state an explorer can reach, drawing the tree of any folder returns, with a number of
  levels bounded by the longest path, provided that no entry lies at the top of its drive.
\<close>

theorem tree_terminates:
  assumes "explores base s" "list_all (\<lambda>e. parentPath e \<noteq> None) (xentries s)"
    "list_all (\<lambda>e. length (path_parts (epath e)) \<le> n) (xentries s)"
  shows "\<exists>t. renderTree (Suc n) base s path = Some t"
  using renderTree_returns [OF entries_below [OF assms(1)] assms(2), of path n base] assms(3) by (auto simp: list_all_iff trans_le_add2)

definition demo_folder :: "obj list" where
  "demo_folder = [[(''path'', Str ''C:/Users''), (''type'', Str ''directory'')], [(''path'', Str ''C:/Users/a''), (''type'', Str ''file'')]]"

theorem tree_terminates_witness:
  "\<exists>es t. explores ''C:'' (start ''C:'' (normalizeExplorerEntries es)) \<and> length es = 2 \<and>
     renderTree (Suc 3) ''C:'' (start ''C:'' (normalizeExplorerEntries es)) ''C:'' = Some t"
proof -
  define es where "es = (case normalizeFilesystemEntries base_collate demo_folder of Inr es \<Rightarrow> es)"
  define s where "s = start ''C:'' (normalizeExplorerEntries es)"
  have es: "normalizeFilesystemEntries base_collate demo_folder = Inr es" unfolding es_def by code_simp
  have len: "length es = 2" unfolding es_def by code_simp
  have e: "explores ''C:'' s" unfolding s_def by (rule explores.started [OF es])
  have parents: "list_all (\<lambda>e. parentPath e \<noteq> None) (xentries s)" unfolding s_def es_def by code_simp
  have parts: "list_all (\<lambda>e. length (path_parts (epath e)) \<le> 3) (xentries s)" unfolding s_def es_def by code_simp
  from tree_terminates [OF e parents parts, of "''C:''"] e len show ?thesis
    unfolding s_def by blast
qed

text \<open>
  Without the proviso the tree may not be finite: a drive that lists itself is a child of itself, and since the explorer starts with its
  folder expanded, drawing the tree never returns.
\<close>

theorem drive_entry_loops:
  assumes "e \<in> set (xentries s)" "epath e = base" "parentPath e = None" "etype e = Directory" "entry_shown s e"
    "normalizeExplorerPath base = base" "base \<in> set (expandedPaths s)"
  shows "renderTree n base s base = None"
proof (induction n)
  case (Suc n)
  have "e \<in> set (tree_children base s base)"
    using assms by (simp add: tree_children_def children_of_filter parent_key_def or_given_def isDirectoryLike_def)
  moreover have "those (map f xs) = None" if "x \<in> set xs" "f x = None" for f :: "fs_entry \<Rightarrow> tree option" and x xs
    using that by (induction xs) (auto split: option.split)
  ultimately show ?case using Suc.IH assms(2,7) by simp
qed simp

section \<open>The history\<close>

text \<open>The specification of a browsing history: the places visited and a cursor.\<close>

record history =
  visited :: "string list"
  cursor :: nat

definition visit :: "string \<Rightarrow> history \<Rightarrow> history" where
  "visit p h = (if visited h ! cursor h = p then h else \<lparr>visited = take (Suc (cursor h)) (visited h) @ [p], cursor = Suc (cursor h)\<rparr>)"

definition step_back :: "history \<Rightarrow> history" where
  "step_back h = h\<lparr>cursor := cursor h - 1\<rparr>"

definition step_forward :: "history \<Rightarrow> history" where
  "step_forward h = (if Suc (cursor h) < length (visited h) then h\<lparr>cursor := Suc (cursor h)\<rparr> else h)"

definition history_of :: "explorer \<Rightarrow> history" where
  "history_of s = \<lparr>visited = backStack s @ currentPath s # rev (forwardStack s), cursor = length (backStack s)\<rparr>"

lemma history_navigate: "history_of (navigateTo p s) = visit (normalizeExplorerPath p) (history_of s)"
  by (auto simp: history_of_def visit_def navigateTo_def Let_def)

lemma history_back: "history_of (goBack s) = step_back (history_of s)"
proof (cases "backStack s" rule: rev_cases)
  case (snoc ps p)
  then show ?thesis by (simp add: history_of_def step_back_def goBack_def)
qed (simp add: history_of_def step_back_def goBack_def)

lemma history_forward: "history_of (goForward s) = step_forward (history_of s)"
proof (cases "forwardStack s" rule: rev_cases)
  case (snoc ps p)
  then show ?thesis by (simp add: history_of_def step_forward_def goForward_def)
qed (simp add: history_of_def step_forward_def goForward_def)

text \<open>No two neighbours of a history are the same place, and the cursor is on one of them.\<close>

definition wf_history :: "history \<Rightarrow> bool" where
  "wf_history h \<longleftrightarrow> cursor h < length (visited h) \<and> (\<forall>i. Suc i < length (visited h) \<longrightarrow> visited h ! i \<noteq> visited h ! Suc i)"

lemma wf_visit: "wf_history h \<Longrightarrow> wf_history (visit p h)"
  by (auto simp: wf_history_def visit_def nth_append less_Suc_eq) metis

lemma wf_back: "wf_history h \<Longrightarrow> wf_history (step_back h)" and wf_forward: "wf_history h \<Longrightarrow> wf_history (step_forward h)"
  by (auto simp: wf_history_def step_back_def step_forward_def)

lemma history_hydrate:
  "history_of (fst (hydrate_start part dev uuid now force p s g)) = history_of s"
  "history_of (fst (hydrate_finish dev p outcome s g)) = history_of s"
  by (simp add: hydrate_start_def history_of_def Let_def) (cases outcome; simp add: hydrate_finish_def history_of_def Let_def)

lemma history_boot: "wf_history (history_of (boot base es s))"
  by (simp add: history_of_def boot_def wf_history_def Let_def less_Suc_eq)

lemma explores_history: "explores base s \<Longrightarrow> wf_history (history_of s)"
proof (induction rule: explores.induct)
  case (went_up s)
  then show ?case by (simp add: goUp_def history_navigate wf_visit split: option.split)
next
  case (toggled s p)
  then show ?case by (simp add: toggleExpanded_def history_of_def)
next
  case (adjusted s)
  then show ?case by (simp add: history_of_def)
next
  case (loading s part dev uuid now force p g s' g' req)
  then show ?case using history_hydrate(1) [of part dev uuid now force p s g] by simp
next
  case (loaded s outcome url_pathname collate message row detail dev p g s' g')
  then show ?case using history_hydrate(2) [of dev p outcome s g] by simp
qed (simp_all add: start_def history_boot history_navigate history_back history_forward wf_visit wf_back wf_forward)

text \<open>
  C6: the two stacks of the explorer implement a browsing history with a cursor: in every reachable state the history has no two
  equal neighbours and the current folder is the one under the cursor; opening a folder visits its normalised path and forgets what was
  ahead, opening the current one changes nothing, and back and forward move the cursor.
\<close>

theorem explorer_history:
  assumes "explores base s"
  shows "wf_history (history_of s) \<and> currentPath s = visited (history_of s) ! cursor (history_of s) \<and>
     history_of (navigateTo p s) = visit (normalizeExplorerPath p) (history_of s) \<and>
     history_of (goBack s) = step_back (history_of s) \<and> history_of (goForward s) = step_forward (history_of s) \<and>
     history_of (goUp s) = (case explorerParentPath (currentPath s) of None \<Rightarrow> history_of s
       | Some q \<Rightarrow> if q = [] then history_of s else visit (normalizeExplorerPath q) (history_of s))"
proof -
  have "currentPath s = visited (history_of s) ! cursor (history_of s)" by (simp add: history_of_def)
  moreover have "history_of (goUp s) = (case explorerParentPath (currentPath s) of None \<Rightarrow> history_of s
       | Some q \<Rightarrow> if q = [] then history_of s else visit (normalizeExplorerPath q) (history_of s))"
    by (simp add: goUp_def history_navigate split: option.split)
  ultimately show ?thesis using explores_history [OF assms] history_navigate history_back history_forward by blast
qed

theorem explorer_history_witness:
  "\<exists>s. explores ''C:'' s \<and> currentPath (goForward (goBack s)) = ''C:/Users'' \<and> wf_history (history_of s)"
proof -
  define es where "es = (case normalizeFilesystemEntries base_collate demo_folder of Inr es \<Rightarrow> es)"
  have es: "normalizeFilesystemEntries base_collate demo_folder = Inr es" unfolding es_def by code_simp
  have e: "explores ''C:'' (start ''C:'' (normalizeExplorerEntries es))" by (rule explores.started [OF es])
  have "currentPath (goForward (goBack (start ''C:'' (normalizeExplorerEntries es)))) = ''C:/Users''" unfolding es_def by code_simp
  with e explorer_history [OF e] show ?thesis by blast
qed

section \<open>Loading folders\<close>

text \<open>
  C27: loading a folder never polls for ever: whatever the replies are, when each round takes at least the second it sleeps, the loop
  ends within 91 tests of its clock.
\<close>

theorem poll_terminates:
  assumes "\<And>i. clock i + 1000 \<le> clock (Suc i)" "startedAt \<le> clock 0"
  shows "\<exists>r. poll message parse_message clock replies startedAt 91 0 detail = Some r"
proof -
  have late: "startedAt + 1000 * int i \<le> clock i" for i
  proof (induction i)
    case (Suc i)
    then show ?case using assms(1) [of i] by simp
  qed (use assms(2) in simp)
  have "\<exists>r. poll message parse_message clock replies startedAt n i detail = Some r" if "91 \<le> n + i" "0 < n" for n i detail
    using that
  proof (induction n arbitrary: i detail)
    case (Suc n)
    show ?case
    proof (cases "90 \<le> i")
      case True
      then have "\<not> clock i - startedAt < 90000" using late [of i] by linarith
      then show ?thesis by simp
    next
      case False
      then have "\<exists>r. poll message parse_message clock replies startedAt n (i + 1) d = Some r" for d using Suc by simp
      then show ?thesis by (auto split: reply.split option.split sum.split)
    qed
  qed simp
  from this [of 91 0] show ?thesis by simp
qed

theorem poll_terminates_witness:
  "\<exists>r. poll (\<lambda>_. []) [] (\<lambda>i. 1000 * int i) (\<lambda>_. Reply True ''{\"state\":\"queued\"}'') 0 91 0 None = Some r"
  by (rule poll_terminates) simp_all











end
