(* ===== verification/Presentation.thy ===== *)
theory Presentation
  imports Explorer
begin

text \<open>
  \<^verbatim>\<open>src/components/results/CommandResultPresentation.tsx\<close>, the rest: the tabs of a result, its tables with search and sorting, and
  the artifact panel. \<open>collate_numeric\<close> is the platform's collation with numeric ordering.
\<close>

section \<open>Definitions\<close>

record presentation =
  activeTab :: string
  debugDrawerOpen :: bool
  tableSearch :: string
  tableSortBy :: "string option"
  tableAscending :: bool

definition open_result :: "view_model \<Rightarrow> presentation" where
  "open_result vm = \<lparr>activeTab = (case sections vm of s # _ \<Rightarrow> sid s | [] \<Rightarrow> ''debug''), debugDrawerOpen = False, tableSearch = [],
     tableSortBy = None, tableAscending = True\<rparr>"

definition tabs :: "view_model \<Rightarrow> string list" where
  "tabs vm = map sid (sections vm) @ [''debug'']"

definition currentTab :: "view_model \<Rightarrow> presentation \<Rightarrow> string" where
  "currentTab vm p = (if activeTab p \<in> set (tabs vm) then activeTab p else hd (tabs vm))"

definition activeSection :: "view_model \<Rightarrow> presentation \<Rightarrow> section_def option" where
  "activeSection vm p = find (\<lambda>s. sid s = currentTab vm p) (sections vm)"

definition changeSort :: "string \<Rightarrow> presentation \<Rightarrow> presentation" where
  "changeSort col p =
     (if tableSortBy p = Some col then p\<lparr>tableAscending := \<not> tableAscending p\<rparr>
      else p\<lparr>tableSortBy := Some col, tableAscending := True\<rparr>)"

text \<open>\<^verbatim>\<open>String(row[column] ?? d)\<close>: a row without the column may inherit one.\<close>

definition cell_text :: "(string \<times> string) list \<Rightarrow> string \<Rightarrow> string \<Rightarrow> string" where
  "cell_text row c d =
     (case al_get row c of
        Some s \<Rightarrow> s
      | None \<Rightarrow> (case inherited c of Obj _ \<Rightarrow> ''[object Object]'' | Fun f \<Rightarrow> native_source f | _ \<Rightarrow> d))"

definition row_matches :: "string list \<Rightarrow> string \<Rightarrow> (string \<times> string) list \<Rightarrow> bool" where
  "row_matches cols q row \<longleftrightarrow>
     (let lowered = to_lower (trim q) in lowered = [] \<or> list_ex (\<lambda>c. str_includes (to_lower (cell_text row c [])) lowered) cols)"

definition row_cmp :: "(string \<Rightarrow> string \<Rightarrow> int) \<Rightarrow> presentation \<Rightarrow> (string \<times> string) list \<Rightarrow> (string \<times> string) list \<Rightarrow> int" where
  "row_cmp collate_numeric p a b =
     (case tableSortBy p of
        None \<Rightarrow> 0
      | Some c \<Rightarrow>
          if c = [] then 0
          else let cmp = collate_numeric (cell_text a c []) (cell_text b c []) in if tableAscending p then cmp else - cmp)"

definition table_rows :: "(string \<Rightarrow> string \<Rightarrow> int) \<Rightarrow> presentation \<Rightarrow> table_def \<Rightarrow> (string \<times> string) list list" where
  "table_rows collate_numeric p t = js_sort (row_cmp collate_numeric p) (filter (row_matches (columns t) (tableSearch p)) (rows t))"

definition renderTable :: "(string \<Rightarrow> string \<Rightarrow> int) \<Rightarrow> presentation \<Rightarrow> table_def option \<Rightarrow> string list list option" where
  "renderTable collate_numeric p t =
     (case t of None \<Rightarrow> None
      | Some t \<Rightarrow> if columns t = [] then None
          else Some (map (\<lambda>row. map (\<lambda>c. cell_text row c ''-'') (columns t)) (table_rows collate_numeric p t)))"

text \<open>\<^verbatim>\<open>/\.(png|jpe?g|gif|webp)$/i\<close>.\<close>

definition image_link :: "string \<Rightarrow> bool" where
  "image_link u \<longleftrightarrow> list_ex (\<lambda>x. starts_with (rev (to_lower u)) (rev x)) [''.png'', ''.jpg'', ''.jpeg'', ''.gif'', ''.webp'']"

record artifact_panel =
  artifactLink :: string
  shownChecksum :: string
  isImage :: bool

definition artifact_panel_of :: "artifact_def \<Rightarrow> artifact_panel" where
  "artifact_panel_of a =
     (let link = trim (or_given (url a) []) in
      \<lparr>artifactLink = link, shownChecksum = trim (or_given (checksum a) []),
       isImage = (starts_with (to_lower (contentType a)) ''image/'' \<or> image_link link)\<rparr>)"

section \<open>Laws\<close>

lemma row_comparator:
  assumes "comparator collate_numeric"
  shows "comparator (row_cmp collate_numeric p)"
proof -
  note flip = comparator.cmp_flip [OF assms] and trans = comparator.cmp_trans [OF assms] and total = comparator.cmp_total [OF assms]
  show ?thesis
  proof (cases "tableSortBy p")
    case None
    then show ?thesis by unfold_locales (simp_all add: row_cmp_def)
  next
    case (Some c)
    show ?thesis
    proof
      show "row_cmp collate_numeric p a b < 0 \<longleftrightarrow> 0 < row_cmp collate_numeric p b a" for a b
        using flip [of "cell_text a c []" "cell_text b c []"] flip [of "cell_text b c []" "cell_text a c []"] Some
        by (simp add: row_cmp_def Let_def)
      show "row_cmp collate_numeric p a d \<le> 0" if "row_cmp collate_numeric p a b \<le> 0" "row_cmp collate_numeric p b d \<le> 0" for a b d
        using that Some trans [of "cell_text a c []" "cell_text b c []" "cell_text d c []"]
          trans [of "cell_text d c []" "cell_text b c []" "cell_text a c []"]
          flip [of "cell_text a c []" "cell_text b c []"] flip [of "cell_text b c []" "cell_text d c []"] flip [of "cell_text a c []" "cell_text d c []"]
          flip [of "cell_text b c []" "cell_text a c []"] flip [of "cell_text d c []" "cell_text b c []"] flip [of "cell_text d c []" "cell_text a c []"]
        by (auto simp: row_cmp_def Let_def split: if_splits)
    qed
  qed
qed

interpretation table_order: comparator "row_cmp base_collate p"
  by (rule row_comparator) (rule ascii.comparator_axioms)

lemma currentTab_in: "currentTab vm p \<in> set (tabs vm)"
  by (cases "sections vm") (auto simp: currentTab_def tabs_def)

text \<open>A tab shows a section, except the last tab, which shows the raw result.\<close>

lemma activeSection_shown: "currentTab vm p \<noteq> ''debug'' \<Longrightarrow> \<exists>s. activeSection vm p = Some s \<and> s \<in> set (sections vm) \<and> sid s = currentTab vm p"
proof -
  assume "currentTab vm p \<noteq> ''debug''"
  then have "\<exists>s \<in> set (sections vm). sid s = currentTab vm p" using currentTab_in [of vm p] by (auto simp: tabs_def)
  then show ?thesis unfolding activeSection_def by (cases "find (\<lambda>s. sid s = currentTab vm p) (sections vm)") (auto simp: find_None_iff find_Some_iff)
qed

section \<open>Properties\<close>

text \<open>What it means that a row is found: some column has a cell of which the searched text is a part.\<close>

definition searched :: "table_def \<Rightarrow> string \<Rightarrow> (string \<times> string) list \<Rightarrow> bool" where
  "searched t q r \<longleftrightarrow> trim q = [] \<or> (\<exists>c \<in> set (columns t). \<exists>u v. to_lower (cell_text r c []) = u @ to_lower (trim q) @ v)"

lemma str_includes_iff: "str_includes s p \<longleftrightarrow> (\<exists>u v. s = u @ p @ v)"
proof (induction s)
  case (Cons c s)
  have "(\<exists>u v. c # s = u @ p @ v) \<longleftrightarrow> (\<exists>v. c # s = p @ v) \<or> (\<exists>u v. s = u @ p @ v)"
    by (metis append_Cons append_Nil list.inject neq_Nil_conv)
  moreover have "starts_with (c # s) p \<longleftrightarrow> (\<exists>v. c # s = p @ v)" by (metis append_eq_conv_conj starts_with_def)
  ultimately show ?case using Cons.IH by simp
qed simp

lemma row_matches_searched: "row_matches (columns t) q = searched t q"
  by (rule ext) (simp add: row_matches_def searched_def str_includes_iff list_ex_iff to_lower_def Let_def)

text \<open>
  C28: a table shows exactly the rows that contain the searched text, without regard to case and surrounding white space, in the cell of one
  of the columns, or all rows when there is nothing to search. They are ordered by the chosen column in the chosen direction, rows with equal
  cells in their original order, and stay in that order when no column is chosen; choosing the same column again reverses the direction.
\<close>

theorem table_rows_correct:
  assumes "comparator collate_numeric"
  shows "mset (table_rows collate_numeric p t) = {#r \<in># mset (rows t). searched t (tableSearch p) r#} \<and>
     (tableSortBy p = None \<longrightarrow> table_rows collate_numeric p t = filter (searched t (tableSearch p)) (rows t)) \<and>
     (tableSortBy p = Some c \<and> c \<noteq> [] \<longrightarrow>
        sorted_wrt (\<lambda>a b. if tableAscending p then collate_numeric (cell_text a c []) (cell_text b c []) \<le> 0
          else 0 \<le> collate_numeric (cell_text a c []) (cell_text b c [])) (table_rows collate_numeric p t) \<and>
        (\<forall>r. filter (\<lambda>x. collate_numeric (cell_text r c []) (cell_text x c []) = 0) (table_rows collate_numeric p t) =
           filter (\<lambda>x. searched t (tableSearch p) x \<and> collate_numeric (cell_text r c []) (cell_text x c []) = 0) (rows t)) \<and>
        tableAscending (changeSort c p) = (\<not> tableAscending p))"
proof (intro conjI impI; (elim conjE)?)
  note cmp = row_comparator [OF assms(1)]
  show "mset (table_rows collate_numeric p t) = {#r \<in># mset (rows t). searched t (tableSearch p) r#}"
    by (simp add: table_rows_def row_matches_searched)
  show "table_rows collate_numeric p t = filter (searched t (tableSearch p)) (rows t)" if "tableSortBy p = None"
    using comparator.js_sort_stable [OF cmp [of p]] that by (simp add: table_rows_def row_matches_searched row_cmp_def)
  assume key: "tableSortBy p = Some c" "c \<noteq> []"
  then have r: "row_cmp collate_numeric p a b =
      (if tableAscending p then collate_numeric (cell_text a c []) (cell_text b c []) else - collate_numeric (cell_text a c []) (cell_text b c []))" for a b
    by (simp add: row_cmp_def Let_def)
  have zero: "row_cmp collate_numeric p a b = 0 \<longleftrightarrow> collate_numeric (cell_text a c []) (cell_text b c []) = 0" for a b by (simp add: r)
  show "sorted_wrt (\<lambda>a b. if tableAscending p then collate_numeric (cell_text a c []) (cell_text b c []) \<le> 0
        else 0 \<le> collate_numeric (cell_text a c []) (cell_text b c [])) (table_rows collate_numeric p t)"
    unfolding table_rows_def by (rule sorted_wrt_mono_rel [OF _ comparator.sorted_js_sort [OF cmp]]) (simp add: r split: if_splits)
  have "filter (\<lambda>x. collate_numeric (cell_text r c []) (cell_text x c []) = 0) (table_rows collate_numeric p t) =
      filter (\<lambda>x. collate_numeric (cell_text r c []) (cell_text x c []) = 0) (filter (searched t (tableSearch p)) (rows t))" for r
    using comparator.js_sort_stable [OF cmp [of p], of r] unfolding zero table_rows_def row_matches_searched .
  then show "\<forall>r. filter (\<lambda>x. collate_numeric (cell_text r c []) (cell_text x c []) = 0) (table_rows collate_numeric p t) =
      filter (\<lambda>x. searched t (tableSearch p) x \<and> collate_numeric (cell_text r c []) (cell_text x c []) = 0) (rows t)"
    by (simp add: conj_commute)
  show "tableAscending (changeSort c p) = (\<not> tableAscending p)" using key(1) by (simp add: changeSort_def)
qed

definition demo_table :: table_def where
  "demo_table = \<lparr>columns = [''name''], rows = [[(''name'', ''b'')], [(''name'', ''x'')], [(''name'', ''Ab'')]]\<rparr>"

definition demo_presentation :: presentation where
  "demo_presentation = \<lparr>activeTab = ''debug'', debugDrawerOpen = False, tableSearch = ''B'', tableSortBy = Some ''name'', tableAscending = True\<rparr>"

theorem table_rows_correct_witness:
  "table_rows base_collate demo_presentation demo_table = [[(''name'', ''Ab'')], [(''name'', ''b'')]] \<and>
     \<not> tableAscending (changeSort ''name'' demo_presentation)"
proof -
  have "table_rows base_collate demo_presentation demo_table = [[(''name'', ''Ab'')], [(''name'', ''b'')]]" by code_simp
  moreover have "tableSortBy demo_presentation = Some ''name'' \<and> ''name'' \<noteq> []" "tableAscending demo_presentation" by (simp_all add: demo_presentation_def)
  ultimately show ?thesis
    using table_rows_correct [OF ascii.comparator_axioms, of demo_presentation demo_table "''name''"] by blast
qed

end
