(* ===== verification/Dates.thy ===== *)
theory Dates
  imports JsValue
begin

text \<open>
  The \<^verbatim>\<open>Date\<close> objects the sources use, and \<^verbatim>\<open>src/lib/dateTime.ts\<close>, which prints them. A time value is a number of
  milliseconds since the epoch, \<open>None\<close> for \<^verbatim>\<open>NaN\<close>. The calendar is that of the language: proleptic Gregorian, days of
  86400 seconds. Two things belong to the platform and are the parameter \<open>pf\<close>: the offset of the local time zone at a time
  in UTC and at a local time, and what \<^verbatim>\<open>Date.parse\<close> makes of a text that is not in the date-time format of the language.
\<close>

section \<open>The calendar\<close>

definition leap_year :: "int \<Rightarrow> bool" where
  "leap_year y \<longleftrightarrow> y mod 4 = 0 \<and> (y mod 100 \<noteq> 0 \<or> y mod 400 = 0)"

text \<open>The day, counted from the epoch, on which a year begins; the year of a day, estimated and then corrected by one.\<close>

definition day_from_year :: "int \<Rightarrow> int" where
  "day_from_year y = 365 * (y - 1970) + (y - 1969) div 4 - (y - 1901) div 100 + (y - 1601) div 400"

definition year_from_day :: "int \<Rightarrow> int" where
  "year_from_day d =
     (let y = 1970 + (400 * d) div 146097 in
      if d < day_from_year y then y - 1 else if day_from_year (y + 1) \<le> d then y + 1 else y)"

definition month_start :: "bool \<Rightarrow> int \<Rightarrow> int" where
  "month_start leap m =
     (let l = (if leap then 1 else 0) in
      if m \<le> 0 then 0 else if m = 1 then 31 else if m = 2 then 59 + l else if m = 3 then 90 + l else if m = 4 then 120 + l
      else if m = 5 then 151 + l else if m = 6 then 181 + l else if m = 7 then 212 + l else if m = 8 then 243 + l
      else if m = 9 then 273 + l else if m = 10 then 304 + l else if m = 11 then 334 + l else 365 + l)"

function month_of :: "bool \<Rightarrow> int \<Rightarrow> int \<Rightarrow> int" where
  "month_of leap k m = (if m < 11 \<and> month_start leap (m + 1) \<le> k then month_of leap k (m + 1) else m)"
  by pat_completeness auto
termination by (relation "measure (\<lambda>(_, _, m). nat (11 - m))") auto

declare month_of.simps [simp del]

definition day_in_year :: "int \<Rightarrow> int" where
  "day_in_year d = d - day_from_year (year_from_day d)"

definition month_from_day :: "int \<Rightarrow> int" where
  "month_from_day d = month_of (leap_year (year_from_day d)) (day_in_year d) 0"

definition date_from_day :: "int \<Rightarrow> int" where
  "date_from_day d = day_in_year d - month_start (leap_year (year_from_day d)) (month_from_day d) + 1"

text \<open>\<^verbatim>\<open>MakeDay\<close>: a month outside 0..11 carries into the year, a date outside the month into the neighbouring ones.\<close>

definition make_day :: "int \<Rightarrow> int \<Rightarrow> int \<Rightarrow> int" where
  "make_day y m d = (let yr = y + m div 12 in day_from_year yr + month_start (leap_year yr) (m mod 12) + d - 1)"

definition make_time :: "int \<Rightarrow> int \<Rightarrow> int \<Rightarrow> int \<Rightarrow> int" where
  "make_time h mi s ms = h * 3600000 + mi * 60000 + s * 1000 + ms"

definition make_date :: "int \<Rightarrow> int \<Rightarrow> int" where
  "make_date day time = day * 86400000 + time"

definition time_clip :: "int \<Rightarrow> int option" where
  "time_clip t = (if \<bar>t\<bar> \<le> 8640000000000000 then Some t else None)"

section \<open>Local time\<close>

record date_platform =
  utc_offset :: "int \<Rightarrow> int"
  local_offset :: "int \<Rightarrow> int"
  legacy_date :: "string \<Rightarrow> int option"

definition local_time :: "date_platform \<Rightarrow> int \<Rightarrow> int" where
  "local_time pf t = t + utc_offset pf t"

definition utc_time :: "date_platform \<Rightarrow> int \<Rightarrow> int" where
  "utc_time pf t = t - local_offset pf t"

definition getFullYear :: "date_platform \<Rightarrow> int \<Rightarrow> int" where
  "getFullYear pf t = year_from_day (local_time pf t div 86400000)"

definition getMonth :: "date_platform \<Rightarrow> int \<Rightarrow> int" where
  "getMonth pf t = month_from_day (local_time pf t div 86400000)"

definition getDate :: "date_platform \<Rightarrow> int \<Rightarrow> int" where
  "getDate pf t = date_from_day (local_time pf t div 86400000)"

definition getHours :: "date_platform \<Rightarrow> int \<Rightarrow> int" where
  "getHours pf t = local_time pf t div 3600000 mod 24"

definition getMinutes :: "date_platform \<Rightarrow> int \<Rightarrow> int" where
  "getMinutes pf t = local_time pf t div 60000 mod 60"

definition getSeconds :: "date_platform \<Rightarrow> int \<Rightarrow> int" where
  "getSeconds pf t = local_time pf t div 1000 mod 60"

text \<open>\<^verbatim>\<open>new Date(y, m, d, 0, 0, 0, 0)\<close>; a year from 0 to 99 means one of the twentieth century.\<close>

definition date_of_parts :: "date_platform \<Rightarrow> int \<Rightarrow> int \<Rightarrow> int \<Rightarrow> int option" where
  "date_of_parts pf y m d =
     time_clip (utc_time pf (make_date (make_day (if 0 \<le> y \<and> y \<le> 99 then 1900 + y else y) m d) 0))"

section \<open>Reading a date\<close>

text \<open>
  The date-time format: \<^verbatim>\<open>YYYY\<close> or a sign and six digits, then optionally \<^verbatim>\<open>-MM\<close>, \<^verbatim>\<open>-DD\<close>, and a time
  \<^verbatim>\<open>THH:mm\<close> with optional \<^verbatim>\<open>:ss\<close>, \<^verbatim>\<open>.sss\<close> and offset. A date alone is in UTC, a date with a time and no offset is local.
\<close>

definition take_number :: "nat \<Rightarrow> string \<Rightarrow> (int \<times> string) option" where
  "take_number n s =
     (if n \<le> length s \<and> list_all is_digit (take n s) then Some (int (digits_nat (take n s)), drop n s) else None)"

definition iso_year :: "string \<Rightarrow> (int \<times> string) option" where
  "iso_year s =
     (case s of [] \<Rightarrow> None
      | c # t \<Rightarrow>
          if c = CHR ''+'' then take_number 6 t
          else if c = CHR ''-'' then
            (case take_number 6 t of None \<Rightarrow> None | Some (y, r) \<Rightarrow> if y = 0 then None else Some (- y, r))
          else take_number 4 s)"

text \<open>An optional field behind its separator: the default where the separator does not follow.\<close>

definition iso_field :: "char \<Rightarrow> nat \<Rightarrow> int \<Rightarrow> string \<Rightarrow> (int \<times> string) option" where
  "iso_field sep n d s =
     (case s of [] \<Rightarrow> Some (d, []) | c # t \<Rightarrow> if c = sep then take_number n t else Some (d, s))"

definition iso_date :: "string \<Rightarrow> (int \<times> string) option" where
  "iso_date s =
     Option.bind (iso_year s) (\<lambda>(y, r).
     Option.bind (iso_field CHR ''-'' 2 1 r) (\<lambda>(m, r').
     Option.bind (if r' = r then Some (1, r') else iso_field CHR ''-'' 2 1 r') (\<lambda>(d, r'').
       let l = leap_year y in
       if 1 \<le> m \<and> m \<le> 12 \<and> 1 \<le> d \<and> d \<le> month_start l m - month_start l (m - 1)
       then Some (make_day y (m - 1) d, r'') else None)))"

definition iso_time :: "string \<Rightarrow> (int \<times> string) option" where
  "iso_time s =
     Option.bind (take_number 2 s) (\<lambda>(h, r).
     case r of [] \<Rightarrow> None
     | c # t \<Rightarrow> if c \<noteq> CHR '':'' then None else
         Option.bind (take_number 2 t) (\<lambda>(mi, r1).
         Option.bind (iso_field CHR '':'' 2 0 r1) (\<lambda>(sec, r2).
         Option.bind (if r2 = r1 then Some (0, r2) else iso_field CHR ''.'' 3 0 r2) (\<lambda>(ms, r3).
           if (h \<le> 23 \<and> mi \<le> 59 \<and> sec \<le> 59) \<or> (h = 24 \<and> mi = 0 \<and> sec = 0 \<and> ms = 0)
           then Some (make_time h mi sec ms, r3) else None))))"

definition iso_zone :: "date_platform \<Rightarrow> int \<Rightarrow> string \<Rightarrow> int option" where
  "iso_zone pf t s =
     (case s of [] \<Rightarrow> Some (utc_time pf t)
      | c # r \<Rightarrow>
          if s = ''Z'' then Some t
          else if c = CHR ''+'' \<or> c = CHR ''-'' then
            Option.bind (take_number 2 r) (\<lambda>(h, r1).
            case r1 of [] \<Rightarrow> None
            | d # r2 \<Rightarrow> if d \<noteq> CHR '':'' then None else
                Option.bind (take_number 2 r2) (\<lambda>(mi, r3).
                  if r3 = [] \<and> h \<le> 23 \<and> mi \<le> 59
                  then Some (if c = CHR ''+'' then t - make_time h mi 0 0 else t + make_time h mi 0 0) else None))
          else None)"

definition iso_parse :: "date_platform \<Rightarrow> string \<Rightarrow> int option" where
  "iso_parse pf s =
     Option.bind (iso_date s) (\<lambda>(day, r).
       case r of [] \<Rightarrow> Some (make_date day 0)
       | c # t \<Rightarrow> if c \<noteq> CHR ''T'' then None
           else Option.bind (iso_time t) (\<lambda>(time, r'). iso_zone pf (make_date day time) r'))"

definition date_parse :: "date_platform \<Rightarrow> string \<Rightarrow> int option" where
  "date_parse pf s = (case iso_parse pf s of Some t \<Rightarrow> time_clip t | None \<Rightarrow> legacy_date pf s)"

text \<open>The time value of \<^verbatim>\<open>new Date(v)\<close>.\<close>

fun date_of_number :: "jsnum \<Rightarrow> int option" where
  "date_of_number (Fin r) = time_clip (if 0 \<le> r then \<lfloor>r\<rfloor> else \<lceil>r\<rceil>)"
| "date_of_number _ = None"

definition new_date :: "date_platform \<Rightarrow> js \<Rightarrow> int option res" where
  "new_date pf v =
     (case v of
        Undefined \<Rightarrow> Inr None
      | Null \<Rightarrow> Inr (Some 0)
      | Bool b \<Rightarrow> Inr (Some (if b then 1 else 0))
      | Num n \<Rightarrow> Inr (date_of_number n)
      | _ \<Rightarrow> res_bind (js_String v) (\<lambda>s. Inr (date_parse pf s)))"

section \<open>lib/dateTime.ts\<close>

definition pad2 :: "int \<Rightarrow> string" where
  "pad2 v = pad_start 2 CHR ''0'' (string_of_int v)"

definition formatLocalDateKey :: "date_platform \<Rightarrow> int \<Rightarrow> string" where
  "formatLocalDateKey pf t =
     string_of_int (getFullYear pf t) @ ''-'' @ pad2 (getMonth pf t + 1) @ ''-'' @ pad2 (getDate pf t)"

text \<open>The short month and the day, as the \<^verbatim>\<open>en-US\<close> locale writes them.\<close>

definition formatLocalDayLabel :: "date_platform \<Rightarrow> int \<Rightarrow> string" where
  "formatLocalDayLabel pf t =
     [''Jan'', ''Feb'', ''Mar'', ''Apr'', ''May'', ''Jun'', ''Jul'', ''Aug'', ''Sep'', ''Oct'', ''Nov'', ''Dec''] ! nat (getMonth pf t)
       @ '' '' @ string_of_int (getDate pf t)"

definition clock_text :: "date_platform \<Rightarrow> int \<Rightarrow> string" where
  "clock_text pf t = pad2 (getHours pf t) @ '':'' @ pad2 (getMinutes pf t) @ '':'' @ pad2 (getSeconds pf t)"

definition formatNowLocalTime :: "date_platform \<Rightarrow> int \<Rightarrow> string" where
  "formatNowLocalTime pf now = clock_text pf now"

definition formatLocalTime :: "date_platform \<Rightarrow> js \<Rightarrow> string \<Rightarrow> string res" where
  "formatLocalTime pf v fallback =
     (if \<not> truthy v then Inr fallback
      else res_bind (new_date pf v) (\<lambda>date. Inr (case date of None \<Rightarrow> fallback | Some t \<Rightarrow> clock_text pf t)))"

definition formatLocalDateTime :: "date_platform \<Rightarrow> js \<Rightarrow> string \<Rightarrow> string res" where
  "formatLocalDateTime pf v fallback =
     (if \<not> truthy v then Inr fallback
      else res_bind (new_date pf v) (\<lambda>date.
        case date of None \<Rightarrow> Inr fallback
        | Some t \<Rightarrow> res_bind (formatLocalTime pf v ''00:00:00'') (\<lambda>time. Inr (formatLocalDateKey pf t @ '' '' @ time))))"

definition parseLocalDateTime :: "date_platform \<Rightarrow> string \<Rightarrow> int" where
  "parseLocalDateTime pf value =
     (case date_parse pf (replace_first CHR '' '' ''T'' value) of None \<Rightarrow> 0 | Some t \<Rightarrow> t)"

section \<open>The calendar is consistent\<close>

lemma div_step:
  assumes "0 < (k::int)" "(x + 1) mod k = z mod k"
  shows "(x + 1) div k = x div k + (if z mod k = 0 then 1 else 0)"
proof -
  define q r where "q = x div k" and "r = x mod k"
  have x: "x = k * q + r" "0 \<le> r" "r < k" using assms(1) by (simp_all add: q_def r_def)
  show ?thesis
  proof (cases "r + 1 = k")
    case True
    then have "x + 1 = k * (q + 1)" using x(1) by (simp add: algebra_simps)
    then show ?thesis using assms by (simp flip: q_def)
  next
    case False
    then have "(x + 1) div k = q" "(x + 1) mod k = r + 1"
      using x by (auto intro!: int_div_pos_eq [of _ k q "r + 1"] int_mod_pos_eq [of _ k q "r + 1"])
    then show ?thesis using assms(2) x(2) by (simp flip: q_def)
  qed
qed

lemma day_from_year_step: "day_from_year (y + 1) = day_from_year y + (if leap_year y then 366 else 365)"
proof -
  have "(y - 1969 + 1) mod 4 = y mod 4" "(y - 1901 + 1) mod 100 = y mod 100" "(y - 1601 + 1) mod 400 = y mod 400"
    by (simp_all only: mod_eq_dvd_iff) simp_all
  note steps = this [THEN div_step [OF zero_less_numeral]]
  have years: "y + 1 - 1969 = y - 1969 + 1" "y + 1 - 1901 = y - 1901 + 1" "y + 1 - 1601 = y - 1601 + 1" by simp_all
  have sum: "365 * (y + 1 - 1970) + (A + (if P then 1 else 0)) - (B + (if Q then 1 else 0)) + (C + (if R then 1 else 0)) =
      365 * (y - 1970) + A - B + C + (if P \<and> (\<not> Q \<or> R) then 366 else 365)" if "R \<Longrightarrow> Q" "Q \<Longrightarrow> P" for A B C :: int and P Q R
    using that by (cases P; cases Q; cases R) simp_all
  have "y mod 400 = 0 \<Longrightarrow> y mod 100 = 0" "y mod 100 = 0 \<Longrightarrow> y mod 4 = 0"
    using mod_mod_cancel [of 100 400 y] mod_mod_cancel [of 4 100 y] by simp_all
  then show ?thesis unfolding day_from_year_def leap_year_def years steps by (rule sum)
qed

text \<open>Four bounds of a quotient; the quotient is a variable, so that they can be added up.\<close>

lemma quotient_bounds:
  assumes "0 < k" "q = (x::int) div k"
  shows "k * q \<le> x" "x < k * q + k"
  using mult_div_mod_eq [of k x] pos_mod_bound [OF assms(1), of x] pos_mod_sign [OF assms(1), of x] unfolding assms(2) [symmetric] by linarith+

lemma day_from_year_bounds:
  "146097 * (y - 1970) - 506 \<le> 400 * day_from_year y" "400 * day_from_year y \<le> 146097 * (y - 1970) + 589"
proof -
  define a b c where "a = (y - 1969) div 4" and "b = (y - 1901) div 100" and "c = (y - 1601) div 400"
  note bounds = quotient_bounds [OF zero_less_numeral a_def] quotient_bounds [OF zero_less_numeral b_def] quotient_bounds [OF zero_less_numeral c_def]
  have "day_from_year y = 365 * (y - 1970) + a - b + c" by (simp add: day_from_year_def a_def b_def c_def)
  with bounds show "146097 * (y - 1970) - 506 \<le> 400 * day_from_year y" "400 * day_from_year y \<le> 146097 * (y - 1970) + 589"
    by simp_all
qed

lemma year_from_day_bounds:
  "day_from_year (year_from_day d) \<le> d" "d < day_from_year (year_from_day d + 1)"
proof -
  define q where "q = (400 * d) div 146097"
  note q = quotient_bounds [OF zero_less_numeral q_def]
  define y where "y = 1970 + q"
  have lo: "day_from_year (y - 1) \<le> d" using q day_from_year_bounds [of "y - 1"] by (simp add: y_def)
  have hi: "d < day_from_year (y + 2)" using q day_from_year_bounds [of "y + 2"] by (simp add: y_def)
  have "year_from_day d = (if d < day_from_year y then y - 1 else if day_from_year (y + 1) \<le> d then y + 1 else y)"
    by (simp add: year_from_day_def y_def q_def Let_def)
  with lo hi show "day_from_year (year_from_day d) \<le> d" "d < day_from_year (year_from_day d + 1)"
    by (auto simp: add.commute)
qed

lemma day_in_year_bounds: "0 \<le> day_in_year d" "day_in_year d < month_start (leap_year (year_from_day d)) 12"
  using year_from_day_bounds [of d] by (auto simp: day_in_year_def day_from_year_step month_start_def)

lemma month_start_0: "month_start l 0 = 0"
  by (simp add: month_start_def)

lemma month_of_bounds:
  assumes "0 \<le> m" "m \<le> 11" "month_start l m \<le> k" "k < month_start l 12"
  shows "m \<le> month_of l k m \<and> month_of l k m \<le> 11 \<and> month_start l (month_of l k m) \<le> k \<and> k < month_start l (month_of l k m + 1)"
  using assms
proof (induction l k m rule: month_of.induct)
  case (1 l k m)
  show ?case
  proof (cases "m < 11 \<and> month_start l (m + 1) \<le> k")
    case True
    then show ?thesis using 1 by (auto simp: month_of.simps [of l k m])
  next
    case False
    then have "m = 11 \<or> k < month_start l (m + 1)" using 1 by auto
    with False show ?thesis using 1 by (auto simp: month_of.simps [of l k m])
  qed
qed

lemma date_bounds:
  "0 \<le> month_from_day d" "month_from_day d \<le> 11" "1 \<le> date_from_day d"
  "date_from_day d \<le> month_start (leap_year (year_from_day d)) (month_from_day d + 1) - month_start (leap_year (year_from_day d)) (month_from_day d)"
  using month_of_bounds [of 0 "leap_year (year_from_day d)" "day_in_year d"] day_in_year_bounds [of d] month_start_0 by (simp_all add: month_from_day_def date_from_day_def)

lemma date_from_day_31: "date_from_day d \<le> 31"
proof -
  have "month_start l (m + 1) - month_start l m \<le> 31" for l m by (auto simp: month_start_def Let_def)
  then show ?thesis using date_bounds(4) [of d] by (meson order_trans)
qed

lemma make_day_parts: "make_day (year_from_day d) (month_from_day d) (date_from_day d) = d"
  using date_bounds(1,2) [of d] by (simp add: make_day_def date_from_day_def day_in_year_def)

section \<open>Numbers in a date\<close>

lemma pad2_digits:
  assumes "0 \<le> v" "v < 100"
  shows "length (pad2 v) = 2 \<and> list_all is_digit (pad2 v) \<and> digits_nat (pad2 v) = nat v"
proof -
  define n where "n = nat v"
  have n: "n < 100" "pad2 v = pad_start 2 CHR ''0'' (string_of_nat n)" using assms by (auto simp: n_def pad2_def string_of_int_def)
  have zero: "is_digit CHR ''0''" "digit_value 10 CHR ''0'' = Some 0" by (simp_all add: is_digit_def digit_value_def)
  show ?thesis
  proof (cases "n < 10")
    case True
    then have "pad2 v = CHR ''0'' # string_of_nat n" by (simp add: n(2) pad_start_def string_of_nat_def nat_digits.simps numeral_2_eq_2)
    moreover have "length (string_of_nat n) = 1" using True by (simp add: string_of_nat_def nat_digits.simps)
    ultimately show ?thesis using string_of_nat_digits [of n] digits_value_string_of_nat [of n] zero by (simp add: digits_nat_def n_def)
  next
    case False
    then have "\<not> n < 10" "n div 10 < 10" using n(1) by (simp_all add: div_less_iff_less_mult)
    then have "length (string_of_nat n) = 2" by (simp add: string_of_nat_def nat_digits.simps [of 10 n] nat_digits.simps [of 10 "n div 10"])
    moreover from this have "pad2 v = string_of_nat n" by (simp add: n(2) pad_start_def)
    ultimately show ?thesis using string_of_nat_digits [of n] digits_value_string_of_nat [of n] by (simp add: digits_nat_def n_def)
  qed
qed

lemma take_number_pad2: "0 \<le> v \<Longrightarrow> v < 100 \<Longrightarrow> take_number 2 (pad2 v @ r) = Some (v, r)"
  using pad2_digits [of v] by (simp add: take_number_def)

lemma year_digits:
  assumes "1000 \<le> y" "y \<le> 9999"
  shows "take_number 4 (string_of_int y @ r) = Some (y, r)"
proof -
  define n where "n = nat y"
  have n: "1000 \<le> n" "n < 10000" "string_of_int y = string_of_nat n" "y = int n"
    using assms by (auto simp: n_def string_of_int_def)
  have "\<not> n < 10" "\<not> n div 10 < 10" "\<not> n div 10 div 10 < 10" "n div 10 div 10 div 10 < 10"
    using n(1,2) by (simp_all add: div_less_iff_less_mult not_less less_eq_div_iff_mult_less_eq)
  then have "length (string_of_nat n) = 4"
    by (simp add: string_of_nat_def nat_digits.simps [of 10 n] nat_digits.simps [of 10 "n div 10"]
        nat_digits.simps [of 10 "n div 10 div 10"] nat_digits.simps [of 10 "n div 10 div 10 div 10"] del: div_mult2_eq [symmetric])
  then show ?thesis
    using n(3,4) string_of_nat_digits [of n] digits_value_string_of_nat [of n] by (simp add: take_number_def digits_nat_def)
qed

lemma year_first_char:
  assumes "1000 \<le> y"
  shows "\<exists>c t. string_of_int y = c # t \<and> is_digit c"
  using assms string_of_nat_digits [of "nat y"] string_of_nat_nonempty [of "nat y"]
  by (cases "string_of_nat (nat y)") (auto simp: string_of_int_def)

lemma iso_year_text:
  assumes "1000 \<le> y" "y \<le> 9999"
  shows "iso_year (string_of_int y @ r) = Some (y, r)"
proof -
  obtain c t where c: "string_of_int y = c # t" "is_digit c" using year_first_char assms(1) by blast
  then have "c \<noteq> CHR ''+''" "c \<noteq> CHR ''-''" by (auto simp: is_digit_def)
  then show ?thesis using c(1) year_digits [OF assms, of r] by (simp add: iso_year_def)
qed

section \<open>Days by their text\<close>

text \<open>The local day of a time, the text of a day and its label; days with the same text are the same.\<close>

definition local_day :: "date_platform \<Rightarrow> int \<Rightarrow> int" where
  "local_day pf t = local_time pf t div 86400000"

definition day_key :: "int \<Rightarrow> string" where
  "day_key d = string_of_int (year_from_day d) @ ''-'' @ pad2 (month_from_day d + 1) @ ''-'' @ pad2 (date_from_day d)"

definition day_label :: "int \<Rightarrow> string" where
  "day_label d =
     [''Jan'', ''Feb'', ''Mar'', ''Apr'', ''May'', ''Jun'', ''Jul'', ''Aug'', ''Sep'', ''Oct'', ''Nov'', ''Dec''] ! nat (month_from_day d)
       @ '' '' @ string_of_int (date_from_day d)"

lemma printed_day:
  "formatLocalDateKey pf t = day_key (local_day pf t)" "formatLocalDayLabel pf t = day_label (local_day pf t)"
  unfolding formatLocalDateKey_def formatLocalDayLabel_def day_key_def day_label_def local_day_def getFullYear_def getMonth_def getDate_def
  by (rule refl)+

lemma string_of_nat_inj: "string_of_nat m = string_of_nat n \<Longrightarrow> m = n"
  by (rule option.inject [THEN iffD1], subst (1 2) digits_value_string_of_nat [symmetric]) (rule arg_cong)

lemma string_of_int_inj:
  assumes "string_of_int a = string_of_int b"
  shows "a = b"
proof -
  have sign: "string_of_nat m \<noteq> CHR ''-'' # s" for m s
    using string_of_nat_digits [of m] by (cases "string_of_nat m") (auto simp: is_digit_def)
  consider "a < 0" "b < 0" | "a < 0" "0 \<le> b" | "0 \<le> a" "b < 0" | "0 \<le> a" "0 \<le> b" by linarith
  then show ?thesis
  proof cases
    case 1
    then have "nat (- a) = nat (- b)" using assms by (intro string_of_nat_inj) (simp add: string_of_int_def)
    with 1 show ?thesis by linarith
  next
    case 4
    then have "nat a = nat b" using assms by (intro string_of_nat_inj) (simp add: string_of_int_def)
    with 4 show ?thesis by linarith
  qed (use assms sign in \<open>simp_all add: string_of_int_def\<close>, metis)
qed

lemma pad2_inj:
  assumes "0 \<le> a" "a < 100" "0 \<le> b" "b < 100" "pad2 a = pad2 b"
  shows "a = b"
proof -
  have "nat a = digits_nat (pad2 a)" "nat b = digits_nat (pad2 b)" using pad2_digits assms(1-4) by metis+
  then have "nat a = nat b" using assms(5) by (simp only:)
  with assms(1,3) show ?thesis by linarith
qed

lemma day_key_inj:
  assumes "day_key a = day_key b"
  shows "a = b"
proof -
  have r: "0 \<le> month_from_day d + 1" "month_from_day d + 1 < 100" "0 \<le> date_from_day d" "date_from_day d < 100" for d
    using date_bounds [of d] date_from_day_31 [of d] by simp_all
  have len: "length (pad2 (month_from_day d + 1)) = 2" "length (pad2 (date_from_day d)) = 2" for d using pad2_digits r by blast+
  have tail: "u = v \<and> p = q" if "u @ ''-'' @ p = v @ ''-'' @ q" "length p = length q" for u v p q :: string
    using that append_eq_append_conv [of "''-'' @ p" "''-'' @ q" u v] by simp
  from assms have "(string_of_int (year_from_day a) @ ''-'' @ pad2 (month_from_day a + 1)) @ ''-'' @ pad2 (date_from_day a) =
      (string_of_int (year_from_day b) @ ''-'' @ pad2 (month_from_day b + 1)) @ ''-'' @ pad2 (date_from_day b)"
    unfolding day_key_def append_assoc .
  note date = tail [OF this, unfolded len, OF refl]
  note year = tail [OF date [THEN conjunct1], unfolded len, OF refl]
  have "month_from_day a + 1 = month_from_day b + 1" by (rule pad2_inj [OF r(1,2) r(1,2) year [THEN conjunct2]])
  then have month: "month_from_day a = month_from_day b" by simp
  have "make_day (year_from_day a) (month_from_day a) (date_from_day a) = make_day (year_from_day b) (month_from_day b) (date_from_day b)"
    unfolding month string_of_int_inj [OF year [THEN conjunct1]] pad2_inj [OF r(3,4) r(3,4) date [THEN conjunct2]] ..
  then show ?thesis unfolding make_day_parts .
qed

section \<open>A printed date reads back\<close>

lemma iso_date_text:
  assumes "1000 \<le> year_from_day d" "year_from_day d \<le> 9999" "r = [] \<or> hd r \<noteq> CHR ''-''"
  shows "iso_date (string_of_int (year_from_day d) @ ''-'' @ pad2 (month_from_day d + 1) @ ''-'' @ pad2 (date_from_day d) @ r) = Some (d, r)"
proof -
  have "take_number 2 (pad2 (month_from_day d + 1) @ r) = Some (month_from_day d + 1, r)"
    "take_number 2 (pad2 (date_from_day d) @ r) = Some (date_from_day d, r)" for r
    using date_bounds [of d] date_from_day_31 [of d] by (auto intro!: take_number_pad2)
  then show ?thesis
    using iso_year_text [OF assms(1,2)] date_bounds [of d] by (simp add: iso_date_def iso_field_def Let_def make_day_parts add.commute)
qed

lemma clock_bounds:
  "0 \<le> getHours pf t" "getHours pf t < 24" "0 \<le> getMinutes pf t" "getMinutes pf t < 60" "0 \<le> getSeconds pf t" "getSeconds pf t < 60"
  by (simp_all add: getHours_def getMinutes_def getSeconds_def)

lemma iso_time_text: "iso_time (clock_text pf t) = Some (make_time (getHours pf t) (getMinutes pf t) (getSeconds pf t) 0, [])"
proof -
  have "take_number 2 (pad2 (getHours pf t) @ r) = Some (getHours pf t, r)"
    "take_number 2 (pad2 (getMinutes pf t) @ r) = Some (getMinutes pf t, r)"
    "take_number 2 (pad2 (getSeconds pf t) @ r) = Some (getSeconds pf t, r)" for r
    using clock_bounds [of pf t] by (auto intro!: take_number_pad2)
  from this(1,2) this(3) [of "[]"] show ?thesis using clock_bounds [of pf t] by (simp add: iso_time_def clock_text_def iso_field_def)
qed

lemma clock_seconds:
  "make_date (local_time pf t div 86400000) (make_time (getHours pf t) (getMinutes pf t) (getSeconds pf t) 0) = local_time pf t - local_time pf t mod 1000"
proof -
  define s m h d where "s = local_time pf t div 1000" and "m = s div 60" and "h = m div 60" and "d = h div 24"
  have "local_time pf t div 60000 = m" "local_time pf t div 3600000 = h" "local_time pf t div 86400000 = d"
    using zdiv_zmult2_eq [of 60 "local_time pf t" 1000] zdiv_zmult2_eq [of 3600 "local_time pf t" 1000] zdiv_zmult2_eq [of 60 s 60]
      zdiv_zmult2_eq [of 86400 "local_time pf t" 1000] zdiv_zmult2_eq [of 24 s 3600] by (simp_all flip: s_def m_def h_def d_def)
  moreover have "local_time pf t - local_time pf t mod 1000 = 1000 * s" by (simp add: s_def minus_mod_eq_mult_div)
  moreover have "s mod 60 = s - 60 * m" "m mod 60 = m - 60 * h" "h mod 24 = h - 24 * d"
    by (simp_all add: m_def h_def d_def minus_mult_div_eq_mod)
  ultimately show ?thesis
    by (simp add: make_date_def make_time_def getHours_def getMinutes_def getSeconds_def flip: s_def)
qed

lemma no_space_digits: "list_all is_digit s \<Longrightarrow> replace_first CHR '' '' u (s @ r) = s @ replace_first CHR '' '' u r"
  by (induction s) (auto simp: is_digit_def)

lemma iso_parse_text:
  assumes "1000 \<le> getFullYear pf t" "getFullYear pf t \<le> 9999"
  shows "iso_parse pf (replace_first CHR '' '' ''T'' (formatLocalDateKey pf t @ '' '' @ clock_text pf t)) =
    Some (utc_time pf (local_time pf t - local_time pf t mod 1000))"
proof -
  let ?d = "local_time pf t div 86400000"
  have digits: "list_all is_digit (pad2 (getMonth pf t + 1))" "list_all is_digit (pad2 (getDate pf t))"
    "list_all is_digit (string_of_int (getFullYear pf t))"
    using pad2_digits [of "getMonth pf t + 1"] pad2_digits [of "getDate pf t"] date_bounds [of ?d] date_from_day_31 [of ?d] assms(1)
    by (simp_all add: getMonth_def getDate_def string_of_int_def string_of_nat_digits)
  have "replace_first CHR '' '' ''T'' (formatLocalDateKey pf t @ '' '' @ clock_text pf t) = formatLocalDateKey pf t @ ''T'' @ clock_text pf t"
    by (simp add: formatLocalDateKey_def no_space_digits digits)
  moreover have "iso_date (formatLocalDateKey pf t @ ''T'' @ clock_text pf t) = Some (?d, ''T'' @ clock_text pf t)"
    using iso_date_text [of ?d "''T'' @ clock_text pf t"] assms by (simp add: formatLocalDateKey_def getFullYear_def getMonth_def getDate_def)
  ultimately show ?thesis by (simp add: iso_parse_def iso_time_text iso_zone_def clock_seconds)
qed

text \<open>
  What the language and the time zone database promise of a time zone: offsets are whole seconds and less than a day, they change at
  whole seconds, and a local time that some instant has is read as an instant that has it. In the hour a change of the clocks repeats there
  are two such instants; a local time that is skipped has none, and nothing is said of it.
\<close>

definition zone_wf :: "date_platform \<Rightarrow> bool" where
  "zone_wf pf \<longleftrightarrow> (\<forall>t. utc_offset pf t mod 1000 = 0 \<and> \<bar>utc_offset pf t\<bar> < 86400000 \<and>
     utc_offset pf (t - t mod 1000) = utc_offset pf t \<and> local_time pf (utc_time pf (local_time pf t)) = local_time pf t)"

lemma local_time_bound:
  assumes "1000 \<le> getFullYear pf t" "getFullYear pf t \<le> 9999"
  shows "\<bar>local_time pf t\<bar> \<le> 300000000000000"
proof -
  define d where "d = local_time pf t div 86400000"
  define y where "y = year_from_day d"
  have "1000 \<le> y" "y \<le> 9999" using assms by (simp_all add: getFullYear_def y_def d_def)
  then have "- 400000000 \<le> 400 * d" "400 * d \<le> 1200000000"
    using year_from_day_bounds [of d] day_from_year_bounds [of y] day_from_year_bounds [of "y + 1"] by (simp_all flip: y_def)
  with quotient_bounds [OF zero_less_numeral d_def] show ?thesis by simp
qed

lemma whole_second_div:
  assumes "0 < j" "k = 1000 * j"
  shows "(x - x mod 1000) div k = x div (k :: int)"
proof -
  have "x - x mod 1000 = 1000 * (x div 1000)" by (simp add: minus_mod_eq_mult_div)
  then have "(x - x mod 1000) div k = x div 1000 div j" by (simp add: assms(2))
  also have "\<dots> = x div k" using zdiv_zmult2_eq [of j x 1000] assms by simp
  finally show ?thesis .
qed

lemma printed_whole_second:
  assumes "local_time pf u = local_time pf t - local_time pf t mod 1000"
  shows "formatLocalDateKey pf u = formatLocalDateKey pf t" "clock_text pf u = clock_text pf t"
proof -
  let ?x = "local_time pf t"
  have "local_time pf u div 86400000 = ?x div 86400000" "local_time pf u div 3600000 = ?x div 3600000"
    "local_time pf u div 60000 = ?x div 60000" "local_time pf u div 1000 = ?x div 1000"
    unfolding assms by (rule whole_second_div [of 86400], simp, simp) (rule whole_second_div [of 3600], simp, simp,
      rule whole_second_div [of 60], simp, simp, rule whole_second_div [of 1], simp, simp)
  then show "formatLocalDateKey pf u = formatLocalDateKey pf t" "clock_text pf u = clock_text pf t"
    unfolding formatLocalDateKey_def clock_text_def getFullYear_def getMonth_def getDate_def getHours_def getMinutes_def getSeconds_def
    by (simp_all only:)
qed

lemma local_whole_second:
  assumes "zone_wf pf"
  shows "local_time pf (t - t mod 1000) = local_time pf t - local_time pf t mod 1000"
proof -
  have z: "utc_offset pf t mod 1000 = 0" "utc_offset pf (t - t mod 1000) = utc_offset pf t" using assms by (simp_all add: zone_wf_def)
  have "local_time pf t mod 1000 = t mod 1000" using z(1) by (simp add: local_time_def mod_add_eq [symmetric])
  then show ?thesis using z(2) by (simp add: local_time_def)
qed

lemma parse_printed:
  assumes "zone_wf pf" "1000 \<le> getFullYear pf t" "getFullYear pf t \<le> 9999"
  shows "parseLocalDateTime pf (formatLocalDateKey pf t @ '' '' @ clock_text pf t) = utc_time pf (local_time pf (t - t mod 1000))"
    and "local_time pf (utc_time pf (local_time pf (t - t mod 1000))) = local_time pf (t - t mod 1000)"
proof -
  let ?w = "t - t mod 1000"
  let ?u = "utc_time pf (local_time pf ?w)"
  show zone: "local_time pf ?u = local_time pf ?w" using assms(1) unfolding zone_wf_def by blast
  have off: "\<bar>utc_offset pf ?u\<bar> < 86400000" using assms(1) unfolding zone_wf_def by blast
  define r where "r = local_time pf t mod 1000"
  have "0 \<le> r" "r < 1000" by (simp_all add: r_def)
  moreover have "local_time pf ?w = local_time pf t - r" using local_whole_second [OF assms(1), of t] by (simp add: r_def)
  moreover have "?u = local_time pf ?w - utc_offset pf ?u" using zone by (simp add: local_time_def [of pf ?u])
  ultimately have "\<bar>?u\<bar> \<le> 300000000000000 + 1000 + 86400000" using off local_time_bound [OF assms(2,3)] by arith
  then have "\<bar>?u\<bar> \<le> 8640000000000000" by simp
  then show "parseLocalDateTime pf (formatLocalDateKey pf t @ '' '' @ clock_text pf t) = ?u"
    using iso_parse_text [OF assms(2,3)] local_whole_second [OF assms(1), of t]
    by (simp only: parseLocalDateTime_def date_parse_def option.case time_clip_def if_True)
qed

section \<open>Property\<close>

text \<open>
  C12: a time in a year of four digits that is printed and read back keeps its local reading to the second. \<^verbatim>\<open>formatLocalDateTime\<close> writes the
  text; \<^verbatim>\<open>parseLocalDateTime\<close> reads from it an instant that has the same local time without the milliseconds and prints to the same text, and
  that is the very instant printed whenever no other instant has its local time: the hour that a change of the clocks repeats is the only exception.
\<close>

theorem timestamp_reads_back:
  assumes "zone_wf pf" "truthy v" "new_date pf v = Inr (Some t)" "1000 \<le> getFullYear pf t" "getFullYear pf t \<le> 9999"
  shows "\<exists>s. formatLocalDateTime pf v fallback = Inr s \<and>
    local_time pf (parseLocalDateTime pf s) = local_time pf (t - t mod 1000) \<and>
    formatLocalDateKey pf (parseLocalDateTime pf s) @ '' '' @ clock_text pf (parseLocalDateTime pf s) = s \<and>
    ((\<forall>x. local_time pf x = local_time pf (t - t mod 1000) \<longrightarrow> x = t - t mod 1000) \<longrightarrow> parseLocalDateTime pf s = t - t mod 1000)"
proof -
  let ?s = "formatLocalDateKey pf t @ '' '' @ clock_text pf t"
  have s: "formatLocalDateTime pf v fallback = Inr ?s" using assms(2,3) by (simp add: formatLocalDateTime_def formatLocalTime_def)
  have u: "local_time pf (parseLocalDateTime pf ?s) = local_time pf (t - t mod 1000)"
    unfolding parse_printed(1) [OF assms(1,4,5)] by (rule parse_printed(2) [OF assms(1,4,5)])
  then have "local_time pf (parseLocalDateTime pf ?s) = local_time pf t - local_time pf t mod 1000"
    unfolding local_whole_second [OF assms(1)] .
  note printed = printed_whole_second [OF this]
  show ?thesis
  proof (rule exI [of _ ?s], intro conjI impI)
    show "formatLocalDateKey pf (parseLocalDateTime pf ?s) @ '' '' @ clock_text pf (parseLocalDateTime pf ?s) = ?s" unfolding printed ..
    show "parseLocalDateTime pf ?s = t - t mod 1000" if "\<forall>x. local_time pf x = local_time pf (t - t mod 1000) \<longrightarrow> x = t - t mod 1000"
      using that u by blast
  qed (fact s, fact u)
qed

theorem timestamp_reads_back_witness:
  "\<exists>s. formatLocalDateTime \<lparr>utc_offset = \<lambda>_. 7200000, local_offset = \<lambda>_. 7200000, legacy_date = \<lambda>_. None\<rparr> (Str ''2024-02-29T23:30:15.250Z'') ''-'' = Inr s
     \<and> parseLocalDateTime \<lparr>utc_offset = \<lambda>_. 7200000, local_offset = \<lambda>_. 7200000, legacy_date = \<lambda>_. None\<rparr> s = 1709249415000"
proof -
  let ?pf = "\<lparr>utc_offset = \<lambda>_. 7200000, local_offset = \<lambda>_. 7200000, legacy_date = \<lambda>_. None\<rparr>"
  have zone: "zone_wf ?pf" by (simp add: zone_wf_def local_time_def utc_time_def)
  have date: "new_date ?pf (Str ''2024-02-29T23:30:15.250Z'') = Inr (Some 1709249415250)" by code_simp
  have year: "1000 \<le> getFullYear ?pf 1709249415250" "getFullYear ?pf 1709249415250 \<le> 9999" by code_simp+
  have "truthy (Str ''2024-02-29T23:30:15.250Z'')" by simp
  from timestamp_reads_back [OF zone this date year, of "''-''"] show ?thesis by (elim exE conjE) (intro exI conjI, assumption, simp add: local_time_def)
qed

end
