(* ===== verification/DeviceData.thy ===== *)
theory DeviceData
  imports Dates CommandResults
begin

text \<open>
  \<^verbatim>\<open>src/app/device-management/lib/deviceManagementData.ts\<close>: rows of devices, commands and alerts from the API become the
  records of the device pages. Rows are values of any type; \<open>pf\<close> is the date platform and \<open>clock i\<close> what \<^verbatim>\<open>Date.now()\<close>
  reads when the \<open>i\<close>-th audit row is built.
\<close>

section \<open>Definitions\<close>

datatype device_status = Online | Offline | Quarantined | Degraded

fun status_string :: "device_status \<Rightarrow> string" where
  "status_string Online = ''online''"
| "status_string Offline = ''offline''"
| "status_string Quarantined = ''quarantined''"
| "status_string Degraded = ''degraded''"

datatype compliance_status = Compliant | NonCompliant | Drift

fun compliance_string :: "compliance_status \<Rightarrow> string" where
  "compliance_string Compliant = ''compliant''"
| "compliance_string NonCompliant = ''non_compliant''"
| "compliance_string Drift = ''drift''"

record device =
  devId :: js
  hostname :: js
  osBuild :: string
  owner :: string
  devStatus :: device_status
  riskScore :: jsnum
  compliance :: compliance_status
  lastSeen :: string
  agentVersion :: string
  policySync :: "bool option"
  kernelGuard :: "bool option"
  ipAddress :: "string option"
  devSession :: "string option"

definition VALID_STATUSES :: "device_status list" where
  "VALID_STATUSES = [Online, Offline, Degraded, Quarantined]"

text \<open>\<^verbatim>\<open>String(value ?? '').toLowerCase()\<close>.\<close>

definition lowered :: "js \<Rightarrow> string res" where
  "lowered v = res_bind (js_String (coalesce v (Str []))) (\<lambda>s. Inr (to_lower s))"

definition status_of :: "string \<Rightarrow> device_status" where
  "status_of n =
     (if n = ''online'' \<or> n = ''active'' then Online else if n = ''quarantined'' then Quarantined
      else if n = ''degraded'' then Degraded else Offline)"

definition normalizeStatus :: "js \<Rightarrow> device_status res" where
  "normalizeStatus v = res_bind (lowered v) (\<lambda>n. Inr (status_of n))"

definition compliance_of :: "string \<Rightarrow> compliance_status" where
  "compliance_of n =
     (if n = ''compliant'' then Compliant else if n = ''drift'' \<or> n = ''degraded'' \<or> n = ''unknown'' then Drift else NonCompliant)"

definition normalizeCompliance :: "js \<Rightarrow> compliance_status res" where
  "normalizeCompliance v = res_bind (lowered v) (\<lambda>n. Inr (compliance_of n))"

text \<open>\<^verbatim>\<open>Math.max(0, Math.min(1, x))\<close>.\<close>

definition clamp1 :: "jsnum \<Rightarrow> jsnum" where
  "clamp1 x = num_max (Fin 0) (num_min (Fin 1) x)"

definition risk_of :: "jsnum \<Rightarrow> jsnum" where
  "risk_of parsed =
     (if \<not> num_is_finite parsed \<or> num_le parsed (Fin 0) then Fin 0
      else if num_lt (Fin 1) parsed then clamp1 (num_scale parsed (1 / 100)) else clamp1 parsed)"

definition normalizeRisk :: "js \<Rightarrow> jsnum res" where
  "normalizeRisk v =
     res_bind (case v of Num n \<Rightarrow> Inr n | _ \<Rightarrow> js_Number (coalesce v (Num (Fin 0)))) (\<lambda>parsed. Inr (risk_of parsed))"

definition clampPercent :: "js \<Rightarrow> jsnum" where
  "clampPercent v =
     (case v of Num n \<Rightarrow> if num_is_finite n then num_max (Fin 0) (num_min (Fin 100) n) else Fin 0 | _ \<Rightarrow> Fin 0)"

definition formatDateTime :: "date_platform \<Rightarrow> js \<Rightarrow> string res" where
  "formatDateTime pf v = formatLocalDateTime pf v ''-''"

definition formatTimeOnly :: "date_platform \<Rightarrow> js \<Rightarrow> string res" where
  "formatTimeOnly pf v = formatLocalTime pf v ''-''"

definition formatAuditTimestamp :: "date_platform \<Rightarrow> js \<Rightarrow> string res" where
  "formatAuditTimestamp pf v = formatLocalDateTime pf v ''-''"

text \<open>\<^verbatim>\<open>Math.round\<close> of a finite number.\<close>

fun num_round :: "jsnum \<Rightarrow> jsnum" where
  "num_round (Fin r) = Fin (of_int \<lfloor>r + 1 / 2\<rfloor>)"
| "num_round x = x"

definition formatDuration :: "date_platform \<Rightarrow> js \<Rightarrow> js \<Rightarrow> string option res" where
  "formatDuration pf startIso endIso =
     (if \<not> truthy startIso \<or> \<not> truthy endIso then Inr None
      else
        res_bind (new_date pf startIso) (\<lambda>start.
        res_bind (new_date pf endIso) (\<lambda>end'.
          Inr (case (start, end') of
             (Some s, Some e) \<Rightarrow>
               if e < s then None
               else Some (number_to_string (num_round (num_scale (to_double (of_int (e - s))) (1 / 1000))) @ ''s'')
           | _ \<Rightarrow> None))))"

definition status_named :: "string \<Rightarrow> device_status option" where
  "status_named v = find (\<lambda>s. status_string s = v) VALID_STATUSES"

definition parseStatusCsv :: "string option \<Rightarrow> device_status list" where
  "parseStatusCsv value =
     (case value of None \<Rightarrow> []
      | Some s \<Rightarrow> if s = [] then [] else List.map_filter (\<lambda>v. status_named (to_lower (trim v))) (split_on CHR '','' s))"

text \<open>\<^verbatim>\<open>s || v?.trim()\<close>, and \<^verbatim>\<open>typeof v === 'boolean' ? v : null\<close>.\<close>

definition or_trim :: "string \<Rightarrow> js \<Rightarrow> string res" where
  "or_trim s v = (if s \<noteq> [] then Inr s else opt_trim v)"

fun as_bool :: "js \<Rightarrow> bool option" where
  "as_bool (Bool b) = Some b"
| "as_bool _ = None"

definition or_value :: "string \<Rightarrow> js \<Rightarrow> js" where
  "or_value s v = (if s \<noteq> [] then Str s else v)"

definition bool_or :: "bool option \<Rightarrow> bool option \<Rightarrow> bool option" where
  "bool_or a b = (case a of Some x \<Rightarrow> Some x | None \<Rightarrow> b)"

definition mapListDevice :: "date_platform \<Rightarrow> js \<Rightarrow> device res" where
  "mapListDevice pf item =
     (let f = js_field item in
      res_bind (js_member item ''resolved_os_build'') (\<lambda>_.
      res_bind (opt_trim (f ''resolved_os_build'')) (\<lambda>resolvedOsBuild.
      res_bind (opt_trim (f ''resolved_compliance_status'')) (\<lambda>resolvedCompliance.
      res_bind (opt_trim (f ''resolved_presence_state'')) (\<lambda>resolvedPresence.
      res_bind (opt_trim (f ''device_name'')) (\<lambda>name.
      res_bind (or_trim resolvedOsBuild (f ''os_build'')) (\<lambda>os.
      res_bind (opt_trim (f ''owner_email'')) (\<lambda>own.
      res_bind (normalizeStatus (or_value resolvedPresence (f ''lifecycle_state''))) (\<lambda>st.
      res_bind (normalizeRisk (f ''risk_score'')) (\<lambda>risk.
      res_bind (normalizeCompliance (or_value resolvedCompliance (f ''compliance_status''))) (\<lambda>comp.
      res_bind (formatDateTime pf (f ''last_seen'')) (\<lambda>seen.
      res_bind (opt_trim (f ''agent_version'')) (\<lambda>agent.
      res_bind (opt_trim (f ''ip_address'')) (\<lambda>ip.
      res_bind (opt_trim (f ''session_id'')) (\<lambda>sess.
        Inr \<lparr>devId = f ''device_id'', hostname = or_value name (f ''device_id''), osBuild = or_text os ''-'',
          owner = or_text own ''Unknown'', devStatus = st, riskScore = risk, compliance = comp, lastSeen = seen,
          agentVersion = or_text agent ''-'',
          policySync = bool_or (as_bool (f ''resolved_policy_in_sync'')) (as_bool (f ''policy_in_sync'')),
          kernelGuard = as_bool (f ''kernel_guard''), ipAddress = or_null ip None, devSession = or_null sess None\<rparr>)))))))))))))))"

definition mergeDeviceDetail :: "date_platform \<Rightarrow> device \<Rightarrow> js \<Rightarrow> device res" where
  "mergeDeviceDetail pf base detail =
     (let f = js_field detail in
      res_bind (js_member detail ''last_seen'') (\<lambda>_.
      res_bind (formatDateTime pf (f ''last_seen'')) (\<lambda>detailLastSeen.
      res_bind (opt_trim (f ''resolved_os_build'')) (\<lambda>resolvedOsBuild.
      res_bind (opt_trim (f ''resolved_compliance_status'')) (\<lambda>resolvedCompliance.
      res_bind (opt_trim (f ''resolved_presence_state'')) (\<lambda>resolvedPresence.
      res_bind (opt_trim (f ''device_name'')) (\<lambda>name.
      res_bind (or_trim resolvedOsBuild (f ''os_build'')) (\<lambda>os.
      res_bind (opt_trim (f ''owner_email'')) (\<lambda>own.
      res_bind (normalizeStatus (or_value resolvedPresence
        (coalesce (f ''lifecycle_state'') (Str (status_string (devStatus base)))))) (\<lambda>st.
      res_bind (normalizeCompliance (or_value resolvedCompliance
        (coalesce (js_field (f ''compliance'') ''status'')
          (coalesce (f ''compliance_status'') (Str (compliance_string (compliance base))))))) (\<lambda>comp.
      res_bind (normalizeRisk (coalesce (f ''risk_score'')
        (coalesce (js_field (f ''telemetry_latest'') ''risk_score'') (Num (riskScore base))))) (\<lambda>risk.
      res_bind (opt_trim (f ''agent_version'')) (\<lambda>agent.
      res_bind (opt_trim (f ''ip_address'')) (\<lambda>ip.
      res_bind (opt_trim (f ''session_id'')) (\<lambda>sess.
        Inr (base\<lparr>hostname := or_value name (hostname base), osBuild := or_text os (osBuild base),
          owner := or_text own (owner base), devStatus := st, compliance := comp, riskScore := risk,
          lastSeen := (if detailLastSeen \<noteq> ''-'' then detailLastSeen else lastSeen base),
          agentVersion := or_text agent (agentVersion base),
          policySync := bool_or (as_bool (f ''resolved_policy_in_sync'')) (bool_or (as_bool (f ''policy_in_sync'')) (policySync base)),
          kernelGuard := bool_or (as_bool (f ''kernel_guard'')) (kernelGuard base),
          ipAddress := or_null ip (ipAddress base), devSession := or_null sess (devSession base)\<rparr>))))))))))))))))"

text \<open>The states of a command in the drawer: here the text is not trimmed first.\<close>

definition drawer_state_of :: "string \<Rightarrow> command_state" where
  "drawer_state_of n =
     (if n = ''dispatched'' then Dispatched else if n = ''ack_received'' then AckReceived
      else if n = ''executing'' then Executing else if n = ''completed'' then Completed
      else if n = ''failed'' then Failed else if n = ''expired'' then Expired
      else if n = ''rejected'' then Rejected else Queued)"

definition normalizeDrawerState :: "js \<Rightarrow> command_state res" where
  "normalizeDrawerState v = res_bind (lowered v) (\<lambda>n. Inr (drawer_state_of n))"

record drawer_entry =
  dwId :: string
  dwMethod :: string
  dwParams :: js
  dwState :: command_state
  dwActor :: string
  dwQueuedAt :: string
  dwCompletedAt :: "string option"
  dwDuration :: "string option"
  dwPreview :: "string option"

definition mapCommandHistoryEntry :: "date_platform \<Rightarrow> js \<Rightarrow> drawer_entry res" where
  "mapCommandHistoryEntry pf row =
     (let f = js_field row in
      res_bind (js_member row ''command_id'') (\<lambda>_.
      res_bind (opt_trim (f ''command_id'')) (\<lambda>cid.
      res_bind (opt_trim (f ''method'')) (\<lambda>meth.
      res_bind (normalizeDrawerState (f ''state'')) (\<lambda>st.
      res_bind (opt_trim (f ''actor_email'')) (\<lambda>actor.
      res_bind (formatTimeOnly pf (f ''queued_at'')) (\<lambda>queued.
      res_bind (if truthy (f ''completed_at'') then res_bind (formatTimeOnly pf (f ''completed_at'')) (\<lambda>t. Inr (Some t)) else Inr None) (\<lambda>completed.
      res_bind (formatDuration pf (f ''queued_at'') (f ''completed_at'')) (\<lambda>duration.
      res_bind (opt_trim (f ''error_message'')) (\<lambda>em.
      res_bind (or_trim em (f ''reason'')) (\<lambda>rsn.
      res_bind (or_trim rsn (f ''result_status'')) (\<lambda>rs.
      res_bind (if rs \<noteq> [] then Inr (Some rs)
                else if is_nullish (f ''error_code'') then Inr None
                else res_bind (js_String (f ''error_code'')) (\<lambda>s. Inr (Some (''error '' @ s)))) (\<lambda>preview.
        Inr \<lparr>dwId = or_text cid ''unknown'', dwMethod = or_text meth ''unknown'', dwParams = coalesce (f ''params'') (Obj []),
          dwState = st, dwActor = or_text actor ''system'', dwQueuedAt = queued, dwCompletedAt = completed,
          dwDuration = duration, dwPreview = preview\<rparr>)))))))))))))"

section \<open>Audit entries\<close>

datatype audit_event = UserAction | CommandExecution | PolicyChange | SystemEvent

datatype audit_outcome = Success | Failure | Pending

record audit_entry =
  auId :: string
  auTimestamp :: string
  auActor :: string
  auRole :: string
  auEvent :: audit_event
  auAction :: string
  auTarget :: string
  auDetail :: string
  auOutcome :: audit_outcome

definition inferActorRole :: "string \<Rightarrow> string" where
  "inferActorRole actor =
     (let lowered = to_lower actor in
      if lowered = ''system'' then ''System'' else if str_includes lowered ''admin'' then ''Admin''
      else if str_includes lowered ''viewer'' then ''Viewer'' else ''Operator'')"

definition mapCommandRowToAuditEntry :: "date_platform \<Rightarrow> int \<Rightarrow> js \<Rightarrow> audit_entry res" where
  "mapCommandRowToAuditEntry pf now row =
     (let f = js_field row in
      res_bind (js_member row ''state'') (\<lambda>_.
      res_bind (normalizeDrawerState (f ''state'')) (\<lambda>st.
      res_bind (opt_trim (f ''actor_email'')) (\<lambda>actor'.
      res_bind (opt_trim (f ''command_id'')) (\<lambda>cid.
      res_bind (formatAuditTimestamp pf (coalesce (f ''queued_at'') (f ''completed_at''))) (\<lambda>time.
      res_bind (opt_trim (f ''device_id'')) (\<lambda>target.
      res_bind (opt_trim (f ''error_message'')) (\<lambda>em.
      res_bind (or_trim em (f ''reason'')) (\<lambda>rsn.
      res_bind (if rsn \<noteq> [] then Inr rsn
                else res_bind (js_String (coalesce (f ''method'') (Str ''command''))) (\<lambda>m. Inr (m @ '' dispatched''))) (\<lambda>detail.
        let actor = or_text actor' ''system'' in
        Inr \<lparr>auId = or_text cid (''cmd-'' @ string_of_int now), auTimestamp = time, auActor = actor,
          auRole = inferActorRole actor, auEvent = CommandExecution,
          auAction = (if st = Completed then ''COMMAND_COMPLETED'' else ''COMMAND_'' @ to_upper (state_string st)),
          auTarget = or_text target ''device'', auDetail = detail,
          auOutcome = (if st = Completed then Success else if st \<in> {Failed, Expired, Rejected} then Failure else Pending)\<rparr>))))))))))"

definition mapAlertRowToAuditEntry :: "date_platform \<Rightarrow> int \<Rightarrow> js \<Rightarrow> audit_entry res" where
  "mapAlertRowToAuditEntry pf now row =
     (let f = js_field row in
      res_bind (js_member row ''acknowledged'') (\<lambda>ack.
      res_bind (case coalesce (f ''severity'') (Str ''unknown'') of Str s \<Rightarrow> Inr (to_lower s) | _ \<Rightarrow> Inl (NotAFunction ''toLowerCase'')) (\<lambda>sev.
      res_bind (opt_trim (f ''alert_id'')) (\<lambda>aid.
      res_bind (formatAuditTimestamp pf (f ''timestamp'')) (\<lambda>time.
      res_bind (opt_trim (f ''device_id'')) (\<lambda>did.
      res_bind (opt_trim (f ''message'')) (\<lambda>msg.
        Inr \<lparr>auId = or_text aid (''alert-'' @ string_of_int now), auTimestamp = time, auActor = ''system'', auRole = ''System'',
          auEvent = SystemEvent, auAction = (if truthy ack then ''ALERT_ACKNOWLEDGED'' else ''ALERT_RAISED''),
          auTarget = or_text did (or_text aid ''fleet''), auDetail = or_text msg (sev @ '' alert''),
          auOutcome = (if truthy ack then Success else if sev = ''critical'' then Failure else Pending)\<rparr>)))))))"

text \<open>The order of the entries; only the sign of a comparison matters, and rounding a difference keeps it.\<close>

definition audit_cmp :: "date_platform \<Rightarrow> audit_entry \<Rightarrow> audit_entry \<Rightarrow> int" where
  "audit_cmp pf a b =
     (case (date_parse pf (auTimestamp a), date_parse pf (auTimestamp b)) of
        (None, None) \<Rightarrow> 0
      | (None, Some _) \<Rightarrow> 1
      | (Some _, None) \<Rightarrow> - 1
      | (Some ta, Some tb) \<Rightarrow> tb - ta)"

definition composeAuditEntries :: "date_platform \<Rightarrow> (nat \<Rightarrow> int) \<Rightarrow> js list \<Rightarrow> js list \<Rightarrow> audit_entry list res" where
  "composeAuditEntries pf clock commands alerts =
     res_bind (res_map (\<lambda>(i, row). mapCommandRowToAuditEntry pf (clock i) row) (enumerate 0 commands)) (\<lambda>cs.
     res_bind (res_map (\<lambda>(i, row). mapAlertRowToAuditEntry pf (clock i) row) (enumerate (length commands) alerts)) (\<lambda>as.
       Inr (js_sort (audit_cmp pf) (cs @ as))))"

section \<open>Lemmas\<close>

lemma lowered_Str [simp]: "lowered (Str s) = Inr (to_lower s)" "lowered Undefined = Inr []" "lowered Null = Inr []"
  by (simp_all add: lowered_def)

lemma status_again [simp]: "normalizeStatus (Str (status_string st)) = Inr st"
  by (cases st; hypsubst; code_simp)

lemma compliance_again [simp]: "normalizeCompliance (Str (compliance_string c)) = Inr c"
  by (cases c; hypsubst; code_simp)

lemma nothing_normalized:
  assumes "is_nullish v"
  shows "normalizeStatus v = Inr Offline" "normalizeCompliance v = Inr NonCompliant" "normalizeRisk v = Inr (Fin 0)"
proof -
  have "normalizeStatus (Str []) = Inr Offline" "normalizeCompliance (Str []) = Inr NonCompliant" "normalizeRisk Null = Inr (Fin 0)"
    by code_simp+
  moreover have "normalizeRisk Undefined = normalizeRisk Null" by (simp add: normalizeRisk_def)
  ultimately show "normalizeStatus v = Inr Offline" "normalizeCompliance v = Inr NonCompliant" "normalizeRisk v = Inr (Fin 0)"
    using assms by (auto simp: nullish_cases normalizeStatus_def normalizeCompliance_def)
qed

lemma risk_of_range: "\<exists>r. risk_of x = Fin r \<and> 0 \<le> r \<and> r \<le> 1"
proof -
  have "\<exists>r. clamp1 x = Fin r \<and> 0 \<le> r \<and> r \<le> 1" if "x \<noteq> NaN" for x
    unfolding clamp1_def using that by (intro num_clamp_Fin) simp_all
  moreover have "num_scale x c \<noteq> NaN" if "x \<noteq> NaN" for c using that by (cases x) simp_all
  ultimately show ?thesis by (cases x) (auto simp: risk_of_def)
qed

lemma risk_of_settled: "0 \<le> r \<Longrightarrow> r \<le> 1 \<Longrightarrow> risk_of (Fin r) = Fin r"
  by (auto simp: risk_of_def num_le_def num_eq_def clamp1_def num_clamp_id)

lemma normalizeRisk_range: "normalizeRisk v = Inr n \<Longrightarrow> \<exists>r. n = Fin r \<and> 0 \<le> r \<and> r \<le> 1"
  using risk_of_range by (auto simp: normalizeRisk_def res_bind_Inr_iff)

lemma or_trim_trimmed: "or_trim s v = Inr t \<Longrightarrow> trim s = s \<Longrightarrow> trim t = t"
  by (auto simp: or_trim_def opt_trim_trimmed split: if_splits)

section \<open>The invariant of a device\<close>

definition clean_option :: "string option \<Rightarrow> bool" where
  "clean_option v \<longleftrightarrow> (case v of None \<Rightarrow> True | Some s \<Rightarrow> clean s)"

definition risk_in_range :: "jsnum \<Rightarrow> bool" where
  "risk_in_range n \<longleftrightarrow> num_le (Fin 0) n \<and> num_le n (Fin 1)"

text \<open>The name is a text of its own or, for a device without one, the id as the API sent it.\<close>

definition wf_device :: "device \<Rightarrow> bool" where
  "wf_device d \<longleftrightarrow>
     list_all clean [osBuild d, owner d, agentVersion d] \<and> list_all clean_option [ipAddress d, devSession d] \<and> risk_in_range (riskScore d) \<and>
     ((case hostname d of Str s \<Rightarrow> clean s | _ \<Rightarrow> False) \<or> hostname d = devId d)"

text \<open>The devices the pages hold: read from a row of the list, then completed any number of times.\<close>

inductive held :: "date_platform \<Rightarrow> device \<Rightarrow> bool" for pf where
  listed: "mapListDevice pf item = Inr d \<Longrightarrow> held pf d"
| detailed: "held pf d \<Longrightarrow> mergeDeviceDetail pf d detail = Inr d' \<Longrightarrow> held pf d'"

lemma risk_in_range_iff: "risk_in_range n \<longleftrightarrow> (\<exists>r. n = Fin r \<and> 0 \<le> r \<and> r \<le> 1)"
  by (cases n) (auto simp: risk_in_range_def num_le_def num_eq_def)

lemma clean_option_or_null: "trim s = s \<Longrightarrow> clean_option d \<Longrightarrow> clean_option (or_null s d)"
  by (simp add: clean_option_def or_null_def clean_def)

lemma clean_defaults: "clean ''-'' \<and> clean ''Unknown''"
  by code_simp

lemma listed_wf:
  assumes "mapListDevice pf item = Inr d"
  shows "wf_device d"
  using assms unfolding mapListDevice_def Let_def res_bind_Inr_iff
  apply (elim exE conjE)
  subgoal premises p for x rob rc rp name os own st risk comp seen agent ip sess
  proof -
    have "trim os = os" "trim own = own" "trim agent = agent" "trim ip = ip" "trim sess = sess" "trim name = name"
      using or_trim_trimmed [OF p(6) opt_trim_trimmed [OF p(2)]] p(5,7,12,13,14) opt_trim_trimmed by blast+
    then show ?thesis
      using p(15) clean_defaults normalizeRisk_range [OF p(9)]
      by (auto simp: or_value_def clean_def [of name] wf_device_def risk_in_range_iff clean_or_text clean_option_or_null clean_option_def [of None])
  qed
  done

lemma detailed_wf:
  assumes "mergeDeviceDetail pf b detail = Inr d" "wf_device b"
  shows "wf_device d \<and> devId d = devId b"
  using assms(1) unfolding mergeDeviceDetail_def Let_def res_bind_Inr_iff
  apply (elim exE conjE)
  subgoal premises p for x seen rob rc rp name os own st comp risk agent ip sess
  proof -
    have "trim os = os" "trim own = own" "trim agent = agent" "trim ip = ip" "trim sess = sess" "trim name = name"
      using or_trim_trimmed [OF p(7) opt_trim_trimmed [OF p(3)]] p(6,8,12,13,14) opt_trim_trimmed by blast+
    then show ?thesis
      using p(15) assms(2) normalizeRisk_range [OF p(11)]
      by (auto simp: or_value_def clean_def [of name] wf_device_def risk_in_range_iff clean_or_text clean_option_or_null)
  qed
  done

lemma held_wf: "held pf d \<Longrightarrow> wf_device d"
  by (induction rule: held.induct) (auto dest: listed_wf detailed_wf)

section \<open>Properties\<close>

text \<open>
  C14: a device the pages hold keeps its invariant however often details are merged into it: its build, owner and agent version are trimmed
  and not empty, its address and session are so or absent, its name is so or is the id of the device as the API sent it, and its risk lies between
  0 and 1. A detail never changes the id, and a detail that says nothing changes nothing.
\<close>

theorem held_device_wf:
  assumes "held pf d"
  shows "wf_device d \<and> mergeDeviceDetail pf d (Obj []) = Inr d
     \<and> (\<forall>detail d'. mergeDeviceDetail pf d detail = Inr d' \<longrightarrow> wf_device d' \<and> devId d' = devId d)"
proof -
  have wf: "wf_device d" using held_wf assms .
  then obtain r where r: "riskScore d = Fin r" "0 \<le> r" "r \<le> 1" by (auto simp: wf_device_def risk_in_range_iff)
  then have r': "risk_of (riskScore d) = riskScore d" by (simp add: risk_of_settled)
  have undef: "js_field (Obj []) k = Undefined" if "k \<in> set [''last_seen'', ''resolved_os_build'', ''resolved_compliance_status'',
      ''resolved_presence_state'', ''device_name'', ''os_build'', ''owner_email'', ''lifecycle_state'', ''compliance'', ''compliance_status'',
      ''risk_score'', ''telemetry_latest'', ''agent_version'', ''ip_address'', ''session_id'', ''resolved_policy_in_sync'',
      ''policy_in_sync'', ''kernel_guard'']" for k
    using that by (auto simp: obj_get_def inherited_def prototype_keys_def)
  have "mergeDeviceDetail pf d (Obj []) = Inr d"
    by (simp del: js_field_Obj add: mergeDeviceDetail_def undef js_member_def formatDateTime_def formatLocalDateTime_def or_trim_def or_value_def or_text_def
        or_null_def bool_or_def js_field_def [of Undefined] normalizeRisk_def r')
  then show ?thesis using wf detailed_wf by blast
qed

theorem held_device_wf_witness:
  "\<exists>d. mapListDevice \<lparr>utc_offset = \<lambda>_. 0, local_offset = \<lambda>_. 0, legacy_date = \<lambda>_. None\<rparr>
      (Obj [(''device_id'', Str ''d1''), (''risk_score'', Num (Fin 1))]) = Inr d \<and> wf_device d \<and> riskScore d = Fin 1
     \<and> mergeDeviceDetail \<lparr>utc_offset = \<lambda>_. 0, local_offset = \<lambda>_. 0, legacy_date = \<lambda>_. None\<rparr> d (Obj []) = Inr d"
proof -
  let ?pf = "\<lparr>utc_offset = \<lambda>_. 0, local_offset = \<lambda>_. 0, legacy_date = \<lambda>_. None\<rparr>"
  let ?item = "Obj [(''device_id'', Str ''d1''), (''risk_score'', Num (Fin 1))]"
  have "case mapListDevice ?pf ?item of Inr d \<Rightarrow> riskScore d = Fin 1 | Inl _ \<Rightarrow> False" by code_simp
  then obtain d where d: "mapListDevice ?pf ?item = Inr d" "riskScore d = Fin 1"
    by (cases "mapListDevice ?pf ?item") simp_all
  with held_device_wf [OF listed [OF d(1)]] show ?thesis by (intro exI [of _ d] conjI) simp_all
qed

text \<open>
  C37: merging the row a device was listed from, when it comes again as its detail (it carries no nested compliance and no latest telemetry),
  gives the same device: the two mappings agree on every field.
\<close>

theorem merge_own_row:
  assumes "mapListDevice pf item = Inr d"
    and "is_nullish (js_field (js_field item ''compliance'') ''status'')"
    and "is_nullish (js_field (js_field item ''telemetry_latest'') ''risk_score'')"
  shows "mergeDeviceDetail pf d item = Inr d"
  using assms(1) unfolding mapListDevice_def Let_def res_bind_Inr_iff
  apply (elim exE conjE)
  subgoal premises p for x rob rc rp name os own st risk comp seen agent ip sess
  proof -
    have d: "hostname d = or_value name (js_field item ''device_id'')" "osBuild d = or_text os ''-''" "owner d = or_text own ''Unknown''" "devStatus d = st"
      "riskScore d = risk" "compliance d = comp" "lastSeen d = seen" "agentVersion d = or_text agent ''-''"
      "policySync d = bool_or (as_bool (js_field item ''resolved_policy_in_sync'')) (as_bool (js_field item ''policy_in_sync''))"
      "kernelGuard d = as_bool (js_field item ''kernel_guard'')" "ipAddress d = or_null ip None" "devSession d = or_null sess None"
      using p(15) by auto
    have "js_member item ''last_seen'' = Inr (js_field item ''last_seen'')" using p(1) by (auto simp: js_member_def split: if_splits)
    moreover have "normalizeStatus (or_value rp (coalesce (js_field item ''lifecycle_state'') (Str (status_string st)))) = Inr st"
      using p(8) nothing_normalized(1) [of "js_field item ''lifecycle_state''"] by (auto simp: or_value_def coalesce_def)
    moreover have "normalizeCompliance (or_value rc (coalesce (js_field (js_field item ''compliance'') ''status'')
        (coalesce (js_field item ''compliance_status'') (Str (compliance_string comp))))) = Inr comp"
      using p(10) assms(2) nothing_normalized(2) [of "js_field item ''compliance_status''"] by (auto simp: or_value_def coalesce_def)
    moreover have "normalizeRisk (coalesce (js_field item ''risk_score'') (coalesce (js_field (js_field item ''telemetry_latest'') ''risk_score'')
        (Num risk))) = Inr risk"
    proof (cases "is_nullish (js_field item ''risk_score'')")
      case True
      then have "risk = Fin 0" using p(9) nothing_normalized(3) by simp
      with True assms(3) show ?thesis by (simp add: coalesce_def normalizeRisk_def risk_of_settled)
    qed (use p(9) in simp)
    ultimately show ?thesis
      unfolding mergeDeviceDetail_def Let_def
      by (simp add: d p(2-7,11-14))
         (simp add: d or_value_def or_text_def or_null_def bool_or_def device.equality split: option.split)
  qed
  done

theorem merge_own_row_witness:
  "\<exists>d. mapListDevice \<lparr>utc_offset = \<lambda>_. 0, local_offset = \<lambda>_. 0, legacy_date = \<lambda>_. None\<rparr>
      (Obj [(''device_id'', Str ''d1''), (''compliance_status'', Str ''drift'')]) = Inr d
     \<and> mergeDeviceDetail \<lparr>utc_offset = \<lambda>_. 0, local_offset = \<lambda>_. 0, legacy_date = \<lambda>_. None\<rparr> d
      (Obj [(''device_id'', Str ''d1''), (''compliance_status'', Str ''drift'')]) = Inr d"
proof -
  let ?pf = "\<lparr>utc_offset = \<lambda>_. 0, local_offset = \<lambda>_. 0, legacy_date = \<lambda>_. None\<rparr>"
  let ?item = "Obj [(''device_id'', Str ''d1''), (''compliance_status'', Str ''drift'')]"
  have "\<not> isl (mapListDevice ?pf ?item)" by code_simp
  then obtain d where d: "mapListDevice ?pf ?item = Inr d" by (cases "mapListDevice ?pf ?item") simp_all
  have "is_nullish (js_field (js_field ?item ''compliance'') ''status'')" "is_nullish (js_field (js_field ?item ''telemetry_latest'') ''risk_score'')"
    by code_simp+
  with merge_own_row [OF d] d show ?thesis by (intro exI [of _ d] conjI)
qed

interpretation audit_order: comparator "audit_cmp pf" for pf
  by unfold_locales (auto simp: audit_cmp_def split: option.splits)

text \<open>
  C38: the audit trail of a device has exactly one entry per command and per alert, the later ones first, the ones without a readable time at
  the end, and entries of equal time in the order of their rows, commands before alerts.
\<close>

theorem audit_trail_sorted:
  assumes "composeAuditEntries pf clock commands alerts = Inr es"
  shows "length es = length commands + length alerts
    \<and> sorted_wrt (\<lambda>a b. case (date_parse pf (auTimestamp a), date_parse pf (auTimestamp b)) of
         (Some ta, Some tb) \<Rightarrow> tb \<le> ta | (None, Some _) \<Rightarrow> False | _ \<Rightarrow> True) es
    \<and> (\<exists>cs as. res_map (\<lambda>(i, row). mapCommandRowToAuditEntry pf (clock i) row) (enumerate 0 commands) = Inr cs
        \<and> res_map (\<lambda>(i, row). mapAlertRowToAuditEntry pf (clock i) row) (enumerate (length commands) alerts) = Inr as
        \<and> mset es = mset (cs @ as)
        \<and> (\<forall>t. filter (\<lambda>e. date_parse pf (auTimestamp e) = t) es = filter (\<lambda>e. date_parse pf (auTimestamp e) = t) (cs @ as)))"
proof -
  obtain cs as where parts: "res_map (\<lambda>(i, row). mapCommandRowToAuditEntry pf (clock i) row) (enumerate 0 commands) = Inr cs"
      "res_map (\<lambda>(i, row). mapAlertRowToAuditEntry pf (clock i) row) (enumerate (length commands) alerts) = Inr as"
    and es: "es = js_sort (audit_cmp pf) (cs @ as)"
    using assms by (auto simp: composeAuditEntries_def res_bind_Inr_iff)
  have "length es = length commands + length alerts"
    using parts [THEN res_map_length] by (simp add: es)
  moreover have "sorted_wrt (\<lambda>a b. case (date_parse pf (auTimestamp a), date_parse pf (auTimestamp b)) of
         (Some ta, Some tb) \<Rightarrow> tb \<le> ta | (None, Some _) \<Rightarrow> False | _ \<Rightarrow> True) es"
    unfolding es using audit_order.sorted_js_sort [of pf "cs @ as"]
    by (rule sorted_wrt_mono_rel [rotated]) (auto simp: audit_cmp_def split: option.splits)
  moreover have "filter (\<lambda>e. date_parse pf (auTimestamp e) = t) es = filter (\<lambda>e. date_parse pf (auTimestamp e) = t) (cs @ as)" for t
  proof (cases "\<exists>c \<in> set (cs @ as). date_parse pf (auTimestamp c) = t")
    case True
    then obtain c where "c \<in> set (cs @ as)" "date_parse pf (auTimestamp c) = t" by blast
    then have "audit_cmp pf c e = 0 \<longleftrightarrow> date_parse pf (auTimestamp e) = t" for e
      by (auto simp: audit_cmp_def split: option.splits)
    with audit_order.js_sort_stable [of pf c "cs @ as"] show ?thesis by (simp add: es)
  next
    case False
    then have "filter (\<lambda>e. date_parse pf (auTimestamp e) = t) xs = []" if "set xs = set (cs @ as)" for xs
      using that by (auto simp: filter_empty_conv)
    then show ?thesis unfolding es by (metis set_js_sort)
  qed
  ultimately show ?thesis using parts es by auto
qed

theorem audit_trail_sorted_witness:
  "\<exists>es. composeAuditEntries \<lparr>utc_offset = \<lambda>_. 0, local_offset = \<lambda>_. 0, legacy_date = \<lambda>_. None\<rparr> (\<lambda>_. 7)
      [Obj [(''command_id'', Str ''c1''), (''state'', Str ''FAILED'')]] [Obj [(''alert_id'', Str ''a1'')]] = Inr es \<and> length es = 2"
proof -
  let ?pf = "\<lparr>utc_offset = \<lambda>_. 0, local_offset = \<lambda>_. 0, legacy_date = \<lambda>_. None\<rparr>"
  let ?cs = "[Obj [(''command_id'', Str ''c1''), (''state'', Str ''FAILED'')]]" and ?as = "[Obj [(''alert_id'', Str ''a1'')]]"
  have "\<not> isl (composeAuditEntries ?pf (\<lambda>_. 7) ?cs ?as)" by code_simp
  then obtain es where es: "composeAuditEntries ?pf (\<lambda>_. 7) ?cs ?as = Inr es" by (cases "composeAuditEntries ?pf (\<lambda>_. 7) ?cs ?as") simp_all
  with audit_trail_sorted [OF es] show ?thesis by (intro exI [of _ es] conjI) simp_all
qed

text \<open>A filter of statuses written as comma-separated texts reads back.\<close>

lemma parseStatusCsv_join: "parseStatusCsv (Some (join '','' (map status_string xs))) = xs"
proof (cases "xs = []")
  case False
  have "CHR '','' \<notin> set (status_string x)" for x by (cases x) simp_all
  then have split: "split_on CHR '','' (join '','' (map status_string xs)) = map status_string xs"
    using False by (intro split_on_join) auto
  have "status_string x \<noteq> []" for x by (cases x) simp_all
  then have "join '','' (map status_string xs) \<noteq> []" using False by (cases xs rule: remdups_adj.cases) auto
  moreover have "status_named (to_lower (trim (status_string x))) = Some x" for x by (cases x; hypsubst; code_simp)
  then have "List.map_filter (\<lambda>v. status_named (to_lower (trim v))) (map status_string ys) = ys" for ys
    by (induction ys) (simp_all add: map_filter_simps)
  ultimately show ?thesis by (simp add: parseStatusCsv_def split)
qed (simp add: parseStatusCsv_def)

end
