(* ===== verification/JsRounding.thy ===== *)
theory JsRounding
  imports JsNumber
begin

text \<open>
  Bounds of binary64 arithmetic: rounding never leaves an interval that ends in whole numbers, and a number printed by \<^verbatim>\<open>toFixed\<close>
  is read back as the decimal that was printed.
\<close>

section \<open>Rounding stays below a whole number\<close>

lemma ilog2_bounds: "0 < n \<Longrightarrow> 2 ^ ilog2 n \<le> n \<and> n < 2 ^ Suc (ilog2 n)"
proof (induction n rule: ilog2.induct)
  case (1 n)
  show ?case
  proof (cases "n < 2")
    case True
    with 1 show ?thesis by (simp add: ilog2.simps [of n])
  next
    case False
    then have "2 ^ ilog2 (n div 2) \<le> n div 2 \<and> n div 2 < 2 ^ Suc (ilog2 (n div 2))" using 1 by simp
    moreover have "2 * (n div 2) \<le> n" "n < 2 * (n div 2) + 2" by simp_all
    ultimately have "2 * 2 ^ ilog2 (n div 2) \<le> n \<and> n < 4 * 2 ^ ilog2 (n div 2)" unfolding power_Suc by linarith
    with False show ?thesis by (simp add: ilog2.simps [of n])
  qed
qed

lemma pow2_diff: "pow2 (int a - int b) = 2 ^ a / 2 ^ b"
proof (cases "b \<le> a")
  case True
  then show ?thesis by (simp add: pow2_def power_diff flip: of_nat_diff)
next
  case False
  then have "nat (int b - int a) = b - a" by simp
  with False show ?thesis by (simp add: pow2_def power_diff)
qed

lemma pow2_pos: "0 < pow2 e"
  by (simp add: pow2_def)

lemma pow2_add: "pow2 (e + int k) = pow2 e * 2 ^ k"
proof (cases e rule: int_diff_cases)
  case (diff a b)
  then have "e + int k = int (a + k) - int b" by simp
  then show ?thesis unfolding diff by (simp only: pow2_diff power_add) simp
qed

lemma pow2_less: "a < b \<Longrightarrow> pow2 a < pow2 b"
proof -
  assume less: "a < b"
  then have "pow2 b = pow2 a * 2 ^ nat (b - a)" using pow2_add [of a "nat (b - a)"] by simp
  moreover have "(1::rat) < 2 ^ nat (b - a)" using less by (intro one_less_power) simp_all
  ultimately show ?thesis using pow2_pos [of a] by simp
qed

lemma pow2_less_iff: "pow2 a < pow2 b \<longleftrightarrow> a < b"
  using pow2_less [of a b] pow2_less [of b a] by (cases a b rule: linorder_cases) auto

lemma rat_log2_le:
  assumes "0 < r"
  shows "pow2 (rat_log2 r) \<le> r"
proof -
  obtain p q where pq: "quotient_of r = (p, q)" by fastforce
  have q: "0 < q" "r = of_int p / of_int q" using quotient_of_denom_pos [OF pq] quotient_of_div [OF pq] by auto
  with assms have p: "0 < p" by (simp add: zero_less_divide_iff)
  let ?a = "ilog2 (nat p)" and ?b = "ilog2 (nat q)"
  have "2 ^ ?a \<le> nat p" "nat q < 2 ^ Suc ?b" using ilog2_bounds [of "nat p"] ilog2_bounds [of "nat q"] p q(1) by auto
  then have "(2::int) ^ ?a \<le> p" "q < 2 ^ Suc ?b" using p q(1) by (simp_all add: nat_le_iff nat_less_iff le_nat_iff)
  then have "(2::rat) ^ ?a \<le> of_int p" "of_int q \<le> (2::rat) ^ Suc ?b"
    by (metis of_int_le_iff of_int_numeral of_int_power, metis less_imp_le of_int_le_iff of_int_numeral of_int_power)
  then have "2 ^ ?a / 2 ^ Suc ?b \<le> r" unfolding q(2) using p q(1) by (intro frac_le) auto
  then have "pow2 (int ?a - int ?b - 1) \<le> r" using pow2_diff [of ?a "Suc ?b"] by (simp add: algebra_simps)
  then show ?thesis by (simp add: rat_log2_def pq Let_def)
qed

lemma round_half_even_le: "x \<le> of_int m \<Longrightarrow> round_half_even x \<le> m"
proof -
  assume x: "x \<le> of_int m"
  show ?thesis
  proof (cases "\<lfloor>x\<rfloor> = m")
    case True
    with x have "x = of_int m" by linarith
    then show ?thesis by (simp add: round_half_even_def)
  next
    case False
    then have "\<lfloor>x\<rfloor> + 1 \<le> m" using x by linarith
    then show ?thesis by (auto simp: round_half_even_def Let_def)
  qed
qed

lemma round_half_even_nonneg: "0 \<le> x \<Longrightarrow> 0 \<le> round_half_even x"
  by (auto simp: round_half_even_def Let_def)

lemma to_double_bound:
  assumes "0 \<le> r" "r \<le> of_nat b" "b < 2 ^ 53"
  shows "\<exists>v. to_double r = Fin v \<and> 0 \<le> v \<and> v \<le> of_nat b"
proof (cases "r = 0")
  case True
  then show ?thesis by (simp add: to_double_def)
next
  case False
  with assms have r: "0 < r" by simp
  define e where "e = max (rat_log2 r) (- 1022)"
  define v where "v = of_int (round_half_even (r / pow2 (e - 52))) * pow2 (e - 52)"
  have b: "(of_nat b :: rat) < pow2 53" using assms(3) by (simp add: pow2_def)
  have "pow2 (rat_log2 r) < pow2 53" using rat_log2_le [OF r] assms(2) b by linarith
  then have "e \<le> 52" by (simp add: pow2_less_iff e_def)
  define k where "k = nat (52 - e)"
  with \<open>e \<le> 52\<close> have "0 = (e - 52) + int k" by simp
  then have ulp: "pow2 (e - 52) * 2 ^ k = 1" using pow2_add [of "e - 52" k] by (simp add: pow2_def [of 0])
  then have div: "r / pow2 (e - 52) = r * 2 ^ k" using pow2_pos [of "e - 52"] by (simp add: field_simps)
  have "r / pow2 (e - 52) \<le> of_int (int b * 2 ^ k)" using assms(2) by (simp add: div)
  then have "(of_int (round_half_even (r / pow2 (e - 52))) :: rat) \<le> of_int (int b * 2 ^ k)"
    by (simp only: of_int_le_iff round_half_even_le)
  then have "v \<le> of_int (int b * 2 ^ k) * pow2 (e - 52)" unfolding v_def using pow2_pos [of "e - 52"] by (intro mult_right_mono) auto
  also have "\<dots> = of_nat b" using ulp by (simp add: mult.assoc mult.commute [of "2 ^ k"])
  finally have v: "v \<le> of_nat b" .
  moreover have "0 \<le> v" unfolding v_def using r pow2_pos [of "e - 52"] by (simp add: round_half_even_nonneg)
  moreover have "\<not> pow2 1024 \<le> v"
  proof -
    have "pow2 53 < pow2 1024" by (simp add: pow2_less_iff)
    with v b show ?thesis by linarith
  qed
  ultimately show ?thesis using r by (simp add: to_double_def Let_def v_def flip: e_def)
qed

text \<open>Whole numbers below 2 to the 53 are doubles.\<close>

lemma to_double_nat:
  assumes "b < 2 ^ 53"
  shows "to_double (of_nat b) = Fin (of_nat b)"
proof (cases "b = 0")
  case False
  then have r: "(0 :: rat) < of_nat b" by simp
  define e where "e = max (rat_log2 (of_nat b)) (- 1022)"
  have b: "(of_nat b :: rat) < pow2 53" using assms by (simp add: pow2_def)
  have "pow2 (rat_log2 (of_nat b)) < pow2 53" using rat_log2_le [OF r] b by linarith
  then have "e \<le> 52" by (simp add: pow2_less_iff e_def)
  define k where "k = nat (52 - e)"
  with \<open>e \<le> 52\<close> have "0 = (e - 52) + int k" by simp
  then have ulp: "pow2 (e - 52) * 2 ^ k = 1" using pow2_add [of "e - 52" k] by (simp add: pow2_def [of 0])
  then have "of_nat b / pow2 (e - 52) = of_int (int b * 2 ^ k)" using pow2_pos [of "e - 52"] by (simp add: field_simps)
  moreover have "round_half_even (of_int i) = i" for i by (simp add: round_half_even_def)
  ultimately have "round_half_even (of_nat b / pow2 (e - 52)) = int b * 2 ^ k" by (simp only:)
  moreover have "of_int (int b * 2 ^ k) * pow2 (e - 52) = of_nat b" using ulp by (simp add: mult.assoc mult.commute [of "2 ^ k"])
  moreover have "\<not> pow2 1024 \<le> of_nat b"
  proof -
    have "pow2 53 < pow2 1024" by (simp add: pow2_less_iff)
    with b show ?thesis by linarith
  qed
  ultimately show ?thesis using r by (simp add: to_double_def Let_def mult.assoc flip: e_def)
qed (simp add: to_double_def)

section \<open>Fixed notation reads back\<close>

lemma digits_value_zeros: "digits_value 10 0 (replicate n CHR ''0'' @ s) = digits_value 10 0 s"
  by (induction n) (simp_all add: digit_value_def)

lemma padded_digits:
  "digits_nat (pad_start n CHR ''0'' (string_of_nat m)) = m" "list_all is_digit (pad_start n CHR ''0'' (string_of_nat m))"
proof -
  have "is_digit CHR ''0''" by (simp add: is_digit_def)
  then show "digits_nat (pad_start n CHR ''0'' (string_of_nat m)) = m" "list_all is_digit (pad_start n CHR ''0'' (string_of_nat m))"
    using string_of_nat_digits [of m]
    by (auto simp: pad_start_def digits_nat_def digits_value_zeros digits_value_string_of_nat list_all_iff)
qed

lemma take_digits_all: "list_all is_digit a \<Longrightarrow> r = [] \<or> \<not> is_digit (hd r) \<Longrightarrow> take_digits (a @ r) = (a, r)"
  by (induction a) (auto simp: take_digits_def dropWhile_eq_self_iff takeWhile_eq_Nil_iff)

lemma decimal_reads_back:
  assumes "list_all is_digit a" "list_all is_digit b" "a \<noteq> []"
  shows "string_to_number (a @ ''.'' @ b) = to_double (of_nat (digits_nat (a @ b)) * pow10 (- int (length b)))"
proof -
  obtain c t where a: "a = c # t" using assms(3) by (cases a) auto
  have digit: "is_digit d \<Longrightarrow> \<not> is_ws d \<and> d \<notin> {CHR ''+'', CHR ''-'', CHR ''I'', CHR ''x'', CHR ''X'', CHR ''b'', CHR ''B'', CHR ''o'', CHR ''O'', CHR ''.''}" for d
    by (auto simp: is_digit_def is_ws_def)
  have c: "c \<notin> {CHR ''+'', CHR ''-'', CHR ''I''}" using assms(1) digit a by auto
  have "list_all (\<lambda>d. \<not> is_ws d) (a @ ''.'' @ b)" using assms(1,2) digit by (auto simp: list_all_iff is_ws_def)
  then have "trim (a @ ''.'' @ b) = a @ ''.'' @ b" by (rule trim_no_ws)
  moreover have "\<not> starts_with (a @ ''.'' @ b) (CHR ''0'' # [d])" if "d \<in> {CHR ''x'', CHR ''X'', CHR ''b'', CHR ''B'', CHR ''o'', CHR ''O''}" for d
    using that assms(1) digit by (cases t) (auto simp: a starts_with_def)
  moreover have "parse_unsigned_decimal (a @ ''.'' @ b) = Some (of_nat (digits_nat (a @ b)) * pow10 (- int (length b)))"
    using take_digits_all [OF assms(1), of "CHR ''.'' # b"] take_digits_all [OF assms(2), of "[]"] assms(3)
    by (simp add: parse_unsigned_decimal_def is_digit_def)
  ultimately show ?thesis using c by (simp add: string_to_number_def parse_decimal_def a)
qed

lemma to_fixed_reads_back:
  assumes "0 \<le> r" "r < 10 ^ 21" "0 < f"
  shows "string_to_number (to_fixed f (Fin r)) = to_double (of_int \<lfloor>r * 10 ^ f + 1 / 2\<rfloor> / 10 ^ f)"
proof -
  define m where "m = nat \<lfloor>r * 10 ^ f + 1 / 2\<rfloor>"
  define ds where "ds = pad_start (Suc f) CHR ''0'' (string_of_nat m)"
  have len: "Suc f \<le> length ds" by (simp add: ds_def length_pad_start)
  have digits: "list_all is_digit ds" "digits_nat ds = m" by (simp_all add: ds_def padded_digits)
  then have parts: "list_all is_digit (take i ds)" "list_all is_digit (drop i ds)" for i
    by (auto simp: list_all_iff dest: in_set_takeD in_set_dropD)
  have "to_fixed f (Fin r) = take (length ds - f) ds @ ''.'' @ drop (length ds - f) ds"
    using assms by (simp add: fixed_digits_def Let_def flip: m_def) (simp flip: ds_def)
  moreover have ne: "take (length ds - f) ds \<noteq> []" and "length (drop (length ds - f) ds) = f" using len by auto
  ultimately have "string_to_number (to_fixed f (Fin r)) = to_double (of_nat m * pow10 (- int f))"
    using decimal_reads_back [OF parts [of "length ds - f"] ne] digits(2) by (simp only: append_take_drop_id)
  moreover have "(of_nat m :: rat) = of_int \<lfloor>r * 10 ^ f + 1 / 2\<rfloor>" using assms(1) by (simp add: m_def)
  moreover have "pow10 (- int f) = 1 / 10 ^ f" using assms(3) by (simp add: pow10_def)
  ultimately show ?thesis by simp
qed

lemma to_fixed_bound:
  assumes "0 \<le> r" "r \<le> of_nat b" "b < 2 ^ 53" "0 < f"
  shows "\<exists>v. string_to_number (to_fixed f (Fin r)) = Fin v \<and> 0 \<le> v \<and> v \<le> of_nat b"
proof -
  have "(of_nat b :: rat) < 10 ^ 21"
  proof -
    have "of_nat b < (of_nat (2 ^ 53) :: rat)" using assms(3) by (simp only: of_nat_less_iff)
    also have "\<dots> < 10 ^ 21" by simp
    finally show ?thesis .
  qed
  then have r: "r < 10 ^ 21" using assms(2) by linarith
  have "r * 10 ^ f \<le> of_int (int b * 10 ^ f)" using assms(2) by simp
  then have "\<lfloor>r * 10 ^ f + 1 / 2\<rfloor> \<le> int b * 10 ^ f" by linarith
  then have "(of_int \<lfloor>r * 10 ^ f + 1 / 2\<rfloor> :: rat) \<le> of_int (int b * 10 ^ f)" by (simp only: of_int_le_iff)
  then have "(of_int \<lfloor>r * 10 ^ f + 1 / 2\<rfloor> :: rat) / 10 ^ f \<le> of_nat b" by (simp add: field_simps)
  moreover have "(0 :: rat) \<le> of_int \<lfloor>r * 10 ^ f + 1 / 2\<rfloor> / 10 ^ f" using assms(1) by simp
  ultimately show ?thesis
    unfolding to_fixed_reads_back [OF assms(1) r assms(4)] using to_double_bound [OF _ _ assms(3)] by blast
qed

end
