(* ===== verification/DashboardFetch.thy ===== *)
theory DashboardFetch
  imports DeviceData Http Codec JsRounding
begin

text \<open>
  \<^verbatim>\<open>src/app/dashboard/hooks/useDashboardData.ts\<close>, first part: the four loads of the dashboard. The console's own API is the parameter
  \<open>up\<close>, a function of the requests so far; a load that is aborted sees its next \<^verbatim>\<open>fetch\<close> reject. Payloads are values of any type.
\<close>

section \<open>Rows\<close>

definition PAGE_SIZE :: nat where "PAGE_SIZE = 200"
definition COMMAND_FETCH_MAX_PAGES :: nat where "COMMAND_FETCH_MAX_PAGES = 10"
definition COMMAND_WINDOW_DAYS :: nat where "COMMAND_WINDOW_DAYS = 7"

datatype dash_compliance = DCompliant | DNonCompliant | DDrift | DUnknown

record dash_device =
  ddId :: string
  ddName :: string
  ddOwner :: string
  ddStatus :: device_status
  ddCompliance :: dash_compliance
  ddRisk :: jsnum
  ddLastSeenIso :: js
  ddAgentVersion :: "string option"

record dash_alert =
  daId :: string
  daSeverity :: string
  daMessage :: string
  daDeviceId :: "string option"
  daTimestampIso :: js
  daAcknowledged :: bool

record dash_command =
  dcId :: string
  dcMethod :: string
  dcState :: string
  dcDeviceId :: "string option"
  dcQueuedAtIso :: js
  dcCompletedAtIso :: js
  dcErrorCode :: "string option"
  dcErrorMessage :: "string option"
  dcActorEmail :: "string option"

definition normalizeDashStatus :: "js \<Rightarrow> device_status res" where
  "normalizeDashStatus v = res_bind (lowered v) (\<lambda>n. Inr (
     if n = ''active'' \<or> n = ''online'' then Online else if n = ''quarantined'' then Quarantined
     else if n = ''degraded'' then Degraded else Offline))"

definition normalizeDashCompliance :: "js \<Rightarrow> dash_compliance res" where
  "normalizeDashCompliance v = res_bind (lowered v) (\<lambda>n. Inr (
     if n = ''compliant'' then DCompliant else if n = ''drift'' \<or> n = ''non_compliant'' then DDrift
     else if n = ''unknown'' then DUnknown else DNonCompliant))"

definition normalizeDashRisk :: "js \<Rightarrow> jsnum res" where
  "normalizeDashRisk v =
     res_bind (case v of Num n \<Rightarrow> Inr n | _ \<Rightarrow> js_Number (coalesce v (Num (Fin 0)))) (\<lambda>parsed. Inr (
       if \<not> num_is_finite parsed \<or> num_le parsed (Fin 0) then Fin 0
       else if num_lt (Fin 1) parsed then num_max (Fin 0) (num_min (Fin 1) (num_scale parsed (1 / 100)))
       else num_max (Fin 0) (num_min (Fin 1) parsed)))"

text \<open>\<^verbatim>\<open>Date.parse(v)\<close> of a truthy value: the text of the value is parsed. \<open>None\<close> is \<^verbatim>\<open>null\<close>.\<close>

definition parseIsoMs :: "date_platform \<Rightarrow> js \<Rightarrow> int option res" where
  "parseIsoMs pf v = (if \<not> truthy v then Inr None else res_bind (js_String v) (\<lambda>s. Inr (date_parse pf s)))"

definition commandEventTime :: "dash_command \<Rightarrow> js" where
  "commandEventTime c = coalesce (dcCompletedAtIso c) (coalesce (dcQueuedAtIso c) Null)"

text \<open>\<^verbatim>\<open>String(row.k ?? '').trim()\<close>; reading a field of \<^verbatim>\<open>null\<close> throws.\<close>

definition row_id :: "js \<Rightarrow> string \<Rightarrow> string res" where
  "row_id row k = res_bind (str_member row k []) (\<lambda>s. Inr (trim s))"

definition device_row :: "js \<Rightarrow> dash_device option res" where
  "device_row row =
     (let f = js_field row in
      res_bind (row_id row ''device_id'') (\<lambda>id.
        if id = [] then Inr None
        else
          res_bind (opt_trim (f ''device_name'')) (\<lambda>name.
          res_bind (opt_trim (f ''owner_email'')) (\<lambda>own.
          res_bind (normalizeDashStatus (f ''lifecycle_state'')) (\<lambda>st.
          res_bind (normalizeDashCompliance (f ''compliance_status'')) (\<lambda>comp.
          res_bind (normalizeDashRisk (f ''risk_score'')) (\<lambda>risk.
          res_bind (opt_trim (f ''agent_version'')) (\<lambda>agent.
            Inr (Some \<lparr>ddId = id, ddName = or_text name id, ddOwner = or_text own ''Unknown'', ddStatus = st, ddCompliance = comp,
              ddRisk = risk, ddLastSeenIso = coalesce (f ''last_seen'') Null, ddAgentVersion = or_null agent None\<rparr>)))))))))"

definition alert_row :: "js \<Rightarrow> dash_alert option res" where
  "alert_row row =
     (let f = js_field row in
      res_bind (row_id row ''alert_id'') (\<lambda>id.
        if id = [] then Inr None
        else
          res_bind (js_String (coalesce (f ''severity'') (Str ''info''))) (\<lambda>sev.
          res_bind (opt_trim (f ''message'')) (\<lambda>msg.
          res_bind (opt_trim (f ''device_id'')) (\<lambda>did.
            Inr (Some \<lparr>daId = id, daSeverity = to_lower sev, daMessage = or_text msg ''Alert event'', daDeviceId = or_null did None,
              daTimestampIso = coalesce (f ''timestamp'') Null, daAcknowledged = truthy (f ''acknowledged'')\<rparr>))))))"

text \<open>A row of commands gives the command and the time of its last event in milliseconds, 0 when there is none.\<close>

definition command_row :: "date_platform \<Rightarrow> js \<Rightarrow> (dash_command \<times> int) option res" where
  "command_row pf row =
     (let f = js_field row in
      res_bind (row_id row ''command_id'') (\<lambda>id.
        if id = [] then Inr None
        else
          let queued = coalesce (f ''queued_at'') Null; completed = coalesce (f ''completed_at'') Null in
          res_bind (parseIsoMs pf completed) (\<lambda>cms.
          res_bind (case cms of Some t \<Rightarrow> Inr t
                    | None \<Rightarrow> res_bind (parseIsoMs pf queued) (\<lambda>q. Inr (case q of Some t \<Rightarrow> t | None \<Rightarrow> 0))) (\<lambda>eventMs.
          res_bind (opt_trim (f ''method'')) (\<lambda>meth.
          res_bind (js_String (coalesce (f ''state'') (Str ''queued''))) (\<lambda>st.
          res_bind (opt_trim (f ''device_id'')) (\<lambda>did.
          res_bind (if is_nullish (f ''error_code'') then Inr None else res_bind (js_String (f ''error_code'')) (\<lambda>s. Inr (Some s))) (\<lambda>code.
          res_bind (opt_trim (f ''error_message'')) (\<lambda>em.
          res_bind (opt_trim (f ''actor_email'')) (\<lambda>actor.
            Inr (Some (\<lparr>dcId = id, dcMethod = or_text meth ''unknown'', dcState = to_lower st, dcDeviceId = or_null did None,
              dcQueuedAtIso = queued, dcCompletedAtIso = completed, dcErrorCode = code, dcErrorMessage = or_null em None,
              dcActorEmail = or_null actor None\<rparr>, eventMs))))))))))))"

section \<open>Loads\<close>

text \<open>The values \<^verbatim>\<open>for (const row of rows)\<close> visits, and those \<^verbatim>\<open>rows.map\<close> does; a missing list is empty.\<close>

definition iterated :: "js \<Rightarrow> js list res" where
  "iterated v =
     (if is_nullish v then Inr []
      else case v of Arr xs \<Rightarrow> Inr xs | Str s \<Rightarrow> Inr (map (\<lambda>c. Str [c]) s) | _ \<Rightarrow> Inl (NotAFunction ''Symbol.iterator''))"

definition mapped_rows :: "js \<Rightarrow> js list res" where
  "mapped_rows v = (if is_nullish v then Inr [] else case v of Arr xs \<Rightarrow> Inr xs | _ \<Rightarrow> Inl (NotAFunction ''map''))"

definition get_request :: "string \<Rightarrow> api_request" where
  "get_request url = \<lparr>apiUrl = url, apiMethod = ''GET'', apiHeaders = [], apiBody = None\<rparr>"

definition json_result :: "string \<Rightarrow> api_response \<Rightarrow> js res" where
  "json_result failure response =
     (if \<not> resp_ok (apiStatus response) then Inl (Thrown (failure @ string_of_nat (apiStatus response)))
      else case apiText response of None \<Rightarrow> Inl FetchRejected
        | Some t \<Rightarrow> (case json_parse t of None \<Rightarrow> Inl (Thrown ''SyntaxError'') | Some v \<Rightarrow> Inr v))"

definition get_json :: "upstream \<Rightarrow> string \<Rightarrow> string \<Rightarrow> js io" where
  "get_json up url failure = io_bind (fetch up (get_request url)) (\<lambda>response. io_lift (json_result failure response))"

definition devices_url :: "jsnum \<Rightarrow> string" where
  "devices_url page = ''/api/devices?per_page='' @ string_of_nat PAGE_SIZE @ ''&page='' @ number_to_string page"

text \<open>
  One round of the loop over the pages of devices: the devices of the page, the number of its rows, the last page it announces and the next page.
\<close>

definition devices_page :: "upstream \<Rightarrow> jsnum \<Rightarrow> (dash_device list \<times> nat \<times> jsnum \<times> jsnum) io" where
  "devices_page up page =
     io_bind (get_json up (devices_url page) ''devices_fetch_failed_'') (\<lambda>payload.
       io_lift (
         res_bind (js_member payload ''devices'') (\<lambda>v.
         res_bind (iterated v) (\<lambda>rows.
         res_bind (res_map device_row rows) (\<lambda>ds.
         res_bind (js_Number (coalesce (js_field (js_field payload ''meta'') ''current_page'') (Num page))) (\<lambda>current.
         res_bind (js_Number (coalesce (js_field (js_field payload ''meta'') ''last_page'') (Num current))) (\<lambda>end'.
           Inr (List.map_filter id ds, length rows,
             if num_is_finite end' \<and> num_lt (Fin 0) end' then end' else current, num_add current (Fin 1)))))))))"

text \<open>The loop; \<open>None\<close>: still running after that many rounds.\<close>

fun fetchDevices_loop :: "nat \<Rightarrow> upstream \<Rightarrow> jsnum \<Rightarrow> jsnum \<Rightarrow> dash_device list \<Rightarrow> dash_device list option io" where
  "fetchDevices_loop fuel up page lastPage devices =
     (if \<not> num_le page lastPage then io_return (Some devices)
      else case fuel of 0 \<Rightarrow> io_return None
        | Suc n \<Rightarrow>
            io_bind (devices_page up page) (\<lambda>(ds, k, lastPage', page').
              if k = 0 then io_return (Some (devices @ ds)) else fetchDevices_loop n up page' lastPage' (devices @ ds)))"

declare fetchDevices_loop.simps [simp del]

definition fetchDevices :: "nat \<Rightarrow> upstream \<Rightarrow> dash_device list option io" where
  "fetchDevices fuel up = fetchDevices_loop fuel up (Fin 1) (Fin 1) []"

definition fetchAlerts :: "upstream \<Rightarrow> dash_alert list io" where
  "fetchAlerts up =
     io_bind (get_json up ''/api/alerts?limit=200'' ''alerts_fetch_failed_'') (\<lambda>payload.
       io_lift (
         res_bind (js_member payload ''alerts'') (\<lambda>v.
         res_bind (mapped_rows v) (\<lambda>rows.
         res_bind (res_map alert_row rows) (\<lambda>as. Inr (List.map_filter id as))))))"

definition commands_query :: "string option \<Rightarrow> string" where
  "commands_query before =
     search_to_string ((''limit'', string_of_nat PAGE_SIZE) # (case before of None \<Rightarrow> [] | Some b \<Rightarrow> [(''before'', b)]))"

text \<open>The oldest event of a page that has a time, starting from the greatest safe integer.\<close>

definition oldest_seen :: "int list \<Rightarrow> int" where
  "oldest_seen ts = fold (\<lambda>t o'. if 0 < t \<and> t < o' then t else o') ts 9007199254740991"

text \<open>One page of commands: its commands, and the cursor of the next page when the loop goes on. The cursor is made a text when it is sent.\<close>

definition commands_page :: "date_platform \<Rightarrow> upstream \<Rightarrow> int \<Rightarrow> js option \<Rightarrow> (dash_command list \<times> js option) io" where
  "commands_page pf up windowStartMs before =
     io_bind (io_lift (case before of None \<Rightarrow> Inr None | Some v \<Rightarrow> res_bind (js_String v) (\<lambda>b. Inr (Some b)))) (\<lambda>cursor.
     io_bind (get_json up (''/api/commands?'' @ commands_query cursor) ''commands_fetch_failed_'') (\<lambda>payload.
       io_lift (
         res_bind (js_member payload ''commands'') (\<lambda>v.
         res_bind (iterated v) (\<lambda>rows.
           if rows = [] then Inr ([], None)
           else
             res_bind (res_map (command_row pf) rows) (\<lambda>cs.
               let kept = List.map_filter id cs; next_before = js_field payload ''next_before'' in
               Inr (map fst kept,
                 if \<not> truthy next_before \<or> oldest_seen (map snd kept) < windowStartMs then None else Some next_before)))))))"

fun fetchCommands_loop :: "nat \<Rightarrow> date_platform \<Rightarrow> upstream \<Rightarrow> int \<Rightarrow> js option \<Rightarrow> dash_command list \<Rightarrow> dash_command list io" where
  "fetchCommands_loop 0 pf up windowStartMs before commands = io_return commands"
| "fetchCommands_loop (Suc pages) pf up windowStartMs before commands =
     io_bind (commands_page pf up windowStartMs before) (\<lambda>(cs, before').
       case before' of None \<Rightarrow> io_return (commands @ cs)
       | Some b \<Rightarrow> fetchCommands_loop pages pf up windowStartMs (Some b) (commands @ cs))"

definition fetchCommands :: "date_platform \<Rightarrow> upstream \<Rightarrow> int \<Rightarrow> dash_command list io" where
  "fetchCommands pf up windowStartMs = fetchCommands_loop COMMAND_FETCH_MAX_PAGES pf up windowStartMs None []"

definition lowered_trimmed :: "js \<Rightarrow> string res" where
  "lowered_trimmed v = res_bind (js_String (coalesce v (Str []))) (\<lambda>s. Inr (to_lower (trim s)))"

definition normalizeAuditEventType :: "js \<Rightarrow> audit_event res" where
  "normalizeAuditEventType v = res_bind (lowered_trimmed v) (\<lambda>n. Inr (
     if n = ''user_action'' then UserAction else if n = ''command_execution'' then CommandExecution
     else if n = ''policy_change'' then PolicyChange else SystemEvent))"

definition normalizeAuditOutcome :: "js \<Rightarrow> audit_outcome res" where
  "normalizeAuditOutcome v = res_bind (lowered_trimmed v) (\<lambda>n. Inr (
     if n = ''success'' then Success else if n = ''failure'' then Failure else Pending))"

definition labelAuditRole :: "js \<Rightarrow> string res" where
  "labelAuditRole v = res_bind (lowered_trimmed v) (\<lambda>n. Inr (
     if n = [] then ''System'' else if n = ''admin'' then ''Admin'' else if n = ''viewer'' then ''Viewer''
     else if n = ''operator'' then ''Operator'' else if n = ''system'' then ''System''
     else to_upper (take 1 n) @ drop 1 n))"

definition formatDashTimestamp :: "date_platform \<Rightarrow> js \<Rightarrow> string res" where
  "formatDashTimestamp pf v = formatLocalDateTime pf v ''1970-01-01 00:00:00''"

text \<open>\<^verbatim>\<open>String(event.k ?? d)\<close> of a row that is not \<^verbatim>\<open>null\<close>, and the identifier made up for an event without one.\<close>

definition event_text :: "js \<Rightarrow> string \<Rightarrow> string \<Rightarrow> string res" where
  "event_text event k d = js_String (coalesce (js_field event k) (Str d))"

definition event_id :: "nat \<Rightarrow> js \<Rightarrow> string res" where
  "event_id index event =
     (if \<not> is_nullish (js_field event ''id'') then js_String (js_field event ''id'')
      else
        res_bind (res_map js_String (filter truthy
          [js_field event ''timestamp'', js_field event ''action'', js_field event ''target'', Num (num_of_nat index)])) (\<lambda>ws.
          Inr (or_text (join ''|'' ws) (''audit-'' @ string_of_nat index))))"

definition audit_row :: "date_platform \<Rightarrow> nat \<times> js \<Rightarrow> audit_entry res" where
  "audit_row pf = (\<lambda>(index, event).
     res_bind (js_member event ''id'') (\<lambda>_.
     res_bind (event_id index event) (\<lambda>id.
     res_bind (formatDashTimestamp pf (coalesce (js_field event ''timestamp'') Null)) (\<lambda>time.
     res_bind (event_text event ''actor'' ''system'') (\<lambda>actor.
     res_bind (labelAuditRole (js_field event ''actor_role'')) (\<lambda>rl.
     res_bind (normalizeAuditEventType (js_field event ''event_type'')) (\<lambda>ty.
     res_bind (event_text event ''action'' ''EVENT'') (\<lambda>action.
     res_bind (event_text event ''target'' []) (\<lambda>target.
     res_bind (event_text event ''detail'' []) (\<lambda>detail.
     res_bind (normalizeAuditOutcome (js_field event ''outcome'')) (\<lambda>outcome.
       Inr \<lparr>auId = id, auTimestamp = time, auActor = actor, auRole = rl, auEvent = ty, auAction = action,
         auTarget = target, auDetail = detail, auOutcome = outcome\<rparr>)))))))))))"

definition fetchAuditEntries :: "date_platform \<Rightarrow> upstream \<Rightarrow> audit_entry list io" where
  "fetchAuditEntries pf up =
     io_bind (get_json up ''/api/audit/events?page=1&per_page=120'' ''audit_fetch_failed_'') (\<lambda>payload.
       io_lift (
         res_bind (js_member payload ''events'') (\<lambda>v.
         res_bind (mapped_rows v) (\<lambda>rows. res_map (audit_row pf) (enumerate 0 rows)))))"

section \<open>The loads end\<close>

lemma get_json_apply:
  "get_json up url failure l =
     (case up l (get_request url) of None \<Rightarrow> Inl FetchRejected | Some r \<Rightarrow> json_result failure r, l @ [get_request url])"
  by (simp add: get_json_def io_bind_apply fetch_apply split: option.split)

text \<open>
  How the API numbers its pages: the answer for page \<open>p\<close> says that it is page \<open>p\<close> (or nothing), of \<open>n\<close> at most.
\<close>

definition numbered_pages :: "upstream \<Rightarrow> nat \<Rightarrow> bool" where
  "numbered_pages up n \<longleftrightarrow>
     (\<forall>p l r payload. 1 \<le> p \<longrightarrow> p \<le> n \<longrightarrow> up l (get_request (devices_url (num_of_nat p))) = Some r \<longrightarrow>
        json_result ''devices_fetch_failed_'' r = Inr payload \<longrightarrow>
        js_Number (coalesce (js_field (js_field payload ''meta'') ''current_page'') (Num (num_of_nat p))) = Inr (num_of_nat p) \<and>
        (\<exists>m. m \<le> n \<and> js_Number (coalesce (js_field (js_field payload ''meta'') ''last_page'') (Num (num_of_nat p))) = Inr (num_of_nat m)))"

lemma devices_page_numbered:
  assumes "numbered_pages up n" "n < 2 ^ 53 - 1" "1 \<le> p" "p \<le> n" "devices_page up (num_of_nat p) l = (Inr (ds, k, lp, p'), l')"
  shows "p' = num_of_nat (Suc p) \<and> (\<exists>m. m \<le> n \<and> lp = num_of_nat m)"
proof -
  from assms(5) obtain payload l1 where payload: "get_json up (devices_url (num_of_nat p)) ''devices_fetch_failed_'' l = (Inr payload, l1)"
    and res: "res_bind (js_Number (coalesce (js_field (js_field payload ''meta'') ''current_page'') (Num (num_of_nat p)))) (\<lambda>current.
         res_bind (js_Number (coalesce (js_field (js_field payload ''meta'') ''last_page'') (Num current))) (\<lambda>end'.
           Inr (if num_is_finite end' \<and> num_lt (Fin 0) end' then end' else current, num_add current (Fin 1)))) = Inr (lp, p')"
    unfolding devices_page_def io_bind_Inr_iff by (auto simp: res_bind_Inr_iff)
  obtain r where r: "up l (get_request (devices_url (num_of_nat p))) = Some r" "json_result ''devices_fetch_failed_'' r = Inr payload"
    using payload by (auto simp: get_json_apply split: option.splits)
  from numbered_pages_def [THEN iffD1, OF assms(1), rule_format, OF assms(3,4) r]
  obtain m where m: "js_Number (coalesce (js_field (js_field payload ''meta'') ''current_page'') (Num (num_of_nat p))) = Inr (num_of_nat p)"
    "m \<le> n" "js_Number (coalesce (js_field (js_field payload ''meta'') ''last_page'') (Num (num_of_nat p))) = Inr (num_of_nat m)" by blast
  from res have "lp = (if 0 < m then num_of_nat m else num_of_nat p)" "p' = num_add (num_of_nat p) (Fin 1)"
    by (auto simp: m(1,3))
  moreover have "num_add (num_of_nat p) (Fin 1) = num_of_nat (Suc p)"
    using to_double_nat [of "Suc p"] assms(2,4) by (simp add: add.commute)
  ultimately show ?thesis using m(2) assms(4) by (auto split: if_splits)
qed

lemma devices_loop_ends:
  assumes "numbered_pages up n" "n < 2 ^ 53 - 1" "1 \<le> p" "m \<le> n" "Suc n \<le> fuel + p"
  shows "fst (fetchDevices_loop fuel up (num_of_nat p) (num_of_nat m) ds l) \<noteq> Inr None"
  using assms(3-5)
proof (induction fuel arbitrary: p m ds l)
  case 0
  then have "\<not> num_le (num_of_nat p) (num_of_nat m)" by (simp add: num_le_def num_eq_def)
  then show ?case by (simp add: fetchDevices_loop.simps)
next
  case (Suc fuel)
  show ?case
  proof (cases "p \<le> m")
    case False
    then have "\<not> num_le (num_of_nat p) (num_of_nat m)" by (simp add: num_le_def num_eq_def)
    then show ?thesis by (simp add: fetchDevices_loop.simps)
  next
    case True
    then have le: "num_le (num_of_nat p) (num_of_nat m)" by (auto simp: num_le_def num_eq_def)
    show ?thesis
    proof (cases "devices_page up (num_of_nat p) l")
      case (Pair r l')
      show ?thesis
      proof (cases r)
        case (Inl e)
        with Pair le show ?thesis by (simp add: fetchDevices_loop.simps [of "Suc fuel"])
      next
        case (Inr x)
        obtain ds' k lp p' where x: "x = (ds', k, lp, p')" by (cases x) auto
        have "p \<le> n" using True Suc.prems(2) by simp
        moreover have "devices_page up (num_of_nat p) l = (Inr (ds', k, lp, p'), l')" using Pair Inr x by simp
        ultimately obtain m' where pg: "p' = num_of_nat (Suc p)" "m' \<le> n" "lp = num_of_nat m'"
          using devices_page_numbered [OF assms(1,2) Suc.prems(1)] by blast
        have "fst (fetchDevices_loop fuel up (num_of_nat (Suc p)) (num_of_nat m') (ds @ ds') l') \<noteq> Inr None"
          using Suc.prems pg(2) by (intro Suc.IH) simp_all
        then show ?thesis unfolding fetchDevices_loop.simps [of "Suc fuel"] using Pair Inr x le pg by simp
      qed
    qed
  qed
qed

lemma devices_loop_log: "length (snd (fetchDevices_loop fuel up p lp ds l)) \<le> length l + fuel"
proof (induction fuel arbitrary: p lp ds l)
  case 0
  show ?case by (simp add: fetchDevices_loop.simps)
next
  case (Suc fuel)
  have log: "length (snd (devices_page up p l)) = Suc (length l)"
    by (auto simp: devices_page_def io_bind_apply get_json_apply split: sum.split option.split)
  obtain r l' where "devices_page up p l = (r, l')" by fastforce
  moreover have "length (snd (fetchDevices_loop fuel up p' lp' ds' l')) \<le> length l' + fuel" for p' lp' ds' by (rule Suc.IH)
  ultimately show ?case using log
    by (cases r) (auto simp: fetchDevices_loop.simps [of "Suc fuel"] io_bind_apply split: prod.splits)
qed

text \<open>
  C39: loading the devices ends. When the API numbers its pages as it documents, page by page up to \<open>n\<close> at most, the loop over the pages
  stops, with the devices or with an error, after at most \<open>n\<close> requests; it is never still running then.
\<close>

theorem fetch_devices_terminates:
  assumes "numbered_pages up n" "1 \<le> n" "n < 2 ^ 53 - 1"
  shows "fst (fetchDevices n up l) \<noteq> Inr None \<and> length (snd (fetchDevices n up l)) \<le> length l + n"
proof -
  have "fst (fetchDevices_loop n up (num_of_nat 1) (num_of_nat 1) [] l) \<noteq> Inr None"
    using assms(2) by (intro devices_loop_ends [OF assms(1,3)]) simp_all
  then show ?thesis using devices_loop_log [of n up "Fin 1" "Fin 1" "[]" l] by (simp add: fetchDevices_def)
qed

text \<open>An API with one device and one page, which it does not number.\<close>

definition one_page :: upstream where
  "one_page = (\<lambda>_ _. Some \<lparr>apiStatus = 200, apiRespHeaders = [], apiText = Some ''{\"devices\":[{\"device_id\":\"d1\"}]}''\<rparr>)"

theorem fetch_devices_terminates_witness:
  "numbered_pages one_page 1 \<and> fst (fetchDevices 1 one_page []) \<noteq> Inr None"
proof -
  have "json_parse ''{\"devices\":[{\"device_id\":\"d1\"}]}'' = Some (Obj [(''devices'', Arr [Obj [(''device_id'', Str ''d1'')]])])" by code_simp
  then have "json_result f \<lparr>apiStatus = 200, apiRespHeaders = [], apiText = Some ''{\"devices\":[{\"device_id\":\"d1\"}]}''\<rparr> =
      Inr (Obj [(''devices'', Arr [Obj [(''device_id'', Str ''d1'')]])])" for f by (simp add: json_result_def)
  moreover have "js_field (Obj [(''devices'', Arr [Obj [(''device_id'', Str ''d1'')]])]) ''meta'' = Undefined" by code_simp
  ultimately have "numbered_pages one_page 1"
    unfolding numbered_pages_def one_page_def by (auto simp: js_field_def [of Undefined] js_Number_def intro!: exI [of _ 1])
  with fetch_devices_terminates [OF this] show ?thesis by simp
qed

lemma commands_loop_log: "length (snd (fetchCommands_loop pages pf up w before cs l)) \<le> length l + pages"
proof (induction pages arbitrary: before cs l)
  case (Suc pages)
  have log: "length (snd (commands_page pf up w before l)) \<le> Suc (length l)"
    by (auto simp: commands_page_def io_bind_apply get_json_apply split: sum.split option.split)
  obtain r l' where page: "commands_page pf up w before l = (r, l')" by fastforce
  have "length (snd (fetchCommands_loop pages pf up w b cs' l')) \<le> Suc (length l) + pages" for b cs'
    using Suc.IH [of b cs' l'] log page by simp
  then show ?case using log page by (cases r) (auto simp: io_bind_apply split: prod.splits option.splits)
qed simp

end
