(* ===== verification/DashboardSnapshot.thy ===== *)
theory DashboardSnapshot
  imports DashboardFetch JsRounding
begin

text \<open>
  \<^verbatim>\<open>src/app/dashboard/hooks/useDashboardData.ts\<close>, second part: \<^verbatim>\<open>buildSnapshot\<close>, which turns the loaded devices, alerts and commands
  into the figures, charts and feeds of the dashboard. \<open>now\<close> is the time \<^verbatim>\<open>new Date()\<close> reads. A time field that cannot be converted to a
  text throws, wherever it is read first; the keys of a sort are read before the sort here.
\<close>

section \<open>The snapshot\<close>

record dash_kpi =
  totalDevices :: nat
  onlineDevices :: nat
  offlineDevices :: nat
  quarantinedDevices :: nat
  activeCommands :: nat
  kpiFailing :: nat
  criticalAlerts :: nat
  complianceDrift :: nat
  avgRiskScore :: jsnum
  fleetOnlineRate :: jsnum

record fleet_datum =
  fdName :: string
  fdValue :: nat
  fdColor :: string

record volume_datum =
  vdDay :: string
  vdCompleted :: nat
  vdFailed :: nat
  vdExpired :: nat

record failing_item =
  fiId :: string
  fiDevice :: string
  fiMethod :: string
  fiErrorCode :: "string option"
  fiErrorMsg :: string
  fiFailedAt :: string

record attention_item =
  atId :: string
  atName :: string
  atStatus :: string
  atReason :: string
  atSince :: string

datatype activity_type = CommandActivity | AlertActivity | DeviceActivity

record activity =
  acId :: string
  acType :: activity_type
  acTitle :: string
  acDetail :: string
  acSortAt :: int
  acTime :: string

record activity_item =
  aiId :: string
  aiType :: activity_type
  aiTitle :: string
  aiDetail :: string
  aiTime :: string

record feed_event =
  feId :: string
  feType :: string
  feSeverity :: string
  feTitle :: string
  feDetail :: string
  feTimestamp :: string
  feRead :: bool

record dash_snapshot =
  snKpi :: dash_kpi
  snFleet :: "fleet_datum list"
  snVolume :: "volume_datum list"
  snFailing :: "failing_item list"
  snAttention :: "attention_item list"
  snActivity :: "activity_item list"
  snAudit :: "audit_entry list"
  snFeed :: "feed_event list"

definition fleet_rows :: "nat \<Rightarrow> nat \<Rightarrow> nat \<Rightarrow> nat \<Rightarrow> fleet_datum list" where
  "fleet_rows onl off deg qua =
     [\<lparr>fdName = ''Online'', fdValue = onl, fdColor = ''hsl(142 71% 45%)''\<rparr>,
      \<lparr>fdName = ''Offline'', fdValue = off, fdColor = ''hsl(240 5% 45%)''\<rparr>,
      \<lparr>fdName = ''Degraded'', fdValue = deg, fdColor = ''hsl(38 92% 50%)''\<rparr>,
      \<lparr>fdName = ''Quarantined'', fdValue = qua, fdColor = ''hsl(0 72% 51%)''\<rparr>]"

definition EMPTY_KPI :: dash_kpi where
  "EMPTY_KPI = \<lparr>totalDevices = 0, onlineDevices = 0, offlineDevices = 0, quarantinedDevices = 0, activeCommands = 0, kpiFailing = 0,
     criticalAlerts = 0, complianceDrift = 0, avgRiskScore = Fin 0, fleetOnlineRate = Fin 0\<rparr>"

definition EMPTY_SNAPSHOT :: dash_snapshot where
  "EMPTY_SNAPSHOT = \<lparr>snKpi = EMPTY_KPI, snFleet = fleet_rows 0 0 0 0, snVolume = [], snFailing = [], snAttention = [],
     snActivity = [], snAudit = [], snFeed = []\<rparr>"

section \<open>Figures\<close>

definition activeStates :: "string list" where
  "activeStates = [''queued'', ''dispatched'', ''ack_received'', ''executing'']"

definition failedStates :: "string list" where
  "failedStates = [''failed'', ''expired'', ''rejected'']"

definition how_many :: "('a \<Rightarrow> bool) \<Rightarrow> 'a list \<Rightarrow> nat" where
  "how_many P xs = length (filter P xs)"

definition drifted :: "dash_device \<Rightarrow> bool" where
  "drifted d \<longleftrightarrow> ddCompliance d = DDrift \<or> ddCompliance d = DNonCompliant"

definition online_rate :: "nat \<Rightarrow> nat \<Rightarrow> jsnum" where
  "online_rate online n =
     (if 0 < n then string_to_number (to_fixed 1 (num_scale (to_double (of_nat online / of_nat n)) 100)) else Fin 0)"

definition average_risk :: "dash_device list \<Rightarrow> jsnum" where
  "average_risk devices =
     (if devices \<noteq> []
      then string_to_number (to_fixed 4 (num_scale (foldl (\<lambda>sum d. num_add sum (ddRisk d)) (Fin 0) devices) (1 / of_nat (length devices))))
      else Fin 0)"

definition snapshot_kpi :: "dash_device list \<Rightarrow> dash_alert list \<Rightarrow> dash_command list \<Rightarrow> dash_kpi" where
  "snapshot_kpi devices alerts commands =
     \<lparr>totalDevices = length devices, onlineDevices = how_many (\<lambda>d. ddStatus d = Online) devices,
      offlineDevices = how_many (\<lambda>d. ddStatus d = Offline) devices, quarantinedDevices = how_many (\<lambda>d. ddStatus d = Quarantined) devices,
      activeCommands = how_many (\<lambda>c. dcState c \<in> set activeStates) commands, kpiFailing = how_many (\<lambda>c. dcState c \<in> set failedStates) commands,
      criticalAlerts = how_many (\<lambda>a. daSeverity a = ''critical'') alerts, complianceDrift = how_many drifted devices,
      avgRiskScore = average_risk devices, fleetOnlineRate = online_rate (how_many (\<lambda>d. ddStatus d = Online) devices) (length devices)\<rparr>"

section \<open>Command volume\<close>

text \<open>The seven local days that end today, each with an empty bucket under its key.\<close>

definition day_bucket :: "date_platform \<Rightarrow> int \<Rightarrow> nat \<Rightarrow> (string \<times> volume_datum) res" where
  "day_bucket pf now offset =
     (case date_of_parts pf (getFullYear pf now) (getMonth pf now) (getDate pf now - int offset) of
        None \<Rightarrow> Inl (Thrown ''RangeError'')
      | Some day \<Rightarrow> Inr (formatLocalDateKey pf day, \<lparr>vdDay = formatLocalDayLabel pf day, vdCompleted = 0, vdFailed = 0, vdExpired = 0\<rparr>))"

definition day_buckets :: "date_platform \<Rightarrow> int \<Rightarrow> (string \<times> volume_datum) list res" where
  "day_buckets pf now =
     res_bind (res_map (day_bucket pf now) (rev [0..<COMMAND_WINDOW_DAYS])) (\<lambda>bs. Inr (fold (\<lambda>(k, b). al_set k b) bs []))"

definition bump :: "string \<Rightarrow> volume_datum \<Rightarrow> volume_datum" where
  "bump st b =
     (if st = ''completed'' then b\<lparr>vdCompleted := vdCompleted b + 1\<rparr>
      else if st = ''expired'' then b\<lparr>vdExpired := vdExpired b + 1\<rparr>
      else if st = ''failed'' \<or> st = ''rejected'' then b\<lparr>vdFailed := vdFailed b + 1\<rparr> else b)"

text \<open>A command paired with the time of its last event. A time of 0 counts as none.\<close>

definition count_command :: "date_platform \<Rightarrow> dash_command \<times> int option \<Rightarrow> (string \<times> volume_datum) list \<Rightarrow> (string \<times> volume_datum) list" where
  "count_command pf = (\<lambda>(c, t) buckets.
     case t of None \<Rightarrow> buckets
     | Some eventMs \<Rightarrow>
         if eventMs = 0 then buckets
         else (case al_get buckets (formatLocalDateKey pf eventMs) of None \<Rightarrow> buckets
               | Some b \<Rightarrow> al_set (formatLocalDateKey pf eventMs) (bump (dcState c) b) buckets))"

definition command_volume :: "date_platform \<Rightarrow> int \<Rightarrow> (dash_command \<times> int option) list \<Rightarrow> volume_datum list res" where
  "command_volume pf now timed =
     res_bind (day_buckets pf now) (\<lambda>buckets. Inr (map snd (fold (count_command pf) timed buckets)))"

section \<open>Lists\<close>

definition formatLocalEventTime :: "date_platform \<Rightarrow> js \<Rightarrow> string res" where
  "formatLocalEventTime pf v = formatLocalTime pf v ''--:--:--''"

text \<open>\<^verbatim>\<open>xs.sort((a, b) => key(b) - key(a)).slice(0, n)\<close>: the sign of a difference survives its rounding.\<close>

definition latest :: "('a \<Rightarrow> int) \<Rightarrow> nat \<Rightarrow> 'a list \<Rightarrow> 'a list" where
  "latest key n xs = take n (js_sort (\<lambda>a b. key b - key a) xs)"

abbreviation ms_or_0 :: "int option \<Rightarrow> int" where
  "ms_or_0 t \<equiv> (case t of None \<Rightarrow> 0 | Some v \<Rightarrow> v)"

definition device_names :: "dash_device list \<Rightarrow> (string \<times> string) list" where
  "device_names devices = fold (\<lambda>d. al_set (ddId d) (ddName d)) devices []"

definition failing_item :: "date_platform \<Rightarrow> (string \<times> string) list \<Rightarrow> dash_command \<Rightarrow> failing_item res" where
  "failing_item pf names c =
     res_bind (formatLocalEventTime pf (commandEventTime c)) (\<lambda>time.
       Inr \<lparr>fiId = dcId c,
         fiDevice = (case dcDeviceId c of None \<Rightarrow> ''Unknown device''
           | Some d \<Rightarrow> (case al_get names d of Some n \<Rightarrow> n | None \<Rightarrow> d)),
         fiMethod = dcMethod c, fiErrorCode = dcErrorCode c,
         fiErrorMsg = (case dcErrorMessage c of None \<Rightarrow> ''Execution failed'' | Some m \<Rightarrow> m), fiFailedAt = time\<rparr>)"

definition failing_commands :: "date_platform \<Rightarrow> dash_device list \<Rightarrow> (dash_command \<times> int option) list \<Rightarrow> failing_item list res" where
  "failing_commands pf devices timed =
     res_map (\<lambda>(c, _). failing_item pf (device_names devices) c)
       (latest (\<lambda>(_, t). ms_or_0 t) 6 (filter (\<lambda>(c, _). dcState c \<in> set failedStates) timed))"

definition attention_reason :: "dash_device \<Rightarrow> string" where
  "attention_reason d =
     (if ddStatus d = Quarantined then ''Device quarantined by policy''
      else if drifted d then ''Compliance drift detected''
      else if num_le (to_double (6 / 10)) (ddRisk d)
      then ''Elevated risk score ('' @ to_fixed 1 (num_scale (ddRisk d) 100) @ ''/100)''
      else ''Degraded device health reported'')"

definition attention_item :: "date_platform \<Rightarrow> dash_device \<Rightarrow> attention_item res" where
  "attention_item pf d =
     res_bind (formatLocalEventTime pf (ddLastSeenIso d)) (\<lambda>time.
       Inr \<lparr>atId = ddId d, atName = ddName d, atStatus = (if ddStatus d = Quarantined then ''quarantined'' else ''degraded''),
         atReason = attention_reason d, atSince = ''since '' @ time\<rparr>)"

definition attention_devices :: "date_platform \<Rightarrow> (dash_device \<times> int option) list \<Rightarrow> attention_item list res" where
  "attention_devices pf seen =
     res_map (\<lambda>(d, _). attention_item pf d)
       (latest (\<lambda>(_, t). ms_or_0 t) 6 (filter (\<lambda>(d, _). ddStatus d = Quarantined \<or> ddStatus d = Degraded) seen))"

definition text_or :: "string option \<Rightarrow> string \<Rightarrow> string" where
  "text_or v d = (case v of None \<Rightarrow> d | Some s \<Rightarrow> s)"

definition command_activity :: "date_platform \<Rightarrow> dash_command \<times> int option \<Rightarrow> activity res" where
  "command_activity pf = (\<lambda>(c, t).
     res_bind (formatLocalEventTime pf (commandEventTime c)) (\<lambda>time.
       Inr \<lparr>acId = ''activity-command-'' @ dcId c, acType = CommandActivity, acTitle = dcId c @ '' '' @ dcState c,
         acDetail = dcMethod c @ '' on '' @ text_or (dcDeviceId c) ''device'', acSortAt = ms_or_0 t, acTime = time\<rparr>))"

definition alert_activity :: "date_platform \<Rightarrow> dash_alert \<times> int option \<Rightarrow> activity res" where
  "alert_activity pf = (\<lambda>(a, t).
     res_bind (formatLocalEventTime pf (daTimestampIso a)) (\<lambda>time.
       Inr \<lparr>acId = ''activity-alert-'' @ daId a, acType = AlertActivity, acTitle = to_upper (daSeverity a) @ '' alert'',
         acDetail = daMessage a, acSortAt = ms_or_0 t, acTime = time\<rparr>))"

definition device_activity :: "date_platform \<Rightarrow> dash_device \<times> int option \<Rightarrow> activity res" where
  "device_activity pf = (\<lambda>(d, t).
     res_bind (formatLocalEventTime pf (ddLastSeenIso d)) (\<lambda>time.
       Inr \<lparr>acId = ''activity-device-'' @ ddId d, acType = DeviceActivity, acTitle = ddName d @ '' heartbeat'',
         acDetail = status_string (ddStatus d) @ '' - Agent '' @ text_or (ddAgentVersion d) ''-'', acSortAt = ms_or_0 t, acTime = time\<rparr>))"

definition recent_activity :: "activity list \<Rightarrow> activity list" where
  "recent_activity items = latest acSortAt 12 (filter (\<lambda>i. 0 < acSortAt i) items)"

definition activity_item :: "activity \<Rightarrow> activity_item" where
  "activity_item i = \<lparr>aiId = acId i, aiType = acType i, aiTitle = acTitle i, aiDetail = acDetail i, aiTime = acTime i\<rparr>"

definition command_audit :: "date_platform \<Rightarrow> dash_command \<Rightarrow> audit_entry res" where
  "command_audit pf c =
     res_bind (formatDashTimestamp pf (commandEventTime c)) (\<lambda>time.
       let st = to_lower (dcState c) in
       Inr \<lparr>auId = ''AUD-CMD-'' @ dcId c, auTimestamp = time, auActor = text_or (dcActorEmail c) ''system'',
         auRole = (case dcActorEmail c of Some (_ # _) \<Rightarrow> ''Operator'' | _ \<Rightarrow> ''System''), auEvent = CommandExecution,
         auAction = ''COMMAND_'' @ to_upper st, auTarget = text_or (dcDeviceId c) ''fleet'',
         auDetail = dcMethod c @ '' ('' @ dcId c @ '')'' @
           (case dcErrorMessage c of Some (m # ms) \<Rightarrow> '' - '' @ m # ms | _ \<Rightarrow> []),
         auOutcome = (if st = ''completed'' then Success else if st \<in> set failedStates then Failure else Pending)\<rparr>)"

definition alert_audit :: "date_platform \<Rightarrow> dash_alert \<Rightarrow> audit_entry res" where
  "alert_audit pf a =
     res_bind (formatDashTimestamp pf (daTimestampIso a)) (\<lambda>time.
       Inr \<lparr>auId = ''AUD-ALT-'' @ daId a, auTimestamp = time, auActor = ''system'', auRole = ''System'', auEvent = SystemEvent,
         auAction = ''ALERT_RAISED'', auTarget = text_or (daDeviceId a) (daId a),
         auDetail = to_upper (daSeverity a) @ '' - '' @ daMessage a,
         auOutcome = (if daSeverity a = ''info'' then Pending else Failure)\<rparr>)"

definition feed_event :: "activity \<Rightarrow> feed_event" where
  "feed_event i =
     (let base = \<lparr>feId = ''feed-'' @ acId i, feType = ''device_state'', feSeverity = ''info'', feTitle = acTitle i,
            feDetail = acDetail i, feTimestamp = acTime i, feRead = False\<rparr>
      in case acType i of
           AlertActivity \<Rightarrow> base\<lparr>feType := ''alert'',
             feSeverity := (if starts_with (to_lower (acTitle i)) ''critical'' then ''critical'' else ''warning'')\<rparr>
         | CommandActivity \<Rightarrow> base\<lparr>feType := ''command_status'',
             feSeverity := (if str_includes (acTitle i) ''failed'' \<or> str_includes (acTitle i) ''expired'' \<or> str_includes (acTitle i) ''rejected''
               then ''warning'' else ''info'')\<rparr>
         | DeviceActivity \<Rightarrow> base)"

text \<open>A list with the time that \<^verbatim>\<open>parseIsoMs\<close> reads for each element.\<close>

definition timed :: "date_platform \<Rightarrow> ('a \<Rightarrow> js) \<Rightarrow> 'a list \<Rightarrow> ('a \<times> int option) list res" where
  "timed pf iso_of xs = res_map (\<lambda>x. res_bind (parseIsoMs pf (iso_of x)) (\<lambda>t. Inr (x, t))) xs"

definition activities :: "date_platform \<Rightarrow> (dash_device \<times> int option) list \<Rightarrow> (dash_alert \<times> int option) list \<Rightarrow>
    (dash_command \<times> int option) list \<Rightarrow> activity list res" where
  "activities pf ds as cs =
     res_bind (res_map (command_activity pf) cs) (\<lambda>c.
     res_bind (res_map (alert_activity pf) as) (\<lambda>a.
     res_bind (res_map (device_activity pf) (filter (\<lambda>(d, _). truthy (ddLastSeenIso d)) ds)) (\<lambda>d. Inr (c @ a @ d))))"

definition buildSnapshot :: "date_platform \<Rightarrow> int \<Rightarrow> dash_device list \<Rightarrow> dash_alert list \<Rightarrow> dash_command list \<Rightarrow> dash_snapshot res" where
  "buildSnapshot pf now devices alerts commands =
     res_bind (timed pf ddLastSeenIso devices) (\<lambda>ds.
     res_bind (timed pf daTimestampIso alerts) (\<lambda>as.
     res_bind (timed pf commandEventTime commands) (\<lambda>cs.
     res_bind (command_volume pf now cs) (\<lambda>volume.
     res_bind (failing_commands pf devices cs) (\<lambda>failing.
     res_bind (attention_devices pf ds) (\<lambda>attention.
     res_bind (activities pf ds as cs) (\<lambda>items.
     res_bind (res_map (command_audit pf) commands) (\<lambda>ca.
     res_bind (res_map (alert_audit pf) alerts) (\<lambda>aa.
       Inr \<lparr>snKpi = snapshot_kpi devices alerts commands,
         snFleet = fleet_rows (how_many (\<lambda>d. ddStatus d = Online) devices) (how_many (\<lambda>d. ddStatus d = Offline) devices)
           (how_many (\<lambda>d. ddStatus d = Degraded) devices) (how_many (\<lambda>d. ddStatus d = Quarantined) devices),
         snVolume = volume, snFailing = failing, snAttention = attention,
         snActivity = map activity_item (recent_activity items),
         snAudit = latest (\<lambda>e. parseLocalDateTime pf (auTimestamp e)) 120 (ca @ aa),
         snFeed = map feed_event (recent_activity items)\<rparr>)))))))))"

section \<open>The newest elements\<close>

text \<open>The specification of a list cut to its newest elements: \<open>picked\<close> and \<open>rest\<close> share out \<open>xs\<close>.\<close>

definition newest :: "('a \<Rightarrow> int) \<Rightarrow> nat \<Rightarrow> 'a list \<Rightarrow> 'a list \<Rightarrow> bool" where
  "newest key n xs picked \<longleftrightarrow>
     length picked = min n (length xs) \<and> sorted_wrt (\<lambda>a b. key b \<le> key a) picked \<and>
     (\<exists>rest. mset xs = mset (picked @ rest) \<and> (\<forall>x \<in> set picked. \<forall>y \<in> set rest. key y \<le> key x))"

lemma descending: "comparator (\<lambda>a b. (key b :: int) - key a)"
  by unfold_locales auto

interpretation newest_first: comparator "\<lambda>a b. (key b :: int) - key a" for key
  by (rule descending)

lemma latest_newest: "newest key n xs (latest key n xs)"
proof -
  let ?ys = "js_sort (\<lambda>a b. key b - key a) xs"
  have sorted: "sorted_wrt (\<lambda>a b. key b \<le> key a) (take n ?ys @ drop n ?ys)"
    using newest_first.sorted_js_sort [of key xs] by simp
  have "mset xs = mset (take n ?ys @ drop n ?ys)" by (simp only: append_take_drop_id mset_js_sort)
  with sorted show ?thesis unfolding newest_def latest_def sorted_wrt_append
    by (intro conjI exI [of _ "drop n ?ys"]) auto
qed

section \<open>Command volume\<close>

text \<open>The reference: a bucket counts the commands whose last event fell on its day, by their state.\<close>

definition on_day :: "date_platform \<Rightarrow> string \<Rightarrow> int option \<Rightarrow> bool" where
  "on_day pf k t = (case t of None \<Rightarrow> False | Some ms \<Rightarrow> ms \<noteq> 0 \<and> formatLocalDateKey pf ms = k)"

definition day_total :: "date_platform \<Rightarrow> (dash_command \<times> int option) list \<Rightarrow> string \<times> volume_datum \<Rightarrow> volume_datum" where
  "day_total pf cs = (\<lambda>(k, b).
     \<lparr>vdDay = vdDay b,
      vdCompleted = vdCompleted b + how_many (\<lambda>(c, t). on_day pf k t \<and> dcState c = ''completed'') cs,
      vdFailed = vdFailed b + how_many (\<lambda>(c, t). on_day pf k t \<and> dcState c \<in> {''failed'', ''rejected''}) cs,
      vdExpired = vdExpired b + how_many (\<lambda>(c, t). on_day pf k t \<and> dcState c = ''expired'') cs\<rparr>)"

lemma al_set_map:
  "distinct (al_keys m) \<Longrightarrow> al_get m k = Some v \<Longrightarrow> al_set k (f v) m = map (\<lambda>(j, w). (j, if j = k then f w else w)) m"
proof (induction m)
  case (Cons p m)
  obtain j w where p: "p = (j, w)" by fastforce
  have "map (\<lambda>(i, u). (i, if i = j then f u else u)) m = m" using Cons.prems(1) p by (intro map_idI) force
  with Cons p show ?case by auto
qed simp

lemma count_command_map:
  assumes "distinct (al_keys bs)"
  shows "count_command pf (c, t) bs = map (\<lambda>(k, b). (k, if on_day pf k t then bump (dcState c) b else b)) bs"
proof (cases "\<exists>ms b. t = Some ms \<and> ms \<noteq> 0 \<and> al_get bs (formatLocalDateKey pf ms) = Some b")
  case True
  then obtain ms b where b: "t = Some ms" "ms \<noteq> 0" "al_get bs (formatLocalDateKey pf ms) = Some b" by blast
  have "count_command pf (c, t) bs = al_set (formatLocalDateKey pf ms) (bump (dcState c) b) bs"
    using b by (simp add: count_command_def)
  also have "\<dots> = map (\<lambda>(j, w). (j, if j = formatLocalDateKey pf ms then bump (dcState c) w else w)) bs"
    by (rule al_set_map [OF assms b(3)])
  also have "\<dots> = map (\<lambda>(k, b). (k, if on_day pf k t then bump (dcState c) b else b)) bs"
    using b(1,2) by (auto simp: on_day_def)
  finally show ?thesis .
next
  case False
  then have "count_command pf (c, t) bs = bs" by (auto simp: count_command_def split: option.split)
  moreover have "map (\<lambda>(k, b). (k, if on_day pf k t then bump (dcState c) b else b)) bs = bs"
    using False assms by (intro map_idI) (auto simp: on_day_def al_get_map_of split: option.splits)
  ultimately show ?thesis by simp
qed

lemma day_total_Cons:
  "day_total pf ((c, t) # cs) (k, b) = day_total pf cs (k, if on_day pf k t then bump (dcState c) b else b)"
  by (auto simp: day_total_def bump_def how_many_def)

lemma day_total_Nil: "day_total pf [] (k, b) = b"
  by (simp add: day_total_def how_many_def)

lemma count_commands:
  "distinct (al_keys bs) \<Longrightarrow> map snd (fold (count_command pf) cs bs) = map (day_total pf cs) bs"
proof (induction cs arbitrary: bs)
  case Nil
  show ?case by (auto simp: day_total_Nil)
next
  case (Cons x cs)
  obtain c t where x: "x = (c, t)" by fastforce
  let ?bs = "map (\<lambda>(k, b). (k, if on_day pf k t then bump (dcState c) b else b)) bs"
  have "al_keys ?bs = al_keys bs" by (simp add: case_prod_unfold comp_def)
  then have "distinct (al_keys ?bs)" using Cons.prems by (simp only:)
  then have "map snd (fold (count_command pf) cs ?bs) = map (day_total pf cs) ?bs" by (rule Cons.IH)
  then show ?case using Cons.prems x by (simp add: count_command_map) (auto simp: day_total_Cons)
qed

lemma distinct_al_sets: "distinct (al_keys m) \<Longrightarrow> distinct (al_keys (fold (\<lambda>(k, v). al_set k v) kvs m))"
  by (induction kvs arbitrary: m) (auto simp: distinct_al_set split: prod.split)

lemma command_volume_exact:
  "command_volume pf now cs = Inr volume \<longleftrightarrow> (\<exists>bs. day_buckets pf now = Inr bs \<and> volume = map (day_total pf cs) bs)"
proof -
  have "map snd (fold (count_command pf) cs bs) = map (day_total pf cs) bs" if "day_buckets pf now = Inr bs" for bs
    using that distinct_al_sets [of "[]"] by (intro count_commands) (auto simp: day_buckets_def res_bind_Inr_iff)
  then show ?thesis by (auto simp: command_volume_def res_bind_Inr_iff)
qed

section \<open>Properties\<close>

lemma buildSnapshot_parts:
  assumes "buildSnapshot pf now devices alerts commands = Inr sn"
  obtains ds as cs items where "timed pf ddLastSeenIso devices = Inr ds" "timed pf daTimestampIso alerts = Inr as"
    "timed pf commandEventTime commands = Inr cs" "command_volume pf now cs = Inr (snVolume sn)"
    "failing_commands pf devices cs = Inr (snFailing sn)" "attention_devices pf ds = Inr (snAttention sn)" "activities pf ds as cs = Inr items"
    "snActivity sn = map activity_item (recent_activity items)" "snFeed sn = map feed_event (recent_activity items)"
    "snKpi sn = snapshot_kpi devices alerts commands"
    "snFleet sn = fleet_rows (how_many (\<lambda>d. ddStatus d = Online) devices) (how_many (\<lambda>d. ddStatus d = Offline) devices)
           (how_many (\<lambda>d. ddStatus d = Degraded) devices) (how_many (\<lambda>d. ddStatus d = Quarantined) devices)"
  using assms unfolding buildSnapshot_def res_bind_Inr_iff
  by (elim exE conjE) (rule that; simp only: sum.inject dash_snapshot.simps; auto)

lemma failing_ids:
  assumes "res_map (\<lambda>(c, _). failing_item pf names c) xs = Inr ys"
  shows "map fiId ys = map (dcId \<circ> fst) xs"
proof -
  have "list_all2 (\<lambda>x y. dcId (fst x) = fiId y) xs ys"
    using assms unfolding res_map_Inr_iff
    by (rule list_all2_mono) (auto simp: failing_item_def res_bind_Inr_iff split: prod.splits)
  then show ?thesis by (induction rule: list_all2_induct) simp_all
qed

text \<open>A small fleet the properties are evaluated on: one quarantined device and one failed command, in UTC.\<close>

definition demo_platform :: date_platform where
  "demo_platform = \<lparr>utc_offset = \<lambda>_. 0, local_offset = \<lambda>_. 0, legacy_date = \<lambda>_. None\<rparr>"

definition demo_devices :: "dash_device list" where
  "demo_devices = [\<lparr>ddId = ''d1'', ddName = ''web'', ddOwner = ''Unknown'', ddStatus = Quarantined, ddCompliance = DDrift, ddRisk = Fin 1,
     ddLastSeenIso = Null, ddAgentVersion = None\<rparr>]"

definition demo_commands :: "dash_command list" where
  "demo_commands = [\<lparr>dcId = ''c1'', dcMethod = ''ping'', dcState = ''failed'', dcDeviceId = Some ''d1'',
     dcQueuedAtIso = Str ''2024-02-29T23:30:15.250Z'', dcCompletedAtIso = Null, dcErrorCode = None, dcErrorMessage = None, dcActorEmail = None\<rparr>]"

text \<open>A time field as the API sends it: a text or nothing. Such fields never make a conversion throw.\<close>

definition plain_time :: "js \<Rightarrow> bool" where
  "plain_time v \<longleftrightarrow> is_nullish v \<or> is_Str v"

lemma plain_time_defined:
  assumes "plain_time v"
  shows "\<exists>t. parseIsoMs pf v = Inr t" "\<exists>s. formatLocalEventTime pf v = Inr s" "\<exists>s. formatDashTimestamp pf v = Inr s"
  using assms by (auto simp: plain_time_def nullish_cases is_Str_iff parseIsoMs_def formatLocalEventTime_def formatDashTimestamp_def
      formatLocalTime_def formatLocalDateTime_def new_date_def split: option.split)

lemma timed_defined: "list_all (\<lambda>x. plain_time (key x)) xs \<Longrightarrow> \<exists>ts. timed pf key xs = Inr ts"
  unfolding timed_def using plain_time_defined(1) by (intro res_map_defined) (fastforce simp: list_all_iff res_bind_Inr_iff)

lemma timed_fst: "timed pf key xs = Inr ts \<Longrightarrow> map fst ts = xs"
  unfolding timed_def res_map_Inr_iff by (induction rule: list_all2_induct) (auto simp: res_bind_Inr_iff)

lemma set_latest: "set (latest key n xs) \<subseteq> set xs"
  by (auto simp: latest_def dest: in_set_takeD)

lemma snapshot_defined:
  assumes "list_all (\<lambda>d. plain_time (ddLastSeenIso d)) devices" "list_all (\<lambda>a. plain_time (daTimestampIso a)) alerts"
    "list_all (\<lambda>c. plain_time (commandEventTime c)) commands" "day_buckets pf now = Inr bs"
  shows "\<exists>sn. buildSnapshot pf now devices alerts commands = Inr sn"
proof -
  obtain ds as cs where t: "timed pf ddLastSeenIso devices = Inr ds" "timed pf daTimestampIso alerts = Inr as" "timed pf commandEventTime commands = Inr cs"
    using assms(1-3) [THEN timed_defined, of pf] by auto
  have plain: "plain_time (ddLastSeenIso d)" if "(d, u) \<in> set ds" for d u
    using assms(1) timed_fst [OF t(1)] that by (force simp: list_all_iff)
  have plain': "plain_time (daTimestampIso a)" if "(a, u) \<in> set as" for a u
    using assms(2) timed_fst [OF t(2)] that by (force simp: list_all_iff)
  have plain'': "plain_time (commandEventTime c)" if "(c, u) \<in> set cs" for c u
    using assms(3) timed_fst [OF t(3)] that by (force simp: list_all_iff)
  note defs = failing_item_def attention_item_def command_activity_def alert_activity_def device_activity_def
  note defined = res_bind_defined plain_time_defined
  have "\<exists>x. failing_commands pf devices cs = Inr x"
    unfolding failing_commands_def
    by (rule res_map_defined) (auto simp: defs dest!: set_latest [THEN subsetD] intro!: defined plain'')
  moreover have "\<exists>x. attention_devices pf ds = Inr x"
    unfolding attention_devices_def
    by (rule res_map_defined) (auto simp: defs dest!: set_latest [THEN subsetD] intro!: defined plain)
  moreover have "\<exists>x. res_map (command_activity pf) cs = Inr x" "\<exists>x. res_map (alert_activity pf) as = Inr x"
    "\<exists>x. res_map (device_activity pf) (filter (\<lambda>(d, _). truthy (ddLastSeenIso d)) ds) = Inr x"
    by (rule res_map_defined, auto simp: defs intro!: defined plain plain' plain'')+
  then have "\<exists>x. activities pf ds as cs = Inr x" by (auto simp: activities_def)
  moreover have "\<exists>x. res_map (command_audit pf) commands = Inr x" "\<exists>x. res_map (alert_audit pf) alerts = Inr x"
    using assms(2,3) by - (rule res_map_defined, auto simp: command_audit_def alert_audit_def list_all_iff Let_def intro!: defined)+
  moreover have "\<exists>x. command_volume pf now cs = Inr x" using assms(4) by (simp add: command_volume_def)
  ultimately show ?thesis by (auto simp: buildSnapshot_def t)
qed

lemma day_buckets_defined:
  assumes "list_all (\<lambda>offset. date_of_parts pf (getFullYear pf now) (getMonth pf now) (getDate pf now - int offset) \<noteq> None) (rev [0..<COMMAND_WINDOW_DAYS])"
  shows "\<exists>bs. day_buckets pf now = Inr bs"
proof -
  have "\<exists>ys. res_map (day_bucket pf now) (rev [0..<COMMAND_WINDOW_DAYS]) = Inr ys"
    by (rule res_map_defined) (use assms in \<open>auto simp: list_all_iff day_bucket_def split: option.split\<close>)
  then show ?thesis by (auto simp: day_buckets_def)
qed

lemma demo_buckets: "\<exists>bs. day_buckets demo_platform 1709249415250 = Inr bs"
proof (rule day_buckets_defined)
  show "list_all (\<lambda>offset. date_of_parts demo_platform (getFullYear demo_platform 1709249415250) (getMonth demo_platform 1709249415250)
      (getDate demo_platform 1709249415250 - int offset) \<noteq> None) (rev [0..<COMMAND_WINDOW_DAYS])" by code_simp
qed

lemma demo_commands_plain: "list_all (\<lambda>c. plain_time (commandEventTime c)) demo_commands"
  by (simp add: demo_commands_def plain_time_def commandEventTime_def is_Str_def)

lemma demo_snapshot: "\<exists>sn. buildSnapshot demo_platform 1709249415250 demo_devices [] demo_commands = Inr sn"
  using demo_buckets snapshot_defined [OF _ _ demo_commands_plain, of demo_devices "[]"] by (auto simp: demo_devices_def plain_time_def)

text \<open>
  Where a local day starts: what \<^verbatim>\<open>new Date(year, month, day)\<close> gives lies on that day. The language reads a midnight that a change of
  the clocks skips with the offset before the change, which is later on the same day. It fails
  only where a zone has skipped a whole day.
\<close>

definition days_start :: "date_platform \<Rightarrow> bool" where
  "days_start pf \<longleftrightarrow> (\<forall>d. local_day pf (utc_time pf (d * 86400000)) = d)"

text \<open>Whether an event fell on a local day. A time of 0 is taken for none.\<close>

definition falls_on :: "date_platform \<Rightarrow> int \<Rightarrow> int option \<Rightarrow> bool" where
  "falls_on pf d t \<longleftrightarrow> (\<exists>ms. t = Some ms \<and> ms \<noteq> 0 \<and> local_day pf ms = d)"

lemma on_day_falls_on: "on_day pf (day_key d) t \<longleftrightarrow> falls_on pf d t"
  by (cases t) (auto simp: on_day_def falls_on_def printed_day dest: day_key_inj)

lemma day_bucket_exact:
  assumes "day_bucket pf now offset = Inr p" "days_start pf" "99 < getFullYear pf now"
  shows "p = (day_key (local_day pf now - int offset),
    \<lparr>vdDay = day_label (local_day pf now - int offset), vdCompleted = 0, vdFailed = 0, vdExpired = 0\<rparr>)"
proof -
  let ?d = "local_day pf now"
  have "make_day (getFullYear pf now) (getMonth pf now) (getDate pf now - int offset) =
      make_day (year_from_day ?d) (month_from_day ?d) (date_from_day ?d) - int offset"
    by (simp add: make_day_def getFullYear_def getMonth_def getDate_def local_day_def Let_def)
  moreover define midnight where "midnight = (?d - int offset) * 86400000"
  ultimately have date: "make_date (make_day (getFullYear pf now) (getMonth pf now) (getDate pf now - int offset)) 0 = midnight"
    by (simp add: make_day_parts make_date_def)
  define day where "day = utc_time pf midnight"
  have "\<not> getFullYear pf now \<le> 99" using assms(3) by simp
  then have "p = (formatLocalDateKey pf day, \<lparr>vdDay = formatLocalDayLabel pf day, vdCompleted = 0, vdFailed = 0, vdExpired = 0\<rparr>)"
    using assms(1) unfolding day_bucket_def date_of_parts_def by (simp add: date flip: day_def) (simp add: time_clip_def split: if_splits)
  moreover have "local_day pf day = ?d - int offset" using assms(2) unfolding days_start_def day_def midnight_def by blast
  ultimately show ?thesis by (simp add: printed_day)
qed

lemma fold_al_set_distinct:
  assumes "distinct (al_keys (m @ bs))"
  shows "fold (\<lambda>(k, b). al_set k b) bs m = m @ bs"
  using assms
proof (induction bs arbitrary: m)
  case (Cons p bs)
  obtain k b where p: "p = (k, b)" by (cases p)
  have "k \<notin> set (al_keys m) \<Longrightarrow> al_set k b m = m @ [(k, b)]" by (induction m) auto
  with Cons p show ?case by (simp add: Cons.IH [of "m @ [(k, b)]"])
qed simp

lemma day_buckets_exact:
  assumes "day_buckets pf now = Inr bs" "days_start pf" "99 < getFullYear pf now"
  shows "bs = map (\<lambda>i. (day_key (local_day pf now - int i),
    \<lparr>vdDay = day_label (local_day pf now - int i), vdCompleted = 0, vdFailed = 0, vdExpired = 0\<rparr>)) (rev [0..<COMMAND_WINDOW_DAYS])"
proof -
  let ?bs = "map (\<lambda>i. (day_key (local_day pf now - int i),
    \<lparr>vdDay = day_label (local_day pf now - int i), vdCompleted = 0, vdFailed = 0, vdExpired = 0\<rparr>)) (rev [0..<COMMAND_WINDOW_DAYS])"
  obtain ps where ps: "res_map (day_bucket pf now) (rev [0..<COMMAND_WINDOW_DAYS]) = Inr ps" "bs = fold (\<lambda>(k, b). al_set k b) ps []"
    using assms(1) by (auto simp: day_buckets_def res_bind_Inr_iff)
  have "list_all2 (\<lambda>i p. day_bucket pf now i = Inr p) (rev [0..<COMMAND_WINDOW_DAYS]) ps" using ps(1) unfolding res_map_Inr_iff .
  then have "ps = ?bs"
    by (induction rule: list_all2_induct) (auto dest: day_bucket_exact [OF _ assms(2,3)])
  moreover have "distinct (al_keys ?bs)"
    by (auto simp: distinct_map rev_map [symmetric] inj_on_def o_def dest: day_key_inj)
  ultimately show ?thesis using fold_al_set_distinct [of "[]" ps] ps(2) by simp
qed

text \<open>
  C15: the chart of command volume is exact. It has one entry for each of the last seven local days, the oldest first and today last, labelled by
  its day, and the entry counts exactly the commands whose last event fell on that day: the completed ones, the failed or rejected ones, and the
  expired ones. Commands without a readable time, or from other days, count nowhere.
\<close>

theorem command_volume_counts:
  assumes "buildSnapshot pf now devices alerts commands = Inr sn" "days_start pf" "99 < getFullYear pf now"
  shows "\<exists>cs. timed pf commandEventTime commands = Inr cs \<and>
     snVolume sn = map (\<lambda>day.
       \<lparr>vdDay = day_label day,
        vdCompleted = length (filter (\<lambda>(c, t). falls_on pf day t \<and> dcState c = ''completed'') cs),
        vdFailed = length (filter (\<lambda>(c, t). falls_on pf day t \<and> dcState c \<in> {''failed'', ''rejected''}) cs),
        vdExpired = length (filter (\<lambda>(c, t). falls_on pf day t \<and> dcState c = ''expired'') cs)\<rparr>)
       (map (\<lambda>i. local_day pf now - i) [6, 5, 4, 3, 2, 1, 0])"
proof -
  obtain cs where cs: "timed pf commandEventTime commands = Inr cs" "command_volume pf now cs = Inr (snVolume sn)"
    using buildSnapshot_parts [OF assms(1)] by metis
  from cs(2) obtain bs where bs: "day_buckets pf now = Inr bs" "snVolume sn = map (day_total pf cs) bs"
    unfolding command_volume_exact by blast
  have window: "rev [0..<COMMAND_WINDOW_DAYS] = [6, 5, 4, 3, 2, 1, 0]" by code_simp
  show ?thesis
    by (rule exI [of _ cs], rule conjI [OF cs(1)])
      (simp add: bs(2) day_buckets_exact [OF bs(1) assms(2,3)] window day_total_def on_day_falls_on how_many_def)
qed

theorem command_volume_counts_witness:
  "\<exists>sn. buildSnapshot demo_platform 1709249415250 demo_devices [] demo_commands = Inr sn \<and> length (snVolume sn) = 7 \<and>
     vdDay (snVolume sn ! 6) = day_label (local_day demo_platform 1709249415250)"
proof -
  obtain sn where sn: "buildSnapshot demo_platform 1709249415250 demo_devices [] demo_commands = Inr sn" using demo_snapshot by blast
  have days: "days_start demo_platform" by (simp add: days_start_def demo_platform_def local_day_def local_time_def utc_time_def)
  have year: "99 < getFullYear demo_platform 1709249415250" by code_simp
  obtain f where "snVolume sn = map f (map (\<lambda>i. local_day demo_platform 1709249415250 - i) [6, 5, 4, 3, 2, 1, 0])"
    "\<And>d. vdDay (f d) = day_label d"
    using command_volume_counts [OF sn days year] by (elim exE conjE) (rule that, assumption, simp)
  with sn show ?thesis by (intro exI [of _ sn]) simp
qed

text \<open>
  C40: the lists of the dashboard show the newest entries and nothing else. The failing commands are at most six, the newest ones by their last
  event; the activity and the live feed show the same at most twelve items, the newest that have a time, in the same order.
\<close>

theorem dashboard_shows_newest:
  assumes "buildSnapshot pf now devices alerts commands = Inr sn"
  shows "\<exists>ds as cs items failing recent. timed pf ddLastSeenIso devices = Inr ds \<and> timed pf daTimestampIso alerts = Inr as \<and>
     timed pf commandEventTime commands = Inr cs \<and> activities pf ds as cs = Inr items \<and>
     newest (\<lambda>(_, t). ms_or_0 t) 6 (filter (\<lambda>(c, _). dcState c \<in> set failedStates) cs) failing \<and>
     map fiId (snFailing sn) = map (dcId \<circ> fst) failing \<and>
     newest acSortAt 12 (filter (\<lambda>i. 0 < acSortAt i) items) recent \<and>
     map aiId (snActivity sn) = map acId recent \<and> map feId (snFeed sn) = map (\<lambda>i. ''feed-'' @ acId i) recent"
proof -
  from buildSnapshot_parts [OF assms] obtain ds as cs items where
    loads: "timed pf ddLastSeenIso devices = Inr ds" "timed pf daTimestampIso alerts = Inr as" "timed pf commandEventTime commands = Inr cs"
      "activities pf ds as cs = Inr items"
    and parts: "failing_commands pf devices cs = Inr (snFailing sn)"
      "snActivity sn = map activity_item (recent_activity items)" "snFeed sn = map feed_event (recent_activity items)" by metis
  have "feId (feed_event i) = ''feed-'' @ acId i" for i by (simp add: feed_event_def Let_def split: activity_type.split)
  then have "map feId (snFeed sn) = map (\<lambda>i. ''feed-'' @ acId i) (recent_activity items)" by (simp add: parts(3))
  moreover have "map aiId (snActivity sn) = map acId (recent_activity items)" by (simp add: parts(2) activity_item_def)
  moreover have "newest acSortAt 12 (filter (\<lambda>i. 0 < acSortAt i) items) (recent_activity items)"
    unfolding recent_activity_def by (rule latest_newest)
  ultimately show ?thesis
    by (intro exI conjI) (assumption | rule loads latest_newest failing_ids [OF parts(1) [unfolded failing_commands_def]])+
qed

theorem dashboard_shows_newest_witness:
  "\<exists>sn. buildSnapshot demo_platform 1709249415250 demo_devices [] demo_commands = Inr sn \<and> length (snFailing sn) \<le> 6"
proof -
  obtain sn where sn: "buildSnapshot demo_platform 1709249415250 demo_devices [] demo_commands = Inr sn" using demo_snapshot by blast
  from dashboard_shows_newest [OF sn] have "length (snFailing sn) \<le> 6"
    by (elim exE conjE) (metis length_map newest_def min.cobounded1)
  with sn show ?thesis by blast
qed

section \<open>The figures stay in range\<close>

lemma fixed_in_range: "\<exists>v. x = Fin v \<and> 0 \<le> v \<and> v \<le> of_nat b \<Longrightarrow> b < 2 ^ 53 \<Longrightarrow> 0 < f \<Longrightarrow>
    \<exists>v. string_to_number (to_fixed f x) = Fin v \<and> 0 \<le> v \<and> v \<le> of_nat b"
  using to_fixed_bound [of _ b f] by (auto simp del: to_fixed.simps)

lemma online_rate_range:
  assumes "k \<le> n"
  shows "\<exists>v. online_rate k n = Fin v \<and> 0 \<le> v \<and> v \<le> 100"
proof (cases "n = 0")
  case False
  have "\<exists>v. to_double (of_nat k / of_nat n) = Fin v \<and> 0 \<le> v \<and> v \<le> of_nat 1"
    using assms False by (intro to_double_bound) (simp_all add: divide_le_eq)
  then obtain v where "to_double (of_nat k / of_nat n) = Fin v" "0 \<le> v" "v \<le> 1" by auto
  moreover from this have "\<exists>w. to_double (v * 100) = Fin w \<and> 0 \<le> w \<and> w \<le> of_nat 100" by (intro to_double_bound) simp_all
  ultimately show ?thesis using False fixed_in_range [of "to_double (v * 100)" 100 1] by (simp add: online_rate_def)
qed (simp add: online_rate_def)

lemma risk_sum_range:
  assumes "list_all (\<lambda>d. risk_in_range (ddRisk d)) ds" "k + length ds < 2 ^ 53" "s = Fin x" "0 \<le> x" "x \<le> of_nat k"
  shows "\<exists>v. foldl (\<lambda>sum d. num_add sum (ddRisk d)) s ds = Fin v \<and> 0 \<le> v \<and> v \<le> of_nat (k + length ds)"
  using assms
proof (induction ds arbitrary: k s x)
  case (Cons d ds)
  obtain r where r: "ddRisk d = Fin r" "0 \<le> r" "r \<le> 1" using Cons.prems(1) by (auto simp: risk_in_range_iff)
  have "\<exists>v. to_double (x + r) = Fin v \<and> 0 \<le> v \<and> v \<le> of_nat (Suc k)"
    using Cons.prems(2,4,5) r by (intro to_double_bound) simp_all
  then obtain v where v: "to_double (x + r) = Fin v" "0 \<le> v" "v \<le> of_nat (Suc k)" by blast
  have "\<exists>w. foldl (\<lambda>sum d. num_add sum (ddRisk d)) (Fin v) ds = Fin w \<and> 0 \<le> w \<and> w \<le> of_nat (Suc k + length ds)"
    using Cons.prems(1,2) v by (intro Cons.IH) simp_all
  then show ?case using Cons.prems(3) r(1) v(1) by simp
qed simp

lemma average_risk_range:
  assumes "list_all (\<lambda>d. risk_in_range (ddRisk d)) ds" "length ds < 2 ^ 53"
  shows "\<exists>v. average_risk ds = Fin v \<and> 0 \<le> v \<and> v \<le> 1"
proof (cases "ds = []")
  case False
  obtain s where s: "foldl (\<lambda>sum d. num_add sum (ddRisk d)) (Fin 0) ds = Fin s" "0 \<le> s" "s \<le> of_nat (length ds)"
    using risk_sum_range [of ds 0 "Fin 0" 0] assms by auto
  then have "s * (1 / of_nat (length ds)) \<le> of_nat 1" using False by (simp add: divide_le_eq)
  then have "\<exists>v. to_double (s * (1 / of_nat (length ds))) = Fin v \<and> 0 \<le> v \<and> v \<le> of_nat 1"
    using s(2) by (intro to_double_bound) simp_all
  then show ?thesis using False s(1) fixed_in_range [of "to_double (s * (1 / of_nat (length ds)))" 1 4] by (simp add: average_risk_def)
qed (simp add: average_risk_def)

lemma device_row_risk: "device_row row = Inr (Some d) \<Longrightarrow> risk_in_range (ddRisk d)"
proof -
  have "normalizeDashRisk v = normalizeRisk v" for v
    unfolding normalizeDashRisk_def normalizeRisk_def risk_of_def clamp1_def ..
  then show "device_row row = Inr (Some d) \<Longrightarrow> risk_in_range (ddRisk d)"
    unfolding device_row_def Let_def
    by (auto simp: res_bind_Inr_iff risk_in_range_iff dest!: normalizeRisk_range split: if_splits)
qed

lemma how_many_le: "how_many P xs \<le> length xs"
  by (simp add: how_many_def)

lemma how_many_status:
  "how_many (\<lambda>d. ddStatus d = Online) ds + how_many (\<lambda>d. ddStatus d = Offline) ds + how_many (\<lambda>d. ddStatus d = Degraded) ds
     + how_many (\<lambda>d. ddStatus d = Quarantined) ds = length ds"
proof (induction ds)
  case (Cons d ds)
  then show ?case by (cases "ddStatus d") (simp_all add: how_many_def)
qed (simp add: how_many_def)

text \<open>
  C13: the figures of the dashboard are consistent. The four groups of the fleet chart add up to all devices, the share of devices online lies
  between 0 and 100 and the average risk between 0 and 1, after all the rounding of the floating-point sum, the division and \<^verbatim>\<open>toFixed\<close>.
  The risks are those \<^verbatim>\<open>fetchDevices\<close> reads from rows.
\<close>

theorem dashboard_figures_in_range:
  assumes "buildSnapshot pf now devices alerts commands = Inr sn"
    and "list_all (\<lambda>d. \<exists>row. device_row row = Inr (Some d)) devices" "length devices < 2 ^ 53"
  shows "sum_list (map fdValue (snFleet sn)) = totalDevices (snKpi sn)
     \<and> num_le (Fin 0) (fleetOnlineRate (snKpi sn)) \<and> num_le (fleetOnlineRate (snKpi sn)) (Fin 100)
     \<and> num_le (Fin 0) (avgRiskScore (snKpi sn)) \<and> num_le (avgRiskScore (snKpi sn)) (Fin 1)"
proof -
  have kpi: "snKpi sn = snapshot_kpi devices alerts commands" and fleet: "snFleet sn = fleet_rows (how_many (\<lambda>d. ddStatus d = Online) devices)
      (how_many (\<lambda>d. ddStatus d = Offline) devices) (how_many (\<lambda>d. ddStatus d = Degraded) devices) (how_many (\<lambda>d. ddStatus d = Quarantined) devices)"
    using buildSnapshot_parts [OF assms(1)] by metis+
  have "list_all (\<lambda>d. risk_in_range (ddRisk d)) devices" using assms(2) by (auto simp: list_all_iff intro: device_row_risk)
  from average_risk_range [OF this assms(3)] show ?thesis
    using online_rate_range [OF how_many_le, of "\<lambda>d. ddStatus d = Online" devices] how_many_status [of devices]
    by (auto simp: kpi fleet snapshot_kpi_def fleet_rows_def num_le_def num_eq_def)
qed

theorem dashboard_figures_in_range_witness:
  "\<exists>d sn. device_row (Obj [(''device_id'', Str ''d1''), (''risk_score'', Num (Fin 1))]) = Inr (Some d) \<and>
     buildSnapshot demo_platform 1709249415250 [d] [] demo_commands = Inr sn \<and> num_le (avgRiskScore (snKpi sn)) (Fin 1)"
proof -
  let ?row = "Obj [(''device_id'', Str ''d1''), (''risk_score'', Num (Fin 1))]"
  have "case device_row ?row of Inr (Some d) \<Rightarrow> ddLastSeenIso d = Null | _ \<Rightarrow> False" by code_simp
  then obtain d where d: "device_row ?row = Inr (Some d)" "ddLastSeenIso d = Null"
    by (auto split: sum.splits option.splits)
  obtain bs where bs: "day_buckets demo_platform 1709249415250 = Inr bs" using demo_buckets by blast
  have "list_all (\<lambda>d. plain_time (ddLastSeenIso d)) [d]" using d(2) by (simp add: plain_time_def)
  then obtain sn where sn: "buildSnapshot demo_platform 1709249415250 [d] [] demo_commands = Inr sn"
    using snapshot_defined [OF _ _ demo_commands_plain bs, of "[d]" "[]"] by (auto simp only: list.pred_inject)
  have "num_le (avgRiskScore (snKpi sn)) (Fin 1)" using dashboard_figures_in_range [OF sn] d(1) by auto
  with d(1) sn show ?thesis by blast
qed

end
