(* ===== verification/DashboardHook.thy ===== *)
theory DashboardHook
  imports DashboardSnapshot
begin

text \<open>
  \<^verbatim>\<open>src/app/dashboard/hooks/useDashboardData.ts\<close>, third part: the hook. Loads overlap: a timer starts one every thirty seconds, the user
  starts one by hand, and each start aborts the one before. A load is named by the number of its controller; it starts in one step and settles
  in another, with the four outcomes \<^verbatim>\<open>Promise.allSettled\<close> gives it.
\<close>

section \<open>Definitions\<close>

definition AUTO_REFRESH_INTERVAL_MS :: nat where "AUTO_REFRESH_INTERVAL_MS = 30000"

record dash_errors =
  errDevices :: "string option"
  errAlerts :: "string option"
  errCommands :: "string option"
  errAudit :: "string option"

record dash_results =
  rsDevices :: "dash_device list res"
  rsAlerts :: "dash_alert list res"
  rsCommands :: "dash_command list res"
  rsAudit :: "audit_entry list res"

record dash_hook =
  hkData :: dash_snapshot
  hkLoading :: bool
  hkRefreshing :: bool
  hkErrors :: dash_errors
  hkLabel :: string
  hkController :: "nat option"
  hkAborted :: "nat list"
  hkSignature :: string

datatype load_mode = InitialLoad | RefreshLoad

definition no_errors :: dash_errors where
  "no_errors = \<lparr>errDevices = None, errAlerts = None, errCommands = None, errAudit = None\<rparr>"

definition hook_start :: dash_hook where
  "hook_start = \<lparr>hkData = EMPTY_SNAPSHOT, hkLoading = True, hkRefreshing = False, hkErrors = no_errors, hkLabel = [],
     hkController = None, hkAborted = [], hkSignature = []\<rparr>"

text \<open>The text of a snapshot, as \<^verbatim>\<open>JSON.stringify\<close> writes it.\<close>

definition kpi_json :: "dash_kpi \<Rightarrow> js" where
  "kpi_json k =
     (let n = (\<lambda>f. Num (num_of_nat (f k))) in
      Obj [(''totalDevices'', n totalDevices), (''onlineDevices'', n onlineDevices), (''offlineDevices'', n offlineDevices),
        (''quarantinedDevices'', n quarantinedDevices), (''activeCommands'', n activeCommands), (''failingCommands'', n kpiFailing),
        (''criticalAlerts'', n criticalAlerts), (''complianceDrift'', n complianceDrift), (''avgRiskScore'', Num (avgRiskScore k)),
        (''fleetOnlineRate'', Num (fleetOnlineRate k))])"

definition fleet_json :: "fleet_datum \<Rightarrow> js" where
  "fleet_json d = Obj [(''name'', Str (fdName d)), (''value'', Num (num_of_nat (fdValue d))), (''color'', Str (fdColor d))]"

definition volume_json :: "volume_datum \<Rightarrow> js" where
  "volume_json d = Obj [(''day'', Str (vdDay d)), (''completed'', Num (num_of_nat (vdCompleted d))),
     (''failed'', Num (num_of_nat (vdFailed d))), (''expired'', Num (num_of_nat (vdExpired d)))]"

definition failing_json :: "failing_item \<Rightarrow> js" where
  "failing_json i = Obj [(''id'', Str (fiId i)), (''device'', Str (fiDevice i)), (''method'', Str (fiMethod i)),
     (''errorCode'', of_text (fiErrorCode i)), (''errorMsg'', Str (fiErrorMsg i)), (''failedAt'', Str (fiFailedAt i))]"

definition attention_json :: "attention_item \<Rightarrow> js" where
  "attention_json i = Obj [(''id'', Str (atId i)), (''name'', Str (atName i)), (''status'', Str (atStatus i)),
     (''reason'', Str (atReason i)), (''since'', Str (atSince i))]"

fun activity_type_string :: "activity_type \<Rightarrow> string" where
  "activity_type_string CommandActivity = ''command''"
| "activity_type_string AlertActivity = ''alert''"
| "activity_type_string DeviceActivity = ''device''"

definition activity_json :: "activity_item \<Rightarrow> js" where
  "activity_json i = Obj [(''id'', Str (aiId i)), (''type'', Str (activity_type_string (aiType i))), (''title'', Str (aiTitle i)),
     (''detail'', Str (aiDetail i)), (''time'', Str (aiTime i))]"

fun audit_event_string :: "audit_event \<Rightarrow> string" where
  "audit_event_string UserAction = ''user_action''"
| "audit_event_string CommandExecution = ''command_execution''"
| "audit_event_string PolicyChange = ''policy_change''"
| "audit_event_string SystemEvent = ''system_event''"

fun outcome_string :: "audit_outcome \<Rightarrow> string" where
  "outcome_string Success = ''success''"
| "outcome_string Failure = ''failure''"
| "outcome_string Pending = ''pending''"

definition audit_json :: "audit_entry \<Rightarrow> js" where
  "audit_json e = Obj [(''id'', Str (auId e)), (''timestamp'', Str (auTimestamp e)), (''actor'', Str (auActor e)), (''actorRole'', Str (auRole e)),
     (''eventType'', Str (audit_event_string (auEvent e))), (''action'', Str (auAction e)), (''target'', Str (auTarget e)),
     (''detail'', Str (auDetail e)), (''outcome'', Str (outcome_string (auOutcome e)))]"

definition feed_json :: "feed_event \<Rightarrow> js" where
  "feed_json e = Obj [(''id'', Str (feId e)), (''type'', Str (feType e)), (''severity'', Str (feSeverity e)), (''title'', Str (feTitle e)),
     (''detail'', Str (feDetail e)), (''timestamp'', Str (feTimestamp e)), (''read'', Bool (feRead e))]"

definition snapshot_json :: "dash_snapshot \<Rightarrow> js" where
  "snapshot_json s =
     Obj [(''kpi'', kpi_json (snKpi s)), (''fleetStatus'', Arr (map fleet_json (snFleet s))), (''commandVolume'', Arr (map volume_json (snVolume s))),
       (''failingCommands'', Arr (map failing_json (snFailing s))), (''attentionDevices'', Arr (map attention_json (snAttention s))),
       (''activityItems'', Arr (map activity_json (snActivity s))), (''auditEntries'', Arr (map audit_json (snAudit s))),
       (''liveFeedEvents'', Arr (map feed_json (snFeed s)))]"

definition snapshot_signature :: "dash_snapshot \<Rightarrow> string" where
  "snapshot_signature s = (case stringify [] (snapshot_json s) of Some t \<Rightarrow> t | None \<Rightarrow> [])"

text \<open>\<^verbatim>\<open>abortRef.current?.abort()\<close>.\<close>

definition abort_current :: "dash_hook \<Rightarrow> dash_hook" where
  "abort_current s = (case hkController s of None \<Rightarrow> s | Some k \<Rightarrow> s\<lparr>hkAborted := k # hkAborted s\<rparr>)"

text \<open>The part of \<^verbatim>\<open>load\<close> before its \<^verbatim>\<open>await\<close>; \<open>k\<close> is the new controller.\<close>

definition load_start :: "load_mode \<Rightarrow> nat \<Rightarrow> dash_hook \<Rightarrow> dash_hook" where
  "load_start mode k s =
     (let s1 = (case mode of InitialLoad \<Rightarrow> s\<lparr>hkLoading := True\<rparr> | RefreshLoad \<Rightarrow> s\<lparr>hkRefreshing := True\<rparr>)
      in (abort_current s1)\<lparr>hkController := Some k\<rparr>)"

definition failed_message :: "'a res \<Rightarrow> string option" where
  "failed_message r = (case r of Inl _ \<Rightarrow> Some ''Failed to load data'' | Inr _ \<Rightarrow> None)"

definition load_errors :: "dash_results \<Rightarrow> dash_errors" where
  "load_errors r = \<lparr>errDevices = failed_message (rsDevices r), errAlerts = failed_message (rsAlerts r),
     errCommands = failed_message (rsCommands r), errAudit = failed_message (rsAudit r)\<rparr>"

definition or_empty :: "'a list res \<Rightarrow> 'a list" where
  "or_empty r = (case r of Inl _ \<Rightarrow> [] | Inr xs \<Rightarrow> xs)"

text \<open>The snapshot a load ends with: a part that failed is empty, and the audit trail falls back to the one made from commands and alerts.\<close>

definition final_snapshot :: "date_platform \<Rightarrow> int \<Rightarrow> dash_results \<Rightarrow> dash_snapshot res" where
  "final_snapshot pf now r =
     res_bind (buildSnapshot pf now (or_empty (rsDevices r)) (or_empty (rsAlerts r)) (or_empty (rsCommands r))) (\<lambda>snapshot.
       Inr (case rsAudit r of Inr es \<Rightarrow> snapshot\<lparr>snAudit := es\<rparr> | Inl _ \<Rightarrow> snapshot))"

text \<open>
  The part of \<^verbatim>\<open>load\<close> after its \<^verbatim>\<open>await\<close>: a load that was aborted does nothing; one whose snapshot throws has set the errors only.
\<close>

definition load_settle :: "date_platform \<Rightarrow> int \<Rightarrow> nat \<Rightarrow> dash_results \<Rightarrow> dash_hook \<Rightarrow> dash_hook" where
  "load_settle pf now k r s =
     (if k \<in> set (hkAborted s) then s
      else
        let s1 = s\<lparr>hkErrors := load_errors r\<rparr> in
        case final_snapshot pf now r of
          Inl _ \<Rightarrow> s1
        | Inr final \<Rightarrow>
            let s2 = (if snapshot_signature final \<noteq> hkSignature s1
                      then s1\<lparr>hkSignature := snapshot_signature final, hkData := final\<rparr> else s1)
            in s2\<lparr>hkLabel := formatNowLocalTime pf now, hkLoading := False, hkRefreshing := False\<rparr>)"

section \<open>Runs\<close>

text \<open>
  A run of the hook: its state, the loads in flight, and the results the last load settled with that was not aborted. Controllers are fresh
  objects, so a start takes a number no load has had.
\<close>

inductive hook_run :: "date_platform \<Rightarrow> dash_hook \<Rightarrow> nat set \<Rightarrow> nat set \<Rightarrow> (int \<times> dash_results) option \<Rightarrow> bool" for pf where
  mounted: "hook_run pf hook_start {} {} None"
| started: "hook_run pf s flying used done \<Longrightarrow> k \<notin> used \<Longrightarrow> hook_run pf (load_start mode k s) (insert k flying) (insert k used) done"
| settled: "hook_run pf s flying used done \<Longrightarrow> k \<in> flying \<Longrightarrow>
     hook_run pf (load_settle pf now k r s) (flying - {k}) used (if k \<in> set (hkAborted s) then done else Some (now, r))"
| unmounted: "hook_run pf s flying used done \<Longrightarrow> hook_run pf (abort_current s) flying used done"

section \<open>Invariants\<close>

lemma signature_nonempty: "snapshot_signature s \<noteq> []"
  by (simp add: snapshot_signature_def snapshot_json_def stringify_def json_brackets_def kpi_json_def Let_def)

lemma abort_current_sel [simp]:
  "hkController (abort_current s) = hkController s" "hkData (abort_current s) = hkData s" "hkSignature (abort_current s) = hkSignature s"
  "hkErrors (abort_current s) = hkErrors s" "set (hkAborted (abort_current s)) = set (hkAborted s) \<union> set_option (hkController s)"
  by (auto simp: abort_current_def split: option.split)

lemma load_start_sel [simp]:
  "hkController (load_start m k s) = Some k" "hkData (load_start m k s) = hkData s" "hkSignature (load_start m k s) = hkSignature s"
  "hkErrors (load_start m k s) = hkErrors s" "set (hkAborted (load_start m k s)) = set (hkAborted s) \<union> set_option (hkController s)"
  by (auto simp: load_start_def abort_current_def Let_def split: option.split load_mode.split)

lemma load_settle_sel [simp]:
  "hkController (load_settle pf now k r s) = hkController s" "hkAborted (load_settle pf now k r s) = hkAborted s"
  by (auto simp: load_settle_def Let_def split: sum.split)

lemma load_settle_live:
  assumes "k \<notin> set (hkAborted s)"
  shows "hkErrors (load_settle pf now k r s) = load_errors r"
    and "final_snapshot pf now r = Inr f \<Longrightarrow> hkSignature (load_settle pf now k r s) = snapshot_signature f
      \<and> \<not> hkLoading (load_settle pf now k r s) \<and> \<not> hkRefreshing (load_settle pf now k r s)"
  using assms by (auto simp: load_settle_def Let_def split: sum.split)

text \<open>The data on the screen has the remembered signature, once there is one.\<close>

definition signed :: "dash_hook \<Rightarrow> bool" where
  "signed s \<longleftrightarrow> hkSignature s = [] \<or> hkSignature s = snapshot_signature (hkData s)"

lemma signed_settle: "signed s \<Longrightarrow> signed (load_settle pf now k r s)"
  by (auto simp: signed_def load_settle_def Let_def split: sum.split)

lemma run_controllers:
  "hook_run pf s flying used done \<Longrightarrow>
     set (hkAborted s) \<subseteq> used \<and> flying \<subseteq> used \<and> set_option (hkController s) \<subseteq> used \<and>
     flying \<subseteq> set (hkAborted s) \<union> set_option (hkController s)"
  by (induction rule: hook_run.induct) (auto simp: hook_start_def)

lemma run_live_load: "hook_run pf s flying used done \<Longrightarrow> k \<in> flying \<Longrightarrow> k \<notin> set (hkAborted s) \<Longrightarrow> hkController s = Some k"
  using run_controllers by (fastforce simp: option.set_sel)

lemma run_shows_done:
  "hook_run pf s flying used done \<Longrightarrow> signed s \<and>
     (\<forall>now r. done = Some (now, r) \<longrightarrow> hkErrors s = load_errors r \<and>
       (\<forall>f. final_snapshot pf now r = Inr f \<longrightarrow> hkSignature s = snapshot_signature f))"
proof (induction rule: hook_run.induct)
  case mounted
  show ?case by (simp add: hook_start_def signed_def)
next
  case (settled s flying used don k now r)
  show ?case
  proof (cases "k \<in> set (hkAborted s)")
    case True
    then show ?thesis using settled.IH by (simp add: load_settle_def)
  next
    case False
    then show ?thesis using settled.IH signed_settle load_settle_live [OF False] by auto
  qed
qed (auto simp: signed_def)

lemma run_rests:
  "hook_run pf s flying used done \<Longrightarrow> hkController s = Some k \<Longrightarrow> k \<notin> flying \<Longrightarrow> k \<notin> set (hkAborted s) \<Longrightarrow>
     \<exists>now r. done = Some (now, r) \<and> (\<forall>f. final_snapshot pf now r = Inr f \<longrightarrow> \<not> hkLoading s \<and> \<not> hkRefreshing s)"
proof (induction rule: hook_run.induct)
  case (settled s flying used don j now r)
  show ?case
  proof (cases "j \<in> set (hkAborted s)")
    case True
    then show ?thesis using settled.IH settled.prems by (auto simp: load_settle_def)
  next
    case False
    then show ?thesis using load_settle_live(2) [OF False] by auto
  qed
qed (auto simp: hook_start_def)

section \<open>Property\<close>

text \<open>
  C11: the latest load wins. However loads overlap, at most one of those in flight can still touch the state, the one started last. Provided
  that building the snapshot of its results does not throw, what the dashboard shows and the errors it reports are those of the last load that
  settled without having been superseded, and once the load started last has settled, neither indicator of a load in progress stays on.
\<close>

theorem dashboard_latest_wins:
  assumes "hook_run pf s flying used outcome"
  shows "(\<forall>k \<in> flying. k \<notin> set (hkAborted s) \<longrightarrow> hkController s = Some k)
     \<and> (\<forall>now r f. outcome = Some (now, r) \<longrightarrow> final_snapshot pf now r = Inr f \<longrightarrow>
          hkErrors s = load_errors r \<and> snapshot_signature (hkData s) = snapshot_signature f)
     \<and> (\<forall>k. hkController s = Some k \<longrightarrow> k \<notin> flying \<longrightarrow> k \<notin> set (hkAborted s) \<longrightarrow>
          (\<exists>now r. outcome = Some (now, r) \<and> (\<forall>f. final_snapshot pf now r = Inr f \<longrightarrow> \<not> hkLoading s \<and> \<not> hkRefreshing s)))"
proof (intro conjI allI ballI impI)
  fix now r f
  assume "outcome = Some (now, r)" "final_snapshot pf now r = Inr f"
  then have "hkSignature s = snapshot_signature f" "signed s" "hkErrors s = load_errors r" using run_shows_done [OF assms] by auto
  then show "hkErrors s = load_errors r" "snapshot_signature (hkData s) = snapshot_signature f"
    using signature_nonempty [of f] by (auto simp: signed_def)
qed (use run_live_load [OF assms] run_rests [OF assms] in blast)+

text \<open>Two overlapping loads: the second is started while the first is in flight, and the first settles last.\<close>

theorem dashboard_latest_wins_witness:
  "\<exists>s f. hook_run demo_platform s {} {0, 1} (Some (1709249415250, \<lparr>rsDevices = Inr demo_devices, rsAlerts = Inl FetchRejected, rsCommands = Inr demo_commands, rsAudit = Inr []\<rparr>))
     \<and> snapshot_signature (hkData s) = snapshot_signature f \<and> errAlerts (hkErrors s) = Some ''Failed to load data'' \<and> errDevices (hkErrors s) = None"
proof -
  let ?now = 1709249415250
  let ?good = "\<lparr>rsDevices = Inr demo_devices, rsAlerts = Inl FetchRejected, rsCommands = Inr demo_commands, rsAudit = Inr []\<rparr>"
  let ?late = "\<lparr>rsDevices = Inl FetchRejected, rsAlerts = Inl FetchRejected, rsCommands = Inl FetchRejected, rsAudit = Inl FetchRejected\<rparr>"
  let ?s2 = "load_start RefreshLoad 1 (load_start InitialLoad 0 hook_start)"
  let ?s4 = "load_settle demo_platform ?now 0 ?late (load_settle demo_platform ?now 1 ?good ?s2)"
  have start: "hook_run demo_platform ?s2 {1, 0} {1, 0} None" by (intro started mounted) simp_all
  have aborted: "hkAborted ?s2 = [0]" by (simp add: load_start_def abort_current_def hook_start_def Let_def)
  have "hook_run demo_platform (load_settle demo_platform ?now 1 ?good ?s2) ({1, 0} - {1}) {1, 0}
      (if 1 \<in> set (hkAborted ?s2) then None else Some (?now, ?good))"
    by (rule settled [OF start]) simp
  then have "hook_run demo_platform ?s4 ({1, 0} - {1} - {0}) {1, 0}
      (if 0 \<in> set (hkAborted (load_settle demo_platform ?now 1 ?good ?s2))
       then if 1 \<in> set (hkAborted ?s2) then None else Some (?now, ?good) else Some (?now, ?late))"
    by (rule settled) simp
  moreover have "0 \<in> set (hkAborted (load_settle demo_platform ?now 1 ?good ?s2))" "1 \<notin> set (hkAborted ?s2)"
    by (simp_all only: load_settle_sel aborted) simp_all
  moreover have "{1::nat, 0} - {1} - {0} = {}" "{1::nat, 0} = {0, 1}" by auto
  ultimately have run: "hook_run demo_platform ?s4 {} {0, 1} (Some (?now, ?good))" by (simp only: if_True if_False simp_thms)
  obtain f where f: "final_snapshot demo_platform ?now ?good = Inr f"
    using demo_snapshot by (auto simp: final_snapshot_def or_empty_def)
  show ?thesis
    using dashboard_latest_wins [OF run] f run by (intro exI [of _ ?s4] exI [of _ f] conjI) (auto simp: load_errors_def failed_message_def)
qed

end
