(* ===== verification/Spec2Isabelle.thy ===== *)
theory Spec2Isabelle
  imports GoogleAuth Routes Session Telemetry Uuid Presentation DashboardHook
begin

text \<open>
  \<^bold>\<open>Verification of the Quoodle control-plane console.\<close>

  The console is the Next.js application \<^verbatim>\<open>src/quoodle-control-plane-ui\<close>. All source paths below are relative to its directory \<^verbatim>\<open>src\<close>.

  \<^bold>\<open>The program.\<close> A browser asks the console for pages and for data. The middleware decides by two cookies, the token and the role,
  whether a page is served or the browser is redirected. Requests for data go to route handlers, which call the API of the control plane with the
  token of the session, refresh the token once when the API answers 401, and send the new tokens back as cookies. The session routes open,
  inspect, refresh and close a session, by a one-time code or by Google. The pages read what the routes answer: they hold the user, devices, commands,
  telemetry and results as records, and draw them.

  \<^bold>\<open>The language.\<close> Functions of the sources are HOL functions of the same names. A thrown error is the left side of a result
  \<open>'a res\<close>; an asynchronous handler is an \<open>'a io\<close>, which threads the log of the requests sent to the API; React state and refs are a
  record, and each handler a function on it, cut in two where it waits.

    \<^item> \<open>Prelude\<close>: results, association lists, the stable sort, and the locales \<open>dictionary\<close> and \<open>comparator\<close>.
    \<^item> \<open>JsString\<close>, \<open>JsNumber\<close>, \<open>JsRounding\<close>, \<open>JsValue\<close>, \<open>JsJson\<close>: strings, binary64 numbers and the bounds of their
      rounding, values of type \<^verbatim>\<open>unknown\<close> with the members that objects inherit, JSON.
    \<^item> \<open>Codec\<close>, \<open>Http\<close>, \<open>Dates\<close>: UTF-8, base64url and percent encoding; requests, responses, cookies and the cookie jar of the
      browser; the calendar, the parsing of dates, and \<^verbatim>\<open>lib/dateTime.ts\<close>, whose timestamps are read back.

  \<^bold>\<open>Server side.\<close>

    \<^item> \<open>Auth\<close>: \<^verbatim>\<open>lib/auth.ts\<close> and \<^verbatim>\<open>middleware.ts\<close>. The middleware refines an abstract gate, and a redirect ends at a page that is served.
    \<^item> \<open>AuthShared\<close>, \<open>Proxy\<close>: \<^verbatim>\<open>app/api/auth/_shared.ts\<close> and \<^verbatim>\<open>app/api/devices/_shared.ts\<close>. A proxied call sends at most three
      requests in a fixed order; what it relays; a 401 signs out. The locale \<open>session_handlers\<close> is the contract of a handler with the
      session, and its lemma is that a browser stays in step with the refresh tokens over any run of handlers, unless a handler
      rejects after the API has replaced the token.
    \<^item> \<open>AuthRoutes\<close>: the five session routes under \<^verbatim>\<open>app/api/auth\<close>. The proxy, the refresh and the sign-out meet the contract, so the
      browser holds the token in force or is signed out, with that exception.
    \<^item> \<open>GoogleAuth\<close>: \<^verbatim>\<open>app/api/auth/google\<close>. A callback without the state of the browser does nothing; the page asked for travels
      through the state.
    \<^item> \<open>Routes\<close>: all other handlers under \<^verbatim>\<open>app/api\<close>, one definition each. Every request goes to the API path of its route; resolving
      the URL keeps that path unless a parameter is a dot or two dots. All but the alerts of a device are session handlers.
    \<^item> \<open>Spec2Isabelle\<close>: the set of all handlers. None of them lets scripts read a token.

  \<^bold>\<open>Browser side.\<close>

    \<^item> \<open>Session\<close>: \<^verbatim>\<open>contexts/AuthContext.tsx\<close> and the login form. Both are composed with the session routes and the middleware: whoever
      signs in lands on a page that is served, for each outcome of the question who the user is, and the user a page knows is the one the API
      gave for the token of the browser.
    \<^item> \<open>Commands\<close>, \<open>CommandResults\<close>: \<^verbatim>\<open>lib/commandMethodResolver.ts\<close>, \<^verbatim>\<open>lib/commandParams.ts\<close>, \<^verbatim>\<open>lib/commandResults.ts\<close>. The
      checks report the first declared requirement that is not met; the records keep an invariant through listing and merging.
    \<^item> \<open>ResultView\<close>, \<open>ResultFiles\<close>, \<open>ResultBuilders\<close>: \<^verbatim>\<open>lib/resultRenderer.ts\<close>. A view is produced for every row, with one stated
      exception, and is well formed; tables and listings are exact.
    \<^item> \<open>Explorer\<close>, \<open>Presentation\<close>: \<^verbatim>\<open>components/results/CommandResultPresentation.tsx\<close>. The explorer refines a browsing history; its
      tree and its polling end; tables are searched and sorted exactly.
    \<^item> \<open>Telemetry\<close>, \<open>Uuid\<close>: \<^verbatim>\<open>lib/telemetry.ts\<close>, \<^verbatim>\<open>lib/uuid.ts\<close>. Kernel events are stable; identifiers are version 4.
    \<^item> \<open>DeviceData\<close>: \<^verbatim>\<open>app/device-management/lib/deviceManagementData.ts\<close>. Devices keep an invariant; the two mappings of a row agree;
      the audit trail is sorted.
    \<^item> \<open>DashboardFetch\<close>, \<open>DashboardSnapshot\<close>, \<open>DashboardHook\<close>: \<^verbatim>\<open>app/dashboard/hooks/useDashboardData.ts\<close>, the loads, the figures and the
      state. Paging ends; figures are in range and counts exact; of overlapping loads the latest wins.

  \<^bold>\<open>Parameters.\<close> The API of the control plane is a function \<open>up\<close> of the requests so far and the next one, and may fail at any call.
  Further parameters are the URL parser, the collations, the texts of errors, the clock, random numbers, and the time zone and legacy date
  parser of the platform. A theorem that relies on one of them states so as a hypothesis, and its witness instantiates it. Of the time zone
  \<open>zone_wf\<close> says that offsets are whole seconds below a day and change at whole seconds, and that a local time which exists is read as an instant
  that has it; \<open>days_start\<close> says that the start of a local day, as the platform computes it, lies on that day, which holds in zones that never skipped a
  whole day.

  \<^bold>\<open>Bounds and fuel.\<close> The JSON parser gets twice the length of its text plus two units, as it makes two calls at most between two characters.
  The decimal exponent of a number is sought over 700 steps from -330, which covers the doubles, and its shortest digits up to 17, which
  always determine a double. Drawing the tree needs one unit more than the parts of the longest path, polling 91 rounds of its clock, and the
  loop over the pages of devices as many units as there are pages; that this is enough is proved in each of these three cases, for trees without an
  entry at the top of its drive and for an API that numbers its pages. The loop over the
  pages of commands has the bound of the source, ten.

  \<^bold>\<open>Findings.\<close> Theorems show that a failure right after a refresh loses the new tokens, in the proxy and in the current-user route; that the page
  a Google login returns to may lie on another host; that a method named like a member of \<^verbatim>\<open>Object.prototype\<close> has no view; that
  absolute POSIX entries below the top are listed in no folder with an absolute path; that a failed browse command counts as loaded; and that a login
  is reported as successful although the console signs the browser out right after it.

  \<^bold>\<open>Not modelled.\<close> Characters above Latin-1. Markup, styles, icons, charts and animation, which compute nothing the console decides on. The pages
  under \<^verbatim>\<open>app\<close> other than the dashboard's hook, the login form and the result view: they keep React state around the modelled routes and records,
  and among them are the forms for settings, webhooks, schedules and app locks, the telemetry page, the consoles of operators and viewers, and the
  panel of the assistant. Of the login form, the address left in the history after an error. The theme and the export dialog. The control plane, the
  gateway, the agents, the mobile client and the sidecar, which are other programs in other languages; the console sees them only as \<open>up\<close>.
\<close>

section \<open>The handlers under app/api\<close>

text \<open>
  All 89 handlers that the routes export: the seven of the session, those that forward to the API,
  and the alerts of a device. The URL parser, the clock and the random state are arbitrary.
\<close>

inductive_set api_handlers :: "env \<Rightarrow> upstream \<Rightarrow> (request \<Rightarrow> response io) set" for env up where
  request_otp: "request_otp_POST env up \<in> api_handlers env up"
| verify_otp: "verify_otp_POST env up \<in> api_handlers env up"
| me: "me_GET env up \<in> api_handlers env up"
| refresh: "refresh_POST env up \<in> api_handlers env up"
| logout: "logout_POST env up \<in> api_handlers env up"
| google_start: "(\<lambda>req l. (google_start_GET origin_of resolve env nonce req, l)) \<in> api_handlers env up"
| google_callback: "google_callback_GET origin_of resolve env up \<in> api_handlers env up"
| route: "(segs, h) \<in> api_routes env up \<Longrightarrow> h \<in> api_handlers env up"

text \<open>
  C20: No handler under \<^verbatim>\<open>app/api\<close> gives a token to scripts. Whatever the API answers, every cookie that a response sets
  is \<^verbatim>\<open>httpOnly\<close>, the role apart, and every cookie, the role included, is \<^verbatim>\<open>sameSite=lax\<close> and valid for the whole site. This covers both logins,
  by a one-time code and by Google, the refresh, the current user, the sign-out and all routes that forward to the API.
\<close>

theorem tokens_hidden_from_scripts:
  assumes "h \<in> api_handlers env up" and "h req l = (Inr resp, l')"
  shows "hides_tokens resp"
  using assms
proof cases
  case google_start
  with assms(2) show ?thesis by (auto dest: google_start_hides_tokens)
next
  case (route segs)
  then show ?thesis using api_route_hides_tokens assms(2) by blast
qed (auto dest: request_otp_hides_tokens verify_otp_hides_tokens me_hides_tokens google_callback_hides_tokens
    console_hides_tokens [OF console.refresh] console_hides_tokens [OF console.logout])

theorem tokens_hidden_from_scripts_witness:
  "\<exists>resp l. google_callback_GET (\<lambda>_. None) demo_resolve demo_google_env demo_login_api (demo_callback ''/audit'') [] = (Inr resp, l) \<and>
     (\<exists>c. al_get (respCookies resp) cookie_jwt = Some (SetCookie c)) \<and> hides_tokens resp"
proof -
  have "starts_with ''/audit'' ''/''" by (simp add: starts_with_def)
  note run = demo_finished [OF this]
  show ?thesis
    using tokens_hidden_from_scripts [OF api_handlers.google_callback run] run
    by (simp add: attachAuthCookies_def Let_def)
qed

end
